(* ===== verification/Prelude.thy ===== *)
theory Prelude
  imports Main "HOL-Library.Word"
begin

text \<open>
  Shared vocabulary of the development: Rust's primitive integer types as words, byte strings,
  the outcome of a Rust computation (a value, an error, or a panic), the slice and array
  operations the sources use with their panics written out, big-endian integer encodings, and
  fixed-size byte arrays \<open>[u8; N]\<close> as a type indexed by its length.
\<close>

named_theorems inversions \<open>inversion rules for successful computations\<close>
named_theorems wire \<open>inversion of a decoder or encoder, one step at a time\<close>

section \<open>Primitive types\<close>

lemma unat_less: "unat (x :: 'a::len word) < 2 ^ LENGTH('a)"
  by (rule unsigned_less)

type_synonym u8 = "8 word"
type_synonym u16 = "16 word"
type_synonym u32 = "32 word"
type_synonym u64 = "64 word"

type_synonym bytes = "u8 list"

text \<open>
  A \<open>usize\<close> is a natural number: the targets of the crate are 64-bit, and every length or
  offset the code computes with a plain \<open>+\<close> stays far below \<open>2 ^ 64\<close> (the length prefixes are
  16 or 32 bits wide).  Only \<open>checked_add\<close> looks at the bound, so it is written out.
\<close>

definition usize_limit :: nat where
  "usize_limit = 2 ^ 64"

definition checked_add_usize :: "nat \<Rightarrow> nat \<Rightarrow> nat option" where
  "checked_add_usize a b = (if a + b < usize_limit then Some (a + b) else None)"

definition checked_add_u64 :: "u64 \<Rightarrow> u64 \<Rightarrow> u64 option" where
  "checked_add_u64 a b = (if unat a + unat b < 2 ^ 64 then Some (a + b) else None)"

definition saturating_add_u32 :: "u32 \<Rightarrow> u32 \<Rightarrow> u32" where
  "saturating_add_u32 a b = (if unat a + unat b < 2 ^ 32 then a + b else 4294967295)"

lemma checked_add_u64_Some:
  "checked_add_u64 a b = Some c \<longleftrightarrow> unat c = unat a + unat b"
proof
  assume "checked_add_u64 a b = Some c"
  then show "unat c = unat a + unat b"
    by (auto simp: checked_add_u64_def unat_word_ariths split: if_splits)
next
  assume eq: "unat c = unat a + unat b"
  have "unat c < 2 ^ 64"
    using unat_less [of c] by simp
  with eq have lt: "unat a + unat b < 2 ^ 64" by simp
  then have "unat (a + b) = unat c"
    using eq by (simp add: unat_word_ariths)
  with lt show "checked_add_u64 a b = Some c"
    by (simp add: checked_add_u64_def word_unat_eq_iff)
qed

lemma unat_saturating_add_u32:
  "unat (saturating_add_u32 a b) = min (unat a + unat b) (2 ^ 32 - 1)"
  by (auto simp: saturating_add_u32_def unat_word_ariths)

section \<open>Outcomes of Rust computations\<close>

text \<open>
  \<open>Ok\<close> and \<open>Err\<close> are Rust's \<open>Result\<close>; \<open>Panic\<close> is a computation that unwinds (a slice index
  out of range, a \<open>copy_from_slice\<close> between different lengths).  \<open>and_then\<close> is the question-mark
  operator followed by the rest of the function.
\<close>

datatype ('a, 'e) outcome = Ok 'a | Err 'e | Panic

primrec and_then :: "('a, 'e) outcome \<Rightarrow> ('a \<Rightarrow> ('b, 'e) outcome) \<Rightarrow> ('b, 'e) outcome" where
  "and_then (Ok x) f = f x"
| "and_then (Err e) f = Err e"
| "and_then Panic f = Panic"

primrec map_err :: "('e \<Rightarrow> 'f) \<Rightarrow> ('a, 'e) outcome \<Rightarrow> ('a, 'f) outcome" where
  "map_err g (Ok x) = Ok x"
| "map_err g (Err e) = Err (g e)"
| "map_err g Panic = Panic"

primrec ok_or :: "'e \<Rightarrow> 'a option \<Rightarrow> ('a, 'e) outcome" where
  "ok_or e (Some x) = Ok x"
| "ok_or e None = Err e"

text \<open>An early return of \<open>Err e\<close> when a condition fails.\<close>

definition ensure :: "bool \<Rightarrow> 'e \<Rightarrow> (unit, 'e) outcome" where
  "ensure b e = (if b then Ok () else Err e)"

primrec is_ok :: "('a, 'e) outcome \<Rightarrow> bool" where
  "is_ok (Ok x) = True"
| "is_ok (Err e) = False"
| "is_ok Panic = False"

lemma and_then_eq_Ok [inversions]:
  "and_then m f = Ok y \<longleftrightarrow> (\<exists>x. m = Ok x \<and> f x = Ok y)"
  by (cases m) auto

lemma and_then_eq_Panic:
  "and_then m f = Panic \<longleftrightarrow> m = Panic \<or> (\<exists>x. m = Ok x \<and> f x = Panic)"
  by (cases m) auto

lemma and_then_eq_Err:
  "and_then m f = Err e \<longleftrightarrow> m = Err e \<or> (\<exists>x. m = Ok x \<and> f x = Err e)"
  by (cases m) auto

lemma and_then_assoc:
  "and_then (and_then m f) g = and_then m (\<lambda>x. and_then (f x) g)"
  by (cases m) auto

lemma ensure_eq_Ok [inversions]: "ensure b e = Ok u \<longleftrightarrow> b"
  by (simp add: ensure_def)

lemma ensure_simps [simp]:
  "ensure True e = Ok ()" "ensure False e = Err e" "ensure b e \<noteq> Panic"
  by (simp_all add: ensure_def)

lemma ok_or_eq_Ok [inversions]: "ok_or e x = Ok y \<longleftrightarrow> x = Some y"
  by (cases x) auto

lemma ok_or_not_Panic [simp]: "ok_or e x \<noteq> Panic"
  by (cases x) auto

lemma map_err_eq_Ok [inversions]: "map_err g m = Ok y \<longleftrightarrow> m = Ok y"
  by (cases m) auto

lemma map_err_eq_Err: "map_err g m = Err f \<longleftrightarrow> (\<exists>e. m = Err e \<and> f = g e)"
  by (cases m) auto

lemma map_err_eq_Panic [simp]: "map_err g m = Panic \<longleftrightarrow> m = Panic"
  by (cases m) auto

lemma is_ok_iff: "is_ok m \<longleftrightarrow> (\<exists>x. m = Ok x)"
  by (cases m) auto

section \<open>Slices\<close>

text \<open>
  \<open>bytes[a..b]\<close>, \<open>bytes[a..]\<close> and \<open>bytes[i]\<close> panic out of range.
\<close>

definition slice :: "bytes \<Rightarrow> nat \<Rightarrow> nat \<Rightarrow> (bytes, 'e) outcome" where
  "slice bs a b = (if a \<le> b \<and> b \<le> length bs then Ok (take (b - a) (drop a bs)) else Panic)"

definition slice_from :: "bytes \<Rightarrow> nat \<Rightarrow> (bytes, 'e) outcome" where
  "slice_from bs a = (if a \<le> length bs then Ok (drop a bs) else Panic)"

definition index :: "bytes \<Rightarrow> nat \<Rightarrow> (u8, 'e) outcome" where
  "index bs i = (if i < length bs then Ok (bs ! i) else Panic)"

lemma slice_eq_Ok [inversions]:
  "slice bs a b = Ok c \<longleftrightarrow> a \<le> b \<and> b \<le> length bs \<and> c = take (b - a) (drop a bs)"
  by (auto simp: slice_def)

lemma slice_from_eq_Ok [inversions]:
  "slice_from bs a = Ok c \<longleftrightarrow> a \<le> length bs \<and> c = drop a bs"
  by (auto simp: slice_from_def)

lemma index_eq_Ok [inversions]: "index bs i = Ok b \<longleftrightarrow> i < length bs \<and> b = bs ! i"
  by (auto simp: index_def)

lemma slice_eq_Panic: "slice bs a b = Panic \<longleftrightarrow> \<not> (a \<le> b \<and> b \<le> length bs)"
  by (auto simp: slice_def)

lemma slice_from_eq_Panic: "slice_from bs a = Panic \<longleftrightarrow> \<not> a \<le> length bs"
  by (auto simp: slice_from_def)

lemma index_eq_Panic: "index bs i = Panic \<longleftrightarrow> \<not> i < length bs"
  by (auto simp: index_def)

lemma slice_not_Err [simp]:
  "slice bs a b \<noteq> Err e" "slice_from bs a \<noteq> Err e" "index bs i \<noteq> Err e"
  by (auto simp: slice_def slice_from_def index_def)

lemmas panic_conditions =
  and_then_eq_Panic slice_eq_Panic slice_from_eq_Panic index_eq_Panic

section \<open>Big-endian integers\<close>

text \<open>\<open>be_bytes n x\<close>: the \<open>n\<close> low bytes of \<open>x\<close>, most significant first.\<close>

primrec be_bytes :: "nat \<Rightarrow> nat \<Rightarrow> bytes" where
  "be_bytes 0 x = []"
| "be_bytes (Suc n) x = be_bytes n (x div 256) @ [of_nat x]"

definition be_nat :: "bytes \<Rightarrow> nat" where
  "be_nat bs = foldl (\<lambda>acc b. acc * 256 + unat b) 0 bs"

lemma length_be_bytes [simp]: "length (be_bytes n x) = n"
  by (induction n arbitrary: x) auto

lemma be_bytes_numeral:
  "be_bytes (numeral k) x = be_bytes (pred_numeral k) (x div 256) @ [of_nat x]"
  by (simp only: numeral_eq_Suc [of k] be_bytes.simps)

lemma be_nat_Nil [simp]: "be_nat [] = 0"
  by (simp add: be_nat_def)

lemma be_nat_snoc [simp]: "be_nat (bs @ [b]) = be_nat bs * 256 + unat b"
  by (simp add: be_nat_def)

lemma unat_u8_less: "unat (b :: u8) < 256"
  using unat_less [of b] by simp

lemma unat_of_nat_u8: "unat (of_nat x :: u8) = x mod 256"
  by (simp add: unat_of_nat)

lemma be_nat_be_bytes: "be_nat (be_bytes n x) = x mod 256 ^ n"
proof (induction n arbitrary: x)
  case 0
  then show ?case by simp
next
  case (Suc n)
  have "be_nat (be_bytes (Suc n) x) = x div 256 mod 256 ^ n * 256 + x mod 256"
    by (simp add: Suc.IH unat_of_nat_u8)
  also have "\<dots> = x mod (256 * 256 ^ n)"
    by (simp add: mod_mult2_eq)
  finally show ?case by simp
qed

lemma be_bytes_be_nat: "be_bytes (length bs) (be_nat bs) = bs"
proof (induction bs rule: rev_induct)
  case Nil
  then show ?case by simp
next
  case (snoc b bs)
  have "(be_nat bs * 256 + unat b) div 256 = be_nat bs"
    using unat_u8_less [of b] by simp
  moreover have "(of_nat (be_nat bs * 256 + unat b) :: u8) = b"
  proof -
    have "unat (of_nat (be_nat bs * 256 + unat b) :: u8) = unat b"
      using unat_u8_less [of b] by (simp only: unat_of_nat_u8) simp
    then show ?thesis by (simp only: word_unat_eq_iff)
  qed
  ultimately show ?case
    using snoc.IH by simp
qed

lemma be_nat_bound: "be_nat bs < 256 ^ length bs"
proof (induction bs rule: rev_induct)
  case Nil
  then show ?case by simp
next
  case (snoc b bs)
  then show ?case using unat_u8_less [of b] by simp
qed

text \<open>\<open>to_be_bytes\<close> and \<open>from_be_bytes\<close> at the widths the code uses.\<close>

definition u16_to_be_bytes :: "u16 \<Rightarrow> bytes" where
  "u16_to_be_bytes x = be_bytes 2 (unat x)"

definition u32_to_be_bytes :: "u32 \<Rightarrow> bytes" where
  "u32_to_be_bytes x = be_bytes 4 (unat x)"

definition u64_to_be_bytes :: "u64 \<Rightarrow> bytes" where
  "u64_to_be_bytes x = be_bytes 8 (unat x)"

definition u16_from_be_bytes :: "bytes \<Rightarrow> u16" where
  "u16_from_be_bytes bs = of_nat (be_nat bs)"

definition u32_from_be_bytes :: "bytes \<Rightarrow> u32" where
  "u32_from_be_bytes bs = of_nat (be_nat bs)"

definition u64_from_be_bytes :: "bytes \<Rightarrow> u64" where
  "u64_from_be_bytes bs = of_nat (be_nat bs)"

lemma length_to_be_bytes [simp]:
  "length (u16_to_be_bytes a) = 2" "length (u32_to_be_bytes b) = 4"
  "length (u64_to_be_bytes c) = 8"
  by (simp_all add: u16_to_be_bytes_def u32_to_be_bytes_def u64_to_be_bytes_def)

lemma u16_from_to_be [simp]: "u16_from_be_bytes (u16_to_be_bytes x) = x"
  using unat_less [of x] by (simp add: u16_from_be_bytes_def u16_to_be_bytes_def be_nat_be_bytes)

lemma u32_from_to_be [simp]: "u32_from_be_bytes (u32_to_be_bytes x) = x"
  using unat_less [of x] by (simp add: u32_from_be_bytes_def u32_to_be_bytes_def be_nat_be_bytes)

lemma u64_from_to_be [simp]: "u64_from_be_bytes (u64_to_be_bytes x) = x"
  using unat_less [of x] by (simp add: u64_from_be_bytes_def u64_to_be_bytes_def be_nat_be_bytes)

lemma unat_u16_from_be: "length bs = 2 \<Longrightarrow> unat (u16_from_be_bytes bs) = be_nat bs"
  using be_nat_bound [of bs] by (simp add: u16_from_be_bytes_def unat_of_nat)

lemma unat_u32_from_be: "length bs = 4 \<Longrightarrow> unat (u32_from_be_bytes bs) = be_nat bs"
  using be_nat_bound [of bs] by (simp add: u32_from_be_bytes_def unat_of_nat)

lemma unat_u64_from_be: "length bs = 8 \<Longrightarrow> unat (u64_from_be_bytes bs) = be_nat bs"
  using be_nat_bound [of bs] by (simp add: u64_from_be_bytes_def unat_of_nat)

lemma u16_to_from_be [simp]: "length bs = 2 \<Longrightarrow> u16_to_be_bytes (u16_from_be_bytes bs) = bs"
  using be_bytes_be_nat [of bs] by (simp add: u16_to_be_bytes_def unat_u16_from_be)

lemma u32_to_from_be [simp]: "length bs = 4 \<Longrightarrow> u32_to_be_bytes (u32_from_be_bytes bs) = bs"
  using be_bytes_be_nat [of bs] by (simp add: u32_to_be_bytes_def unat_u32_from_be)

lemma u64_to_from_be [simp]: "length bs = 8 \<Longrightarrow> u64_to_be_bytes (u64_from_be_bytes bs) = bs"
  using be_bytes_be_nat [of bs] by (simp add: u64_to_be_bytes_def unat_u64_from_be)

lemma u64_to_be_bytes_inject [simp]: "u64_to_be_bytes x = u64_to_be_bytes y \<longleftrightarrow> x = y"
  by (metis u64_from_to_be)

section \<open>Fixed-size byte arrays\<close>

text \<open>
  \<open>[u8; N]\<close> is \<open>N barray\<close>: a byte list whose length is the length of the index type, so that a
  key of the wrong size is as impossible in the model as it is in Rust.
\<close>

typedef (overloaded) 'n barray = "{bs :: bytes. length bs = LENGTH('n::len)}"
  morphisms as_slice mk_array
  by (rule exI [of _ "replicate LENGTH('n) 0"]) simp

lemma length_as_slice [simp]: "length (as_slice (a :: 'n::len barray)) = LENGTH('n)"
  using as_slice [of a] by simp

lemma as_slice_mk_array [simp]:
  "length bs = LENGTH('n) \<Longrightarrow> as_slice (mk_array bs :: 'n::len barray) = bs"
  by (simp add: mk_array_inverse)

lemma mk_array_as_slice [simp]: "mk_array (as_slice a) = a"
  by (rule as_slice_inverse)

lemma as_slice_inject_iff [simp]: "as_slice a = as_slice b \<longleftrightarrow> a = b"
  by (rule as_slice_inject)

instantiation barray :: (len) equal
begin

definition equal_barray :: "'a barray \<Rightarrow> 'a barray \<Rightarrow> bool" where
  "equal_barray a b = (as_slice a = as_slice b)"

instance
  by standard (simp add: equal_barray_def)

end

text \<open>\<open>[b; N]\<close>: the constant array.\<close>

definition const_array :: "u8 \<Rightarrow> 'n::len barray" where
  "const_array b = mk_array (replicate LENGTH('n) b)"

lemma as_slice_const_array [simp]:
  "as_slice (const_array b :: 'n::len barray) = replicate LENGTH('n) b"
  by (simp add: const_array_def)

text \<open>
  \<open>copy_from_slice\<close> into a whole array panics when the lengths differ; \<open>try_into\<close> returns an
  error the caller maps.
\<close>

definition copy_from_slice :: "bytes \<Rightarrow> ('n::len barray, 'e) outcome" where
  "copy_from_slice bs = (if length bs = LENGTH('n) then Ok (mk_array bs) else Panic)"

definition try_into_array :: "'e \<Rightarrow> bytes \<Rightarrow> ('n::len barray, 'e) outcome" where
  "try_into_array e bs = (if length bs = LENGTH('n) then Ok (mk_array bs) else Err e)"

lemma copy_from_slice_eq_Ok [inversions]:
  "copy_from_slice bs = Ok (a :: 'n::len barray) \<longleftrightarrow> bs = as_slice a"
  by (auto simp: copy_from_slice_def)

lemma try_into_array_eq_Ok [inversions]:
  "try_into_array e bs = Ok (a :: 'n::len barray) \<longleftrightarrow> bs = as_slice a"
  by (auto simp: try_into_array_def)

lemma copy_from_slice_as_slice [simp]: "copy_from_slice (as_slice a) = Ok a"
  by (simp add: copy_from_slice_def)

lemma try_into_array_as_slice [simp]: "try_into_array e (as_slice a) = Ok a"
  by (simp add: try_into_array_def)

lemma copy_from_slice_eq_Panic:
  "(copy_from_slice bs :: ('n::len barray, 'e) outcome) = Panic \<longleftrightarrow> length bs \<noteq> LENGTH('n)"
  by (simp add: copy_from_slice_def)

lemma try_into_array_not_Panic [simp]: "try_into_array e bs \<noteq> Panic"
  by (simp add: try_into_array_def)

lemma ok_or_error: "ok_or e x = Err e' \<Longrightarrow> e' = e"
  by (cases x) auto

lemma try_into_array_error: "try_into_array e bs = Err e' \<Longrightarrow> e' = e"
  by (simp add: try_into_array_def split: if_splits)

lemma ensure_error: "ensure b e = Err e' \<Longrightarrow> e' = e"
  by (simp add: ensure_def split: if_splits)

lemma copy_from_slice_not_Err [simp]: "copy_from_slice bs \<noteq> Err e"
  by (simp add: copy_from_slice_def)

lemmas step_errors = ok_or_error try_into_array_error ensure_error

text \<open>
  The steps a decoder is made of, each inverted at the head of the rest of the decoder.
\<close>

lemma wire_steps [wire]:
  "and_then (ensure b e) f = Ok y \<longleftrightarrow> b \<and> f () = Ok y"
  "and_then (ok_or e x) g = Ok y \<longleftrightarrow> (\<exists>z. x = Some z \<and> g z = Ok y)"
  "and_then (slice bs i j) h = Ok y \<longleftrightarrow>
     i \<le> j \<and> j \<le> length bs \<and> h (take (j - i) (drop i bs)) = Ok y"
  "and_then (slice_from bs i) h = Ok y \<longleftrightarrow> i \<le> length bs \<and> h (drop i bs) = Ok y"
  "and_then (index bs i) k = Ok y \<longleftrightarrow> i < length bs \<and> k (bs ! i) = Ok y"
  by (auto simp: and_then_eq_Ok inversions)

lemma wire_array_steps [wire]:
  "and_then (try_into_array e bs) f = Ok y \<longleftrightarrow> (\<exists>a. bs = as_slice a \<and> f a = Ok y)"
  "and_then (copy_from_slice bs) g = Ok y \<longleftrightarrow> (\<exists>a. bs = as_slice a \<and> g a = Ok y)"
  by (auto simp: and_then_eq_Ok inversions)

lemmas array_panic_conditions = panic_conditions copy_from_slice_eq_Panic

lemma one_byteI: "length bs = Suc 0 \<Longrightarrow> bs ! 0 = b \<Longrightarrow> [b] = bs"
  by (cases bs) auto

lemma cons_dropI: "bs \<noteq> [] \<Longrightarrow> bs ! 0 = b \<Longrightarrow> drop (Suc 0) bs = cs \<Longrightarrow> b # cs = bs"
  by (cases bs) auto

lemma cons_drop_lenI:
  "length bs = numeral k \<Longrightarrow> bs ! 0 = b \<Longrightarrow> drop (Suc 0) bs = cs \<Longrightarrow> b # cs = bs"
  by (cases bs) auto

lemma snoc_takeI: "length bs = Suc m \<Longrightarrow> take m bs = as \<Longrightarrow> bs ! m = b \<Longrightarrow> as @ [b] = bs"
  by (metis lessI order_refl take_Suc_conv_app_nth take_all)

text \<open>A byte string cut at known places is the concatenation of its parts.\<close>

lemma join_2: "take m bs = a \<Longrightarrow> drop m bs = b \<Longrightarrow> a @ b = bs"
  by (metis append_take_drop_id)

lemma join_3:
  assumes "take m bs = a" "take n (drop m bs) = b" "drop k bs = c" "k = m + n"
  shows "a @ b @ c = bs"
proof -
  have "b @ c = drop m bs"
    using assms by (intro join_2 [of n]) (simp_all add: add.commute)
  with assms(1) show ?thesis by (metis append_take_drop_id)
qed

end
