(* ===== verification/Rust_Str.thy ===== *)
theory Rust_Str
  imports Prelude "HOL-Library.List_Lexorder"
begin

text \<open>
  Rust strings.  A \<open>String\<close> is a byte vector that is valid UTF-8, so the model's \<open>str\<close> is the type
  of byte lists accepted by the standard library's validator; \<open>as_bytes\<close> is the representation,
  \<open>from_utf8\<close> the checked constructor, and the order is the byte-wise lexicographic order Rust
  gives \<open>str\<close>.  Also here: byte-string literals and the decimal formatting of \<open>format!\<close>.
\<close>

section \<open>UTF-8 validation\<close>

definition is_cont :: "u8 \<Rightarrow> bool" where
  "is_cont b \<longleftrightarrow> 0x80 \<le> b \<and> b \<le> 0xBF"

text \<open>The second byte a three-byte or four-byte sequence may have, by its first byte.\<close>

definition second_of_three :: "u8 \<Rightarrow> u8 \<Rightarrow> bool" where
  "second_of_three b c \<longleftrightarrow>
     (if b = 0xE0 then 0xA0 \<le> c \<and> c \<le> 0xBF
      else if b = 0xED then 0x80 \<le> c \<and> c \<le> 0x9F
      else is_cont c)"

definition second_of_four :: "u8 \<Rightarrow> u8 \<Rightarrow> bool" where
  "second_of_four b c \<longleftrightarrow>
     (if b = 0xF0 then 0x90 \<le> c \<and> c \<le> 0xBF
      else if b = 0xF4 then 0x80 \<le> c \<and> c \<le> 0x8F
      else is_cont c)"

fun valid_utf8 :: "bytes \<Rightarrow> bool" where
  "valid_utf8 [] = True"
| "valid_utf8 (b # bs) =
     (if b < 0x80 then valid_utf8 bs
      else if 0xC2 \<le> b \<and> b \<le> 0xDF then
        (case bs of c # rest \<Rightarrow> is_cont c \<and> valid_utf8 rest | _ \<Rightarrow> False)
      else if 0xE0 \<le> b \<and> b \<le> 0xEF then
        (case bs of c # d # rest \<Rightarrow> second_of_three b c \<and> is_cont d \<and> valid_utf8 rest
         | _ \<Rightarrow> False)
      else if 0xF0 \<le> b \<and> b \<le> 0xF4 then
        (case bs of c # d # e # rest \<Rightarrow>
           second_of_four b c \<and> is_cont d \<and> is_cont e \<and> valid_utf8 rest
         | _ \<Rightarrow> False)
      else False)"

lemma valid_utf8_ascii: "(\<And>b. b \<in> set bs \<Longrightarrow> b < 0x80) \<Longrightarrow> valid_utf8 bs"
  by (induction bs) auto

section \<open>The string type\<close>

typedef str = "{bs :: bytes. valid_utf8 bs}"
  morphisms as_bytes mk_str
  by (rule exI [of _ "[]"]) simp

lemma valid_as_bytes [simp]: "valid_utf8 (as_bytes s)"
  using as_bytes [of s] by simp

lemma as_bytes_mk_str [simp]: "valid_utf8 bs \<Longrightarrow> as_bytes (mk_str bs) = bs"
  by (simp add: mk_str_inverse)

lemma mk_str_as_bytes [simp]: "mk_str (as_bytes s) = s"
  by (rule as_bytes_inverse)

lemma as_bytes_inject_iff [simp]: "as_bytes s = as_bytes t \<longleftrightarrow> s = t"
  by (rule as_bytes_inject)

definition from_utf8 :: "bytes \<Rightarrow> str option" where
  "from_utf8 bs = (if valid_utf8 bs then Some (mk_str bs) else None)"

lemma from_utf8_as_bytes [simp]: "from_utf8 (as_bytes s) = Some s"
  by (simp add: from_utf8_def)

lemma from_utf8_eq_Some: "from_utf8 bs = Some s \<longleftrightarrow> bs = as_bytes s"
  by (auto simp: from_utf8_def)

definition str_len :: "str \<Rightarrow> nat" where
  "str_len s = length (as_bytes s)"

instantiation str :: equal
begin

definition equal_str :: "str \<Rightarrow> str \<Rightarrow> bool" where
  "equal_str s t = (as_bytes s = as_bytes t)"

instance
  by standard (simp add: equal_str_def)

end

instantiation str :: linorder
begin

definition less_eq_str :: "str \<Rightarrow> str \<Rightarrow> bool" where
  "s \<le> t \<longleftrightarrow> as_bytes s \<le> as_bytes t"

definition less_str :: "str \<Rightarrow> str \<Rightarrow> bool" where
  "s < t \<longleftrightarrow> as_bytes s < as_bytes t"

instance
proof
  fix s t u :: str
  show "s < t \<longleftrightarrow> s \<le> t \<and> \<not> t \<le> s"
    by (simp add: less_eq_str_def less_str_def less_le_not_le)
  show "s \<le> s"
    by (simp add: less_eq_str_def)
  show "s \<le> t \<Longrightarrow> t \<le> u \<Longrightarrow> s \<le> u"
    unfolding less_eq_str_def by (rule order_trans)
  show "s \<le> t \<Longrightarrow> t \<le> s \<Longrightarrow> s = t"
    unfolding less_eq_str_def as_bytes_inject_iff [symmetric] by (rule antisym)
  show "s \<le> t \<or> t \<le> s"
    unfolding less_eq_str_def by (rule linear)
qed

end

section \<open>Literals and formatting\<close>

text \<open>A byte-string literal \<open>b"..."\<close> and an ASCII string literal.\<close>

definition ascii :: "string \<Rightarrow> bytes" where
  "ascii cs = map of_char cs"

definition str_lit :: "string \<Rightarrow> str" where
  "str_lit cs = mk_str (ascii cs)"

lemma ascii_simps [simp]: "ascii [] = []" "ascii (c # cs) = of_char c # ascii cs"
  by (simp_all add: ascii_def)

lemma length_ascii [simp]: "length (ascii cs) = length cs"
  by (simp add: ascii_def)

lemma ascii_byte_less: "of_char c < (128 :: nat) \<Longrightarrow> (of_char c :: u8) < 0x80"
proof -
  assume "of_char c < (128 :: nat)"
  moreover have "unat (of_char c :: u8) = of_char c"
    using of_nat_of_char [of c, where 'a = u8, symmetric] unat_of_nat_u8 [of "of_char c"]
    by (simp add: calculation)
  ultimately show ?thesis by (simp add: word_less_nat_alt)
qed

lemma as_bytes_str_lit:
  assumes "list_all (\<lambda>c. of_char c < (128 :: nat)) cs"
  shows "as_bytes (str_lit cs) = ascii cs"
proof -
  have "valid_utf8 (ascii cs)"
    using assms by (intro valid_utf8_ascii) (auto simp: ascii_def ascii_byte_less list_all_iff)
  then show ?thesis by (simp add: str_lit_def)
qed

text \<open>
  Text the code formats itself is ASCII and kept as a character list: \<open>{}\<close> of an unsigned integer,
  and \<open>{:05}\<close>, which pads with zeros to five digits.
\<close>

definition digit_char :: "nat \<Rightarrow> char" where
  "digit_char d = char_of (48 + d)"

fun show_nat :: "nat \<Rightarrow> string" where
  "show_nat n = (if n < 10 then [digit_char n] else show_nat (n div 10) @ [digit_char (n mod 10)])"

declare show_nat.simps [simp del]

definition format_05 :: "nat \<Rightarrow> string" where
  "format_05 n = replicate (5 - length (show_nat n)) (CHR ''0'') @ show_nat n"

definition is_ascii_digit :: "char \<Rightarrow> bool" where
  "is_ascii_digit c \<longleftrightarrow> 48 \<le> (of_char c :: nat) \<and> (of_char c :: nat) \<le> 57"

lemma is_ascii_digit_digit_char: "d < 10 \<Longrightarrow> is_ascii_digit (digit_char d)"
  by (simp add: is_ascii_digit_def digit_char_def)

lemma digit_char_inject: "d < 10 \<Longrightarrow> e < 10 \<Longrightarrow> digit_char d = digit_char e \<longleftrightarrow> d = e"
  by (simp add: digit_char_def char_of_eq_iff take_bit_eq_mod)

lemma show_nat_digits: "c \<in> set (show_nat n) \<Longrightarrow> is_ascii_digit c"
proof (induction n rule: show_nat.induct)
  case (1 n)
  then show ?case
    by (cases "n < 10") (auto simp: show_nat.simps [of n] is_ascii_digit_digit_char)
qed

lemma length_show_nat_le: "n < 10 ^ k \<Longrightarrow> 0 < k \<Longrightarrow> length (show_nat n) \<le> k"
proof (induction k arbitrary: n)
  case 0
  then show ?case by simp
next
  case (Suc k)
  show ?case
  proof (cases "n < 10")
    case True
    then show ?thesis by (simp add: show_nat.simps [of n])
  next
    case False
    with Suc.prems have "n div 10 < 10 ^ k" "0 < k"
      by (auto simp: less_mult_imp_div_less ac_simps intro: gr0I)
    with Suc.IH False show ?thesis by (simp add: show_nat.simps [of n])
  qed
qed

lemma length_format_05: "n < 100000 \<Longrightarrow> length (format_05 n) = 5"
  using length_show_nat_le [of n 5] by (simp add: format_05_def)

lemma format_05_digits: "c \<in> set (format_05 n) \<Longrightarrow> is_ascii_digit c"
  by (auto simp: format_05_def is_ascii_digit_def dest: show_nat_digits split: if_splits)

end
