(* ===== verification/Errors.thy ===== *)
theory Errors
  imports Rust_Str
begin

text \<open>
  The crate's error types: \<open>std::io::Error\<close> as the payload decoders build it (a kind and a
  message), and \<open>ProtocolError\<close> of \<open>src/src/error.rs\<close>.
\<close>

datatype io_error_kind = InvalidInput | InvalidData | UnexpectedEof | OtherKind

datatype io_error = IoError (io_kind: io_error_kind) (io_message: string)

type_synonym 'a io_result = "('a, io_error) outcome"

abbreviation invalid_data :: "string \<Rightarrow> io_error" where
  "invalid_data msg \<equiv> IoError InvalidData msg"

datatype ProtocolError =
    InvalidMagic
  | UnsupportedVersion u8
  | InvalidHeaderLength
  | PayloadTooLarge (too_large_size: u32) (too_large_max: u32)
  | ReservedFieldNonZero
  | UnknownPacketType u8
  | InvalidStateTransition
  | PayloadDecode string string
  | SequenceViolation (seq_got: u64) (seq_last: u64)
  | EncryptionRequired
  | CryptoError
  | IdentityKeyChanged str
  | Io io_error

type_synonym 'a presult = "('a, ProtocolError) outcome"

end
