(* ===== verification/Header.thy ===== *)
theory Header
  imports Errors
begin

text \<open>
  \<open>src/src/header.rs\<close> and \<open>raw_packet.rs\<close>: the 24-byte packet header, its big-endian layout,
  its validation, and the raw packet a codec hands to its caller.
\<close>

unbundle bit_operations_syntax

definition CHATIX_MAGIC :: "4 barray" where
  "CHATIX_MAGIC = mk_array (ascii ''CHTX'')"

definition CHATIX_VERSION :: u8 where "CHATIX_VERSION = 1"

definition CHATIX_HEADER_LEN :: u8 where "CHATIX_HEADER_LEN = 24"

definition CHATIX_HEADER_SIZE :: nat where "CHATIX_HEADER_SIZE = unat CHATIX_HEADER_LEN"

definition MAX_PAYLOAD_LEN :: u32 where "MAX_PAYLOAD_LEN = 1024 * 1024"

definition ENCRYPTED :: u8 where "ENCRYPTED = push_bit 0 1"

record PacketHeader =
  magic :: "4 barray"
  version :: u8
  packet_type :: u8
  flags :: u8
  header_len :: u8
  payload_len :: u32
  sequence :: u64
  reserved :: u32

definition header_new :: "u8 \<Rightarrow> u8 \<Rightarrow> u32 \<Rightarrow> u64 \<Rightarrow> PacketHeader" where
  "header_new ptype fl plen seq =
     \<lparr>magic = CHATIX_MAGIC, version = CHATIX_VERSION, packet_type = ptype, flags = fl,
      header_len = CHATIX_HEADER_LEN, payload_len = plen, sequence = seq, reserved = 0\<rparr>"

text \<open>\<open>out[i..i + src.len()].copy_from_slice(src)\<close>, for a range inside \<open>out\<close>.\<close>

definition write_at :: "bytes \<Rightarrow> nat \<Rightarrow> bytes \<Rightarrow> bytes" where
  "write_at out i src = take i out @ src @ drop (i + length src) out"

definition to_bytes :: "PacketHeader \<Rightarrow> 24 barray" where
  "to_bytes h =
     (let out = replicate CHATIX_HEADER_SIZE 0;
          out = write_at out 0 (as_slice (magic h));
          out = out[4 := version h];
          out = out[5 := packet_type h];
          out = out[6 := flags h];
          out = out[7 := header_len h];
          out = write_at out 8 (u32_to_be_bytes (payload_len h));
          out = write_at out 12 (u64_to_be_bytes (sequence h));
          out = write_at out 20 (u32_to_be_bytes (reserved h))
      in mk_array out)"

definition from_bytes :: "24 barray \<Rightarrow> PacketHeader" where
  "from_bytes arr =
     (let b = as_slice arr in
      \<lparr>magic = mk_array [b ! 0, b ! 1, b ! 2, b ! 3],
       version = b ! 4,
       packet_type = b ! 5,
       flags = b ! 6,
       header_len = b ! 7,
       payload_len = u32_from_be_bytes [b ! 8, b ! 9, b ! 10, b ! 11],
       sequence = u64_from_be_bytes
         [b ! 12, b ! 13, b ! 14, b ! 15, b ! 16, b ! 17, b ! 18, b ! 19],
       reserved = u32_from_be_bytes [b ! 20, b ! 21, b ! 22, b ! 23]\<rparr>)"

definition validate :: "PacketHeader \<Rightarrow> unit presult" where
  "validate h =
     (if magic h \<noteq> CHATIX_MAGIC then Err InvalidMagic
      else if version h \<noteq> CHATIX_VERSION then Err (UnsupportedVersion (version h))
      else if header_len h \<noteq> CHATIX_HEADER_LEN then Err InvalidHeaderLength
      else if payload_len h > MAX_PAYLOAD_LEN
        then Err (PayloadTooLarge (payload_len h) MAX_PAYLOAD_LEN)
      else if reserved h \<noteq> 0 then Err ReservedFieldNonZero
      else Ok ())"

definition is_encrypted :: "PacketHeader \<Rightarrow> bool" where
  "is_encrypted h \<longleftrightarrow> (flags h AND ENCRYPTED) \<noteq> 0"

record RawPacket =
  raw_header :: PacketHeader
  raw_payload :: bytes

definition raw_packet_new :: "PacketHeader \<Rightarrow> bytes \<Rightarrow> RawPacket" where
  "raw_packet_new h p = \<lparr>raw_header = h, raw_payload = p\<rparr>"

section \<open>Layout\<close>

lemma header_size [simp]: "CHATIX_HEADER_SIZE = 24"
  by (simp add: CHATIX_HEADER_SIZE_def CHATIX_HEADER_LEN_def)

lemma list_of_4: "length xs = 4 \<longleftrightarrow> (\<exists>a b c d. xs = [a, b, c, d])"
  by (auto simp: numeral_eq_Suc length_Suc_conv)

lemma list_of_8:
  "length xs = 8 \<longleftrightarrow> (\<exists>a b c d e f g h. xs = [a, b, c, d, e, f, g, h])"
  by (auto simp: numeral_eq_Suc length_Suc_conv)

lemma list_of_24_split:
  assumes "length xs = 24"
  obtains m v p f l n q r where "xs = m @ [v, p, f, l] @ n @ q @ r"
    "length m = 4" "length n = 4" "length q = 8" "length r = 4"
proof
  have four: "take 4 (drop 4 xs) = [xs ! 4, xs ! 5, xs ! 6, xs ! 7]"
    using assms by (simp add: list_eq_iff_nth_eq nth_Cons' numeral_eq_Suc All_less_Suc)
  have "xs = take 4 xs @ take 4 (drop 4 xs) @ take 4 (drop 8 xs) @ take 8 (drop 12 xs) @ drop 20 xs"
    using append_take_drop_id [of 4 "drop 4 xs"] append_take_drop_id [of 4 "drop 8 xs"]
      append_take_drop_id [of 8 "drop 12 xs"] append_take_drop_id [of 4 xs, symmetric]
    by (simp del: append_take_drop_id)
  then show "xs = take 4 xs @ [xs ! 4, xs ! 5, xs ! 6, xs ! 7] @ take 4 (drop 8 xs)
      @ take 8 (drop 12 xs) @ drop 20 xs"
    by (simp add: four)
qed (use assms in simp_all)

lemma write_at_middle:
  "length a = i \<Longrightarrow> length b = length src \<Longrightarrow> write_at (a @ b @ c) i src = a @ src @ c"
  by (simp add: write_at_def)

lemma update_four:
  assumes "length m = 4"
  shows "(m @ [0, 0, 0, 0] @ rest)[4 := a, 5 := b, 6 := c, 7 := d] = m @ [a, b, c, d] @ rest"
  using assms by (simp add: list_update_append)

lemma blank_header:
  "replicate 24 (0 :: u8) = replicate 4 0 @ [0, 0, 0, 0] @ replicate 4 0 @ replicate 8 0 @ replicate 4 0"
  by (simp add: numeral_eq_Suc)

lemma header_layout:
  fixes n q r :: bytes
  assumes "length m = 4" "length n = 4" "length q = 8" "length r = 4"
  shows "write_at (write_at (write_at ((write_at (replicate 24 0) 0 m)[4 := a, 5 := b, 6 := c, 7 := d])
      8 n) 12 q) 20 r = m @ [a, b, c, d] @ n @ q @ r"
proof -
  have "write_at (replicate 24 0) 0 m
      = m @ [0, 0, 0, 0] @ replicate 4 0 @ replicate 8 0 @ replicate 4 0"
    unfolding blank_header using assms(1) by (intro write_at_middle [of "[]", simplified]) simp_all
  moreover have "write_at (m @ [a, b, c, d] @ replicate 4 0 @ replicate 8 0 @ replicate 4 0) 8 n
      = m @ [a, b, c, d] @ n @ replicate 8 0 @ replicate 4 0"
    using write_at_middle [of "m @ [a, b, c, d]" 8 "replicate 4 0" n] assms by simp
  moreover have "write_at (m @ [a, b, c, d] @ n @ replicate 8 0 @ replicate 4 0) 12 q
      = m @ [a, b, c, d] @ n @ q @ replicate 4 0"
    using write_at_middle [of "m @ [a, b, c, d] @ n" 12 "replicate 8 0" q] assms by simp
  moreover have "write_at (m @ [a, b, c, d] @ n @ q @ replicate 4 0) 20 r
      = m @ [a, b, c, d] @ n @ q @ r"
    using write_at_middle [of "m @ [a, b, c, d] @ n @ q" 20 "replicate 4 0" r "[]"] assms by simp
  ultimately show ?thesis
    by (simp only: update_four [OF assms(1)])
qed

lemma as_slice_to_bytes:
  "as_slice (to_bytes h) =
     as_slice (magic h) @ [version h, packet_type h, flags h, header_len h]
       @ u32_to_be_bytes (payload_len h) @ u64_to_be_bytes (sequence h)
       @ u32_to_be_bytes (reserved h)"
  unfolding to_bytes_def Let_def header_size by (subst header_layout) simp_all

theorem from_to_bytes: "from_bytes (to_bytes h) = h"
proof -
  obtain m where m: "as_slice (magic h) = m" "length m = 4" by simp
  obtain p where p: "u32_to_be_bytes (payload_len h) = p" "length p = 4" by simp
  obtain q where q: "u64_to_be_bytes (sequence h) = q" "length q = 8" by simp
  obtain r where r: "u32_to_be_bytes (reserved h) = r" "length r = 4" by simp
  have decoded: "mk_array m = magic h" "u32_from_be_bytes p = payload_len h"
    "u64_from_be_bytes q = sequence h" "u32_from_be_bytes r = reserved h"
    by (simp_all flip: m(1) p(1) q(1) r(1))
  from m(2) p(2) q(2) r(2) decoded show ?thesis
    unfolding from_bytes_def as_slice_to_bytes m(1) p(1) q(1) r(1)
    by (auto simp: list_of_4 list_of_8)
qed

theorem to_from_bytes: "to_bytes (from_bytes b) = b"
proof -
  obtain m v p f l n q r where b: "as_slice b = m @ [v, p, f, l] @ n @ q @ r"
    and len: "length m = 4" "length n = 4" "length q = 8" "length r = 4"
    by (rule list_of_24_split [of "as_slice b"]) simp_all
  have "from_bytes b = \<lparr>magic = mk_array m, version = v, packet_type = p, flags = f,
      header_len = l, payload_len = u32_from_be_bytes n, sequence = u64_from_be_bytes q,
      reserved = u32_from_be_bytes r\<rparr>"
    using len unfolding from_bytes_def b by (auto simp: list_of_4 list_of_8)
  then have "as_slice (to_bytes (from_bytes b)) = as_slice b"
    using len by (simp add: as_slice_to_bytes b)
  then show ?thesis by simp
qed

end
