(* ===== verification/Wire_Interfaces.thy ===== *)
theory Wire_Interfaces
  imports Errors
begin

text \<open>
  The interfaces the components share.  \<open>byte_enum\<close>: an enumeration carried as one byte, with the
  laws its \<open>from_u8\<close> and \<open>as_u8\<close> owe each other.  \<open>wire_format\<close>: a payload's \<open>encode\<close> and
  \<open>decode\<close>, which are inverse to each other on success (so the encoding is canonical) and never
  panic.  Every enumeration and every payload of the crate is an interpretation.
\<close>

locale byte_enum =
  fixes to_byte :: "'a \<Rightarrow> u8"
    and of_byte :: "u8 \<Rightarrow> ('a, 'e) outcome"
  assumes of_byte_iff: "of_byte b = Ok x \<longleftrightarrow> to_byte x = b"
    and of_byte_total: "of_byte b \<noteq> Panic"
begin

lemma of_to_byte: "of_byte (to_byte x) = Ok x"
  by (simp add: of_byte_iff)

lemma to_byte_inject: "to_byte x = to_byte y \<longleftrightarrow> x = y"
  by (metis of_to_byte outcome.inject(1))

lemma of_byte_rejects: "(\<forall>x. to_byte x \<noteq> b) \<longleftrightarrow> (\<exists>e. of_byte b = Err e)"
  using of_byte_iff [of b] of_byte_total [of b] by (cases "of_byte b") auto

end

locale wire_format =
  fixes enc :: "'a \<Rightarrow> bytes io_result"
    and dec :: "bytes \<Rightarrow> 'a io_result"
  assumes dec_iff_enc: "dec bs = Ok x \<longleftrightarrow> enc x = Ok bs"
    and dec_not_Panic: "dec bs \<noteq> Panic"
    and enc_not_Panic: "enc x \<noteq> Panic"
begin

lemma dec_enc: "enc x = Ok bs \<Longrightarrow> dec bs = Ok x"
  by (simp add: dec_iff_enc)

lemma enc_dec: "dec bs = Ok x \<Longrightarrow> enc x = Ok bs"
  by (simp add: dec_iff_enc)

lemma enc_inject: "enc x = Ok bs \<Longrightarrow> enc y = Ok bs \<Longrightarrow> x = y"
  by (metis dec_iff_enc outcome.inject(1))

lemma dec_inject: "dec as = Ok x \<Longrightarrow> dec bs = Ok x \<Longrightarrow> as = bs"
  by (metis dec_iff_enc outcome.inject(1))

lemma dec_rejects_iff: "(\<exists>e. dec bs = Err e) \<longleftrightarrow> (\<forall>x. enc x \<noteq> Ok bs)"
  using dec_iff_enc [of bs] dec_not_Panic [of bs] by (cases "dec bs") auto

lemma enc_cases: "(\<exists>bs. enc x = Ok bs) \<or> (\<exists>e. enc x = Err e)"
  using enc_not_Panic [of x] by (cases "enc x") auto

end

end
