(* ===== verification/Crypto_Params.thy ===== *)
theory Crypto_Params
  imports Errors
begin

text \<open>
  Sizes of the cryptographic objects (the constants of \<open>crypto/session.rs\<close> and
  \<open>crypto/e2e.rs\<close>) and the array types that carry them.
\<close>

definition ML_KEM_768_EK_SIZE :: nat where "ML_KEM_768_EK_SIZE = 1184"

definition ML_KEM_768_CT_SIZE :: nat where "ML_KEM_768_CT_SIZE = 1088"

definition NONCE_LEN :: nat where "NONCE_LEN = 12"

definition GCM_TAG_LEN :: nat where "GCM_TAG_LEN = 16"

definition ML_DSA_65_SIG_SIZE :: nat where "ML_DSA_65_SIG_SIZE = 3309"

definition ML_DSA_65_VK_SIZE :: nat where "ML_DSA_65_VK_SIZE = 1952"

lemmas size_defs =
  ML_KEM_768_EK_SIZE_def ML_KEM_768_CT_SIZE_def NONCE_LEN_def GCM_TAG_LEN_def
  ML_DSA_65_SIG_SIZE_def ML_DSA_65_VK_SIZE_def

type_synonym key32 = "32 barray"
type_synonym kem_ek = "1184 barray"
type_synonym kem_ct = "1088 barray"
type_synonym gcm_nonce = "12 barray"
type_synonym dsa_sig = "3309 barray"
type_synonym dsa_vk = "1952 barray"

lemma array_type_sizes:
  "LENGTH(1184) = ML_KEM_768_EK_SIZE" "LENGTH(1088) = ML_KEM_768_CT_SIZE"
  "LENGTH(12) = NONCE_LEN" "LENGTH(3309) = ML_DSA_65_SIG_SIZE"
  "LENGTH(1952) = ML_DSA_65_VK_SIZE"
  by (simp_all add: size_defs)

end
