(* ===== verification/Packet_Type.thy ===== *)
theory Packet_Type
  imports Wire_Interfaces Crypto_Params
begin

text \<open>
  \<open>src/src/packet_type.rs\<close>: the packet types, their codes, the payload ceiling of each, and the
  direction each may travel in.
\<close>

datatype PacketType =
    ClientHello
  | ServerHello
  | ClientFinish
  | ServerAccept
  | AuthChallenge
  | AuthResponse
  | AuthAccept
  | AuthReject
  | Ping
  | Pong
  | RegisterDevice
  | RegisterResponse
  | QueryAccountStatus
  | AccountStatusResponse
  | SendFriendRequest
  | FriendRequestResult
  | IncomingFriendRequest
  | FriendRequestDecision
  | RemoveFriend
  | RemoveFriendResult
  | FriendRemovedNotification
  | FriendStatusUpdate
  | SendTypingIndicator
  | PublishE2eKey
  | PublishE2eKeyResult
  | FetchE2eKey
  | E2eKeyResponse
  | SendMessage
  | DeliverMessage
  | FetchQueuedMessages
  | QueuedMessageDelivery
  | AckQueuedMessage
  | MessageStatusUpdate
  | DeliveryReceipt
  | Error
  | Close

primrec as_u8 :: "PacketType \<Rightarrow> u8" where
  "as_u8 ClientHello = 1"
| "as_u8 ServerHello = 2"
| "as_u8 ClientFinish = 3"
| "as_u8 ServerAccept = 4"
| "as_u8 AuthChallenge = 5"
| "as_u8 AuthResponse = 6"
| "as_u8 AuthAccept = 7"
| "as_u8 AuthReject = 8"
| "as_u8 Ping = 20"
| "as_u8 Pong = 21"
| "as_u8 RegisterDevice = 22"
| "as_u8 RegisterResponse = 23"
| "as_u8 QueryAccountStatus = 24"
| "as_u8 AccountStatusResponse = 25"
| "as_u8 SendFriendRequest = 26"
| "as_u8 FriendRequestResult = 27"
| "as_u8 IncomingFriendRequest = 28"
| "as_u8 FriendRequestDecision = 29"
| "as_u8 RemoveFriend = 30"
| "as_u8 RemoveFriendResult = 31"
| "as_u8 FriendRemovedNotification = 32"
| "as_u8 FriendStatusUpdate = 33"
| "as_u8 SendTypingIndicator = 34"
| "as_u8 PublishE2eKey = 35"
| "as_u8 PublishE2eKeyResult = 36"
| "as_u8 FetchE2eKey = 37"
| "as_u8 E2eKeyResponse = 38"
| "as_u8 SendMessage = 40"
| "as_u8 DeliverMessage = 41"
| "as_u8 FetchQueuedMessages = 42"
| "as_u8 QueuedMessageDelivery = 43"
| "as_u8 AckQueuedMessage = 44"
| "as_u8 MessageStatusUpdate = 45"
| "as_u8 DeliveryReceipt = 46"
| "as_u8 Error = 254"
| "as_u8 Close = 255"

definition from_u8 :: "u8 \<Rightarrow> PacketType presult" where
  "from_u8 b =
     (if b = 1 then Ok ClientHello
      else if b = 2 then Ok ServerHello
      else if b = 3 then Ok ClientFinish
      else if b = 4 then Ok ServerAccept
      else if b = 5 then Ok AuthChallenge
      else if b = 6 then Ok AuthResponse
      else if b = 7 then Ok AuthAccept
      else if b = 8 then Ok AuthReject
      else if b = 20 then Ok Ping
      else if b = 21 then Ok Pong
      else if b = 22 then Ok RegisterDevice
      else if b = 23 then Ok RegisterResponse
      else if b = 24 then Ok QueryAccountStatus
      else if b = 25 then Ok AccountStatusResponse
      else if b = 26 then Ok SendFriendRequest
      else if b = 27 then Ok FriendRequestResult
      else if b = 28 then Ok IncomingFriendRequest
      else if b = 29 then Ok FriendRequestDecision
      else if b = 30 then Ok RemoveFriend
      else if b = 31 then Ok RemoveFriendResult
      else if b = 32 then Ok FriendRemovedNotification
      else if b = 33 then Ok FriendStatusUpdate
      else if b = 34 then Ok SendTypingIndicator
      else if b = 35 then Ok PublishE2eKey
      else if b = 36 then Ok PublishE2eKeyResult
      else if b = 37 then Ok FetchE2eKey
      else if b = 38 then Ok E2eKeyResponse
      else if b = 40 then Ok SendMessage
      else if b = 41 then Ok DeliverMessage
      else if b = 42 then Ok FetchQueuedMessages
      else if b = 43 then Ok QueuedMessageDelivery
      else if b = 44 then Ok AckQueuedMessage
      else if b = 45 then Ok MessageStatusUpdate
      else if b = 46 then Ok DeliveryReceipt
      else if b = 254 then Ok Error
      else if b = 255 then Ok Close
      else Err (UnknownPacketType b))"

primrec max_payload_size :: "PacketType \<Rightarrow> u32" where
  "max_payload_size ClientHello = 1300"
| "max_payload_size ServerHello = of_nat (32 + ML_KEM_768_CT_SIZE + ML_DSA_65_SIG_SIZE + 80)"
| "max_payload_size ClientFinish = 1"
| "max_payload_size ServerAccept = 1"
| "max_payload_size AuthChallenge = 32"
| "max_payload_size AuthResponse = of_nat (ML_DSA_65_VK_SIZE + ML_DSA_65_SIG_SIZE + 4 + 4096)"
| "max_payload_size AuthAccept = 0"
| "max_payload_size AuthReject = 0"
| "max_payload_size Ping = 8"
| "max_payload_size Pong = 8"
| "max_payload_size SendMessage = 65536"
| "max_payload_size DeliverMessage = 65536"
| "max_payload_size RegisterDevice = 130"
| "max_payload_size RegisterResponse = 259"
| "max_payload_size QueryAccountStatus = 0"
| "max_payload_size AccountStatusResponse = 268"
| "max_payload_size SendFriendRequest = 130"
| "max_payload_size IncomingFriendRequest = 130"
| "max_payload_size FriendRequestResult = 1"
| "max_payload_size FriendRequestDecision = 131"
| "max_payload_size RemoveFriend = 130"
| "max_payload_size FriendRemovedNotification = 130"
| "max_payload_size SendTypingIndicator = 130"
| "max_payload_size RemoveFriendResult = 1"
| "max_payload_size FriendStatusUpdate = 139"
| "max_payload_size PublishE2eKey = of_nat (32 + ML_KEM_768_EK_SIZE + ML_DSA_65_VK_SIZE)"
| "max_payload_size PublishE2eKeyResult = 259"
| "max_payload_size FetchE2eKey = 130"
| "max_payload_size E2eKeyResponse = of_nat (130 + 1 + 32 + ML_KEM_768_EK_SIZE + ML_DSA_65_VK_SIZE)"
| "max_payload_size MessageStatusUpdate = 9"
| "max_payload_size DeliveryReceipt = 8"
| "max_payload_size FetchQueuedMessages = 0"
| "max_payload_size QueuedMessageDelivery = 65536"
| "max_payload_size AckQueuedMessage = 8"
| "max_payload_size Error = 1024"
| "max_payload_size Close = 1024"

definition validate_payload_size :: "PacketType \<Rightarrow> u32 \<Rightarrow> unit presult" where
  "validate_payload_size t len =
     (let max = max_payload_size t in
      if len > max then Err (PayloadTooLarge len max) else Ok ())"

datatype Direction = ClientToServer | ServerToClient | Bidirectional

primrec direction :: "PacketType \<Rightarrow> Direction" where
  "direction ClientHello = ClientToServer"
| "direction ClientFinish = ClientToServer"
| "direction AuthResponse = ClientToServer"
| "direction SendMessage = ClientToServer"
| "direction RegisterDevice = ClientToServer"
| "direction QueryAccountStatus = ClientToServer"
| "direction SendFriendRequest = ClientToServer"
| "direction FriendRequestDecision = ClientToServer"
| "direction RemoveFriend = ClientToServer"
| "direction SendTypingIndicator = ClientToServer"
| "direction FetchQueuedMessages = ClientToServer"
| "direction AckQueuedMessage = ClientToServer"
| "direction DeliveryReceipt = ClientToServer"
| "direction PublishE2eKey = ClientToServer"
| "direction FetchE2eKey = ClientToServer"
| "direction ServerHello = ServerToClient"
| "direction ServerAccept = ServerToClient"
| "direction AuthChallenge = ServerToClient"
| "direction AuthAccept = ServerToClient"
| "direction AuthReject = ServerToClient"
| "direction DeliverMessage = ServerToClient"
| "direction RegisterResponse = ServerToClient"
| "direction AccountStatusResponse = ServerToClient"
| "direction FriendRequestResult = ServerToClient"
| "direction IncomingFriendRequest = ServerToClient"
| "direction RemoveFriendResult = ServerToClient"
| "direction FriendRemovedNotification = ServerToClient"
| "direction FriendStatusUpdate = ServerToClient"
| "direction QueuedMessageDelivery = ServerToClient"
| "direction MessageStatusUpdate = ServerToClient"
| "direction PublishE2eKeyResult = ServerToClient"
| "direction E2eKeyResponse = ServerToClient"
| "direction Ping = Bidirectional"
| "direction Pong = Bidirectional"
| "direction Close = Bidirectional"
| "direction Error = Bidirectional"

section \<open>Codes\<close>

lemma from_u8_as_u8: "from_u8 (as_u8 t) = Ok t"
  by (cases t) (simp_all add: from_u8_def)

lemma as_u8_from_u8: "from_u8 b = Ok t \<Longrightarrow> as_u8 t = b"
  unfolding from_u8_def by (auto split: if_split_asm)

lemma from_u8_not_Panic: "from_u8 b \<noteq> Panic"
  by (simp add: from_u8_def)

interpretation packet_type_enum: byte_enum as_u8 from_u8
  by unfold_locales (auto simp: from_u8_as_u8 from_u8_not_Panic dest: as_u8_from_u8)

section \<open>Ceilings\<close>

lemma max_payload_size_within_global:
  "unat (max_payload_size t) + GCM_TAG_LEN \<le> 1024 * 1024"
  by (cases t) (simp_all add: size_defs)

end
