(* ===== verification/Crypto_Lib.thy ===== *)
theory Crypto_Lib
  imports Crypto_Params
begin

text \<open>
  The cryptographic crates the sources call (\<open>x25519-dalek\<close>, \<open>ml-kem\<close>, \<open>ml-dsa\<close>, \<open>hkdf\<close>, \<open>sha2\<close>,
  \<open>ring\<close>) are not part of the repository.  Each is a record of the functions the sources use, and
  the definitions that call it take that record as an argument.  What the sources rely on is stated
  here as named predicates on the record: the documented correctness of the primitive, and, where a
  theorem is about an adversary, the ideal form of its security with an explicit log of what the
  honest key holder produced.  Randomness is always an explicit argument.
\<close>

section \<open>The interfaces\<close>

text \<open>\<open>x25519-dalek\<close>: \<open>'x\<close> is an \<open>EphemeralSecret\<close> or a \<open>StaticSecret\<close>.\<close>

record 'x x25519 =
  x_public :: "'x \<Rightarrow> key32"
  x_diffie_hellman :: "'x \<Rightarrow> key32 \<Rightarrow> key32"
  x_static_from :: "key32 \<Rightarrow> 'x"
  x_static_to_bytes :: "'x \<Rightarrow> key32"

text \<open>\<open>ml-kem\<close> (\<open>MlKem768\<close>): \<open>'r\<close> is the randomness a call consumes.\<close>

record ('dk, 'ek, 'r) ml_kem =
  kem_generate_keypair :: "'r \<Rightarrow> 'dk \<times> 'ek"
  kem_from_seed :: "64 barray \<Rightarrow> 'dk"
  kem_encapsulation_key :: "'dk \<Rightarrow> 'ek"
  kem_ek_to_bytes :: "'ek \<Rightarrow> bytes"
  kem_ek_new :: "kem_ek \<Rightarrow> 'ek option"
  kem_encapsulate :: "'ek \<Rightarrow> 'r \<Rightarrow> bytes \<times> key32"
  kem_decapsulate :: "'dk \<Rightarrow> kem_ct \<Rightarrow> key32"

text \<open>\<open>ml-dsa\<close> (\<open>MlDsa65\<close>)\<close>

record ('sk, 'vk, 'sg) ml_dsa =
  dsa_from_seed :: "key32 \<Rightarrow> 'sk"
  dsa_to_seed :: "'sk \<Rightarrow> key32"
  dsa_verifying_key :: "'sk \<Rightarrow> 'vk"
  dsa_vk_encode :: "'vk \<Rightarrow> bytes"
  dsa_vk_decode :: "dsa_vk \<Rightarrow> 'vk"
  dsa_sign :: "'sk \<Rightarrow> bytes \<Rightarrow> 'sg"
  dsa_sig_encode :: "'sg \<Rightarrow> bytes"
  dsa_sig_decode :: "dsa_sig \<Rightarrow> 'sg option"
  dsa_verify :: "'vk \<Rightarrow> bytes \<Rightarrow> 'sg \<Rightarrow> bool"

text \<open>\<open>hkdf\<close> with SHA-256: \<open>Hkdf::new(salt, ikm)\<close> and \<open>expand\<close> into a 32-byte buffer.\<close>

record 'prk hkdf =
  hkdf_new :: "bytes option \<Rightarrow> bytes \<Rightarrow> 'prk"
  hkdf_expand :: "'prk \<Rightarrow> bytes \<Rightarrow> key32 option"

text \<open>\<open>ring::aead\<close> with \<open>AES_256_GCM\<close>: key, nonce, additional data and the buffer.\<close>

record 'k aead =
  aead_unbound_key :: "key32 \<Rightarrow> 'k option"
  aead_seal :: "'k \<Rightarrow> gcm_nonce \<Rightarrow> bytes \<Rightarrow> bytes \<Rightarrow> bytes option"
  aead_open :: "'k \<Rightarrow> gcm_nonce \<Rightarrow> bytes \<Rightarrow> bytes \<Rightarrow> bytes option"

text \<open>
  \<open>sha2\<close>: a hasher collects what it was updated with; \<open>finalize\<close> applies the digest, which is the
  parameter.
\<close>

type_synonym sha256 = "bytes \<Rightarrow> key32"
type_synonym hasher = bytes

definition Sha256_new :: hasher where
  "Sha256_new = []"

definition Sha256_update :: "hasher \<Rightarrow> bytes \<Rightarrow> hasher" where
  "Sha256_update h bs = h @ bs"

definition Sha256_finalize :: "sha256 \<Rightarrow> hasher \<Rightarrow> key32" where
  "Sha256_finalize sha h = sha h"

lemmas hasher_defs = Sha256_new_def Sha256_update_def Sha256_finalize_def

section \<open>Documented correctness\<close>

definition x25519_correct :: "'x x25519 \<Rightarrow> bool" where
  "x25519_correct X \<longleftrightarrow>
     (\<forall>a b. x_diffie_hellman X a (x_public X b) = x_diffie_hellman X b (x_public X a))
   \<and> (\<forall>s. x_static_from X (x_static_to_bytes X s) = s)"

text \<open>
  ML-KEM decapsulation fails with probability below \<open>2 ^ -164\<close> even for honest parties; the law is
  the error-free case.
\<close>

definition ml_kem_correct :: "('dk, 'ek, 'r) ml_kem \<Rightarrow> bool" where
  "ml_kem_correct K \<longleftrightarrow>
     (\<forall>r. snd (kem_generate_keypair K r)
        = kem_encapsulation_key K (fst (kem_generate_keypair K r)))
   \<and> (\<forall>dk. length (kem_ek_to_bytes K (kem_encapsulation_key K dk)) = ML_KEM_768_EK_SIZE)
   \<and> (\<forall>dk. kem_ek_new K (mk_array (kem_ek_to_bytes K (kem_encapsulation_key K dk)))
        = Some (kem_encapsulation_key K dk))
   \<and> (\<forall>ek r. length (fst (kem_encapsulate K ek r)) = ML_KEM_768_CT_SIZE)
   \<and> (\<forall>dk r. kem_decapsulate K dk (mk_array (fst (kem_encapsulate K (kem_encapsulation_key K dk) r)))
        = snd (kem_encapsulate K (kem_encapsulation_key K dk) r))"

definition ml_dsa_correct :: "('sk, 'vk, 'sg) ml_dsa \<Rightarrow> bool" where
  "ml_dsa_correct D \<longleftrightarrow>
     (\<forall>sk. dsa_from_seed D (dsa_to_seed D sk) = sk)
   \<and> (\<forall>vk. length (dsa_vk_encode D vk) = ML_DSA_65_VK_SIZE)
   \<and> (\<forall>vk. dsa_vk_decode D (mk_array (dsa_vk_encode D vk)) = vk)
   \<and> (\<forall>sg. length (dsa_sig_encode D sg) = ML_DSA_65_SIG_SIZE)
   \<and> (\<forall>sg. dsa_sig_decode D (mk_array (dsa_sig_encode D sg)) = Some sg)
   \<and> (\<forall>sk m. dsa_verify D (dsa_verifying_key D sk) m (dsa_sign D sk m))"

text \<open>A 32-byte output is within the limit of \<open>expand\<close>, which is its only error.\<close>

definition hkdf_correct :: "'prk hkdf \<Rightarrow> bool" where
  "hkdf_correct H \<longleftrightarrow> (\<forall>prk info. hkdf_expand H prk info \<noteq> None)"

definition aead_correct :: "'k aead \<Rightarrow> bool" where
  "aead_correct A \<longleftrightarrow>
     (\<forall>key. aead_unbound_key A key \<noteq> None)
   \<and> (\<forall>k n aad pt ct. aead_seal A k n aad pt = Some ct \<longrightarrow>
        aead_open A k n aad ct = Some pt \<and> length ct = length pt + GCM_TAG_LEN)
   \<and> (\<forall>k n aad ct pt. aead_open A k n aad ct = Some pt \<longrightarrow> length ct = length pt + GCM_TAG_LEN)"

text \<open>Sealing succeeds up to the crate's frame limit (the cipher's own limit is 64 GiB).\<close>

definition aead_seals_upto :: "nat \<Rightarrow> 'k aead \<Rightarrow> bool" where
  "aead_seals_upto n A \<longleftrightarrow>
     (\<forall>k nonce aad pt. length pt \<le> n \<longrightarrow> aead_seal A k nonce aad pt \<noteq> None)"

section \<open>Ideal security, relative to what the key holder produced\<close>

text \<open>
  \<open>dsa_unforgeable D vk msgs\<close>: every message that verifies under \<open>vk\<close> is one its owner signed.
  \<open>aead_authentic A key log\<close>: whatever opens under \<open>key\<close> was sealed, with the same nonce and
  additional data, by a holder of the key.  \<open>sha_collision_free sha S\<close>: no two of the byte strings
  that occur in the protocol runs at hand collide.
\<close>

definition dsa_unforgeable :: "('sk, 'vk, 'sg) ml_dsa \<Rightarrow> dsa_vk \<Rightarrow> bytes set \<Rightarrow> bool" where
  "dsa_unforgeable D vk msgs \<longleftrightarrow>
     (\<forall>m sg. dsa_verify D (dsa_vk_decode D vk) m sg \<longrightarrow> m \<in> msgs)"

definition aead_authentic ::
    "'k aead \<Rightarrow> key32 \<Rightarrow> (gcm_nonce \<times> bytes \<times> bytes \<times> bytes) set \<Rightarrow> bool" where
  "aead_authentic A key log \<longleftrightarrow>
     (\<forall>k n aad ct pt. aead_unbound_key A key = Some k \<and> aead_open A k n aad ct = Some pt
        \<longrightarrow> (n, aad, pt, ct) \<in> log)"

definition sha_collision_free :: "sha256 \<Rightarrow> bytes set \<Rightarrow> bool" where
  "sha_collision_free sha S \<longleftrightarrow> inj_on sha S"

section \<open>Rules\<close>

lemma x25519_agree:
  "x25519_correct X \<Longrightarrow> x_diffie_hellman X a (x_public X b) = x_diffie_hellman X b (x_public X a)"
  by (simp add: x25519_correct_def)

lemma x25519_static [simp]:
  "x25519_correct X \<Longrightarrow> x_static_from X (x_static_to_bytes X s) = s"
  by (simp add: x25519_correct_def)

lemma ml_kem_rules:
  assumes "ml_kem_correct K"
  shows "snd (kem_generate_keypair K r) = kem_encapsulation_key K (fst (kem_generate_keypair K r))"
    and "length (kem_ek_to_bytes K (kem_encapsulation_key K dk)) = ML_KEM_768_EK_SIZE"
    and "kem_ek_new K (mk_array (kem_ek_to_bytes K (kem_encapsulation_key K dk)))
           = Some (kem_encapsulation_key K dk)"
    and "length (fst (kem_encapsulate K ek r)) = ML_KEM_768_CT_SIZE"
    and "kem_decapsulate K dk (mk_array (fst (kem_encapsulate K (kem_encapsulation_key K dk) r)))
           = snd (kem_encapsulate K (kem_encapsulation_key K dk) r)"
  using assms by (simp_all add: ml_kem_correct_def)

lemma ml_dsa_rules:
  assumes "ml_dsa_correct D"
  shows "dsa_from_seed D (dsa_to_seed D sk) = sk"
    and "length (dsa_vk_encode D vk) = ML_DSA_65_VK_SIZE"
    and "dsa_vk_decode D (mk_array (dsa_vk_encode D vk)) = vk"
    and "length (dsa_sig_encode D sg) = ML_DSA_65_SIG_SIZE"
    and "dsa_sig_decode D (mk_array (dsa_sig_encode D sg)) = Some sg"
    and "dsa_verify D (dsa_verifying_key D sk) m (dsa_sign D sk m)"
  using assms by (simp_all add: ml_dsa_correct_def)

lemma hkdf_expands: "hkdf_correct H \<Longrightarrow> \<exists>okm. hkdf_expand H prk info = Some okm"
  by (simp add: hkdf_correct_def)

lemma aead_key_total: "aead_correct A \<Longrightarrow> \<exists>k. aead_unbound_key A key = Some k"
  by (simp add: aead_correct_def)

lemma aead_open_seal:
  "aead_correct A \<Longrightarrow> aead_seal A k n aad pt = Some ct \<Longrightarrow> aead_open A k n aad ct = Some pt"
  by (simp add: aead_correct_def)

lemma aead_seal_length:
  "aead_correct A \<Longrightarrow> aead_seal A k n aad pt = Some ct \<Longrightarrow> length ct = length pt + GCM_TAG_LEN"
  by (simp add: aead_correct_def)

lemma aead_open_length:
  "aead_correct A \<Longrightarrow> aead_open A k n aad ct = Some pt \<Longrightarrow> length ct = length pt + GCM_TAG_LEN"
  by (simp add: aead_correct_def)

section \<open>Concrete instances\<close>

text \<open>
  Small executable stand-ins that satisfy the laws, for evaluating the definitions on concrete
  inputs.  Bytes are combined so that outputs depend on every input.
\<close>

definition add_bytes :: "bytes \<Rightarrow> bytes \<Rightarrow> bytes" where
  "add_bytes a b = map2 (+) a b"

lemma length_add_bytes [simp]: "length (add_bytes a b) = min (length a) (length b)"
  by (simp add: add_bytes_def)

lemma add_bytes_commute: "add_bytes a b = add_bytes b a"
  unfolding add_bytes_def
  by (subst zip_commute) (simp add: split_beta add.commute cong: map_cong)

definition demo_x25519 :: "key32 x25519" where
  "demo_x25519 = \<lparr>x_public = (\<lambda>s. s),
     x_diffie_hellman = (\<lambda>s p. mk_array (add_bytes (as_slice s) (as_slice p))),
     x_static_from = (\<lambda>b. b), x_static_to_bytes = (\<lambda>s. s)\<rparr>"

lemma demo_x25519_correct: "x25519_correct demo_x25519"
  by (simp add: x25519_correct_def demo_x25519_def add_bytes_commute)

text \<open>The stand-in KEM carries the shared secret, masked by the key, in its ciphertext.\<close>

definition demo_ml_kem :: "(key32, key32, key32) ml_kem" where
  "demo_ml_kem = \<lparr>kem_generate_keypair = (\<lambda>r. (r, r)),
     kem_from_seed = (\<lambda>s. mk_array (take 32 (as_slice s))),
     kem_encapsulation_key = (\<lambda>dk. dk),
     kem_ek_to_bytes = (\<lambda>ek. as_slice ek @ replicate 1152 0),
     kem_ek_new = (\<lambda>b. if drop 32 (as_slice b) = replicate 1152 0
       then Some (mk_array (take 32 (as_slice b))) else None),
     kem_encapsulate = (\<lambda>ek r. (as_slice r @ replicate 1056 0,
        mk_array (add_bytes (as_slice ek) (as_slice r)))),
     kem_decapsulate = (\<lambda>dk ct. mk_array (add_bytes (as_slice dk) (take 32 (as_slice ct))))\<rparr>"

lemma demo_ml_kem_correct: "ml_kem_correct demo_ml_kem"
  by (simp add: ml_kem_correct_def demo_ml_kem_def size_defs)

text \<open>
  The stand-in signature scheme: a signature is the key and the sum of the message's bytes; it is
  correct, and of course forgeable.
\<close>

definition demo_ml_dsa :: "(key32, key32, key32 \<times> u8) ml_dsa" where
  "demo_ml_dsa = \<lparr>dsa_from_seed = (\<lambda>s. s), dsa_to_seed = (\<lambda>sk. sk), dsa_verifying_key = (\<lambda>sk. sk),
     dsa_vk_encode = (\<lambda>vk. replicate 1920 0 @ as_slice vk),
     dsa_vk_decode = (\<lambda>b. mk_array (drop 1920 (as_slice b))),
     dsa_sign = (\<lambda>sk m. (sk, sum_list m)),
     dsa_sig_encode = (\<lambda>(sk, t). as_slice sk @ [t] @ replicate 3276 0),
     dsa_sig_decode = (\<lambda>b. if drop 33 (as_slice b) = replicate 3276 0
       then Some (mk_array (take 32 (as_slice b)), as_slice b ! 32) else None),
     dsa_verify = (\<lambda>vk m (sk, t). sk = vk \<and> t = sum_list m)\<rparr>"

lemma demo_ml_dsa_correct: "ml_dsa_correct demo_ml_dsa"
  by (auto simp: ml_dsa_correct_def demo_ml_dsa_def size_defs nth_append)

text \<open>A scheme that verifies nothing but one message: unforgeable for the log of that message.\<close>

definition once_ml_dsa :: "bytes \<Rightarrow> (unit, unit, unit) ml_dsa" where
  "once_ml_dsa only = \<lparr>dsa_from_seed = (\<lambda>s. ()), dsa_to_seed = (\<lambda>sk. const_array 0),
     dsa_verifying_key = (\<lambda>sk. ()), dsa_vk_encode = (\<lambda>vk. replicate 1952 0),
     dsa_vk_decode = (\<lambda>b. ()), dsa_sign = (\<lambda>sk m. ()),
     dsa_sig_encode = (\<lambda>sg. replicate 3309 0), dsa_sig_decode = (\<lambda>b. Some ()),
     dsa_verify = (\<lambda>vk m sg. m = only)\<rparr>"

lemma once_ml_dsa_unforgeable: "dsa_unforgeable (once_ml_dsa m) vk {m}"
  by (simp add: dsa_unforgeable_def once_ml_dsa_def)

definition demo_hkdf :: "bytes hkdf" where
  "demo_hkdf = \<lparr>hkdf_new = (\<lambda>salt ikm. ikm),
     hkdf_expand = (\<lambda>prk info.
       Some (mk_array (take 16 (prk @ replicate 16 0) @ take 16 (rev info @ replicate 16 0))))\<rparr>"

lemma demo_hkdf_correct: "hkdf_correct demo_hkdf"
  by (simp add: hkdf_correct_def demo_hkdf_def)

text \<open>A cipher that only appends a tag over key, nonce and additional data.\<close>

definition demo_tag :: "key32 \<Rightarrow> gcm_nonce \<Rightarrow> bytes \<Rightarrow> bytes" where
  "demo_tag k n aad =
     replicate 13 (sum_list (as_slice k)) @ [sum_list (as_slice n), sum_list aad, of_nat (length aad)]"

definition demo_aead :: "key32 aead" where
  "demo_aead = \<lparr>aead_unbound_key = Some,
     aead_seal = (\<lambda>k n aad pt. Some (pt @ demo_tag k n aad)),
     aead_open = (\<lambda>k n aad ct.
       if 16 \<le> length ct \<and> drop (length ct - 16) ct = demo_tag k n aad
       then Some (take (length ct - 16) ct) else None)\<rparr>"

lemma length_demo_tag [simp]: "length (demo_tag k n aad) = 16"
  by (simp add: demo_tag_def)

lemma demo_aead_correct: "aead_correct demo_aead"
  by (auto simp: aead_correct_def demo_aead_def size_defs split: if_splits)

lemma demo_aead_seals: "aead_seals_upto n demo_aead"
  by (simp add: aead_seals_upto_def demo_aead_def)

text \<open>The same cipher for parties whose calls are known: it seals and opens nothing but the given messages.\<close>

definition logged_aead :: "(key32 \<times> gcm_nonce \<times> bytes \<times> bytes) list \<Rightarrow> key32 aead" where
  "logged_aead calls = \<lparr>aead_unbound_key = Some,
     aead_seal = (\<lambda>k n aad pt.
       if (k, n, aad, pt) \<in> set calls then Some (pt @ demo_tag k n aad) else None),
     aead_open = (\<lambda>k n aad ct.
       if 16 \<le> length ct \<and> drop (length ct - 16) ct = demo_tag k n aad
         \<and> (k, n, aad, take (length ct - 16) ct) \<in> set calls
       then Some (take (length ct - 16) ct) else None)\<rparr>"

lemma logged_aead_simps [simp]:
  "aead_unbound_key (logged_aead calls) key = Some key"
  "aead_seal (logged_aead calls) k n aad pt = Some ct \<longleftrightarrow>
     (k, n, aad, pt) \<in> set calls \<and> ct = pt @ demo_tag k n aad"
  "aead_open (logged_aead calls) k n aad ct = Some pt \<longleftrightarrow>
     (k, n, aad, pt) \<in> set calls \<and> ct = pt @ demo_tag k n aad"
proof -
  have "ct = take (length ct - 16) ct @ demo_tag k n aad" if "drop (length ct - 16) ct = demo_tag k n aad"
    using that append_take_drop_id [of "length ct - 16" ct] by simp
  then show "aead_open (logged_aead calls) k n aad ct = Some pt \<longleftrightarrow>
     (k, n, aad, pt) \<in> set calls \<and> ct = pt @ demo_tag k n aad"
    by (auto simp: logged_aead_def)
qed (auto simp: logged_aead_def)

end
