(* ===== verification/Codec.thy ===== *)
theory Codec
  imports Header Packet_Type Crypto_Lib
begin

text \<open>
  \<open>src/src/codec.rs\<close>: the stateful codec of one connection.  Reading and writing are actions on the
  pair of the codec and the stream: a result and the state left behind, so what each early return
  leaves in the codec is part of the model.  The asynchronous stream (\<open>tokio\<close>'s \<open>AsyncReadExt\<close> and
  \<open>AsyncWriteExt\<close>) is a record of the calls the codec makes; an \<open>await\<close> is a call that returns.
\<close>

section \<open>Actions\<close>

type_synonym ('s, 'a) action = "'s \<Rightarrow> 'a presult \<times> 's"

definition act :: "'a presult \<Rightarrow> ('s, 'a) action" where
  "act m s = (m, s)"

definition act_then :: "('s, 'a) action \<Rightarrow> ('a \<Rightarrow> ('s, 'b) action) \<Rightarrow> ('s, 'b) action" where
  "act_then m f s = (case m s of
       (Ok x, s') \<Rightarrow> f x s'
     | (Err e, s') \<Rightarrow> (Err e, s')
     | (Panic, s') \<Rightarrow> (Panic, s'))"

section \<open>Streams\<close>

record 'r async_read =
  read_exact :: "'r \<Rightarrow> nat \<Rightarrow> (bytes, io_error) outcome \<times> 'r"

record 'w async_write =
  write_all :: "'w \<Rightarrow> bytes \<Rightarrow> (unit, io_error) outcome \<times> 'w"
  flush :: "'w \<Rightarrow> (unit, io_error) outcome \<times> 'w"

text \<open>The documented contract of \<open>read_exact\<close>: it fills the whole buffer or fails.\<close>

definition read_exact_correct :: "'r async_read \<Rightarrow> bool" where
  "read_exact_correct R \<longleftrightarrow>
     (\<forall>r n. (case fst (read_exact R r n) of Ok bs \<Rightarrow> length bs = n | Err e \<Rightarrow> True | Panic \<Rightarrow> False))"

section \<open>The codec\<close>

record SessionCipher =
  outbound_key :: key32
  inbound_key :: key32

record PacketCodec =
  last_recv_seq :: "u64 option"
  next_send_seq :: u64
  session :: "SessionCipher option"

definition codec_new :: PacketCodec where
  "codec_new = \<lparr>last_recv_seq = None, next_send_seq = 1, session = None\<rparr>"

text \<open>\<open>impl Default\<close>\<close>

definition codec_default :: PacketCodec where
  "codec_default = codec_new"

definition establish_session :: "PacketCodec \<Rightarrow> key32 \<Rightarrow> key32 \<Rightarrow> PacketCodec" where
  "establish_session codec outbound inbound =
     codec\<lparr>session := Some \<lparr>outbound_key = outbound, inbound_key = inbound\<rparr>\<rparr>"

definition validate_sequence :: "PacketCodec \<Rightarrow> u64 \<Rightarrow> unit presult \<times> PacketCodec" where
  "validate_sequence codec seq =
     (case last_recv_seq codec of
        Some prev \<Rightarrow>
          if seq \<le> prev then (Err (SequenceViolation seq prev), codec)
          else (Ok (), codec\<lparr>last_recv_seq := Some seq\<rparr>)
      | None \<Rightarrow> (Ok (), codec\<lparr>last_recv_seq := Some seq\<rparr>))"

definition seq_nonce :: "u64 \<Rightarrow> gcm_nonce" where
  "seq_nonce seq =
     (let nonce = replicate 12 0;
          nonce = take 4 nonce @ u64_to_be_bytes seq in
      mk_array nonce)"

definition header_aad :: "u8 \<Rightarrow> u8 \<Rightarrow> bytes" where
  "header_aad ptype fl = [ptype, fl]"

text \<open>The calls on the stream, with \<open>?\<close> turning an I/O error into \<open>ProtocolError::Io\<close>.\<close>

definition reading :: "'r async_read \<Rightarrow> nat \<Rightarrow> (PacketCodec \<times> 'r, bytes) action" where
  "reading R n = (\<lambda>(codec, r). let (res, r') = read_exact R r n in (map_err Io res, (codec, r')))"

definition writing :: "'w async_write \<Rightarrow> bytes \<Rightarrow> (PacketCodec \<times> 'w, unit) action" where
  "writing W bs = (\<lambda>(codec, w). let (res, w') = write_all W w bs in (map_err Io res, (codec, w')))"

definition flushing :: "'w async_write \<Rightarrow> (PacketCodec \<times> 'w, unit) action" where
  "flushing W = (\<lambda>(codec, w). let (res, w') = flush W w in (map_err Io res, (codec, w')))"

definition sequencing :: "u64 \<Rightarrow> (PacketCodec \<times> 'r, unit) action" where
  "sequencing seq = (\<lambda>(codec, r).
     let (res, codec') = validate_sequence codec seq in (res, (codec', r)))"

text \<open>\<open>self.session\<close>\<close>

definition get_session :: "(PacketCodec \<times> 'r, SessionCipher option) action" where
  "get_session = (\<lambda>(codec, r). (Ok (session codec), (codec, r)))"

section \<open>Reading\<close>

definition max_for_type :: "PacketHeader \<Rightarrow> PacketType \<Rightarrow> u32" where
  "max_for_type header ptype =
     (if is_encrypted header
      then saturating_add_u32 (max_payload_size ptype) (of_nat GCM_TAG_LEN)
      else max_payload_size ptype)"

text \<open>The decryption at the end of \<open>read_packet\<close>.\<close>

definition open_payload ::
    "'k aead \<Rightarrow> SessionCipher option \<Rightarrow> PacketHeader \<Rightarrow> bytes \<Rightarrow> RawPacket presult" where
  "open_payload A sess header payload =
     (if is_encrypted header then
        and_then (ok_or CryptoError sess) (\<lambda>cipher.
        let nonce = seq_nonce (sequence header) in
        and_then (ok_or CryptoError (aead_unbound_key A (inbound_key cipher))) (\<lambda>key.
        and_then (ok_or CryptoError
          (aead_open A key nonce (header_aad (packet_type header) (flags header)) payload))
          (\<lambda>plaintext.
        Ok (raw_packet_new (header\<lparr>payload_len := of_nat (length plaintext)\<rparr>) plaintext))))
      else Ok (raw_packet_new header payload))"

text \<open>\<open>read_packet\<close> from the parsed header on, and the whole function.\<close>

definition read_after_header ::
    "'k aead \<Rightarrow> 'r async_read \<Rightarrow> PacketHeader \<Rightarrow> (PacketCodec \<times> 'r, RawPacket) action" where
  "read_after_header A R header =
     act_then (act (validate header)) (\<lambda>_.
     act_then get_session (\<lambda>sess.
     act_then (act (ensure (\<not> (sess \<noteq> None \<and> \<not> is_encrypted header)) EncryptionRequired)) (\<lambda>_.
     act_then (act (from_u8 (packet_type header))) (\<lambda>ptype.
     act_then (act (ensure (\<not> payload_len header > max_for_type header ptype)
       (PayloadTooLarge (payload_len header) (max_for_type header ptype)))) (\<lambda>_.
     act_then (sequencing (sequence header)) (\<lambda>_.
     act_then (if payload_len header > 0 then reading R (unat (payload_len header))
       else act (Ok [])) (\<lambda>payload.
     act (open_payload A sess header payload))))))))"

definition read_packet ::
    "'k aead \<Rightarrow> 'r async_read \<Rightarrow> (PacketCodec \<times> 'r, RawPacket) action" where
  "read_packet A R =
     act_then (reading R CHATIX_HEADER_SIZE) (\<lambda>bs.
     act_then (act (copy_from_slice bs)) (\<lambda>header_bytes.
     read_after_header A R (from_bytes header_bytes)))"

section \<open>Writing\<close>

text \<open>
  \<open>self.next_send_seq = self.next_send_seq.checked_add(1).ok_or(..)?\<close>, yielding the number taken.
\<close>

definition take_seq :: "(PacketCodec \<times> 'w, u64) action" where
  "take_seq = (\<lambda>(codec, w).
     let seq = next_send_seq codec in
     case checked_add_u64 seq 1 of
       Some n \<Rightarrow> (Ok seq, (codec\<lparr>next_send_seq := n\<rparr>, w))
     | None \<Rightarrow> (Err CryptoError, (codec, w)))"

text \<open>The sealing in \<open>write_packet\<close>: the flags and the payload that go on the wire.\<close>

definition seal_payload ::
    "'k aead \<Rightarrow> SessionCipher option \<Rightarrow> PacketType \<Rightarrow> u8 \<Rightarrow> u64 \<Rightarrow> bytes \<Rightarrow> (u8 \<times> bytes) presult" where
  "seal_payload A sess ptype fl seq payload =
     (case sess of
        Some cipher \<Rightarrow>
          let fl = fl OR ENCRYPTED;
              nonce = seq_nonce seq in
          and_then (ok_or CryptoError (aead_unbound_key A (outbound_key cipher))) (\<lambda>key.
          and_then (ok_or CryptoError
            (aead_seal A key nonce (header_aad (as_u8 ptype) fl) payload)) (\<lambda>sealed.
          Ok (fl, sealed)))
      | None \<Rightarrow> Ok (fl, payload))"

definition write_packet ::
    "'k aead \<Rightarrow> 'w async_write \<Rightarrow> PacketType \<Rightarrow> u8 \<Rightarrow> bytes \<Rightarrow> (PacketCodec \<times> 'w, unit) action" where
  "write_packet A W ptype fl payload =
     act_then take_seq (\<lambda>seq.
     act_then get_session (\<lambda>sess.
     act_then (act (seal_payload A sess ptype fl seq payload)) (\<lambda>(fl, payload).
     let header = header_new (as_u8 ptype) fl (of_nat (length payload)) seq in
     act_then (writing W (as_slice (to_bytes header))) (\<lambda>_.
     act_then (writing W payload) (\<lambda>_.
     flushing W)))))"

section \<open>In-memory streams\<close>

text \<open>
  A \<open>Cursor\<close> over the bytes still to be read, and a \<open>Vec\<close> that collects what is written, as the
  crate's own tests use them.
\<close>

definition cursor :: "bytes async_read" where
  "cursor = \<lparr>read_exact = (\<lambda>input n.
     if n \<le> length input then (Ok (take n input), drop n input)
     else (Err (IoError UnexpectedEof ''early eof''), []))\<rparr>"

definition vec :: "bytes async_write" where
  "vec = \<lparr>write_all = (\<lambda>out bs. (Ok (), out @ bs)), flush = (\<lambda>out. (Ok (), out))\<rparr>"

lemma cursor_correct: "read_exact_correct cursor"
  by (simp add: read_exact_correct_def cursor_def)

section \<open>Inversion\<close>

lemma act_then_act [simp]: "act_then (act m) f s = (case m of Ok x \<Rightarrow> f x s | Err e \<Rightarrow> (Err e, s) | Panic \<Rightarrow> (Panic, s))"
  by (cases m) (simp_all add: act_then_def act_def)

lemma act_then_get_session [simp]: "act_then get_session f s = f (session (fst s)) s"
  by (cases s) (simp add: act_then_def get_session_def)

lemma act_then_eq_Ok:
  "act_then m f s = (Ok y, s'') \<longleftrightarrow> (\<exists>x s'. m s = (Ok x, s') \<and> f x s' = (Ok y, s''))"
  by (auto simp: act_then_def split: prod.splits outcome.splits)

lemma reading_eq_Ok:
  "reading R n (codec, r) = (Ok bs, s') \<longleftrightarrow> (\<exists>r'. read_exact R r n = (Ok bs, r') \<and> s' = (codec, r'))"
  by (auto simp: reading_def map_err_eq_Ok split: prod.splits)

lemma writing_eq_Ok:
  "writing W bs (codec, w) = (Ok u, s') \<longleftrightarrow> (\<exists>w'. write_all W w bs = (Ok (), w') \<and> s' = (codec, w'))"
  by (auto simp: writing_def map_err_eq_Ok split: prod.splits)

lemma flushing_eq_Ok:
  "flushing W (codec, w) = (Ok u, s') \<longleftrightarrow> (\<exists>w'. flush W w = (Ok (), w') \<and> s' = (codec, w'))"
  by (auto simp: flushing_def map_err_eq_Ok split: prod.splits)

definition fresh_seq :: "PacketCodec \<Rightarrow> u64 \<Rightarrow> bool" where
  "fresh_seq codec seq \<longleftrightarrow> (case last_recv_seq codec of None \<Rightarrow> True | Some prev \<Rightarrow> prev < seq)"

lemma validate_sequence_cases:
  "validate_sequence codec seq =
     (if fresh_seq codec seq then (Ok (), codec\<lparr>last_recv_seq := Some seq\<rparr>)
      else (Err (SequenceViolation seq (the (last_recv_seq codec))), codec))"
  by (auto simp: validate_sequence_def fresh_seq_def split: option.splits)

lemma sequencing_cases:
  "sequencing seq (codec, r) =
     (if fresh_seq codec seq then (Ok (), (codec\<lparr>last_recv_seq := Some seq\<rparr>, r))
      else (Err (SequenceViolation seq (the (last_recv_seq codec))), (codec, r)))"
  by (simp add: sequencing_def validate_sequence_cases)

lemma take_seq_eq_Ok:
  "take_seq (codec, w) = (Ok seq, s') \<longleftrightarrow>
     seq = next_send_seq codec
   \<and> (\<exists>n. checked_add_u64 seq 1 = Some n \<and> s' = (codec\<lparr>next_send_seq := n\<rparr>, w))"
  by (auto simp: take_seq_def Let_def split: option.splits)

lemma seq_nonce_inject [simp]: "seq_nonce a = seq_nonce b \<longleftrightarrow> a = b"
  by (simp add: seq_nonce_def mk_array_inject)

lemma header_aad_inject [simp]: "header_aad t f = header_aad t' f' \<longleftrightarrow> t = t' \<and> f = f'"
  by (simp add: header_aad_def)

lemma open_payload_not_Panic [simp]: "open_payload A sess h p \<noteq> Panic"
  by (simp add: open_payload_def Let_def and_then_eq_Panic)

lemma seal_payload_not_Panic [simp]: "seal_payload A sess t f seq p \<noteq> Panic"
  by (simp add: seal_payload_def Let_def and_then_eq_Panic split: option.splits)

section \<open>What a call to read_packet does\<close>

text \<open>
  The call in two parts: the checks on the header, which touch nothing, and the rest, which starts by
  recording the sequence number.
\<close>

definition check_header :: "SessionCipher option \<Rightarrow> PacketHeader \<Rightarrow> unit presult" where
  "check_header sess header =
     and_then (validate header) (\<lambda>_.
     and_then (ensure (\<not> (sess \<noteq> None \<and> \<not> is_encrypted header)) EncryptionRequired) (\<lambda>_.
     and_then (from_u8 (packet_type header)) (\<lambda>ptype.
     ensure (\<not> payload_len header > max_for_type header ptype)
       (PayloadTooLarge (payload_len header) (max_for_type header ptype)))))"

definition receive_body ::
    "'k aead \<Rightarrow> 'r async_read \<Rightarrow> PacketHeader \<Rightarrow> (PacketCodec \<times> 'r, RawPacket) action" where
  "receive_body A R header = (\<lambda>(codec, r).
     if fresh_seq codec (sequence header) then
       (let codec' = codec\<lparr>last_recv_seq := Some (sequence header)\<rparr> in
        if payload_len header = 0 then (open_payload A (session codec) header [], (codec', r))
        else (let (res, r') = read_exact R r (unat (payload_len header)) in
          (and_then (map_err Io res) (open_payload A (session codec) header), (codec', r'))))
     else (Err (SequenceViolation (sequence header) (the (last_recv_seq codec))), (codec, r)))"

lemma validate_not_Panic [simp]: "validate h \<noteq> Panic"
  by (simp add: validate_def)

lemma check_header_not_Panic [simp]: "check_header sess h \<noteq> Panic"
  by (simp add: check_header_def and_then_eq_Panic from_u8_not_Panic)

lemma check_header_eq_Ok:
  "check_header sess h = Ok () \<longleftrightarrow> validate h = Ok () \<and> (sess \<noteq> None \<longrightarrow> is_encrypted h)
     \<and> (\<exists>t. from_u8 (packet_type h) = Ok t \<and> payload_len h \<le> max_for_type h t)"
  by (auto simp: check_header_def inversions not_less)

lemma receive_tail:
  "act_then (sequencing (sequence h)) (\<lambda>_.
     act_then (if payload_len h > 0 then reading R (unat (payload_len h)) else act (Ok [])) (\<lambda>payload.
     act (open_payload A (session codec) h payload))) (codec, r)
   = receive_body A R h (codec, r)"
  by (auto simp: receive_body_def act_then_def sequencing_cases act_def reading_def split_beta
      word_gt_0 Let_def split: outcome.splits)

lemma read_after_header_unfold:
  "read_after_header A R h (codec, r) =
     (case check_header (session codec) h of
        Ok _ \<Rightarrow> receive_body A R h (codec, r)
      | Err e \<Rightarrow> (Err e, (codec, r))
      | Panic \<Rightarrow> (Panic, (codec, r)))"
  by (cases "validate h"; cases "from_u8 (packet_type h)")
    (auto simp: read_after_header_def check_header_def receive_tail split: outcome.splits
      split del: if_split)

lemma read_packet_unfold:
  "read_packet A R (codec, r) =
     (case read_exact R r 24 of
        (Ok bs, r') \<Rightarrow>
          (case copy_from_slice bs of
             Ok hb \<Rightarrow> read_after_header A R (from_bytes hb) (codec, r')
           | Err e \<Rightarrow> (Err e, (codec, r'))
           | Panic \<Rightarrow> (Panic, (codec, r')))
      | (Err e, r') \<Rightarrow> (Err (Io e), (codec, r'))
      | (Panic, r') \<Rightarrow> (Panic, (codec, r')))"
  by (cases "fst (read_exact R r 24)")
    (auto simp: read_packet_def act_then_def act_def reading_def split: prod.splits outcome.splits)

lemma read_packet_OkE:
  assumes "read_packet A R (codec, r) = (Ok pkt, (codec', r'))"
  obtains h payload where "check_header (session codec) h = Ok ()"
    "fresh_seq codec (sequence h)" "codec' = codec\<lparr>last_recv_seq := Some (sequence h)\<rparr>"
    "open_payload A (session codec) h payload = Ok pkt"
    "read_exact_correct R \<Longrightarrow> length payload = unat (payload_len h)"
proof -
  from assms obtain hb r1 where body: "receive_body A R (from_bytes hb) (codec, r1) = (Ok pkt, (codec', r'))"
    and chk: "check_header (session codec) (from_bytes hb) = Ok ()"
    by (auto simp: read_packet_unfold read_after_header_unfold split: prod.splits outcome.splits)
  let ?h = "from_bytes hb"
  from body obtain payload where pay: "fresh_seq codec (sequence ?h)"
      "codec' = codec\<lparr>last_recv_seq := Some (sequence ?h)\<rparr>"
      "open_payload A (session codec) ?h payload = Ok pkt"
    and read: "payload_len ?h = 0 \<and> payload = [] \<or>
      (\<exists>r2. read_exact R r1 (unat (payload_len ?h)) = (Ok payload, r2))"
    by (auto simp: receive_body_def Let_def inversions split: if_splits prod.splits)
  have len: "length payload = unat (payload_len ?h)" if "read_exact_correct R"
    using read that [unfolded read_exact_correct_def, rule_format, of "unat (payload_len ?h)" r1]
    by auto
  show thesis by (rule that [OF chk pay]) (rule len)
qed

text \<open>
  Whatever the outcome, a call keeps the session and the send counter, and the receive counter
  either stays or moves up to a fresh sequence number.
\<close>

definition recv_step :: "PacketCodec \<Rightarrow> PacketCodec \<Rightarrow> bool" where
  "recv_step codec codec' \<longleftrightarrow> codec' = codec
     \<or> (\<exists>seq. fresh_seq codec seq \<and> codec' = codec\<lparr>last_recv_seq := Some seq\<rparr>)"

lemma read_packet_state:
  "read_packet A R (codec, r) = (res, (codec', r')) \<Longrightarrow> recv_step codec codec'"
  by (auto simp: read_packet_unfold read_after_header_unfold receive_body_def Let_def recv_step_def
      split: prod.splits outcome.splits if_splits)

lemma read_packet_not_Panic:
  assumes "read_exact_correct R"
  shows "fst (read_packet A R (codec, r)) \<noteq> Panic"
proof -
  have ok: "case fst (read_exact R s n) of Ok bs \<Rightarrow> length bs = n | Err e \<Rightarrow> True | Panic \<Rightarrow> False" for s n
    using assms by (simp add: read_exact_correct_def)
  have body: "fst (receive_body A R h (codec, s)) \<noteq> Panic" for h s
    using ok [of "unat (payload_len h)" s]
    by (auto simp: receive_body_def Let_def and_then_eq_Panic split: prod.splits)
  show ?thesis
    using ok [of 24 r] body
    by (auto simp: read_packet_unfold read_after_header_unfold copy_from_slice_def
        split: prod.splits outcome.splits)
qed

section \<open>Guarantees of a single call\<close>

lemma read_frame:
  assumes "check_header (session codec) h = Ok ()" "fresh_seq codec (sequence h)"
    and "length payload = unat (payload_len h)"
  shows "read_packet A cursor (codec, as_slice (to_bytes h) @ payload @ rest) =
    (open_payload A (session codec) h payload,
      (codec\<lparr>last_recv_seq := Some (sequence h)\<rparr>, rest))"
  using assms from_to_bytes [of h]
  by (auto simp: read_packet_unfold cursor_def read_after_header_unfold receive_body_def Let_def)

text \<open>A plaintext ping, for the examples.\<close>

definition ping_header :: PacketHeader where
  "ping_header = header_new 20 0 8 1"

lemma ping_header_valid: "validate ping_header = Ok ()" "\<not> is_encrypted ping_header"
  by (simp_all add: ping_header_def header_new_def validate_def MAX_PAYLOAD_LEN_def is_encrypted_def
      ENCRYPTED_def)

lemma ping_header_checks: "check_header None ping_header = Ok ()"
  using ping_header_valid
  by (simp add: check_header_eq_Ok) (simp add: ping_header_def header_new_def from_u8_def max_for_type_def
      is_encrypted_def ENCRYPTED_def)

lemma read_ping:
  "read_packet demo_aead cursor (codec_new, as_slice (to_bytes ping_header) @ replicate 8 7)
     = (Ok \<lparr>raw_header = ping_header, raw_payload = replicate 8 7\<rparr>,
        (codec_new\<lparr>last_recv_seq := Some 1\<rparr>, []))"
  using read_frame [of codec_new ping_header "replicate 8 7" demo_aead "[]"]
    ping_header_checks ping_header_valid
  by (simp add: codec_new_def fresh_seq_def open_payload_def raw_packet_new_def)
    (simp add: ping_header_def header_new_def)

lemma open_payload_eq_Ok:
  "open_payload A sess h payload = Ok pkt \<longleftrightarrow>
     (if is_encrypted h then
        (\<exists>cipher k pt. sess = Some cipher \<and> aead_unbound_key A (inbound_key cipher) = Some k
          \<and> aead_open A k (seq_nonce (sequence h)) (header_aad (packet_type h) (flags h)) payload = Some pt
          \<and> pkt = \<lparr>raw_header = h\<lparr>payload_len := of_nat (length pt)\<rparr>, raw_payload = pt\<rparr>)
      else pkt = \<lparr>raw_header = h, raw_payload = payload\<rparr>)"
  by (auto simp: open_payload_def Let_def inversions raw_packet_new_def)

lemma open_payload_header:
  assumes "open_payload A sess h payload = Ok pkt"
  shows "packet_type (raw_header pkt) = packet_type h" "flags (raw_header pkt) = flags h"
    "sequence (raw_header pkt) = sequence h" "is_encrypted (raw_header pkt) = is_encrypted h"
  using assms by (auto simp: open_payload_eq_Ok is_encrypted_def split: if_splits)

lemma unat_max_for_type:
  "unat (max_for_type h t) = unat (max_payload_size t) + (if is_encrypted h then GCM_TAG_LEN else 0)"
  using max_payload_size_within_global [of t]
  by (simp add: max_for_type_def unat_saturating_add_u32 size_defs)

text \<open>
  C20: what a caller may rely on.  A packet that \<open>read_packet\<close> returns has a known type, its payload
  (decrypted, when it was encrypted) is within the ceiling of that type, its header states the
  payload's length, and if a session is established it was encrypted.
\<close>

theorem read_packet_bounds:
  assumes "aead_correct A" "read_exact_correct R"
    and "read_packet A R (codec, r) = (Ok pkt, (codec', r'))"
  shows "\<exists>t. from_u8 (packet_type (raw_header pkt)) = Ok t
    \<and> length (raw_payload pkt) \<le> unat (max_payload_size t)
    \<and> unat (payload_len (raw_header pkt)) = length (raw_payload pkt)
    \<and> (is_encrypted (raw_header pkt) \<or> session codec = None)"
proof -
  obtain h payload where chk: "check_header (session codec) h = Ok ()"
    and opn: "open_payload A (session codec) h payload = Ok pkt"
    and len: "length payload = unat (payload_len h)"
    using read_packet_OkE [OF assms(3)] assms(2) by metis
  from chk obtain t where t: "from_u8 (packet_type h) = Ok t" and le: "payload_len h \<le> max_for_type h t"
    and enc: "session codec \<noteq> None \<longrightarrow> is_encrypted h"
    by (auto simp: check_header_eq_Ok)
  have le': "length payload \<le> unat (max_payload_size t) + (if is_encrypted h then GCM_TAG_LEN else 0)"
    using le by (simp add: len word_le_nat_alt flip: unat_max_for_type)
  have "length (raw_payload pkt) \<le> unat (max_payload_size t)
      \<and> unat (payload_len (raw_header pkt)) = length (raw_payload pkt)"
  proof (cases "is_encrypted h")
    case True
    then obtain pt where "pkt = \<lparr>raw_header = h\<lparr>payload_len := of_nat (length pt)\<rparr>, raw_payload = pt\<rparr>"
      "length payload = length pt + GCM_TAG_LEN"
      using opn aead_open_length [OF assms(1)] by (auto simp: open_payload_eq_Ok)
    with le' True show ?thesis
      using max_payload_size_within_global [of t] by (simp add: unat_of_nat size_defs)
  next
    case False
    with opn le' len show ?thesis by (simp add: open_payload_eq_Ok)
  qed
  then show ?thesis
    using t enc open_payload_header [OF opn] by auto
qed

theorem read_packet_bounds_witness:
  "\<exists>t. from_u8 (packet_type ping_header) = Ok t \<and> length (replicate 8 (7 :: u8)) \<le> unat (max_payload_size t)"
  using read_packet_bounds [OF demo_aead_correct cursor_correct read_ping] by auto

text \<open>
  No plaintext after the handshake.  Once a session is established, a well-formed frame without
  the encryption flag is refused with \<open>EncryptionRequired\<close> whatever its type and sequence number, and
  it leaves the codec as it was.
\<close>

theorem plaintext_refused_in_session:
  assumes "session codec \<noteq> None" "validate h = Ok ()" "\<not> is_encrypted h"
  shows "read_packet A cursor (codec, as_slice (to_bytes h) @ rest)
    = (Err EncryptionRequired, (codec, rest))"
  using assms from_to_bytes [of h]
  by (simp add: read_packet_unfold cursor_def read_after_header_unfold check_header_def)

theorem plaintext_refused_in_session_witness:
  "read_packet demo_aead cursor
     (establish_session codec_new (const_array 1) (const_array 2), as_slice (to_bytes ping_header) @ [5])
    = (Err EncryptionRequired, (establish_session codec_new (const_array 1) (const_array 2), [5]))"
  by (rule plaintext_refused_in_session)
    (simp_all add: establish_session_def ping_header_valid)

text \<open>
  C21: rejected headers leave no trace.  Every error other than a failed read or a failed decryption
  leaves the codec unchanged; and no input makes the call panic.
\<close>

theorem read_packet_rejection_keeps_state:
  assumes "read_exact_correct R" "read_packet A R (codec, r) = (res, (codec', r'))"
  shows "(case res of Ok pkt \<Rightarrow> True
     | Err e \<Rightarrow> e = CryptoError \<or> (\<exists>io. e = Io io) \<or> codec' = codec
     | Panic \<Rightarrow> False)"
proof -
  have opn: "e = CryptoError" if "open_payload A sess h p = Err e" for sess h p e
    using that by (auto simp: open_payload_def Let_def and_then_eq_Err dest: ok_or_error split: if_splits)
  have body: "e = CryptoError \<or> (\<exists>io. e = Io io) \<or> codec' = codec"
    if "receive_body A R h (codec, s) = (Err e, (codec', r'))" for h s e
    using that by (auto simp: receive_body_def Let_def and_then_eq_Err map_err_eq_Err dest: opn
        split: if_splits prod.splits)
  show ?thesis
    using assms(2) read_packet_not_Panic [OF assms(1), of A codec r] body
    by (auto simp: read_packet_unfold read_after_header_unfold split: outcome.splits prod.splits)
qed

lemma read_reserved_header:
  "fst (read_packet demo_aead cursor (codec_new, as_slice (to_bytes (ping_header\<lparr>reserved := 1\<rparr>))))
     = Err ReservedFieldNonZero"
  using from_to_bytes [of "ping_header\<lparr>reserved := 1\<rparr>"] ping_header_valid(1)
  by (simp add: read_packet_unfold cursor_def read_after_header_unfold check_header_def)
    (simp add: validate_def split: if_splits)

theorem read_packet_rejection_keeps_state_witness:
  "\<exists>r'. read_packet demo_aead cursor (codec_new, as_slice (to_bytes (ping_header\<lparr>reserved := 1\<rparr>)))
     = (Err ReservedFieldNonZero, (codec_new, r'))"
proof -
  obtain res codec' r' where run: "read_packet demo_aead cursor
      (codec_new, as_slice (to_bytes (ping_header\<lparr>reserved := 1\<rparr>))) = (res, (codec', r'))"
    by (metis prod.exhaust)
  moreover from this have "res = Err ReservedFieldNonZero"
    using read_reserved_header by simp
  ultimately show ?thesis
    using read_packet_rejection_keeps_state [OF cursor_correct run] by simp
qed

end
