(* ===== verification/Channel.thy ===== *)
theory Channel
  imports Codec "HOL-Library.Sublist"
begin

text \<open>
  Two codecs at the ends of a connection.  First, what one end writes the other reads, packet by
  packet and for whole streams.  Then runs of the receiver on input an adversary chooses, and runs
  of the sender, with the order and the origin of what the receiver accepts.
\<close>

section \<open>Writing and reading one packet\<close>

lemma write_to_vec:
  assumes "checked_add_u64 (next_send_seq codec) 1 = Some n"
    and "seal_payload A (session codec) t f (next_send_seq codec) p = Ok (fl, body)"
  shows "write_packet A vec t f p (codec, out) =
    (Ok (), (codec\<lparr>next_send_seq := n\<rparr>, out
       @ as_slice (to_bytes (header_new (as_u8 t) fl (of_nat (length body)) (next_send_seq codec)))
       @ body))"
  using assms
  by (simp add: write_packet_def act_then_def take_seq_def Let_def get_session_def act_def
      writing_def flushing_def vec_def)

text \<open>
  Two codecs are linked when the receiver has seen nothing at or above the sender's next number and
  the two agree on the key of this direction, or neither has a session.
\<close>

definition linked :: "PacketCodec \<Rightarrow> PacketCodec \<Rightarrow> bool" where
  "linked tx rx \<longleftrightarrow> fresh_seq rx (next_send_seq tx)
     \<and> (case (session tx, session rx) of
          (None, None) \<Rightarrow> True
        | (Some a, Some b) \<Rightarrow> outbound_key a = inbound_key b
        | _ \<Rightarrow> False)"

text \<open>The flags byte that ends up on the wire.\<close>

definition wire_flags :: "PacketCodec \<Rightarrow> u8 \<Rightarrow> u8" where
  "wire_flags tx f = (if session tx = None then f else f OR ENCRYPTED)"

text \<open>What a caller must respect: the ceiling of the type, and no encryption flag of its own.\<close>

definition sendable :: "PacketCodec \<Rightarrow> PacketType \<Rightarrow> u8 \<Rightarrow> bytes \<Rightarrow> bool" where
  "sendable tx t f p \<longleftrightarrow> length p \<le> unat (max_payload_size t)
     \<and> (if session tx = None then f AND ENCRYPTED = 0 else True)"

lemma or_encrypted: "((f :: u8) OR ENCRYPTED) AND ENCRYPTED \<noteq> 0"
proof
  assume "(f OR ENCRYPTED) AND ENCRYPTED = 0"
  then have "bit ((f OR ENCRYPTED) AND ENCRYPTED) 0 = bit (0 :: u8) 0" by simp
  then show False by (simp add: bit_simps ENCRYPTED_def)
qed

lemma header_new_simps [simp]:
  "packet_type (header_new t f n s) = t" "flags (header_new t f n s) = f"
  "payload_len (header_new t f n s) = n" "sequence (header_new t f n s) = s"
  by (simp_all add: header_new_def)

lemma is_encrypted_header_new: "is_encrypted (header_new t f n s) \<longleftrightarrow> f AND ENCRYPTED \<noteq> 0"
  by (simp add: is_encrypted_def)

lemma validate_header_new:
  "validate (header_new t f n s) = Ok () \<longleftrightarrow> n \<le> MAX_PAYLOAD_LEN"
  by (auto simp: validate_def header_new_def not_less)

lemma check_header_new:
  assumes "len \<le> unat (max_payload_size t) + (if f AND ENCRYPTED \<noteq> 0 then GCM_TAG_LEN else 0)"
    and "sess = None \<or> f AND ENCRYPTED \<noteq> 0"
  shows "check_header sess (header_new (as_u8 t) f (of_nat len) s) = Ok ()
    \<and> unat (of_nat len :: u32) = len"
proof -
  let ?h = "header_new (as_u8 t) f (of_nat len) s"
  have bound: "len \<le> 1024 * 1024"
    using assms(1) max_payload_size_within_global [of t] by (simp split: if_splits)
  then have len: "unat (of_nat len :: u32) = len"
    by (simp add: unat_of_nat)
  have "(of_nat len :: u32) \<le> max_for_type ?h t"
    using assms(1) by (simp add: word_le_nat_alt len unat_max_for_type is_encrypted_header_new)
  moreover have "(of_nat len :: u32) \<le> MAX_PAYLOAD_LEN"
    using bound by (simp add: word_le_nat_alt len MAX_PAYLOAD_LEN_def)
  ultimately show ?thesis
    using assms(2) len
    by (auto simp: check_header_eq_Ok validate_header_new from_u8_as_u8 is_encrypted_header_new)
qed

lemma seal_then_open:
  assumes "aead_correct A" "aead_seals_upto (1024 * 1024) A" "linked tx rx" "sendable tx t f p"
  obtains body where
    "seal_payload A (session tx) t f seq p = Ok (wire_flags tx f, body)"
    "check_header (session rx) (header_new (as_u8 t) (wire_flags tx f) (of_nat (length body)) seq) = Ok ()"
    "unat (of_nat (length body) :: u32) = length body"
    "open_payload A (session rx) (header_new (as_u8 t) (wire_flags tx f) (of_nat (length body)) seq) body
      = Ok \<lparr>raw_header = header_new (as_u8 t) (wire_flags tx f) (of_nat (length p)) seq, raw_payload = p\<rparr>"
proof (cases "session tx")
  case None
  with assms(3) have rx: "session rx = None"
    by (auto simp: linked_def split: option.splits)
  have plain: "wire_flags tx f = f" "f AND ENCRYPTED = 0" "length p \<le> unat (max_payload_size t)"
    using None assms(4) by (simp_all add: wire_flags_def sendable_def)
  show thesis
  proof (rule that [of p])
    show "seal_payload A (session tx) t f seq p = Ok (wire_flags tx f, p)"
      using None plain by (simp add: seal_payload_def)
    show "open_payload A (session rx) (header_new (as_u8 t) (wire_flags tx f) (of_nat (length p)) seq) p
      = Ok \<lparr>raw_header = header_new (as_u8 t) (wire_flags tx f) (of_nat (length p)) seq, raw_payload = p\<rparr>"
      using plain by (simp add: open_payload_eq_Ok is_encrypted_header_new)
  qed (use check_header_new [of "length p" t f "session rx" seq] plain rx in simp_all)
next
  case (Some a)
  with assms(3) obtain b where rx: "session rx = Some b" "outbound_key a = inbound_key b"
    by (auto simp: linked_def split: option.splits)
  let ?f = "f OR ENCRYPTED"
  have fl: "wire_flags tx f = ?f" "?f AND ENCRYPTED \<noteq> 0"
    using Some by (simp add: wire_flags_def) (rule or_encrypted)
  have small: "length p \<le> unat (max_payload_size t)"
    using assms(4) by (simp add: sendable_def)
  then have "length p \<le> 1024 * 1024"
    using max_payload_size_within_global [of t] by simp
  then obtain k ct where k: "aead_unbound_key A (outbound_key a) = Some k"
    and ct: "aead_seal A k (seq_nonce seq) (header_aad (as_u8 t) ?f) p = Some ct"
    using aead_key_total [OF assms(1)] assms(2) by (fastforce simp: aead_seals_upto_def)
  have len: "length ct = length p + GCM_TAG_LEN"
    by (rule aead_seal_length [OF assms(1) ct])
  show thesis
  proof (rule that [of ct])
    show "seal_payload A (session tx) t f seq p = Ok (wire_flags tx f, ct)"
      using Some k ct fl by (simp add: seal_payload_def)
    show "open_payload A (session rx) (header_new (as_u8 t) (wire_flags tx f) (of_nat (length ct)) seq) ct
      = Ok \<lparr>raw_header = header_new (as_u8 t) (wire_flags tx f) (of_nat (length p)) seq, raw_payload = p\<rparr>"
      using aead_open_seal [OF assms(1) ct] k rx fl
      by (simp add: open_payload_eq_Ok is_encrypted_header_new) (simp add: header_new_def)
  qed (use check_header_new [of "length ct" t ?f "session rx" seq] small len fl rx in simp_all)
qed

lemma unat_next: "checked_add_u64 s 1 = Some n \<longleftrightarrow> unat n = Suc (unat s)"
  by (simp add: checked_add_u64_Some)

lemma next_exists: "unat (s :: u64) < 2 ^ 64 - 1 \<Longrightarrow> \<exists>n. checked_add_u64 s 1 = Some n"
  by (simp add: checked_add_u64_def)

lemma linked_advance:
  assumes "linked tx rx" "checked_add_u64 (next_send_seq tx) 1 = Some n"
  shows "linked (tx\<lparr>next_send_seq := n\<rparr>) (rx\<lparr>last_recv_seq := Some (next_send_seq tx)\<rparr>)"
  using assms by (simp add: linked_def fresh_seq_def unat_next word_less_nat_alt)

text \<open>The packet a receiver gets for what was sent.\<close>

definition received :: "PacketCodec \<Rightarrow> PacketType \<Rightarrow> u8 \<Rightarrow> bytes \<Rightarrow> RawPacket" where
  "received tx t f p =
     \<lparr>raw_header = header_new (as_u8 t) (wire_flags tx f) (of_nat (length p)) (next_send_seq tx),
      raw_payload = p\<rparr>"

lemma packet_transfer:
  assumes "aead_correct A" "aead_seals_upto (1024 * 1024) A" "linked tx rx" "sendable tx t f p"
    and "checked_add_u64 (next_send_seq tx) 1 = Some n"
  shows "\<exists>frame. write_packet A vec t f p (tx, out) = (Ok (), (tx\<lparr>next_send_seq := n\<rparr>, out @ frame))
    \<and> read_packet A cursor (rx, frame @ rest) =
        (Ok (received tx t f p), (rx\<lparr>last_recv_seq := Some (next_send_seq tx)\<rparr>, rest))"
proof -
  let ?s = "next_send_seq tx"
  let ?h = "\<lambda>body. header_new (as_u8 t) (wire_flags tx f) (of_nat (length body)) ?s"
  obtain body where seal: "seal_payload A (session tx) t f ?s p = Ok (wire_flags tx f, body)"
    and chk: "check_header (session rx) (?h body) = Ok ()"
    and len: "unat (of_nat (length body) :: u32) = length body"
    and opn: "open_payload A (session rx) (?h body) body
      = Ok \<lparr>raw_header = header_new (as_u8 t) (wire_flags tx f) (of_nat (length p)) ?s, raw_payload = p\<rparr>"
    by (rule seal_then_open [OF assms(1-4)])
  have "write_packet A vec t f p (tx, out) =
      (Ok (), (tx\<lparr>next_send_seq := n\<rparr>, out @ as_slice (to_bytes (?h body)) @ body))"
    by (rule write_to_vec [OF assms(5) seal])
  moreover have "read_packet A cursor (rx, as_slice (to_bytes (?h body)) @ body @ rest) =
      (Ok (received tx t f p), (rx\<lparr>last_recv_seq := Some ?s\<rparr>, rest))"
    using assms(3) len by (subst read_frame [OF chk]) (simp_all add: linked_def opn received_def)
  ultimately show ?thesis by auto
qed

section \<open>Streams of packets\<close>

type_synonym outgoing = "PacketType \<times> u8 \<times> bytes"

primrec write_packets ::
    "'k aead \<Rightarrow> 'w async_write \<Rightarrow> outgoing list \<Rightarrow> (PacketCodec \<times> 'w, unit) action" where
  "write_packets A W [] = act (Ok ())"
| "write_packets A W (q # qs) =
     (case q of (t, f, p) \<Rightarrow> act_then (write_packet A W t f p) (\<lambda>_. write_packets A W qs))"

primrec read_packets ::
    "'k aead \<Rightarrow> 'r async_read \<Rightarrow> nat \<Rightarrow> (PacketCodec \<times> 'r, RawPacket list) action" where
  "read_packets A R 0 = act (Ok [])"
| "read_packets A R (Suc n) =
     act_then (read_packet A R) (\<lambda>pkt.
     act_then (read_packets A R n) (\<lambda>pkts.
     act (Ok (pkt # pkts))))"

definition contents :: "RawPacket \<Rightarrow> u8 \<times> bytes" where
  "contents pkt = (packet_type (raw_header pkt), raw_payload pkt)"

definition sent_contents :: "outgoing \<Rightarrow> u8 \<times> bytes" where
  "sent_contents q = (case q of (t, f, p) \<Rightarrow> (as_u8 t, p))"

lemma contents_received: "contents (received tx t f p) = sent_contents (t, f, p)"
  by (simp add: contents_def received_def sent_contents_def)

lemma streams_transfer:
  assumes "aead_correct A" "aead_seals_upto (1024 * 1024) A" "linked tx rx"
    and "list_all (\<lambda>(t, f, p). sendable tx t f p) qs"
    and "unat (next_send_seq tx) + length qs < 2 ^ 64"
  shows "\<exists>tx' rx' wire pkts.
     write_packets A vec qs (tx, out) = (Ok (), (tx', out @ wire))
   \<and> read_packets A cursor (length qs) (rx, wire @ rest) = (Ok pkts, (rx', rest))
   \<and> map contents pkts = map sent_contents qs \<and> linked tx' rx'"
  using assms(3-5)
proof (induction qs arbitrary: tx rx out)
  case Nil
  then show ?case by (auto simp: act_def)
next
  case (Cons q qs)
  obtain t f p where q: "q = (t, f, p)" by (rule prod_cases3)
  obtain n where n: "checked_add_u64 (next_send_seq tx) 1 = Some n"
    using Cons.prems(3) next_exists [of "next_send_seq tx"] by auto
  let ?tx = "tx\<lparr>next_send_seq := n\<rparr>" and ?rx = "rx\<lparr>last_recv_seq := Some (next_send_seq tx)\<rparr>"
  have "sendable tx t f p" and rest_ok: "list_all (\<lambda>(t, f, p). sendable ?tx t f p) qs"
    using Cons.prems(2) by (auto simp: q sendable_def)
  then have transfer: "\<exists>frame. write_packet A vec t f p (tx, out) = (Ok (), (?tx, out @ frame))
      \<and> read_packet A cursor (rx, frame @ more) = (Ok (received tx t f p), (?rx, more))" for more
    using packet_transfer [OF assms(1,2) Cons.prems(1) _ n] by blast
  obtain frame where wr: "write_packet A vec t f p (tx, out) = (Ok (), (?tx, out @ frame))"
    using transfer by blast
  with transfer have rd: "read_packet A cursor (rx, frame @ more) = (Ok (received tx t f p), (?rx, more))"
    for more by (metis Pair_inject append_same_eq same_append_eq)
  have "unat (next_send_seq ?tx) + length qs < 2 ^ 64"
    using Cons.prems(3) n by (simp add: unat_next)
  from Cons.IH [OF linked_advance [OF Cons.prems(1) n] rest_ok this, of "out @ frame"]
  obtain tx' rx' wire pkts where IH: "write_packets A vec qs (?tx, out @ frame) = (Ok (), (tx', (out @ frame) @ wire))"
    "read_packets A cursor (length qs) (?rx, wire @ rest) = (Ok pkts, (rx', rest))"
    "map contents pkts = map sent_contents qs" "linked tx' rx'"
    by blast
  show ?case
    using IH wr rd
    by (rule_tac x = tx' in exI, rule_tac x = rx' in exI, rule_tac x = "frame @ wire" in exI,
        rule_tac x = "received tx t f p # pkts" in exI)
      (simp add: q act_then_def act_def contents_received)
qed

text \<open>
  C8: streams round trip.  Between two linked codecs, with or without a session, any list of packets
  within the ceilings of their types is written in full and read back in full: the same types and
  payloads in the same order, with nothing left over in the stream and the codecs linked again.
\<close>

theorem stream_round_trip:
  assumes "aead_correct A" "aead_seals_upto (1024 * 1024) A" "linked tx rx"
    and "list_all (\<lambda>(t, f, p). sendable tx t f p) qs"
    and "unat (next_send_seq tx) + length qs < 2 ^ 64"
  shows "\<exists>tx' rx' wire pkts.
     write_packets A vec qs (tx, out) = (Ok (), (tx', out @ wire))
   \<and> read_packets A cursor (length qs) (rx, wire @ rest) = (Ok pkts, (rx', rest))
   \<and> map contents pkts = map sent_contents qs \<and> linked tx' rx'"
  using assms by (rule streams_transfer)

definition demo_client :: PacketCodec where
  "demo_client = establish_session codec_new (const_array 1) (const_array 2)"

definition demo_server :: PacketCodec where
  "demo_server = establish_session codec_new (const_array 2) (const_array 1)"

lemma demo_linked: "linked demo_client demo_server"
  by (simp add: linked_def demo_client_def demo_server_def establish_session_def codec_new_def
      fresh_seq_def)

definition demo_packets :: "outgoing list" where
  "demo_packets = [(Ping, 0, replicate 8 7), (SendMessage, 0, [1, 2, 3])]"

lemma demo_packets_sendable: "list_all (\<lambda>(t, f, p). sendable demo_client t f p) demo_packets"
  by (simp add: demo_packets_def sendable_def demo_client_def establish_session_def)

theorem stream_round_trip_witness:
  "\<exists>tx' rx' wire pkts.
     write_packets demo_aead vec demo_packets (demo_client, []) = (Ok (), (tx', [] @ wire))
   \<and> read_packets demo_aead cursor (length demo_packets) (demo_server, wire @ [9]) = (Ok pkts, (rx', [9]))
   \<and> map contents pkts = map sent_contents demo_packets \<and> linked tx' rx'"
  by (rule stream_round_trip [OF demo_aead_correct demo_aead_seals demo_linked demo_packets_sendable])
    (simp add: demo_client_def establish_session_def codec_new_def demo_packets_def)

section \<open>Runs of the receiver\<close>

text \<open>
  Any number of calls to \<open>read_packet\<close>, with the state of the stream at each call chosen freely: the
  network decides what arrives, and failed calls are part of the run.
\<close>

inductive recv_run ::
    "'k aead \<Rightarrow> 'r async_read \<Rightarrow> PacketCodec \<Rightarrow> RawPacket list \<Rightarrow> PacketCodec \<Rightarrow> bool"
  for A R rx where
  recv_start: "recv_run A R rx [] rx"
| recv_ok: "recv_run A R rx pkts c \<Longrightarrow> read_packet A R (c, r) = (Ok pkt, (c', r')) \<Longrightarrow>
    recv_run A R rx (pkts @ [pkt]) c'"
| recv_fail: "recv_run A R rx pkts c \<Longrightarrow> read_packet A R (c, r) = (Err e, (c', r')) \<Longrightarrow>
    recv_run A R rx pkts c'"

definition seq_of :: "RawPacket \<Rightarrow> u64" where
  "seq_of pkt = sequence (raw_header pkt)"

lemma read_packet_seq:
  assumes "read_packet A R (codec, r) = (Ok pkt, (codec', r'))"
  shows "fresh_seq codec (seq_of pkt) \<and> codec' = codec\<lparr>last_recv_seq := Some (seq_of pkt)\<rparr>"
  using assms by (rule read_packet_OkE) (auto simp: seq_of_def dest: open_payload_header)

lemma fresh_seq_mono: "fresh_seq c a \<Longrightarrow> a < b \<Longrightarrow> fresh_seq c b"
  by (auto simp: fresh_seq_def split: option.splits)

lemma fresh_seq_after [simp]: "fresh_seq (c\<lparr>last_recv_seq := Some a\<rparr>) s \<longleftrightarrow> a < s"
  by (simp add: fresh_seq_def)

lemma recv_step_keeps:
  assumes "recv_step c c'"
  shows "session c' = session c" "fresh_seq c' s \<Longrightarrow> fresh_seq c s"
  using assms by (auto simp: recv_step_def intro: fresh_seq_mono)

lemma recv_run_invariant:
  assumes "recv_run A R rx pkts c"
  shows "session c = session rx \<and> sorted_wrt (<) (map seq_of pkts)
    \<and> list_all (\<lambda>pkt. fresh_seq rx (seq_of pkt)) pkts
    \<and> (\<forall>s. fresh_seq c s \<longrightarrow> fresh_seq rx s \<and> list_all (\<lambda>pkt. seq_of pkt < s) pkts)"
  using assms
proof induction
  case recv_start
  then show ?case by simp
next
  case (recv_ok pkts c r pkt c' r')
  note seq = read_packet_seq [OF recv_ok.hyps(2)]
  then have "list_all (\<lambda>p. seq_of p < seq_of pkt) pkts" "fresh_seq rx (seq_of pkt)"
    using recv_ok.IH by auto
  then show ?case
    using recv_ok.IH seq
    by (auto simp: sorted_wrt_append list_all_iff intro: fresh_seq_mono)
next
  case (recv_fail pkts c r e c' r')
  then show ?case
    using recv_step_keeps [OF read_packet_state [OF recv_fail.hyps(2)]] by auto
qed

text \<open>
  C18: no replays and no reordering.  Whatever arrives, and however many calls fail in between, the
  sequence numbers of the packets one codec accepts are strictly increasing.
\<close>

theorem accepted_sequence_increasing:
  assumes "recv_run A R rx pkts c"
  shows "sorted_wrt (<) (map seq_of pkts) \<and> distinct pkts"
proof -
  have "sorted_wrt (<) (map seq_of pkts)"
    using recv_run_invariant [OF assms] by simp
  moreover from this have "distinct (map seq_of pkts)"
    using strict_sorted_iff by blast
  ultimately show ?thesis by (simp add: distinct_map)
qed

theorem accepted_sequence_increasing_witness:
  "\<exists>pkt c. recv_run demo_aead cursor codec_new [pkt] c
     \<and> sorted_wrt (<) (map seq_of [pkt]) \<and> distinct [pkt]"
proof -
  have "recv_run demo_aead cursor codec_new ([] @ [\<lparr>raw_header = ping_header, raw_payload = replicate 8 7\<rparr>])
      (codec_new\<lparr>last_recv_seq := Some 1\<rparr>)"
    by (rule recv_ok [OF recv_start read_ping])
  with accepted_sequence_increasing [OF this] show ?thesis by (metis append_Nil)
qed

section \<open>Runs of the sender\<close>

text \<open>
  A run of \<open>write_packet\<close> calls on one codec with a session, with the log of what was sealed: the
  sequence number, the type, the flags on the wire and the payload.  A call that fails before it
  takes a number seals nothing; one that fails later (the cipher or the stream) is logged, since its
  frame may have left.
\<close>

type_synonym sealed = "u64 \<times> u8 \<times> u8 \<times> bytes"

inductive send_run ::
    "'k aead \<Rightarrow> 'w async_write \<Rightarrow> PacketCodec \<Rightarrow> sealed list \<Rightarrow> PacketCodec \<Rightarrow> bool"
  for A W tx where
  send_start: "send_run A W tx [] tx"
| send_taken: "send_run A W tx log c \<Longrightarrow> write_packet A W t f p (c, w) = (res, (c', w')) \<Longrightarrow>
    next_send_seq c' \<noteq> next_send_seq c \<Longrightarrow>
    send_run A W tx (log @ [(next_send_seq c, as_u8 t, f OR ENCRYPTED, p)]) c'"
| send_refused: "send_run A W tx log c \<Longrightarrow> write_packet A W t f p (c, w) = (res, (c', w')) \<Longrightarrow>
    next_send_seq c' = next_send_seq c \<Longrightarrow> send_run A W tx log c'"

lemma act_then_take_seq:
  "act_then take_seq f (c, w) =
     (case checked_add_u64 (next_send_seq c) 1 of
        Some n \<Rightarrow> f (next_send_seq c) (c\<lparr>next_send_seq := n\<rparr>, w)
      | None \<Rightarrow> (Err CryptoError, (c, w)))"
  by (simp add: act_then_def take_seq_def Let_def split: option.splits)

lemma emit_keeps_codec:
  assumes "act_then (writing W a) (\<lambda>_. act_then (writing W b) (\<lambda>_. flushing W)) (c, w) = (res, (c', w'))"
  shows "c' = c"
  using assms
  by (auto simp: act_then_def writing_def flushing_def split: prod.splits outcome.splits)

lemma write_packet_state:
  assumes "write_packet A W t f p (c, w) = (res, (c', w'))"
  shows "c' = c \<or> (\<exists>n. checked_add_u64 (next_send_seq c) 1 = Some n \<and> c' = c\<lparr>next_send_seq := n\<rparr>)"
  using assms
  by (auto simp: write_packet_def act_then_take_seq Let_def split: option.splits outcome.splits
      dest: emit_keeps_codec)

lemma send_run_invariant:
  assumes "send_run A W tx log c"
  shows "session c = session tx \<and> sorted_wrt (<) (map fst log)
    \<and> list_all (\<lambda>e. fst e < next_send_seq c) log"
  using assms
proof induction
  case send_start
  then show ?case by simp
next
  case (send_taken log c t f p w res c' w')
  then obtain n where "unat n = Suc (unat (next_send_seq c))" "c' = c\<lparr>next_send_seq := n\<rparr>"
    using write_packet_state by (metis unat_next)
  then show ?case
    using send_taken.IH
    by (auto simp: sorted_wrt_append list_all_iff word_less_nat_alt)
next
  case (send_refused log c t f p w res c' w')
  then have "c' = c"
    using write_packet_state [OF send_refused.hyps(2)] by (auto simp: unat_next)
  with send_refused.IH show ?case by simp
qed

section \<open>The nonces the cipher is asked for\<close>

text \<open>
  Everything that can happen to one codec: any calls to \<open>write_packet\<close> and \<open>read_packet\<close>, on any streams,
  whether they fail or not, and any number of session keys.  Every call to \<open>write_packet\<close> is recorded,
  with the codec and the stream it started from.
\<close>

type_synonym 'w call = "PacketCodec \<times> 'w \<times> outgoing"

inductive codec_life ::
    "'k aead \<Rightarrow> 'w async_write \<Rightarrow> 'r async_read \<Rightarrow> PacketCodec \<Rightarrow> 'w call list \<Rightarrow> PacketCodec \<Rightarrow> bool"
  for A W R c0 where
  life_start: "codec_life A W R c0 [] c0"
| life_write: "codec_life A W R c0 calls c \<Longrightarrow> write_packet A W t f p (c, w) = (res, (c', w')) \<Longrightarrow>
    codec_life A W R c0 (calls @ [(c, w, t, f, p)]) c'"
| life_read: "codec_life A W R c0 calls c \<Longrightarrow> read_packet A R (c, r) = (res, (c', r')) \<Longrightarrow>
    codec_life A W R c0 calls c'"
| life_session: "codec_life A W R c0 calls c \<Longrightarrow>
    codec_life A W R c0 calls (establish_session c outbound inbound)"

text \<open>
  Which nonces a call hands to the cipher is read off its behaviour: exchange the cipher for one that
  seals the same with the nonces of \<open>N\<close>, and anything else with all others.  If the call does the same,
  result, codec and stream, it sealed with no nonce outside \<open>N\<close>.
\<close>

definition seals_alike :: "gcm_nonce set \<Rightarrow> 'k aead \<Rightarrow> 'k aead \<Rightarrow> bool" where
  "seals_alike N A A' \<longleftrightarrow> aead_unbound_key A' = aead_unbound_key A
     \<and> (\<forall>k n aad pt. n \<in> N \<longrightarrow> aead_seal A' k n aad pt = aead_seal A k n aad pt)"

definition seals_only_with :: "'k aead \<Rightarrow> 'w async_write \<Rightarrow> 'w call \<Rightarrow> gcm_nonce set \<Rightarrow> bool" where
  "seals_only_with A W = (\<lambda>(c, w, t, f, p) N.
     \<forall>A'. seals_alike N A A' \<longrightarrow> write_packet A' W t f p (c, w) = write_packet A W t f p (c, w))"

lemma seal_payload_cong:
  "seals_alike {seq_nonce seq} A A' \<Longrightarrow> seal_payload A' sess t f seq p = seal_payload A sess t f seq p"
  by (simp add: seal_payload_def seals_alike_def split: option.splits)

lemma write_packet_nonce: "seals_only_with A W (c, w, t, f, p) {seq_nonce (next_send_seq c)}"
  unfolding seals_only_with_def prod.case
proof (intro allI impI)
  fix A'
  assume "seals_alike {seq_nonce (next_send_seq c)} A A'"
  then have "seal_payload A' sess t f (next_send_seq c) p = seal_payload A sess t f (next_send_seq c) p" for sess
    by (rule seal_payload_cong)
  then show "write_packet A' W t f p (c, w) = write_packet A W t f p (c, w)"
    by (simp add: write_packet_def act_then_take_seq split: option.split)
qed

lemma write_packet_no_nonce:
  "checked_add_u64 (next_send_seq c) 1 = None \<Longrightarrow> seals_only_with A W (c, w, t, f, p) {}"
  by (simp add: seals_only_with_def write_packet_def act_then_take_seq)

lemma codec_life_nonces:
  assumes "codec_life A W R c0 calls c"
  shows "\<exists>Ns. list_all2 (seals_only_with A W) calls Ns \<and> sorted_wrt (\<lambda>N M. N \<inter> M = {}) Ns
    \<and> list_all (\<lambda>N. \<exists>n. N \<subseteq> {n}) Ns \<and> \<Union> (set Ns) \<subseteq> seq_nonce ` {s. s < next_send_seq c}"
  using assms
proof induction
  case life_start
  show ?case by (intro exI [of _ "[]"]) simp
next
  case (life_write calls c t f p w res c' w')
  then obtain Ns where Ns: "list_all2 (seals_only_with A W) calls Ns" "sorted_wrt (\<lambda>N M. N \<inter> M = {}) Ns"
    "list_all (\<lambda>N. \<exists>n. N \<subseteq> {n}) Ns" "\<Union> (set Ns) \<subseteq> seq_nonce ` {s. s < next_send_seq c}" by blast
  show ?case
  proof (cases "checked_add_u64 (next_send_seq c) 1")
    case None
    then have "c' = c" using write_packet_state [OF life_write.hyps(2)] by simp
    with Ns write_packet_no_nonce [OF None] show ?thesis
      by (intro exI [of _ "Ns @ [{}]"]) (auto simp: sorted_wrt_append intro!: list_all2_appendI)
  next
    case (Some n)
    then have up: "next_send_seq c < n" by (simp add: unat_next word_less_nat_alt)
    have "next_send_seq c' = n"
      using life_write.hyps(2) Some
      by (auto simp: write_packet_def act_then_take_seq Let_def split: outcome.splits dest: emit_keeps_codec)
    moreover have "seq_nonce (next_send_seq c) \<notin> \<Union> (set Ns)"
      using Ns(4) by auto
    moreover have "seq_nonce ` {s. s < next_send_seq c} \<subseteq> seq_nonce ` {s. s < n}"
      using up by (intro image_mono) auto
    ultimately show ?thesis
      using Ns up write_packet_nonce [of A W c w t f p]
      by (intro exI [of _ "Ns @ [{seq_nonce (next_send_seq c)}]"] conjI)
        (auto simp: sorted_wrt_append intro!: list_all2_appendI)
  qed
next
  case (life_read calls c r res c' r')
  then show ?case using read_packet_state [OF life_read.hyps(2)] by (auto simp: recv_step_def)
next
  case (life_session calls c outbound inbound)
  then show ?case by (simp add: establish_session_def)
qed

text \<open>
  C9: no nonce is used twice.  In the whole life of a codec, over any \<open>write_packet\<close> calls, failing or not,
  on any streams, with reads and new session keys in between, each call hands at most one nonce to the
  cipher, and no two calls hand it the same one: the call seals with no nonce outside its set, the
  sets have at most one element, and they are pairwise disjoint.  When the counter would wrap around,
  the call asks the cipher for nothing.
\<close>

theorem nonces_never_repeat:
  assumes "codec_life A W R c0 calls c"
  shows "\<exists>Ns. list_all2 (seals_only_with A W) calls Ns
    \<and> list_all (\<lambda>N. \<exists>n. N \<subseteq> {n}) Ns \<and> sorted_wrt (\<lambda>N M. N \<inter> M = {}) Ns"
  using codec_life_nonces [OF assms] by blast

text \<open>
  Two packets sent by the example client: the second call depends on the cipher, so its nonce is not
  the one of the first.
\<close>

lemma demo_codec_life:
  "\<exists>w2 c. codec_life demo_aead vec cursor demo_client
     [(demo_client, [], Ping, 0, replicate 8 7), (demo_client\<lparr>next_send_seq := 2\<rparr>, w2, Ping, 0, replicate 8 7)] c"
proof -
  let ?c2 = "demo_client\<lparr>next_send_seq := 2\<rparr>"
  have seq: "next_send_seq demo_client = 1"
    by (simp add: demo_client_def establish_session_def codec_new_def)
  obtain fl body where "seal_payload demo_aead (session demo_client) Ping 0 1 (replicate 8 7) = Ok (fl, body)"
    by (simp add: seal_payload_def demo_client_def establish_session_def demo_aead_def Let_def)
  then obtain w where "write_packet demo_aead vec Ping 0 (replicate 8 7) (demo_client, []) = (Ok (), (?c2, w))"
    using write_to_vec [of demo_client 2 demo_aead Ping 0 "replicate 8 7"] by (auto simp: seq checked_add_u64_def)
  from life_write [OF life_start this]
  have "codec_life demo_aead vec cursor demo_client [(demo_client, [], Ping, 0, replicate 8 7)] ?c2" by simp
  from life_write [OF this] show ?thesis by (metis append_Cons append_Nil prod.exhaust)
qed

theorem nonces_never_repeat_witness:
  "\<exists>w2 N M. seals_only_with demo_aead vec (demo_client, [], Ping, 0, replicate 8 7) N
     \<and> seals_only_with demo_aead vec (demo_client\<lparr>next_send_seq := 2\<rparr>, w2, Ping, 0, replicate 8 7) M
     \<and> (\<exists>n. N \<subseteq> {n}) \<and> (\<exists>n. M \<subseteq> {n}) \<and> N \<inter> M = {}"
proof -
  obtain w2 c where "codec_life demo_aead vec cursor demo_client
     [(demo_client, [], Ping, 0, replicate 8 7), (demo_client\<lparr>next_send_seq := 2\<rparr>, w2, Ping, 0, replicate 8 7)] c"
    using demo_codec_life by blast
  from nonces_never_repeat [OF this] show ?thesis by (auto simp: list_all2_Cons1) blast
qed

section \<open>What the receiver accepts is what the sender sent\<close>

definition sealed_log :: "sealed list \<Rightarrow> (gcm_nonce \<times> bytes \<times> bytes \<times> bytes) set" where
  "sealed_log log = {(seq_nonce s, header_aad t f, p, ct) | s t f p ct. (s, t, f, p) \<in> set log}"

definition view :: "RawPacket \<Rightarrow> sealed" where
  "view pkt = (seq_of pkt, packet_type (raw_header pkt), flags (raw_header pkt), raw_payload pkt)"

lemma strict_sorted_subseq:
  fixes f :: "'a \<Rightarrow> 'b::linorder"
  assumes "sorted_wrt (<) (map f xs)" "sorted_wrt (<) (map f ys)" "set xs \<subseteq> set ys"
  shows "subseq xs ys"
  using assms
proof (induction ys arbitrary: xs)
  case Nil
  then show ?case by simp
next
  case (Cons y ys)
  show ?case
  proof (cases xs)
    case Nil
    then show ?thesis by simp
  next
    case (Cons x zs)
    show ?thesis
    proof (cases "x = y")
      case True
      have "set zs \<subseteq> set ys"
        using Cons True Cons.prems by fastforce
      then show ?thesis
        using Cons True Cons.IH [of zs] Cons.prems by simp
    next
      case False
      have "y \<notin> set xs"
        using Cons False Cons.prems by fastforce
      then have "subseq xs ys"
        using Cons.IH [of xs] Cons.prems by auto
      then show ?thesis by (rule list_emb_Cons)
    qed
  qed
qed

lemma accepted_was_sealed:
  assumes "read_packet A R (c, r) = (Ok pkt, (c', r'))" "session c = Some cipher"
    and "aead_authentic A (inbound_key cipher) (sealed_log log)"
  shows "view pkt \<in> set log"
  using assms(1)
proof (rule read_packet_OkE)
  fix h payload
  assume "check_header (session c) h = Ok ()" and opn: "open_payload A (session c) h payload = Ok pkt"
  then have "is_encrypted h" using assms(2) by (auto simp: check_header_eq_Ok)
  then obtain k pt where "aead_unbound_key A (inbound_key cipher) = Some k"
    "aead_open A k (seq_nonce (sequence h)) (header_aad (packet_type h) (flags h)) payload = Some pt"
    and pkt: "pkt = \<lparr>raw_header = h\<lparr>payload_len := of_nat (length pt)\<rparr>, raw_payload = pt\<rparr>"
    using opn assms(2) by (auto simp: open_payload_eq_Ok)
  then have "(seq_nonce (sequence h), header_aad (packet_type h) (flags h), pt, payload) \<in> sealed_log log"
    using assms(3) by (auto simp: aead_authentic_def)
  then show ?thesis
    by (auto simp: sealed_log_def view_def seq_of_def pkt)
qed

lemma recv_run_sealed:
  assumes "recv_run A R rx pkts c" "session rx = Some cipher"
    and "aead_authentic A (inbound_key cipher) (sealed_log log)"
  shows "view ` set pkts \<subseteq> set log"
  using assms(1)
proof induction
  case (recv_ok pkts c r pkt c' r')
  have "session c = Some cipher"
    using recv_run_invariant [OF recv_ok.hyps(1)] assms(2) by simp
  with recv_ok accepted_was_sealed [OF recv_ok.hyps(2) _ assms(3)] show ?case by simp
qed simp_all

text \<open>
  C1: channel integrity.  A sender makes any number of \<open>write_packet\<close> calls; a receiver that shares the
  key makes any number of \<open>read_packet\<close> calls on whatever the network delivers.  If nothing but the
  sender's frames opens under the key, the packets the receiver accepts (number, type, flags and
  payload) are a subsequence of those the sender sealed: nothing forged, altered, relabelled as
  another type, replayed or reordered.  Frames may only be lost.
\<close>

theorem channel_integrity:
  assumes "send_run A W tx log tx'" "recv_run A R rx pkts rx'" "session rx = Some cipher"
    and "aead_authentic A (inbound_key cipher) (sealed_log log)"
  shows "subseq (map view pkts) log"
proof (rule strict_sorted_subseq)
  have "map fst (map view pkts) = map seq_of pkts"
    by (simp add: view_def)
  then show "sorted_wrt (<) (map fst (map view pkts))"
    using recv_run_invariant [OF assms(2)] by (simp only:)
  show "sorted_wrt (<) (map fst log)"
    using send_run_invariant [OF assms(1)] by simp
  show "set (map view pkts) \<subseteq> set log"
    using recv_run_sealed [OF assms(2-4)] by simp
qed

text \<open>A cipher under which exactly one frame was ever sealed, and opens.\<close>

definition once_aead :: "gcm_nonce \<Rightarrow> bytes \<Rightarrow> bytes \<Rightarrow> bytes \<Rightarrow> unit aead" where
  "once_aead n aad pt ct = \<lparr>aead_unbound_key = (\<lambda>key. Some ()),
     aead_seal = (\<lambda>k n' aad' pt'. if (n', aad', pt') = (n, aad, pt) then Some ct else None),
     aead_open = (\<lambda>k n' aad' ct'. if (n', aad', ct') = (n, aad, ct) then Some pt else None)\<rparr>"

definition ping_aead :: "unit aead" where
  "ping_aead = once_aead (seq_nonce 1) (header_aad 20 (0 OR ENCRYPTED)) [1, 2] (replicate 18 5)"

definition sealed_ping :: PacketHeader where
  "sealed_ping = header_new (as_u8 Ping) (0 OR ENCRYPTED) (of_nat 18) 1"

lemma ping_aead_authentic:
  "aead_authentic ping_aead key (sealed_log [(1, as_u8 Ping, 0 OR ENCRYPTED, [1, 2])])"
  by (auto simp: aead_authentic_def ping_aead_def once_aead_def sealed_log_def)

lemma ping_send_run:
  "send_run ping_aead vec demo_client [(1, as_u8 Ping, 0 OR ENCRYPTED, [1, 2])]
     (demo_client\<lparr>next_send_seq := 2\<rparr>)"
proof -
  have seq: "next_send_seq demo_client = 1"
    by (simp add: demo_client_def establish_session_def codec_new_def)
  obtain w where "write_packet ping_aead vec Ping 0 [1, 2] (demo_client, [])
      = (Ok (), (demo_client\<lparr>next_send_seq := 2\<rparr>, w))"
    using write_to_vec [of demo_client 2 ping_aead Ping 0 "[1, 2]" "0 OR ENCRYPTED" "replicate 18 5" "[]"]
    by (simp add: seq checked_add_u64_def)
      (simp add: seal_payload_def demo_client_def establish_session_def ping_aead_def once_aead_def Let_def)
  from send_taken [OF send_start this] seq show ?thesis by simp
qed

lemma ping_recv_run:
  "\<exists>c. recv_run ping_aead cursor demo_server
     [\<lparr>raw_header = sealed_ping\<lparr>payload_len := 2\<rparr>, raw_payload = [1, 2]\<rparr>] c"
proof -
  have enc: "(0 OR ENCRYPTED) AND ENCRYPTED \<noteq> 0" by (rule or_encrypted)
  have chk: "check_header (session demo_server) sealed_ping = Ok ()"
    "length (replicate 18 (5 :: u8)) = unat (payload_len sealed_ping)"
    using check_header_new [of 18 Ping "0 OR ENCRYPTED" "session demo_server" 1] enc
    by (simp_all add: sealed_ping_def size_defs)
  have "open_payload ping_aead (session demo_server) sealed_ping (replicate 18 5)
      = Ok \<lparr>raw_header = sealed_ping\<lparr>payload_len := 2\<rparr>, raw_payload = [1, 2]\<rparr>"
    using enc by (simp add: open_payload_eq_Ok sealed_ping_def is_encrypted_header_new)
      (simp add: demo_server_def establish_session_def ping_aead_def once_aead_def)
  moreover have "fresh_seq demo_server (sequence sealed_ping)"
    by (simp add: fresh_seq_def demo_server_def establish_session_def codec_new_def)
  ultimately have "\<exists>s. read_packet ping_aead cursor (demo_server, as_slice (to_bytes sealed_ping) @ replicate 18 5 @ [])
      = (Ok \<lparr>raw_header = sealed_ping\<lparr>payload_len := 2\<rparr>, raw_payload = [1, 2]\<rparr>, s)"
    using read_frame [OF chk(1) _ chk(2), of ping_aead "[]"] by simp
  then show ?thesis
    using recv_ok [OF recv_start] by (metis append_Nil prod.exhaust)
qed

theorem channel_integrity_witness:
  "\<exists>pkt. contents pkt = (20, [1, 2])
     \<and> subseq (map view [pkt]) [(1, as_u8 Ping, 0 OR ENCRYPTED, [1, 2])]"
proof -
  obtain c where run: "recv_run ping_aead cursor demo_server
      [\<lparr>raw_header = sealed_ping\<lparr>payload_len := 2\<rparr>, raw_payload = [1, 2]\<rparr>] c"
    using ping_recv_run by blast
  have "session demo_server = Some \<lparr>outbound_key = const_array 2, inbound_key = const_array 1\<rparr>"
    by (simp add: demo_server_def establish_session_def)
  from channel_integrity [OF ping_send_run run this ping_aead_authentic] show ?thesis
    by (intro exI conjI) (simp_all add: contents_def sealed_ping_def)
qed

section \<open>A forged header\<close>

text \<open>
  The sequence number is recorded before the frame is authenticated.  This header needs no key to
  write: a known type, the encryption flag, no payload, and the largest sequence number.
\<close>

definition forged_header :: PacketHeader where
  "forged_header = header_new (as_u8 Ping) ENCRYPTED 0 (- 1)"

lemma ok_or_None_then:
  "(\<And>k. f k = Err e) \<Longrightarrow> and_then (ok_or e x) f = Err e"
  by (cases x) auto

lemma no_seq_after_max: "\<not> fresh_seq (c\<lparr>last_recv_seq := Some (- 1)\<rparr>) s"
  by (simp add: not_less)

lemma stuck_codec_rejects:
  "fst (read_packet A R (c\<lparr>last_recv_seq := Some (- 1)\<rparr>, r)) \<noteq> Ok pkt"
proof
  assume "fst (read_packet A R (c\<lparr>last_recv_seq := Some (- 1)\<rparr>, r)) = Ok pkt"
  then obtain c' r' where "read_packet A R (c\<lparr>last_recv_seq := Some (- 1)\<rparr>, r) = (Ok pkt, (c', r'))"
    by (metis prod.exhaust_sel)
  from read_packet_seq [OF this] show False
    using no_seq_after_max by simp
qed

text \<open>
  C33: one forged header blocks a session for good.  A receiver with a session that gets these 24 bytes
  reports \<open>CryptoError\<close>, as it should, but has already moved its counter to the largest number: from
  then on no packet is accepted, whatever the stream delivers.
\<close>

theorem forged_header_blocks_receiver:
  assumes "aead_correct A" "session rx \<noteq> None" "last_recv_seq rx \<noteq> Some (- 1)"
  shows "read_packet A cursor (rx, as_slice (to_bytes forged_header) @ rest)
       = (Err CryptoError, (rx\<lparr>last_recv_seq := Some (- 1)\<rparr>, rest))
    \<and> fst (read_packet A R (rx\<lparr>last_recv_seq := Some (- 1)\<rparr>, r)) \<noteq> Ok pkt"
proof -
  have enc: "ENCRYPTED AND ENCRYPTED \<noteq> (0 :: u8)" using or_encrypted [of 0] by simp
  have chk: "check_header (session rx) forged_header = Ok ()"
    using check_header_new [of 0 Ping ENCRYPTED "session rx" "- 1"] enc
    by (simp add: forged_header_def)
  have fresh: "fresh_seq rx (sequence forged_header)"
    using assms(3) by (auto simp: fresh_seq_def forged_header_def word_order.not_eq_extremum split: option.splits)
  have "aead_open A k n aad [] = None" for k n aad
    using aead_open_length [OF assms(1), of k n aad "[]"] by (cases "aead_open A k n aad []") (auto simp: size_defs)
  then have "open_payload A (session rx) forged_header [] = Err CryptoError"
    using assms(2) enc
    by (auto simp: open_payload_def forged_header_def is_encrypted_header_new Let_def
        split: option.splits intro: ok_or_None_then)
  with read_frame [OF chk fresh, of "[]" A rest]
  have "read_packet A cursor (rx, as_slice (to_bytes forged_header) @ rest)
      = (Err CryptoError, (rx\<lparr>last_recv_seq := Some (- 1)\<rparr>, rest))"
    by (simp add: forged_header_def)
  then show ?thesis using stuck_codec_rejects [of A R rx r pkt] by simp
qed

theorem forged_header_blocks_receiver_witness:
  "read_packet demo_aead cursor (demo_server, as_slice (to_bytes forged_header) @ [])
       = (Err CryptoError, (demo_server\<lparr>last_recv_seq := Some (- 1)\<rparr>, []))
    \<and> fst (read_packet demo_aead cursor (demo_server\<lparr>last_recv_seq := Some (- 1)\<rparr>,
         as_slice (to_bytes sealed_ping) @ replicate 18 5))
       \<noteq> Ok \<lparr>raw_header = sealed_ping\<lparr>payload_len := 2\<rparr>, raw_payload = [1, 2]\<rparr>"
  by (rule forged_header_blocks_receiver [OF demo_aead_correct])
    (simp_all add: demo_server_def establish_session_def codec_new_def)

end
