(* ===== verification/Common.thy ===== *)
theory Common
  imports Wire_Interfaces Crypto_Params
begin

text \<open>
  \<open>src/src/payloads/common.rs\<close>: the length-prefixed string and byte encodings the payloads are
  built from, the trailing-byte check and the canonical boolean.  A decoder here returns its value
  with the number of bytes it consumed; the rules below say what those bytes are, and evaluate a
  decoder on an encoding followed by anything.
\<close>

definition encode_sized_string :: "str \<Rightarrow> bytes io_result" where
  "encode_sized_string s =
     (let bs = as_bytes s in
      if length bs > 65535 then Err (IoError InvalidInput ''string too long'')
      else Ok (u16_to_be_bytes (of_nat (length bs)) @ bs))"

definition decode_sized_string :: "bytes \<Rightarrow> (str \<times> nat) io_result" where
  "decode_sized_string bs =
     and_then (ensure (\<not> length bs < 2) (invalid_data ''payload too short for string length'')) (\<lambda>_.
     and_then (index bs 0) (\<lambda>b0.
     and_then (index bs 1) (\<lambda>b1.
     let str_len = unat (u16_from_be_bytes [b0, b1]) in
     and_then (ok_or (invalid_data ''string length overflow'') (checked_add_usize 2 str_len)) (\<lambda>fin.
     and_then (ensure (\<not> length bs < fin) (invalid_data ''payload too short for string bytes'')) (\<lambda>_.
     and_then (slice bs 2 fin) (\<lambda>body.
     and_then (ok_or (invalid_data ''string is not valid UTF-8'') (from_utf8 body)) (\<lambda>s.
     Ok (s, fin))))))))"

definition encode_sized_bytes :: "bytes \<Rightarrow> bytes io_result" where
  "encode_sized_bytes bs =
     (if length bs > 4294967295 then Err (IoError InvalidInput ''bytes too long'')
      else Ok (u32_to_be_bytes (of_nat (length bs)) @ bs))"

definition decode_sized_bytes :: "bytes \<Rightarrow> (bytes \<times> nat) io_result" where
  "decode_sized_bytes bs =
     and_then (ensure (\<not> length bs < 4) (invalid_data ''missing length'')) (\<lambda>_.
     and_then (index bs 0) (\<lambda>b0.
     and_then (index bs 1) (\<lambda>b1.
     and_then (index bs 2) (\<lambda>b2.
     and_then (index bs 3) (\<lambda>b3.
     let len = unat (u32_from_be_bytes [b0, b1, b2, b3]) in
     and_then (ok_or (invalid_data ''byte length overflow'') (checked_add_usize 4 len)) (\<lambda>fin.
     and_then (ensure (\<not> length bs < fin) (invalid_data ''not enough bytes'')) (\<lambda>_.
     and_then (slice bs 4 fin) (\<lambda>body.
     Ok (body, fin)))))))))"

definition require_fully_consumed :: "bytes \<Rightarrow> nat \<Rightarrow> string \<Rightarrow> unit io_result" where
  "require_fully_consumed bs consumed payload_name =
     (if length bs \<noteq> consumed then Err (invalid_data (payload_name @ '' payload length mismatch''))
      else Ok ())"

definition decode_bool :: "u8 \<Rightarrow> string \<Rightarrow> bool io_result" where
  "decode_bool b field_name =
     (if b = 0 then Ok False
      else if b = 1 then Ok True
      else Err (invalid_data (field_name @ '' must be encoded as 0 or 1'')))"

text \<open>\<open>if flag { 1 } else { 0 }\<close>, as the payloads write a boolean.\<close>

definition encode_bool :: "bool \<Rightarrow> u8" where
  "encode_bool b = (if b then 1 else 0)"

text \<open>\<open>u64::from_be_bytes(bytes.try_into().map_err(..)?)\<close>\<close>

definition decode_u64 :: "bytes \<Rightarrow> string \<Rightarrow> u64 io_result" where
  "decode_u64 bs msg =
     and_then (try_into_array (invalid_data msg) bs) (\<lambda>a :: 8 barray.
     Ok (u64_from_be_bytes (as_slice a)))"

section \<open>Booleans and integers\<close>

lemma decode_bool_eq_Ok [inversions]: "decode_bool b name = Ok x \<longleftrightarrow> b = encode_bool x"
  by (auto simp: decode_bool_def encode_bool_def)

lemma decode_bool_not_Panic [simp]: "decode_bool b name \<noteq> Panic"
  by (simp add: decode_bool_def)

interpretation bool_enum: byte_enum encode_bool "\<lambda>b. decode_bool b name"
  by unfold_locales (auto simp: decode_bool_eq_Ok)

lemma decode_u64_eq_Ok [inversions]: "decode_u64 bs msg = Ok x \<longleftrightarrow> bs = u64_to_be_bytes x"
  by (auto simp: decode_u64_def try_into_array_def)

lemma decode_u64_not_Panic [simp]: "decode_u64 bs msg \<noteq> Panic"
  by (simp add: decode_u64_def and_then_eq_Panic)

lemma require_fully_consumed_eq_Ok [inversions]:
  "require_fully_consumed bs n name = Ok u \<longleftrightarrow> length bs = n"
  by (simp add: require_fully_consumed_def)

lemma require_fully_consumed_not_Panic [simp]: "require_fully_consumed bs n name \<noteq> Panic"
  by (simp add: require_fully_consumed_def)

section \<open>Sized strings\<close>

lemma checked_add_small [simp]:
  "checked_add_usize 2 (unat (w :: u16)) = Some (2 + unat w)"
  "checked_add_usize 4 (unat (v :: u32)) = Some (4 + unat v)"
  using unat_less [of w] unat_less [of v]
  by (simp_all add: checked_add_usize_def usize_limit_def)

lemma encode_sized_string_eq_Ok:
  "encode_sized_string s = Ok out \<longleftrightarrow>
     length (as_bytes s) \<le> 65535 \<and> out = u16_to_be_bytes (of_nat (length (as_bytes s))) @ as_bytes s"
  by (auto simp: encode_sized_string_def Let_def)

lemma encode_sized_string_not_Panic [simp]: "encode_sized_string s \<noteq> Panic"
  by (simp add: encode_sized_string_def Let_def)

lemma first_two: "2 \<le> length bs \<Longrightarrow> take 2 bs = [bs ! 0, bs ! 1]"
  by (cases bs; cases "tl bs") auto

lemma first_four: "4 \<le> length bs \<Longrightarrow> take 4 bs = [bs ! 0, bs ! 1, bs ! 2, bs ! 3]"
  by (simp add: list_eq_iff_nth_eq nth_Cons' numeral_eq_Suc All_less_Suc)

text \<open>What a successful string decoder read: the encoding of its result, at the front.\<close>

lemma decode_sized_string_eq_Ok:
  "decode_sized_string bs = Ok (s, n) \<longleftrightarrow>
     n \<le> length bs \<and> encode_sized_string s = Ok (take n bs)"
proof
  assume "decode_sized_string bs = Ok (s, n)"
  then have len: "2 \<le> length bs" and n: "n = 2 + unat (u16_from_be_bytes (take 2 bs))"
    and le: "n \<le> length bs" and body: "as_bytes s = take (n - 2) (drop 2 bs)"
    by (auto simp: decode_sized_string_def Let_def inversions from_utf8_eq_Some first_two
        ensure_eq_Ok)
  have "length (as_bytes s) = unat (u16_from_be_bytes (take 2 bs))"
    using body n le by simp
  moreover have "take n bs = take 2 bs @ take (n - 2) (drop 2 bs)"
    using n by (simp flip: take_add)
  ultimately show "n \<le> length bs \<and> encode_sized_string s = Ok (take n bs)"
    using le len body unat_less [of "u16_from_be_bytes (take 2 bs)"]
    by (simp add: encode_sized_string_eq_Ok)
next
  assume r: "n \<le> length bs \<and> encode_sized_string s = Ok (take n bs)"
  then have small: "length (as_bytes s) \<le> 65535"
    and take_n: "take n bs = u16_to_be_bytes (of_nat (length (as_bytes s))) @ as_bytes s"
    by (auto simp: encode_sized_string_eq_Ok)
  from arg_cong [OF take_n, of length] r have n: "n = 2 + length (as_bytes s)"
    by simp
  have pre: "take 2 bs = u16_to_be_bytes (of_nat (length (as_bytes s)))"
    using arg_cong [OF take_n, of "take 2"] n by (simp add: min_def)
  have body: "take (n - 2) (drop 2 bs) = as_bytes s"
    using arg_cong [OF take_n, of "drop 2"] n by (simp add: drop_take)
  have unat_len: "unat (of_nat (length (as_bytes s)) :: u16) = length (as_bytes s)"
    using small by (simp add: unat_of_nat)
  show "decode_sized_string bs = Ok (s, n)"
    using r n pre body small unat_len
    by (auto simp: decode_sized_string_def Let_def inversions from_utf8_eq_Some first_two)
qed

lemma decode_sized_string_append:
  "encode_sized_string s = Ok e \<Longrightarrow> decode_sized_string (e @ rest) = Ok (s, length e)"
  by (simp add: decode_sized_string_eq_Ok)

lemma decode_sized_string_not_Panic [simp]: "decode_sized_string bs \<noteq> Panic"
  by (auto simp: decode_sized_string_def Let_def panic_conditions inversions)

lemma encode_sized_string_length:
  "encode_sized_string s = Ok e \<Longrightarrow> length e = 2 + str_len s \<and> str_len s \<le> 65535"
  by (auto simp: encode_sized_string_eq_Ok str_len_def)

section \<open>Sized byte strings\<close>

lemma encode_sized_bytes_eq_Ok:
  "encode_sized_bytes bs = Ok out \<longleftrightarrow>
     length bs \<le> 4294967295 \<and> out = u32_to_be_bytes (of_nat (length bs)) @ bs"
  by (auto simp: encode_sized_bytes_def)

lemma encode_sized_bytes_not_Panic [simp]: "encode_sized_bytes bs \<noteq> Panic"
  by (simp add: encode_sized_bytes_def)

lemma decode_sized_bytes_eq_Ok:
  "decode_sized_bytes bs = Ok (c, n) \<longleftrightarrow>
     n \<le> length bs \<and> encode_sized_bytes c = Ok (take n bs)"
proof
  assume "decode_sized_bytes bs = Ok (c, n)"
  then have len: "4 \<le> length bs" and n: "n = 4 + unat (u32_from_be_bytes (take 4 bs))"
    and le: "n \<le> length bs" and body: "c = take (n - 4) (drop 4 bs)"
    by (auto simp: decode_sized_bytes_def Let_def inversions first_four)
  have "length c = unat (u32_from_be_bytes (take 4 bs))"
    using body n le by simp
  moreover have "take n bs = take 4 bs @ take (n - 4) (drop 4 bs)"
    using n by (simp flip: take_add)
  ultimately show "n \<le> length bs \<and> encode_sized_bytes c = Ok (take n bs)"
    using le len body unat_less [of "u32_from_be_bytes (take 4 bs)"]
    by (simp add: encode_sized_bytes_eq_Ok)
next
  assume r: "n \<le> length bs \<and> encode_sized_bytes c = Ok (take n bs)"
  then have small: "length c \<le> 4294967295"
    and take_n: "take n bs = u32_to_be_bytes (of_nat (length c)) @ c"
    by (auto simp: encode_sized_bytes_eq_Ok)
  from arg_cong [OF take_n, of length] r have n: "n = 4 + length c"
    by simp
  have pre: "take 4 bs = u32_to_be_bytes (of_nat (length c))"
    using arg_cong [OF take_n, of "take 4"] n by (simp add: min_def)
  have body: "take (n - 4) (drop 4 bs) = c"
    using arg_cong [OF take_n, of "drop 4"] n by (simp add: drop_take)
  have unat_len: "unat (of_nat (length c) :: u32) = length c"
    using small by (simp add: unat_of_nat)
  show "decode_sized_bytes bs = Ok (c, n)"
    using r n pre body small unat_len
    by (auto simp: decode_sized_bytes_def Let_def inversions first_four)
qed

lemma decode_sized_bytes_not_Panic [simp]: "decode_sized_bytes bs \<noteq> Panic"
  by (auto simp: decode_sized_bytes_def Let_def panic_conditions inversions)

lemma encode_sized_bytes_length:
  "encode_sized_bytes c = Ok e \<Longrightarrow> length e = 4 + length c"
  by (auto simp: encode_sized_bytes_eq_Ok)

section \<open>Decoding a prefix\<close>

text \<open>
  A decoder that starts with a sized field splits its input: an encoding, then whatever the rest
  of the decoder reads.  These two rules turn a payload decoder into the concatenation its encoder
  builds, and the steps after it are inverted one by one.
\<close>

lemma and_then_sized_string [wire]:
  "and_then (decode_sized_string bs) f = Ok y \<longleftrightarrow>
     (\<exists>s e rest. bs = e @ rest \<and> encode_sized_string s = Ok e \<and> f (s, length e) = Ok y)"
  (is "?L \<longleftrightarrow> ?R")
proof
  assume ?L
  then obtain s n where "n \<le> length bs" "encode_sized_string s = Ok (take n bs)" "f (s, n) = Ok y"
    by (auto simp: and_then_eq_Ok decode_sized_string_eq_Ok)
  then show ?R
    by (intro exI [of _ s] exI [of _ "take n bs"] exI [of _ "drop n bs"]) simp
next
  assume ?R
  then obtain s e rest where "bs = e @ rest" "encode_sized_string s = Ok e" "f (s, length e) = Ok y"
    by blast
  then have "decode_sized_string bs = Ok (s, length e)" by (simp add: decode_sized_string_eq_Ok)
  with \<open>f (s, length e) = Ok y\<close> show ?L by simp
qed

lemma and_then_sized_bytes [wire]:
  "and_then (decode_sized_bytes bs) f = Ok y \<longleftrightarrow>
     (\<exists>c e rest. bs = e @ rest \<and> encode_sized_bytes c = Ok e \<and> f (c, length e) = Ok y)"
  (is "?L \<longleftrightarrow> ?R")
proof
  assume ?L
  then obtain c n where "n \<le> length bs" "encode_sized_bytes c = Ok (take n bs)" "f (c, n) = Ok y"
    by (auto simp: and_then_eq_Ok decode_sized_bytes_eq_Ok)
  then show ?R
    by (intro exI [of _ c] exI [of _ "take n bs"] exI [of _ "drop n bs"]) simp
next
  assume ?R
  then obtain c e rest where "bs = e @ rest" "encode_sized_bytes c = Ok e" "f (c, length e) = Ok y"
    by blast
  then have "decode_sized_bytes bs = Ok (c, length e)" by (simp add: decode_sized_bytes_eq_Ok)
  with \<open>f (c, length e) = Ok y\<close> show ?L by simp
qed

lemma wire_field_steps [wire]:
  "and_then (encode_sized_string s) f = Ok y \<longleftrightarrow> (\<exists>e. encode_sized_string s = Ok e \<and> f e = Ok y)"
  "and_then (encode_sized_bytes c) f = Ok y \<longleftrightarrow> (\<exists>e. encode_sized_bytes c = Ok e \<and> f e = Ok y)"
  "and_then (require_fully_consumed bs n name) g = Ok y \<longleftrightarrow> length bs = n \<and> g () = Ok y"
  "and_then (decode_bool b name) h = Ok y \<longleftrightarrow> (\<exists>x. b = encode_bool x \<and> h x = Ok y)"
  "and_then (decode_u64 bs msg) k = Ok y \<longleftrightarrow> (\<exists>x. bs = u64_to_be_bytes x \<and> k x = Ok y)"
  by (auto simp: and_then_eq_Ok inversions)

text \<open>Sized encodings are self-delimiting: what follows one never changes what it decodes to.\<close>

lemma sized_string_prefix_free:
  assumes "encode_sized_string s = Ok d" "encode_sized_string t = Ok e" "d @ x = e @ y"
  shows "s = t \<and> x = y"
proof -
  have "decode_sized_string (d @ x) = Ok (s, length d)" "decode_sized_string (e @ y) = Ok (t, length e)"
    using assms(1,2) by (simp_all add: decode_sized_string_append)
  then show ?thesis
    using assms(3) by auto
qed

lemma sized_bytes_prefix_free:
  assumes "encode_sized_bytes b = Ok d" "encode_sized_bytes c = Ok e" "d @ x = e @ y"
  shows "b = c \<and> x = y"
proof -
  have "decode_sized_bytes (d @ x) = Ok (b, length d)"
    using assms(1) by (simp add: decode_sized_bytes_eq_Ok)
  moreover have "decode_sized_bytes (e @ y) = Ok (c, length e)"
    using assms(2) by (simp add: decode_sized_bytes_eq_Ok)
  ultimately show ?thesis
    using assms(3) by auto
qed

end
