(* ===== verification/Ping_Payloads.thy ===== *)
theory Ping_Payloads
  imports Common
begin

text \<open>\<open>src/src/payloads/ping_payloads.rs\<close>: the keepalives, an eight-byte timestamp each way.\<close>

record PingPayload =
  ping_timestamp :: u64

definition PingPayload_encode :: "PingPayload \<Rightarrow> bytes" where
  "PingPayload_encode p = u64_to_be_bytes (ping_timestamp p)"

definition PingPayload_decode :: "bytes \<Rightarrow> PingPayload io_result" where
  "PingPayload_decode bs =
     and_then (ensure (\<not> length bs \<noteq> 8)
       (invalid_data (''invalid ping payload length: expected 8, got '' @ show_nat (length bs)))) (\<lambda>_.
     and_then (decode_u64 bs ''failed to decode ping payload'') (\<lambda>timestamp.
     Ok \<lparr>ping_timestamp = timestamp\<rparr>))"

record PongPayload =
  pong_timestamp :: u64

definition PongPayload_encode :: "PongPayload \<Rightarrow> bytes" where
  "PongPayload_encode p = u64_to_be_bytes (pong_timestamp p)"

definition PongPayload_decode :: "bytes \<Rightarrow> PongPayload io_result" where
  "PongPayload_decode bs =
     and_then (ensure (\<not> length bs \<noteq> 8)
       (invalid_data (''invalid pong payload length: expected 8, got '' @ show_nat (length bs)))) (\<lambda>_.
     and_then (decode_u64 bs ''failed to decode pong payload'') (\<lambda>timestamp.
     Ok \<lparr>pong_timestamp = timestamp\<rparr>))"

interpretation ping: wire_format "\<lambda>p. Ok (PingPayload_encode p)" PingPayload_decode
  by unfold_locales
    (auto simp: PingPayload_encode_def PingPayload_decode_def wire panic_conditions)

interpretation pong: wire_format "\<lambda>p. Ok (PongPayload_encode p)" PongPayload_decode
  by unfold_locales
    (auto simp: PongPayload_encode_def PongPayload_decode_def wire panic_conditions)

end
