(* ===== verification/Hello_Payloads.thy ===== *)
theory Hello_Payloads
  imports Common
begin

text \<open>
  \<open>src/src/payloads/hello_payloads.rs\<close>: the four handshake payloads.
\<close>

record ClientHelloPayload =
  ch_client_id :: str
  ch_x25519_public_key :: key32
  ch_ml_kem_ek :: kem_ek

definition ClientHelloPayload_encode :: "ClientHelloPayload \<Rightarrow> bytes io_result" where
  "ClientHelloPayload_encode p =
     and_then (encode_sized_string (ch_client_id p)) (\<lambda>id.
     Ok (id @ as_slice (ch_x25519_public_key p) @ as_slice (ch_ml_kem_ek p)))"

definition ClientHelloPayload_decode :: "bytes \<Rightarrow> ClientHelloPayload io_result" where
  "ClientHelloPayload_decode bs =
     and_then (decode_sized_string bs) (\<lambda>(client_id, consumed).
     and_then (slice_from bs consumed) (\<lambda>after_id.
     and_then (ensure (\<not> length after_id < 32 + ML_KEM_768_EK_SIZE)
       (invalid_data ''client_hello too short for key material'')) (\<lambda>_.
     and_then (slice after_id 0 32) (\<lambda>key_bytes.
     and_then (try_into_array (invalid_data ''invalid x25519 key length'') key_bytes)
       (\<lambda>x25519_public_key.
     and_then (slice after_id 32 (32 + ML_KEM_768_EK_SIZE)) (\<lambda>ek_bytes.
     and_then (copy_from_slice ek_bytes) (\<lambda>ml_kem_ek.
     and_then (require_fully_consumed bs (consumed + 32 + ML_KEM_768_EK_SIZE) ''client_hello'') (\<lambda>_.
     Ok \<lparr>ch_client_id = client_id, ch_x25519_public_key = x25519_public_key,
         ch_ml_kem_ek = ml_kem_ek\<rparr>))))))))"

record ServerHelloPayload =
  sh_server_id :: str
  sh_x25519_public_key :: key32
  sh_ml_kem_ciphertext :: kem_ct
  sh_signature :: dsa_sig

definition ServerHelloPayload_encode :: "ServerHelloPayload \<Rightarrow> bytes io_result" where
  "ServerHelloPayload_encode p =
     and_then (encode_sized_string (sh_server_id p)) (\<lambda>id.
     Ok (id @ as_slice (sh_x25519_public_key p) @ as_slice (sh_ml_kem_ciphertext p)
          @ as_slice (sh_signature p)))"

definition ServerHelloPayload_decode :: "bytes \<Rightarrow> ServerHelloPayload io_result" where
  "ServerHelloPayload_decode bs =
     and_then (decode_sized_string bs) (\<lambda>(server_id, consumed).
     and_then (slice_from bs consumed) (\<lambda>after_id.
     let fixed_len = 32 + ML_KEM_768_CT_SIZE + ML_DSA_65_SIG_SIZE in
     and_then (ensure (\<not> length after_id < fixed_len)
       (invalid_data ''server_hello too short for key material'')) (\<lambda>_.
     and_then (slice after_id 0 32) (\<lambda>key_bytes.
     and_then (try_into_array (invalid_data ''invalid x25519 key length'') key_bytes)
       (\<lambda>x25519_public_key.
     let ml_kem_end = 32 + ML_KEM_768_CT_SIZE in
     and_then (slice after_id 32 ml_kem_end) (\<lambda>ct_bytes.
     and_then (copy_from_slice ct_bytes) (\<lambda>ml_kem_ciphertext.
     and_then (slice after_id ml_kem_end fixed_len) (\<lambda>sig_bytes.
     and_then (copy_from_slice sig_bytes) (\<lambda>signature.
     and_then (require_fully_consumed bs (consumed + fixed_len) ''server_hello'') (\<lambda>_.
     Ok \<lparr>sh_server_id = server_id, sh_x25519_public_key = x25519_public_key,
         sh_ml_kem_ciphertext = ml_kem_ciphertext, sh_signature = signature\<rparr>))))))))))"

record ClientFinishPayload =
  cf_ready :: bool

definition ClientFinishPayload_encode :: "ClientFinishPayload \<Rightarrow> bytes" where
  "ClientFinishPayload_encode p = [if cf_ready p then 1 else 0]"

text \<open>The module has its own copy of \<open>decode_bool\<close>.\<close>

definition hello_decode_bool :: "u8 \<Rightarrow> string \<Rightarrow> bool io_result" where
  "hello_decode_bool b field_name =
     (if b = 0 then Ok False
      else if b = 1 then Ok True
      else Err (invalid_data (field_name @ '' must be encoded as 0 or 1'')))"

definition ClientFinishPayload_decode :: "bytes \<Rightarrow> ClientFinishPayload io_result" where
  "ClientFinishPayload_decode bs =
     and_then (ensure (\<not> length bs \<noteq> 1)
       (invalid_data ''client_finish payload must be exactly 1 byte'')) (\<lambda>_.
     and_then (index bs 0) (\<lambda>b.
     and_then (hello_decode_bool b ''client_finish ready'') (\<lambda>ready.
     Ok \<lparr>cf_ready = ready\<rparr>)))"

record ServerAcceptPayload =
  sa_accepted :: bool

definition ServerAcceptPayload_encode :: "ServerAcceptPayload \<Rightarrow> bytes" where
  "ServerAcceptPayload_encode p = [if sa_accepted p then 1 else 0]"

definition ServerAcceptPayload_decode :: "bytes \<Rightarrow> ServerAcceptPayload io_result" where
  "ServerAcceptPayload_decode bs =
     and_then (ensure (\<not> length bs \<noteq> 1)
       (invalid_data ''server_accept payload must be exactly 1 byte'')) (\<lambda>_.
     and_then (index bs 0) (\<lambda>b.
     and_then (hello_decode_bool b ''server_accept accepted'') (\<lambda>accepted.
     Ok \<lparr>sa_accepted = accepted\<rparr>)))"

section \<open>Round trips\<close>

lemma hello_decode_bool_common: "hello_decode_bool = decode_bool"
  by (intro ext) (simp add: hello_decode_bool_def decode_bool_def)

lemma wire_hello_bool [wire]:
  "and_then (hello_decode_bool b name) f = Ok y \<longleftrightarrow> (\<exists>x. b = encode_bool x \<and> f x = Ok y)"
  by (simp add: hello_decode_bool_common wire)

lemma hello_decode_bool_not_Panic [simp]: "hello_decode_bool b name \<noteq> Panic"
  by (simp add: hello_decode_bool_common)

interpretation client_hello: wire_format ClientHelloPayload_encode ClientHelloPayload_decode
proof
  fix bs p
  show "ClientHelloPayload_decode bs = Ok p \<longleftrightarrow> ClientHelloPayload_encode p = Ok bs"
    by (cases p) (auto simp: ClientHelloPayload_decode_def ClientHelloPayload_encode_def
        wire size_defs intro: join_2)
  show "ClientHelloPayload_decode bs \<noteq> Panic"
    by (auto simp: ClientHelloPayload_decode_def array_panic_conditions inversions size_defs
        decode_sized_string_eq_Ok split: prod.splits)
  show "ClientHelloPayload_encode p \<noteq> Panic"
    by (simp add: ClientHelloPayload_encode_def and_then_eq_Panic)
qed

lemma ServerHello_decode_parts:
  assumes "ServerHelloPayload_decode bs = Ok p"
  obtains id rest where "bs = id @ rest" "encode_sized_string (sh_server_id p) = Ok id"
    "take 32 rest = as_slice (sh_x25519_public_key p)"
    "take 1088 (drop 32 rest) = as_slice (sh_ml_kem_ciphertext p)"
    "drop 1120 rest = as_slice (sh_signature p)"
  using assms by (auto simp: ServerHelloPayload_decode_def wire size_defs Let_def)

interpretation server_hello: wire_format ServerHelloPayload_encode ServerHelloPayload_decode
proof
  fix bs p
  show "ServerHelloPayload_decode bs = Ok p \<longleftrightarrow> ServerHelloPayload_encode p = Ok bs"
  proof
    assume "ServerHelloPayload_decode bs = Ok p"
    then obtain id rest where "bs = id @ rest" "encode_sized_string (sh_server_id p) = Ok id"
      and keys: "take 32 rest = as_slice (sh_x25519_public_key p)"
        "take 1088 (drop 32 rest) = as_slice (sh_ml_kem_ciphertext p)"
        "drop 1120 rest = as_slice (sh_signature p)"
      by (rule ServerHello_decode_parts)
    with join_3 [OF keys] show "ServerHelloPayload_encode p = Ok bs"
      by (simp add: ServerHelloPayload_encode_def)
  next
    assume "ServerHelloPayload_encode p = Ok bs"
    then show "ServerHelloPayload_decode bs = Ok p"
      by (cases p) (auto simp: ServerHelloPayload_decode_def ServerHelloPayload_encode_def
          wire size_defs Let_def)
  qed
  show "ServerHelloPayload_decode bs \<noteq> Panic"
    by (auto simp: ServerHelloPayload_decode_def array_panic_conditions inversions size_defs
        decode_sized_string_eq_Ok Let_def split: prod.splits)
  show "ServerHelloPayload_encode p \<noteq> Panic"
    by (simp add: ServerHelloPayload_encode_def and_then_eq_Panic)
qed

interpretation client_finish: wire_format "\<lambda>p. Ok (ClientFinishPayload_encode p)"
  ClientFinishPayload_decode
proof
  fix bs p
  show "ClientFinishPayload_decode bs = Ok p \<longleftrightarrow> Ok (ClientFinishPayload_encode p) = Ok bs"
    by (cases p) (auto simp: ClientFinishPayload_encode_def ClientFinishPayload_decode_def
        wire simp flip: encode_bool_def intro: one_byteI)
  show "ClientFinishPayload_decode bs \<noteq> Panic"
    by (auto simp: ClientFinishPayload_decode_def panic_conditions)
qed simp

interpretation server_accept: wire_format "\<lambda>p. Ok (ServerAcceptPayload_encode p)"
  ServerAcceptPayload_decode
proof
  fix bs p
  show "ServerAcceptPayload_decode bs = Ok p \<longleftrightarrow> Ok (ServerAcceptPayload_encode p) = Ok bs"
    by (cases p) (auto simp: ServerAcceptPayload_encode_def ServerAcceptPayload_decode_def
        wire simp flip: encode_bool_def intro: one_byteI)
  show "ServerAcceptPayload_decode bs \<noteq> Panic"
    by (auto simp: ServerAcceptPayload_decode_def panic_conditions)
qed simp

end
