(* ===== verification/Close_Payloads.thy ===== *)
theory Close_Payloads
  imports Common
begin

text \<open>
  \<open>src/src/payloads/error_payloads.rs\<close>, \<open>close_payloads.rs\<close> and \<open>registration_payloads.rs\<close>:
  the payloads that are a sized string, alone or after one leading byte.
\<close>

section \<open>Error\<close>

record ErrorPayload =
  err_message :: str

definition ErrorPayload_encode :: "ErrorPayload \<Rightarrow> bytes io_result" where
  "ErrorPayload_encode p = encode_sized_string (err_message p)"

definition ErrorPayload_decode :: "bytes \<Rightarrow> ErrorPayload io_result" where
  "ErrorPayload_decode bs =
     and_then (decode_sized_string bs) (\<lambda>(message, consumed).
     and_then (require_fully_consumed bs consumed ''error'') (\<lambda>_.
     Ok \<lparr>err_message = message\<rparr>))"

section \<open>Close\<close>

datatype CloseReason = Normal | ProtocolError | Timeout | ServerShutdown | ClientRequest

primrec CloseReason_as_u8 :: "CloseReason \<Rightarrow> u8" where
  "CloseReason_as_u8 Normal = 0"
| "CloseReason_as_u8 ProtocolError = 1"
| "CloseReason_as_u8 Timeout = 2"
| "CloseReason_as_u8 ServerShutdown = 3"
| "CloseReason_as_u8 ClientRequest = 4"

definition CloseReason_from_u8 :: "u8 \<Rightarrow> CloseReason io_result" where
  "CloseReason_from_u8 b =
     (if b = 0 then Ok Normal
      else if b = 1 then Ok ProtocolError
      else if b = 2 then Ok Timeout
      else if b = 3 then Ok ServerShutdown
      else if b = 4 then Ok ClientRequest
      else Err (invalid_data (''unknown close reason: '' @ show_nat (unat b))))"

record ClosePayload =
  close_reason :: CloseReason
  close_message :: str

definition ClosePayload_encode :: "ClosePayload \<Rightarrow> bytes io_result" where
  "ClosePayload_encode p =
     (let out = [CloseReason_as_u8 (close_reason p)] in
      and_then (encode_sized_string (close_message p)) (\<lambda>msg_bytes.
      Ok (out @ msg_bytes)))"

definition ClosePayload_decode :: "bytes \<Rightarrow> ClosePayload io_result" where
  "ClosePayload_decode bs =
     and_then (ensure (bs \<noteq> []) (invalid_data ''close payload too short'')) (\<lambda>_.
     and_then (index bs 0) (\<lambda>b.
     and_then (CloseReason_from_u8 b) (\<lambda>reason.
     and_then (slice_from bs 1) (\<lambda>tail.
     and_then (decode_sized_string tail) (\<lambda>(message, consumed).
     and_then (require_fully_consumed bs (1 + consumed) ''close'') (\<lambda>_.
     Ok \<lparr>close_reason = reason, close_message = message\<rparr>))))))"

section \<open>Registration\<close>

record RegisterDevicePayload =
  reg_username :: str

definition RegisterDevicePayload_encode :: "RegisterDevicePayload \<Rightarrow> bytes io_result" where
  "RegisterDevicePayload_encode p = encode_sized_string (reg_username p)"

definition RegisterDevicePayload_decode :: "bytes \<Rightarrow> RegisterDevicePayload io_result" where
  "RegisterDevicePayload_decode bs =
     and_then (decode_sized_string bs) (\<lambda>(username, consumed).
     and_then (require_fully_consumed bs consumed ''register_device'') (\<lambda>_.
     Ok \<lparr>reg_username = username\<rparr>))"

record RegisterResponsePayload =
  rr_success :: bool
  rr_message :: str

definition RegisterResponsePayload_encode :: "RegisterResponsePayload \<Rightarrow> bytes io_result" where
  "RegisterResponsePayload_encode p =
     and_then (encode_sized_string (rr_message p)) (\<lambda>message.
     Ok ([encode_bool (rr_success p)] @ message))"

definition RegisterResponsePayload_decode :: "bytes \<Rightarrow> RegisterResponsePayload io_result" where
  "RegisterResponsePayload_decode bs =
     and_then (ensure (bs \<noteq> []) (invalid_data ''register_response payload too short'')) (\<lambda>_.
     and_then (index bs 0) (\<lambda>b.
     and_then (decode_bool b ''register_response success'') (\<lambda>success.
     and_then (slice_from bs 1) (\<lambda>tail.
     and_then (decode_sized_string tail) (\<lambda>(message, consumed).
     and_then (require_fully_consumed bs (1 + consumed) ''register_response'') (\<lambda>_.
     Ok \<lparr>rr_success = success, rr_message = message\<rparr>))))))"

section \<open>Round trips\<close>

interpretation error: wire_format ErrorPayload_encode ErrorPayload_decode
proof
  fix bs p
  show "ErrorPayload_decode bs = Ok p \<longleftrightarrow> ErrorPayload_encode p = Ok bs"
    by (cases p) (auto simp: ErrorPayload_decode_def ErrorPayload_encode_def wire)
  show "ErrorPayload_decode bs \<noteq> Panic" "ErrorPayload_encode p \<noteq> Panic"
    by (auto simp: ErrorPayload_decode_def ErrorPayload_encode_def panic_conditions)
qed

lemma CloseReason_from_u8_eq_Ok: "CloseReason_from_u8 b = Ok r \<longleftrightarrow> CloseReason_as_u8 r = b"
  by (cases r) (auto simp: CloseReason_from_u8_def)

interpretation close_reason_enum: byte_enum CloseReason_as_u8 CloseReason_from_u8
  by unfold_locales (simp_all add: CloseReason_from_u8_eq_Ok, simp add: CloseReason_from_u8_def)

lemma wire_close_reason [wire]:
  "and_then (CloseReason_from_u8 b) f = Ok y \<longleftrightarrow> (\<exists>r. CloseReason_as_u8 r = b \<and> f r = Ok y)"
  by (simp add: and_then_eq_Ok CloseReason_from_u8_eq_Ok)

interpretation close: wire_format ClosePayload_encode ClosePayload_decode
proof
  fix bs p
  show "ClosePayload_decode bs = Ok p \<longleftrightarrow> ClosePayload_encode p = Ok bs"
    by (cases p; cases bs) (auto simp: ClosePayload_decode_def ClosePayload_encode_def wire)
  show "ClosePayload_decode bs \<noteq> Panic" "ClosePayload_encode p \<noteq> Panic"
    by (auto simp: ClosePayload_decode_def ClosePayload_encode_def panic_conditions Suc_le_eq
        close_reason_enum.of_byte_total)
qed

interpretation register_device: wire_format RegisterDevicePayload_encode
  RegisterDevicePayload_decode
proof
  fix bs p
  show "RegisterDevicePayload_decode bs = Ok p \<longleftrightarrow> RegisterDevicePayload_encode p = Ok bs"
    by (cases p)
      (auto simp: RegisterDevicePayload_decode_def RegisterDevicePayload_encode_def wire)
  show "RegisterDevicePayload_decode bs \<noteq> Panic" "RegisterDevicePayload_encode p \<noteq> Panic"
    by (auto simp: RegisterDevicePayload_decode_def RegisterDevicePayload_encode_def
        panic_conditions)
qed

interpretation register_response: wire_format RegisterResponsePayload_encode
  RegisterResponsePayload_decode
proof
  fix bs p
  show "RegisterResponsePayload_decode bs = Ok p \<longleftrightarrow> RegisterResponsePayload_encode p = Ok bs"
    by (cases p; cases bs)
      (auto simp: RegisterResponsePayload_decode_def RegisterResponsePayload_encode_def wire)
  show "RegisterResponsePayload_decode bs \<noteq> Panic" "RegisterResponsePayload_encode p \<noteq> Panic"
    by (auto simp: RegisterResponsePayload_decode_def RegisterResponsePayload_encode_def
        panic_conditions Suc_le_eq)
qed

end
