(* ===== verification/Auth_Payloads.thy ===== *)
theory Auth_Payloads
  imports Common
begin

text \<open>
  \<open>src/src/payloads/auth_payloads.rs\<close> and \<open>account_payloads.rs\<close>: the identity proof and the
  account status.
\<close>

section \<open>Identity proof\<close>

record AuthChallengePayload =
  ac_nonce :: key32

definition AuthChallengePayload_encode :: "AuthChallengePayload \<Rightarrow> bytes" where
  "AuthChallengePayload_encode p = as_slice (ac_nonce p)"

definition AuthChallengePayload_decode :: "bytes \<Rightarrow> AuthChallengePayload io_result" where
  "AuthChallengePayload_decode bs =
     and_then (ensure (\<not> length bs \<noteq> 32)
       (invalid_data ''auth_challenge must be exactly 32 bytes'')) (\<lambda>_.
     and_then (copy_from_slice bs) (\<lambda>nonce.
     Ok \<lparr>ac_nonce = nonce\<rparr>))"

record AuthResponsePayload =
  ar_public_key :: dsa_vk
  ar_signature :: dsa_sig
  ar_attestation_token :: bytes

definition AuthResponse_FIXED :: nat where
  "AuthResponse_FIXED = ML_DSA_65_VK_SIZE + ML_DSA_65_SIG_SIZE"

definition AuthResponsePayload_encode :: "AuthResponsePayload \<Rightarrow> bytes io_result" where
  "AuthResponsePayload_encode p =
     and_then (encode_sized_bytes (ar_attestation_token p)) (\<lambda>att.
     Ok (as_slice (ar_public_key p) @ as_slice (ar_signature p) @ att))"

definition AuthResponsePayload_decode :: "bytes \<Rightarrow> AuthResponsePayload io_result" where
  "AuthResponsePayload_decode bs =
     and_then (ensure (\<not> length bs < AuthResponse_FIXED + 4)
       (invalid_data ''auth_response too short'')) (\<lambda>_.
     and_then (slice bs 0 ML_DSA_65_VK_SIZE) (\<lambda>key_bytes.
     and_then (try_into_array (invalid_data ''invalid public key'') key_bytes) (\<lambda>public_key.
     and_then (slice bs ML_DSA_65_VK_SIZE AuthResponse_FIXED) (\<lambda>sig_bytes.
     and_then (try_into_array (invalid_data ''invalid signature'') sig_bytes) (\<lambda>signature.
     and_then (slice_from bs AuthResponse_FIXED) (\<lambda>tail.
     and_then (decode_sized_bytes tail) (\<lambda>(attestation_token, att_consumed).
     and_then (require_fully_consumed bs (AuthResponse_FIXED + att_consumed) ''auth_response'') (\<lambda>_.
     Ok \<lparr>ar_public_key = public_key, ar_signature = signature,
         ar_attestation_token = attestation_token\<rparr>))))))))"

datatype AuthAcceptPayload = AuthAcceptPayload

definition AuthAcceptPayload_encode :: "AuthAcceptPayload \<Rightarrow> bytes" where
  "AuthAcceptPayload_encode p = []"

definition AuthAcceptPayload_decode :: "bytes \<Rightarrow> AuthAcceptPayload io_result" where
  "AuthAcceptPayload_decode bs =
     and_then (ensure (bs = []) (invalid_data ''auth_accept payload must be empty'')) (\<lambda>_.
     Ok AuthAcceptPayload)"

datatype AuthRejectPayload = AuthRejectPayload

definition AuthRejectPayload_encode :: "AuthRejectPayload \<Rightarrow> bytes" where
  "AuthRejectPayload_encode p = []"

definition AuthRejectPayload_decode :: "bytes \<Rightarrow> AuthRejectPayload io_result" where
  "AuthRejectPayload_decode bs =
     and_then (ensure (bs = []) (invalid_data ''auth_reject payload must be empty'')) (\<lambda>_.
     Ok AuthRejectPayload)"

section \<open>Account status\<close>

datatype QueryAccountStatusPayload = QueryAccountStatusPayload

definition QueryAccountStatusPayload_encode :: "QueryAccountStatusPayload \<Rightarrow> bytes" where
  "QueryAccountStatusPayload_encode p = []"

definition QueryAccountStatusPayload_decode :: "bytes \<Rightarrow> QueryAccountStatusPayload io_result" where
  "QueryAccountStatusPayload_decode bs =
     and_then (require_fully_consumed bs 0 ''query_account_status'') (\<lambda>_.
     Ok QueryAccountStatusPayload)"

record AccountStatusResponsePayload =
  as_is_banned :: bool
  as_ban_reason :: str
  as_subscription_active :: bool
  as_subscription_expiry_timestamp :: u64

definition AccountStatusResponsePayload_encode ::
    "AccountStatusResponsePayload \<Rightarrow> bytes io_result" where
  "AccountStatusResponsePayload_encode p =
     and_then (encode_sized_string (as_ban_reason p)) (\<lambda>ban_reason.
     Ok ([encode_bool (as_is_banned p)] @ ban_reason @ [encode_bool (as_subscription_active p)]
          @ u64_to_be_bytes (as_subscription_expiry_timestamp p)))"

definition AccountStatusResponsePayload_decode ::
    "bytes \<Rightarrow> AccountStatusResponsePayload io_result" where
  "AccountStatusResponsePayload_decode bs =
     and_then (ensure (bs \<noteq> []) (invalid_data ''account_status_response payload too short'')) (\<lambda>_.
     and_then (index bs 0) (\<lambda>b.
     and_then (decode_bool b ''account_status_response is_banned'') (\<lambda>is_banned.
     and_then (slice_from bs 1) (\<lambda>tail.
     and_then (decode_sized_string tail) (\<lambda>(ban_reason, consumed).
     and_then (slice_from bs (1 + consumed)) (\<lambda>rest.
     and_then (ensure (\<not> length rest \<noteq> 9)
       (invalid_data ''account_status_response missing subscription fields'')) (\<lambda>_.
     and_then (index rest 0) (\<lambda>r0.
     and_then (decode_bool r0 ''account_status_response subscription_active'')
       (\<lambda>subscription_active.
     and_then (slice rest 1 9) (\<lambda>expiry.
     and_then (decode_u64 expiry ''failed to decode account_status_response expiry'')
       (\<lambda>subscription_expiry_timestamp.
     and_then (require_fully_consumed bs (1 + consumed + 9) ''account_status_response'') (\<lambda>_.
     Ok \<lparr>as_is_banned = is_banned, as_ban_reason = ban_reason,
         as_subscription_active = subscription_active,
         as_subscription_expiry_timestamp = subscription_expiry_timestamp\<rparr>))))))))))))"

section \<open>Round trips\<close>

interpretation auth_challenge: wire_format "\<lambda>p. Ok (AuthChallengePayload_encode p)"
  AuthChallengePayload_decode
proof
  fix bs p
  show "AuthChallengePayload_decode bs = Ok p \<longleftrightarrow> Ok (AuthChallengePayload_encode p) = Ok bs"
    by (cases p) (auto simp: AuthChallengePayload_decode_def AuthChallengePayload_encode_def wire)
  show "AuthChallengePayload_decode bs \<noteq> Panic"
    by (auto simp: AuthChallengePayload_decode_def array_panic_conditions inversions)
qed simp

lemma AuthResponse_decode_parts:
  assumes "AuthResponsePayload_decode bs = Ok p"
  obtains att where "take 1952 bs = as_slice (ar_public_key p)"
    "take 3309 (drop 1952 bs) = as_slice (ar_signature p)"
    "drop 5261 bs = att" "encode_sized_bytes (ar_attestation_token p) = Ok att"
proof -
  from assms obtain att rest where "take 1952 bs = as_slice (ar_public_key p)"
    "take 3309 (drop 1952 bs) = as_slice (ar_signature p)"
    and tail: "drop 5261 bs = att @ rest" and "encode_sized_bytes (ar_attestation_token p) = Ok att"
    and len: "length bs = 5261 + length att"
    by (auto simp: AuthResponsePayload_decode_def AuthResponse_FIXED_def wire size_defs)
  moreover have "rest = []"
    using arg_cong [OF tail, of length] len by simp
  ultimately show thesis by (intro that) auto
qed

interpretation auth_response: wire_format AuthResponsePayload_encode AuthResponsePayload_decode
proof
  fix bs p
  show "AuthResponsePayload_decode bs = Ok p \<longleftrightarrow> AuthResponsePayload_encode p = Ok bs"
  proof
    assume "AuthResponsePayload_decode bs = Ok p"
    then obtain att where parts: "take 1952 bs = as_slice (ar_public_key p)"
      "take 3309 (drop 1952 bs) = as_slice (ar_signature p)"
      "drop 5261 bs = att" and "encode_sized_bytes (ar_attestation_token p) = Ok att"
      by (rule AuthResponse_decode_parts)
    with join_3 [OF parts] show "AuthResponsePayload_encode p = Ok bs"
      by (simp add: AuthResponsePayload_encode_def)
  next
    assume "AuthResponsePayload_encode p = Ok bs"
    then show "AuthResponsePayload_decode bs = Ok p"
      by (cases p) (auto simp: AuthResponsePayload_decode_def AuthResponsePayload_encode_def
          AuthResponse_FIXED_def wire size_defs dest: encode_sized_bytes_length)
  qed
  show "AuthResponsePayload_decode bs \<noteq> Panic" "AuthResponsePayload_encode p \<noteq> Panic"
    by (auto simp: AuthResponsePayload_decode_def AuthResponsePayload_encode_def
        AuthResponse_FIXED_def array_panic_conditions inversions size_defs)
qed

interpretation auth_accept: wire_format "\<lambda>p. Ok (AuthAcceptPayload_encode p)"
  AuthAcceptPayload_decode
proof
  fix bs p
  show "AuthAcceptPayload_decode bs = Ok p \<longleftrightarrow> Ok (AuthAcceptPayload_encode p) = Ok bs"
    by (cases p) (auto simp: AuthAcceptPayload_encode_def AuthAcceptPayload_decode_def wire)
  show "AuthAcceptPayload_decode bs \<noteq> Panic"
    by (simp add: AuthAcceptPayload_decode_def panic_conditions)
qed simp

interpretation auth_reject: wire_format "\<lambda>p. Ok (AuthRejectPayload_encode p)"
  AuthRejectPayload_decode
proof
  fix bs p
  show "AuthRejectPayload_decode bs = Ok p \<longleftrightarrow> Ok (AuthRejectPayload_encode p) = Ok bs"
    by (cases p) (auto simp: AuthRejectPayload_encode_def AuthRejectPayload_decode_def wire)
  show "AuthRejectPayload_decode bs \<noteq> Panic"
    by (simp add: AuthRejectPayload_decode_def panic_conditions)
qed simp

interpretation query_account_status: wire_format "\<lambda>p. Ok (QueryAccountStatusPayload_encode p)"
  QueryAccountStatusPayload_decode
proof
  fix bs p
  show "QueryAccountStatusPayload_decode bs = Ok p
    \<longleftrightarrow> Ok (QueryAccountStatusPayload_encode p) = Ok bs"
    by (cases p) (auto simp: QueryAccountStatusPayload_encode_def
        QueryAccountStatusPayload_decode_def wire)
  show "QueryAccountStatusPayload_decode bs \<noteq> Panic"
    by (simp add: QueryAccountStatusPayload_decode_def panic_conditions)
qed simp

interpretation account_status_response: wire_format AccountStatusResponsePayload_encode
  AccountStatusResponsePayload_decode
proof
  fix bs p
  show "AccountStatusResponsePayload_decode bs = Ok p
    \<longleftrightarrow> AccountStatusResponsePayload_encode p = Ok bs"
    by (cases p; cases bs)
      (auto simp: AccountStatusResponsePayload_decode_def AccountStatusResponsePayload_encode_def
        wire intro: cons_drop_lenI)
  show "AccountStatusResponsePayload_decode bs \<noteq> Panic"
    by (cases bs) (auto simp: AccountStatusResponsePayload_decode_def panic_conditions inversions
        decode_sized_string_eq_Ok split: prod.splits)
  show "AccountStatusResponsePayload_encode p \<noteq> Panic"
    by (simp add: AccountStatusResponsePayload_encode_def and_then_eq_Panic)
qed

end
