(* ===== verification/Message_Payloads.thy ===== *)
theory Message_Payloads
  imports Common
begin

text \<open>
  \<open>src/src/payloads/message_payloads.rs\<close> and \<open>queue_payloads.rs\<close>: messages, their delivery
  status, and the offline queue.  The decoders add up what they consumed with \<open>checked_add\<close>; the
  overflow branch is modelled, and the round trips below show it is never taken.
\<close>

text \<open>\<open>a.checked_add(b).and_then(|n| n.checked_add(c))\<close>\<close>

definition checked_add_3 :: "nat \<Rightarrow> nat \<Rightarrow> nat \<Rightarrow> nat option" where
  "checked_add_3 a b c = Option.bind (checked_add_usize a b) (\<lambda>n. checked_add_usize n c)"

section \<open>Messages\<close>

record SendMessagePayload =
  sm_message_id :: u64
  sm_recipient_id :: str
  sm_content :: bytes

definition SendMessagePayload_encode :: "SendMessagePayload \<Rightarrow> bytes io_result" where
  "SendMessagePayload_encode p =
     and_then (encode_sized_string (sm_recipient_id p)) (\<lambda>recipient.
     and_then (encode_sized_bytes (sm_content p)) (\<lambda>content.
     Ok (u64_to_be_bytes (sm_message_id p) @ recipient @ content)))"

definition SendMessagePayload_decode :: "bytes \<Rightarrow> SendMessagePayload io_result" where
  "SendMessagePayload_decode bs =
     and_then (ensure (\<not> length bs < 8) (invalid_data ''send_message too short for message_id'')) (\<lambda>_.
     and_then (slice bs 0 8) (\<lambda>mid_bytes.
     and_then (decode_u64 mid_bytes ''failed to decode send_message message_id'') (\<lambda>message_id.
     and_then (slice_from bs 8) (\<lambda>tail.
     and_then (decode_sized_string tail) (\<lambda>(recipient_id, recipient_consumed).
     and_then (slice_from bs (8 + recipient_consumed)) (\<lambda>content_bytes.
     and_then (decode_sized_bytes content_bytes) (\<lambda>(content, content_consumed).
     and_then (ok_or (invalid_data ''send_message length overflow'')
       (checked_add_3 8 recipient_consumed content_consumed)) (\<lambda>consumed.
     and_then (ensure (\<not> length bs \<noteq> consumed)
       (invalid_data ''send_message payload length mismatch'')) (\<lambda>_.
     Ok \<lparr>sm_message_id = message_id, sm_recipient_id = recipient_id,
         sm_content = content\<rparr>)))))))))"

record DeliverMessagePayload =
  dm_message_id :: u64
  dm_sender_id :: str
  dm_content :: bytes

definition DeliverMessagePayload_encode :: "DeliverMessagePayload \<Rightarrow> bytes io_result" where
  "DeliverMessagePayload_encode p =
     and_then (encode_sized_string (dm_sender_id p)) (\<lambda>sender.
     and_then (encode_sized_bytes (dm_content p)) (\<lambda>content.
     Ok (u64_to_be_bytes (dm_message_id p) @ sender @ content)))"

definition DeliverMessagePayload_decode :: "bytes \<Rightarrow> DeliverMessagePayload io_result" where
  "DeliverMessagePayload_decode bs =
     and_then (ensure (\<not> length bs < 8) (invalid_data ''deliver_message too short for message_id'')) (\<lambda>_.
     and_then (slice bs 0 8) (\<lambda>mid_bytes.
     and_then (decode_u64 mid_bytes ''failed to decode deliver_message message_id'') (\<lambda>message_id.
     and_then (slice_from bs 8) (\<lambda>tail.
     and_then (decode_sized_string tail) (\<lambda>(sender_id, sender_consumed).
     and_then (slice_from bs (8 + sender_consumed)) (\<lambda>content_bytes.
     and_then (decode_sized_bytes content_bytes) (\<lambda>(content, content_consumed).
     and_then (ok_or (invalid_data ''deliver_message length overflow'')
       (checked_add_3 8 sender_consumed content_consumed)) (\<lambda>consumed.
     and_then (ensure (\<not> length bs \<noteq> consumed)
       (invalid_data ''deliver_message payload length mismatch'')) (\<lambda>_.
     Ok \<lparr>dm_message_id = message_id, dm_sender_id = sender_id,
         dm_content = content\<rparr>)))))))))"

datatype MessageStatus = SentToServer | Delivered | Failed

primrec MessageStatus_as_u8 :: "MessageStatus \<Rightarrow> u8" where
  "MessageStatus_as_u8 SentToServer = 0"
| "MessageStatus_as_u8 Delivered = 1"
| "MessageStatus_as_u8 Failed = 2"

definition MessageStatus_from_u8 :: "u8 \<Rightarrow> MessageStatus io_result" where
  "MessageStatus_from_u8 v =
     (if v = 0 then Ok SentToServer
      else if v = 1 then Ok Delivered
      else if v = 2 then Ok Failed
      else Err (invalid_data ''unknown message_status value''))"

record MessageStatusUpdatePayload =
  ms_message_id :: u64
  ms_status :: MessageStatus

definition MessageStatusUpdatePayload_encode :: "MessageStatusUpdatePayload \<Rightarrow> bytes" where
  "MessageStatusUpdatePayload_encode p =
     u64_to_be_bytes (ms_message_id p) @ [MessageStatus_as_u8 (ms_status p)]"

definition MessageStatusUpdatePayload_decode ::
    "bytes \<Rightarrow> MessageStatusUpdatePayload io_result" where
  "MessageStatusUpdatePayload_decode bs =
     and_then (ensure (\<not> length bs \<noteq> 9)
       (invalid_data (''message_status_update must be 9 bytes, got '' @ show_nat (length bs)))) (\<lambda>_.
     and_then (slice bs 0 8) (\<lambda>mid_bytes.
     and_then (decode_u64 mid_bytes ''failed to decode message_status_update message_id'')
       (\<lambda>message_id.
     and_then (index bs 8) (\<lambda>b.
     and_then (MessageStatus_from_u8 b) (\<lambda>status.
     Ok \<lparr>ms_message_id = message_id, ms_status = status\<rparr>)))))"

record DeliveryReceiptPayload =
  dr_message_id :: u64

definition DeliveryReceiptPayload_encode :: "DeliveryReceiptPayload \<Rightarrow> bytes" where
  "DeliveryReceiptPayload_encode p = u64_to_be_bytes (dr_message_id p)"

definition DeliveryReceiptPayload_decode :: "bytes \<Rightarrow> DeliveryReceiptPayload io_result" where
  "DeliveryReceiptPayload_decode bs =
     and_then (ensure (\<not> length bs \<noteq> 8)
       (invalid_data (''delivery_receipt must be 8 bytes, got '' @ show_nat (length bs)))) (\<lambda>_.
     and_then (decode_u64 bs ''failed to decode delivery_receipt message_id'') (\<lambda>i.
     Ok \<lparr>dr_message_id = i\<rparr>))"

section \<open>The offline queue\<close>

datatype FetchQueuedMessagesPayload = FetchQueuedMessagesPayload

definition FetchQueuedMessagesPayload_encode :: "FetchQueuedMessagesPayload \<Rightarrow> bytes" where
  "FetchQueuedMessagesPayload_encode p = []"

definition FetchQueuedMessagesPayload_decode ::
    "bytes \<Rightarrow> FetchQueuedMessagesPayload io_result" where
  "FetchQueuedMessagesPayload_decode bs =
     and_then (require_fully_consumed bs 0 ''fetch_queued_messages'') (\<lambda>_.
     Ok FetchQueuedMessagesPayload)"

record QueuedMessageDeliveryPayload =
  qd_queue_id :: u64
  qd_message_id :: u64
  qd_sender_id :: str
  qd_content :: bytes

definition QueuedMessageDeliveryPayload_encode :: "QueuedMessageDeliveryPayload \<Rightarrow> bytes io_result" where
  "QueuedMessageDeliveryPayload_encode p =
     and_then (encode_sized_string (qd_sender_id p)) (\<lambda>sender.
     and_then (encode_sized_bytes (qd_content p)) (\<lambda>content.
     Ok (u64_to_be_bytes (qd_queue_id p) @ u64_to_be_bytes (qd_message_id p) @ sender @ content)))"

definition QueuedMessageDeliveryPayload_decode :: "bytes \<Rightarrow> QueuedMessageDeliveryPayload io_result" where
  "QueuedMessageDeliveryPayload_decode bs =
     and_then (ensure (\<not> length bs < 16) (invalid_data ''queued_message_delivery too short for ids'')) (\<lambda>_.
     and_then (slice bs 0 8) (\<lambda>qid_bytes.
     and_then (decode_u64 qid_bytes ''failed to decode queued_message_delivery queue_id'') (\<lambda>queue_id.
     and_then (slice bs 8 16) (\<lambda>mid_bytes.
     and_then (decode_u64 mid_bytes ''failed to decode queued_message_delivery message_id'') (\<lambda>message_id.
     and_then (slice_from bs 16) (\<lambda>tail.
     and_then (decode_sized_string tail) (\<lambda>(sender_id, sender_consumed).
     and_then (slice_from bs (16 + sender_consumed)) (\<lambda>content_bytes.
     and_then (decode_sized_bytes content_bytes) (\<lambda>(content, content_consumed).
     and_then (ok_or (invalid_data ''queued_message_delivery length overflow'')
       (checked_add_3 16 sender_consumed content_consumed)) (\<lambda>consumed.
     and_then (require_fully_consumed bs consumed ''queued_message_delivery'') (\<lambda>_.
     Ok \<lparr>qd_queue_id = queue_id, qd_message_id = message_id, qd_sender_id = sender_id,
         qd_content = content\<rparr>)))))))))))"

record AckQueuedMessagePayload =
  ak_queue_id :: u64

definition AckQueuedMessagePayload_encode :: "AckQueuedMessagePayload \<Rightarrow> bytes" where
  "AckQueuedMessagePayload_encode p = u64_to_be_bytes (ak_queue_id p)"

definition AckQueuedMessagePayload_decode :: "bytes \<Rightarrow> AckQueuedMessagePayload io_result" where
  "AckQueuedMessagePayload_decode bs =
     and_then (ensure (\<not> length bs \<noteq> 8)
       (invalid_data (''invalid ack_queued_message length: expected 8, got '' @ show_nat (length bs)))) (\<lambda>_.
     and_then (decode_u64 bs ''failed to decode ack_queued_message queue_id'') (\<lambda>i.
     Ok \<lparr>ak_queue_id = i\<rparr>))"

section \<open>Round trips\<close>

lemma checked_add_3_eq_Some:
  "checked_add_3 a b c = Some n \<longleftrightarrow> n = a + b + c \<and> a + b + c < usize_limit"
  by (auto simp: checked_add_3_def checked_add_usize_def)

text \<open>The sums the decoders compute are far from the limit.\<close>

lemma sized_sum_no_overflow:
  assumes "encode_sized_string s = Ok d" "encode_sized_bytes c = Ok e" "k \<le> 16"
  shows "k + length d + length e < usize_limit"
  using assms by (auto simp: encode_sized_string_eq_Ok encode_sized_bytes_eq_Ok usize_limit_def)

lemmas sized_sums =
  sized_sum_no_overflow [of _ _ _ _ 8, simplified] sized_sum_no_overflow [of _ _ _ _ 16, simplified]

lemma two_fields:
  assumes "take k bs = a" "drop k bs = d @ rest" "drop (k + length d) bs = e @ rest'"
    "length bs = k + length d + length e"
  shows "a @ d @ e = bs"
proof -
  have "drop (k + length d) bs = rest"
    using arg_cong [OF assms(2), of "drop (length d)"] by (simp add: add.commute)
  moreover have "rest' = []"
    using arg_cong [OF assms(3), of length] assms(4) by simp
  ultimately show ?thesis
    using assms by (metis append_Nil2 append_take_drop_id)
qed

lemma two_ids_two_fields:
  assumes "take 8 bs = a" "take 8 (drop 8 bs) = b" "drop 16 bs = d @ rest"
    "drop (16 + length d) bs = e @ rest'" "length bs = 16 + length d + length e"
  shows "a @ b @ d @ e = bs"
proof -
  have "take 16 bs = a @ b"
    using take_add [of 8 8 bs] assms(1,2) by simp
  then show ?thesis
    using two_fields [OF _ assms(3-5), of "a @ b"] by simp
qed

lemma message_status_from_u8_eq_Ok:
  "MessageStatus_from_u8 b = Ok r \<longleftrightarrow> MessageStatus_as_u8 r = b"
  by (cases r) (auto simp: MessageStatus_from_u8_def)

interpretation message_status_enum: byte_enum MessageStatus_as_u8 MessageStatus_from_u8
  by unfold_locales
    (simp_all add: message_status_from_u8_eq_Ok, simp add: MessageStatus_from_u8_def)

lemma wire_message_status [wire]:
  "and_then (MessageStatus_from_u8 b) f = Ok y \<longleftrightarrow> (\<exists>r. MessageStatus_as_u8 r = b \<and> f r = Ok y)"
  by (simp add: and_then_eq_Ok message_status_from_u8_eq_Ok)

interpretation send_message: wire_format SendMessagePayload_encode
  SendMessagePayload_decode
proof
  fix bs p
  show "SendMessagePayload_decode bs = Ok p \<longleftrightarrow> SendMessagePayload_encode p = Ok bs"
    by (cases p) (auto simp: SendMessagePayload_decode_def SendMessagePayload_encode_def
        wire checked_add_3_eq_Some sized_sums intro: two_fields)
  show "SendMessagePayload_decode bs \<noteq> Panic"
    by (auto simp: SendMessagePayload_decode_def panic_conditions inversions
        decode_sized_string_eq_Ok split: prod.splits)
  show "SendMessagePayload_encode p \<noteq> Panic"
    by (simp add: SendMessagePayload_encode_def and_then_eq_Panic)
qed

interpretation deliver_message: wire_format DeliverMessagePayload_encode
  DeliverMessagePayload_decode
proof
  fix bs p
  show "DeliverMessagePayload_decode bs = Ok p \<longleftrightarrow> DeliverMessagePayload_encode p = Ok bs"
    by (cases p) (auto simp: DeliverMessagePayload_decode_def DeliverMessagePayload_encode_def
        wire checked_add_3_eq_Some sized_sums intro: two_fields)
  show "DeliverMessagePayload_decode bs \<noteq> Panic"
    by (auto simp: DeliverMessagePayload_decode_def panic_conditions inversions
        decode_sized_string_eq_Ok split: prod.splits)
  show "DeliverMessagePayload_encode p \<noteq> Panic"
    by (simp add: DeliverMessagePayload_encode_def and_then_eq_Panic)
qed

interpretation message_status_update: wire_format
  "\<lambda>p. Ok (MessageStatusUpdatePayload_encode p)" MessageStatusUpdatePayload_decode
proof
  fix bs p
  show "MessageStatusUpdatePayload_decode bs = Ok p
    \<longleftrightarrow> Ok (MessageStatusUpdatePayload_encode p) = Ok bs"
    by (cases p) (auto simp: MessageStatusUpdatePayload_decode_def
        MessageStatusUpdatePayload_encode_def wire nth_append intro: snoc_takeI)
  show "MessageStatusUpdatePayload_decode bs \<noteq> Panic"
    by (auto simp: MessageStatusUpdatePayload_decode_def panic_conditions inversions
        message_status_enum.of_byte_total)
qed simp

interpretation delivery_receipt: wire_format "\<lambda>p. Ok (DeliveryReceiptPayload_encode p)"
  DeliveryReceiptPayload_decode
  by unfold_locales
    (auto simp: DeliveryReceiptPayload_encode_def DeliveryReceiptPayload_decode_def wire panic_conditions)

interpretation fetch_queued: wire_format "\<lambda>p. Ok (FetchQueuedMessagesPayload_encode p)"
  FetchQueuedMessagesPayload_decode
proof
  fix bs p
  show "FetchQueuedMessagesPayload_decode bs = Ok p
    \<longleftrightarrow> Ok (FetchQueuedMessagesPayload_encode p) = Ok bs"
    by (cases p) (auto simp: FetchQueuedMessagesPayload_encode_def
        FetchQueuedMessagesPayload_decode_def wire)
  show "FetchQueuedMessagesPayload_decode bs \<noteq> Panic"
    by (simp add: FetchQueuedMessagesPayload_decode_def panic_conditions)
qed simp

interpretation queued_delivery: wire_format QueuedMessageDeliveryPayload_encode
  QueuedMessageDeliveryPayload_decode
proof
  fix bs p
  show "QueuedMessageDeliveryPayload_decode bs = Ok p \<longleftrightarrow> QueuedMessageDeliveryPayload_encode p = Ok bs"
    by (cases p) (auto simp: QueuedMessageDeliveryPayload_decode_def QueuedMessageDeliveryPayload_encode_def
        wire checked_add_3_eq_Some sized_sums intro: two_ids_two_fields)
  show "QueuedMessageDeliveryPayload_decode bs \<noteq> Panic"
    by (auto simp: QueuedMessageDeliveryPayload_decode_def panic_conditions inversions
        decode_sized_string_eq_Ok split: prod.splits)
  show "QueuedMessageDeliveryPayload_encode p \<noteq> Panic"
    by (simp add: QueuedMessageDeliveryPayload_encode_def and_then_eq_Panic)
qed

interpretation ack_queued: wire_format "\<lambda>p. Ok (AckQueuedMessagePayload_encode p)"
  AckQueuedMessagePayload_decode
  by unfold_locales
    (auto simp: AckQueuedMessagePayload_encode_def AckQueuedMessagePayload_decode_def wire panic_conditions)

end
