(* ===== verification/Friend_Payloads.thy ===== *)
theory Friend_Payloads
  imports Common
begin

text \<open>
  \<open>src/src/payloads/friend_payloads.rs\<close>: friend requests, removals, presence and the typing
  indicator.
\<close>

section \<open>Friend requests\<close>

record SendFriendRequestPayload =
  fr_target_username :: str

definition SendFriendRequestPayload_encode :: "SendFriendRequestPayload \<Rightarrow> bytes io_result" where
  "SendFriendRequestPayload_encode p = encode_sized_string (fr_target_username p)"

definition SendFriendRequestPayload_decode :: "bytes \<Rightarrow> SendFriendRequestPayload io_result" where
  "SendFriendRequestPayload_decode bs =
     and_then (decode_sized_string bs) (\<lambda>(target_username, consumed).
     and_then (require_fully_consumed bs consumed ''send_friend_request'') (\<lambda>_.
     Ok \<lparr>fr_target_username = target_username\<rparr>))"

datatype FriendRequestStatus = Accepted | Rejected | UserNotFound

primrec FriendRequestStatus_as_u8 :: "FriendRequestStatus \<Rightarrow> u8" where
  "FriendRequestStatus_as_u8 Accepted = 0"
| "FriendRequestStatus_as_u8 Rejected = 1"
| "FriendRequestStatus_as_u8 UserNotFound = 2"

definition FriendRequestStatus_from_u8 :: "u8 \<Rightarrow> FriendRequestStatus io_result" where
  "FriendRequestStatus_from_u8 v =
     (if v = 0 then Ok Accepted
      else if v = 1 then Ok Rejected
      else if v = 2 then Ok UserNotFound
      else Err (invalid_data ''unknown friend_request status''))"

record FriendRequestResultPayload =
  frr_status :: FriendRequestStatus

definition FriendRequestResultPayload_encode :: "FriendRequestResultPayload \<Rightarrow> bytes" where
  "FriendRequestResultPayload_encode p = [FriendRequestStatus_as_u8 (frr_status p)]"

definition FriendRequestResultPayload_decode :: "bytes \<Rightarrow> FriendRequestResultPayload io_result" where
  "FriendRequestResultPayload_decode bs =
     and_then (ensure (\<not> length bs \<noteq> 1)
       (invalid_data ''friend_request_result must be exactly 1 byte'')) (\<lambda>_.
     and_then (index bs 0) (\<lambda>b.
     and_then (FriendRequestStatus_from_u8 b) (\<lambda>status.
     Ok \<lparr>frr_status = status\<rparr>)))"

record IncomingFriendRequestPayload =
  ifr_sender_username :: str

definition IncomingFriendRequestPayload_encode :: "IncomingFriendRequestPayload \<Rightarrow> bytes io_result" where
  "IncomingFriendRequestPayload_encode p = encode_sized_string (ifr_sender_username p)"

definition IncomingFriendRequestPayload_decode :: "bytes \<Rightarrow> IncomingFriendRequestPayload io_result" where
  "IncomingFriendRequestPayload_decode bs =
     and_then (decode_sized_string bs) (\<lambda>(sender_username, consumed).
     and_then (require_fully_consumed bs consumed ''incoming_friend_request'') (\<lambda>_.
     Ok \<lparr>ifr_sender_username = sender_username\<rparr>))"

record FriendRequestDecisionPayload =
  frd_sender_username :: str
  frd_accepted :: bool

definition FriendRequestDecisionPayload_encode ::
    "FriendRequestDecisionPayload \<Rightarrow> bytes io_result" where
  "FriendRequestDecisionPayload_encode p =
     and_then (encode_sized_string (frd_sender_username p)) (\<lambda>out.
     Ok (out @ [encode_bool (frd_accepted p)]))"

definition FriendRequestDecisionPayload_decode ::
    "bytes \<Rightarrow> FriendRequestDecisionPayload io_result" where
  "FriendRequestDecisionPayload_decode bs =
     and_then (decode_sized_string bs) (\<lambda>(sender_username, consumed).
     and_then (ensure (\<not> length bs \<noteq> consumed + 1)
       (invalid_data ''friend_request_decision payload length mismatch'')) (\<lambda>_.
     and_then (index bs consumed) (\<lambda>b.
     and_then (decode_bool b ''friend_request_decision accepted'') (\<lambda>accepted.
     Ok \<lparr>frd_sender_username = sender_username, frd_accepted = accepted\<rparr>))))"

section \<open>Friend removal\<close>

record RemoveFriendPayload =
  rf_friend_username :: str

definition RemoveFriendPayload_encode :: "RemoveFriendPayload \<Rightarrow> bytes io_result" where
  "RemoveFriendPayload_encode p = encode_sized_string (rf_friend_username p)"

definition RemoveFriendPayload_decode :: "bytes \<Rightarrow> RemoveFriendPayload io_result" where
  "RemoveFriendPayload_decode bs =
     and_then (decode_sized_string bs) (\<lambda>(friend_username, consumed).
     and_then (require_fully_consumed bs consumed ''remove_friend'') (\<lambda>_.
     Ok \<lparr>rf_friend_username = friend_username\<rparr>))"

datatype RemoveFriendStatus = Success | NotFound

primrec RemoveFriendStatus_as_u8 :: "RemoveFriendStatus \<Rightarrow> u8" where
  "RemoveFriendStatus_as_u8 Success = 0"
| "RemoveFriendStatus_as_u8 NotFound = 1"

definition RemoveFriendStatus_from_u8 :: "u8 \<Rightarrow> RemoveFriendStatus io_result" where
  "RemoveFriendStatus_from_u8 v =
     (if v = 0 then Ok Success
      else if v = 1 then Ok NotFound
      else Err (invalid_data ''unknown remove_friend status''))"

record RemoveFriendResultPayload =
  rfr_status :: RemoveFriendStatus

definition RemoveFriendResultPayload_encode :: "RemoveFriendResultPayload \<Rightarrow> bytes" where
  "RemoveFriendResultPayload_encode p = [RemoveFriendStatus_as_u8 (rfr_status p)]"

definition RemoveFriendResultPayload_decode :: "bytes \<Rightarrow> RemoveFriendResultPayload io_result" where
  "RemoveFriendResultPayload_decode bs =
     and_then (ensure (\<not> length bs \<noteq> 1)
       (invalid_data ''remove_friend_result must be exactly 1 byte'')) (\<lambda>_.
     and_then (index bs 0) (\<lambda>b.
     and_then (RemoveFriendStatus_from_u8 b) (\<lambda>status.
     Ok \<lparr>rfr_status = status\<rparr>)))"

record FriendRemovedNotificationPayload =
  frn_removed_by_username :: str

definition FriendRemovedNotificationPayload_encode :: "FriendRemovedNotificationPayload \<Rightarrow> bytes io_result" where
  "FriendRemovedNotificationPayload_encode p = encode_sized_string (frn_removed_by_username p)"

definition FriendRemovedNotificationPayload_decode :: "bytes \<Rightarrow> FriendRemovedNotificationPayload io_result" where
  "FriendRemovedNotificationPayload_decode bs =
     and_then (decode_sized_string bs) (\<lambda>(removed_by_username, consumed).
     and_then (require_fully_consumed bs consumed ''friend_removed_notification'') (\<lambda>_.
     Ok \<lparr>frn_removed_by_username = removed_by_username\<rparr>))"

section \<open>Presence\<close>

datatype FriendStatus = Online | Offline | IsTyping

primrec FriendStatus_as_u8 :: "FriendStatus \<Rightarrow> u8" where
  "FriendStatus_as_u8 Online = 0"
| "FriendStatus_as_u8 Offline = 1"
| "FriendStatus_as_u8 IsTyping = 2"

definition FriendStatus_from_u8 :: "u8 \<Rightarrow> FriendStatus io_result" where
  "FriendStatus_from_u8 v =
     (if v = 0 then Ok Online
      else if v = 1 then Ok Offline
      else if v = 2 then Ok IsTyping
      else Err (invalid_data ''unknown friend_status value''))"

record FriendStatusUpdatePayload =
  fsu_friend_username :: str
  fsu_status :: FriendStatus
  fsu_last_seen :: u64

definition FriendStatusUpdatePayload_encode ::
    "FriendStatusUpdatePayload \<Rightarrow> bytes io_result" where
  "FriendStatusUpdatePayload_encode p =
     and_then (encode_sized_string (fsu_friend_username p)) (\<lambda>out.
     Ok (out @ [FriendStatus_as_u8 (fsu_status p)] @ u64_to_be_bytes (fsu_last_seen p)))"

definition FriendStatusUpdatePayload_decode ::
    "bytes \<Rightarrow> FriendStatusUpdatePayload io_result" where
  "FriendStatusUpdatePayload_decode bs =
     and_then (decode_sized_string bs) (\<lambda>(friend_username, consumed).
     and_then (slice_from bs consumed) (\<lambda>rest.
     and_then (ensure (\<not> length rest \<noteq> 9)
       (invalid_data ''friend_status_update missing status/last_seen fields'')) (\<lambda>_.
     and_then (index rest 0) (\<lambda>b.
     and_then (FriendStatus_from_u8 b) (\<lambda>status.
     and_then (slice rest 1 9) (\<lambda>seen_bytes.
     and_then (decode_u64 seen_bytes ''failed to decode friend_status_update last_seen'')
       (\<lambda>last_seen.
     Ok \<lparr>fsu_friend_username = friend_username, fsu_status = status,
         fsu_last_seen = last_seen\<rparr>)))))))"

record SendTypingIndicatorPayload =
  sti_recipient_username :: str

definition SendTypingIndicatorPayload_encode :: "SendTypingIndicatorPayload \<Rightarrow> bytes io_result" where
  "SendTypingIndicatorPayload_encode p = encode_sized_string (sti_recipient_username p)"

definition SendTypingIndicatorPayload_decode :: "bytes \<Rightarrow> SendTypingIndicatorPayload io_result" where
  "SendTypingIndicatorPayload_decode bs =
     and_then (decode_sized_string bs) (\<lambda>(recipient_username, consumed).
     and_then (require_fully_consumed bs consumed ''send_typing_indicator'') (\<lambda>_.
     Ok \<lparr>sti_recipient_username = recipient_username\<rparr>))"

section \<open>Round trips\<close>

lemma friend_request_status_from_u8_eq_Ok: "FriendRequestStatus_from_u8 b = Ok r \<longleftrightarrow> FriendRequestStatus_as_u8 r = b"
  by (cases r) (auto simp: FriendRequestStatus_from_u8_def)

interpretation friend_request_status_enum: byte_enum FriendRequestStatus_as_u8 FriendRequestStatus_from_u8
  by unfold_locales (simp_all add: friend_request_status_from_u8_eq_Ok, simp add: FriendRequestStatus_from_u8_def)

lemma wire_friend_request_status [wire]:
  "and_then (FriendRequestStatus_from_u8 b) f = Ok y \<longleftrightarrow> (\<exists>r. FriendRequestStatus_as_u8 r = b \<and> f r = Ok y)"
  by (simp add: and_then_eq_Ok friend_request_status_from_u8_eq_Ok)

lemma remove_friend_status_from_u8_eq_Ok: "RemoveFriendStatus_from_u8 b = Ok r \<longleftrightarrow> RemoveFriendStatus_as_u8 r = b"
  by (cases r) (auto simp: RemoveFriendStatus_from_u8_def)

interpretation remove_friend_status_enum: byte_enum RemoveFriendStatus_as_u8 RemoveFriendStatus_from_u8
  by unfold_locales (simp_all add: remove_friend_status_from_u8_eq_Ok, simp add: RemoveFriendStatus_from_u8_def)

lemma wire_remove_friend_status [wire]:
  "and_then (RemoveFriendStatus_from_u8 b) f = Ok y \<longleftrightarrow> (\<exists>r. RemoveFriendStatus_as_u8 r = b \<and> f r = Ok y)"
  by (simp add: and_then_eq_Ok remove_friend_status_from_u8_eq_Ok)

lemma friend_status_from_u8_eq_Ok: "FriendStatus_from_u8 b = Ok r \<longleftrightarrow> FriendStatus_as_u8 r = b"
  by (cases r) (auto simp: FriendStatus_from_u8_def)

interpretation friend_status_enum: byte_enum FriendStatus_as_u8 FriendStatus_from_u8
  by unfold_locales (simp_all add: friend_status_from_u8_eq_Ok, simp add: FriendStatus_from_u8_def)

lemma wire_friend_status [wire]:
  "and_then (FriendStatus_from_u8 b) f = Ok y \<longleftrightarrow> (\<exists>r. FriendStatus_as_u8 r = b \<and> f r = Ok y)"
  by (simp add: and_then_eq_Ok friend_status_from_u8_eq_Ok)

interpretation send_friend_request: wire_format SendFriendRequestPayload_encode
  SendFriendRequestPayload_decode
proof
  fix bs p
  show "SendFriendRequestPayload_decode bs = Ok p \<longleftrightarrow> SendFriendRequestPayload_encode p = Ok bs"
    by (cases p) (auto simp: SendFriendRequestPayload_decode_def SendFriendRequestPayload_encode_def wire)
  show "SendFriendRequestPayload_decode bs \<noteq> Panic" "SendFriendRequestPayload_encode p \<noteq> Panic"
    by (auto simp: SendFriendRequestPayload_decode_def SendFriendRequestPayload_encode_def panic_conditions)
qed

interpretation friend_request_result: wire_format "\<lambda>p. Ok (FriendRequestResultPayload_encode p)"
  FriendRequestResultPayload_decode
proof
  fix bs p
  show "FriendRequestResultPayload_decode bs = Ok p
    \<longleftrightarrow> Ok (FriendRequestResultPayload_encode p) = Ok bs"
    by (cases p) (auto simp: FriendRequestResultPayload_encode_def FriendRequestResultPayload_decode_def wire
        intro: one_byteI)
  show "FriendRequestResultPayload_decode bs \<noteq> Panic"
    by (auto simp: FriendRequestResultPayload_decode_def panic_conditions friend_request_status_enum.of_byte_total)
qed simp

interpretation incoming_friend_request: wire_format IncomingFriendRequestPayload_encode
  IncomingFriendRequestPayload_decode
proof
  fix bs p
  show "IncomingFriendRequestPayload_decode bs = Ok p \<longleftrightarrow> IncomingFriendRequestPayload_encode p = Ok bs"
    by (cases p) (auto simp: IncomingFriendRequestPayload_decode_def IncomingFriendRequestPayload_encode_def wire)
  show "IncomingFriendRequestPayload_decode bs \<noteq> Panic" "IncomingFriendRequestPayload_encode p \<noteq> Panic"
    by (auto simp: IncomingFriendRequestPayload_decode_def IncomingFriendRequestPayload_encode_def panic_conditions)
qed

interpretation friend_request_decision: wire_format FriendRequestDecisionPayload_encode
  FriendRequestDecisionPayload_decode
proof
  fix bs p
  show "FriendRequestDecisionPayload_decode bs = Ok p
    \<longleftrightarrow> FriendRequestDecisionPayload_encode p = Ok bs"
    by (cases p) (auto simp: FriendRequestDecisionPayload_decode_def
        FriendRequestDecisionPayload_encode_def wire nth_append intro: one_byteI)
  show "FriendRequestDecisionPayload_decode bs \<noteq> Panic" "FriendRequestDecisionPayload_encode p \<noteq> Panic"
    by (auto simp: FriendRequestDecisionPayload_decode_def FriendRequestDecisionPayload_encode_def
        panic_conditions inversions)
qed

interpretation remove_friend: wire_format RemoveFriendPayload_encode
  RemoveFriendPayload_decode
proof
  fix bs p
  show "RemoveFriendPayload_decode bs = Ok p \<longleftrightarrow> RemoveFriendPayload_encode p = Ok bs"
    by (cases p) (auto simp: RemoveFriendPayload_decode_def RemoveFriendPayload_encode_def wire)
  show "RemoveFriendPayload_decode bs \<noteq> Panic" "RemoveFriendPayload_encode p \<noteq> Panic"
    by (auto simp: RemoveFriendPayload_decode_def RemoveFriendPayload_encode_def panic_conditions)
qed

interpretation remove_friend_result: wire_format "\<lambda>p. Ok (RemoveFriendResultPayload_encode p)"
  RemoveFriendResultPayload_decode
proof
  fix bs p
  show "RemoveFriendResultPayload_decode bs = Ok p
    \<longleftrightarrow> Ok (RemoveFriendResultPayload_encode p) = Ok bs"
    by (cases p) (auto simp: RemoveFriendResultPayload_encode_def RemoveFriendResultPayload_decode_def wire
        intro: one_byteI)
  show "RemoveFriendResultPayload_decode bs \<noteq> Panic"
    by (auto simp: RemoveFriendResultPayload_decode_def panic_conditions remove_friend_status_enum.of_byte_total)
qed simp

interpretation friend_removed_notification: wire_format FriendRemovedNotificationPayload_encode
  FriendRemovedNotificationPayload_decode
proof
  fix bs p
  show "FriendRemovedNotificationPayload_decode bs = Ok p \<longleftrightarrow> FriendRemovedNotificationPayload_encode p = Ok bs"
    by (cases p) (auto simp: FriendRemovedNotificationPayload_decode_def FriendRemovedNotificationPayload_encode_def wire)
  show "FriendRemovedNotificationPayload_decode bs \<noteq> Panic" "FriendRemovedNotificationPayload_encode p \<noteq> Panic"
    by (auto simp: FriendRemovedNotificationPayload_decode_def FriendRemovedNotificationPayload_encode_def panic_conditions)
qed

interpretation friend_status_update: wire_format FriendStatusUpdatePayload_encode
  FriendStatusUpdatePayload_decode
proof
  fix bs p
  show "FriendStatusUpdatePayload_decode bs = Ok p
    \<longleftrightarrow> FriendStatusUpdatePayload_encode p = Ok bs"
    by (cases p) (auto simp: FriendStatusUpdatePayload_decode_def
        FriendStatusUpdatePayload_encode_def wire intro: cons_drop_lenI)
  show "FriendStatusUpdatePayload_decode bs \<noteq> Panic" "FriendStatusUpdatePayload_encode p \<noteq> Panic"
    by (auto simp: FriendStatusUpdatePayload_decode_def FriendStatusUpdatePayload_encode_def
        panic_conditions inversions decode_sized_string_eq_Ok friend_status_enum.of_byte_total)
qed

interpretation send_typing_indicator: wire_format SendTypingIndicatorPayload_encode
  SendTypingIndicatorPayload_decode
proof
  fix bs p
  show "SendTypingIndicatorPayload_decode bs = Ok p \<longleftrightarrow> SendTypingIndicatorPayload_encode p = Ok bs"
    by (cases p) (auto simp: SendTypingIndicatorPayload_decode_def SendTypingIndicatorPayload_encode_def wire)
  show "SendTypingIndicatorPayload_decode bs \<noteq> Panic" "SendTypingIndicatorPayload_encode p \<noteq> Panic"
    by (auto simp: SendTypingIndicatorPayload_decode_def SendTypingIndicatorPayload_encode_def panic_conditions)
qed

end
