(* ===== verification/E2e_Key_Payloads.thy ===== *)
theory E2e_Key_Payloads
  imports Common
begin

text \<open>
  \<open>src/src/payloads/e2e_key_payloads.rs\<close>: publication and lookup of the end-to-end identity key
  bundles, and the bundle itself (\<open>E2ePublicKey\<close> of \<open>src/src/crypto/e2e.rs\<close>).
\<close>

section \<open>The key bundle\<close>

record E2ePublicKey =
  pk_x25519_public :: key32
  pk_ml_kem_ek :: kem_ek
  pk_dsa_verifying_key :: dsa_vk

definition E2E_PUBLIC_KEY_SIZE :: nat where
  "E2E_PUBLIC_KEY_SIZE = 32 + ML_KEM_768_EK_SIZE + ML_DSA_65_VK_SIZE"

definition encode_e2e_public_key :: "E2ePublicKey \<Rightarrow> bytes \<Rightarrow> bytes" where
  "encode_e2e_public_key key out =
     out @ as_slice (pk_x25519_public key) @ as_slice (pk_ml_kem_ek key)
       @ as_slice (pk_dsa_verifying_key key)"

definition decode_e2e_public_key :: "bytes \<Rightarrow> E2ePublicKey io_result" where
  "decode_e2e_public_key bs =
     and_then (ensure (\<not> length bs < E2E_PUBLIC_KEY_SIZE)
       (invalid_data ''e2e public key bundle too short'')) (\<lambda>_.
     and_then (slice bs 0 32) (\<lambda>x_bytes.
     and_then (try_into_array (invalid_data ''invalid x25519 key length'') x_bytes) (\<lambda>x25519_public.
     let ml_kem_end = 32 + ML_KEM_768_EK_SIZE in
     and_then (slice bs 32 ml_kem_end) (\<lambda>ek_bytes.
     and_then (copy_from_slice ek_bytes) (\<lambda>ml_kem_ek.
     and_then (slice bs ml_kem_end E2E_PUBLIC_KEY_SIZE) (\<lambda>vk_bytes.
     and_then (copy_from_slice vk_bytes) (\<lambda>dsa_verifying_key.
     Ok \<lparr>pk_x25519_public = x25519_public, pk_ml_kem_ek = ml_kem_ek,
         pk_dsa_verifying_key = dsa_verifying_key\<rparr>)))))))"

section \<open>Publication\<close>

record PublishE2eKeyPayload =
  pub_key :: E2ePublicKey

definition PublishE2eKeyPayload_encode :: "PublishE2eKeyPayload \<Rightarrow> bytes" where
  "PublishE2eKeyPayload_encode p = encode_e2e_public_key (pub_key p) []"

definition PublishE2eKeyPayload_decode :: "bytes \<Rightarrow> PublishE2eKeyPayload io_result" where
  "PublishE2eKeyPayload_decode bs =
     and_then (decode_e2e_public_key bs) (\<lambda>key.
     and_then (require_fully_consumed bs E2E_PUBLIC_KEY_SIZE ''publish_e2e_key'') (\<lambda>_.
     Ok \<lparr>pub_key = key\<rparr>))"

record PublishE2eKeyResultPayload =
  pkr_success :: bool
  pkr_message :: str

definition PublishE2eKeyResultPayload_encode ::
    "PublishE2eKeyResultPayload \<Rightarrow> bytes io_result" where
  "PublishE2eKeyResultPayload_encode p =
     and_then (encode_sized_string (pkr_message p)) (\<lambda>message.
     Ok ([encode_bool (pkr_success p)] @ message))"

definition PublishE2eKeyResultPayload_decode ::
    "bytes \<Rightarrow> PublishE2eKeyResultPayload io_result" where
  "PublishE2eKeyResultPayload_decode bs =
     and_then (ensure (bs \<noteq> []) (invalid_data ''publish_e2e_key_result payload too short'')) (\<lambda>_.
     and_then (index bs 0) (\<lambda>b.
     and_then (decode_bool b ''publish_e2e_key_result success'') (\<lambda>success.
     and_then (slice_from bs 1) (\<lambda>tail.
     and_then (decode_sized_string tail) (\<lambda>(message, consumed).
     and_then (require_fully_consumed bs (1 + consumed) ''publish_e2e_key_result'') (\<lambda>_.
     Ok \<lparr>pkr_success = success, pkr_message = message\<rparr>))))))"

section \<open>Lookup\<close>

record FetchE2eKeyPayload =
  fek_target_username :: str

definition FetchE2eKeyPayload_encode :: "FetchE2eKeyPayload \<Rightarrow> bytes io_result" where
  "FetchE2eKeyPayload_encode p = encode_sized_string (fek_target_username p)"

definition FetchE2eKeyPayload_decode :: "bytes \<Rightarrow> FetchE2eKeyPayload io_result" where
  "FetchE2eKeyPayload_decode bs =
     and_then (decode_sized_string bs) (\<lambda>(target_username, consumed).
     and_then (require_fully_consumed bs consumed ''fetch_e2e_key'') (\<lambda>_.
     Ok \<lparr>fek_target_username = target_username\<rparr>))"

text \<open>The source's \<open>E2eKeyStatus::NotFound\<close> is \<open>E2eNotFound\<close> here.\<close>

datatype E2eKeyStatus = E2eFound | E2eNotFound

primrec E2eKeyStatus_as_u8 :: "E2eKeyStatus \<Rightarrow> u8" where
  "E2eKeyStatus_as_u8 E2eFound = 0"
| "E2eKeyStatus_as_u8 E2eNotFound = 1"

definition E2eKeyStatus_from_u8 :: "u8 \<Rightarrow> E2eKeyStatus io_result" where
  "E2eKeyStatus_from_u8 v =
     (if v = 0 then Ok E2eFound
      else if v = 1 then Ok E2eNotFound
      else Err (invalid_data ''unknown e2e_key status''))"

record E2eKeyResponsePayload =
  ekr_username :: str
  ekr_key :: "E2ePublicKey option"

definition E2eKeyResponsePayload_encode :: "E2eKeyResponsePayload \<Rightarrow> bytes io_result" where
  "E2eKeyResponsePayload_encode p =
     and_then (encode_sized_string (ekr_username p)) (\<lambda>out.
     case ekr_key p of
       Some key \<Rightarrow> Ok (encode_e2e_public_key key (out @ [E2eKeyStatus_as_u8 E2eFound]))
     | None \<Rightarrow> Ok (out @ [E2eKeyStatus_as_u8 E2eNotFound]))"

definition E2eKeyResponsePayload_decode :: "bytes \<Rightarrow> E2eKeyResponsePayload io_result" where
  "E2eKeyResponsePayload_decode bs =
     and_then (decode_sized_string bs) (\<lambda>(username, consumed).
     and_then (slice_from bs consumed) (\<lambda>rest.
     and_then (ensure (rest \<noteq> []) (invalid_data ''e2e_key_response missing status byte'')) (\<lambda>_.
     and_then (index rest 0) (\<lambda>b.
     and_then (E2eKeyStatus_from_u8 b) (\<lambda>status.
     case status of
       E2eFound \<Rightarrow>
         and_then (slice_from rest 1) (\<lambda>key_bytes.
         and_then (decode_e2e_public_key key_bytes) (\<lambda>key.
         and_then (require_fully_consumed bs (consumed + 1 + E2E_PUBLIC_KEY_SIZE)
           ''e2e_key_response'') (\<lambda>_.
         Ok \<lparr>ekr_username = username, ekr_key = Some key\<rparr>)))
     | E2eNotFound \<Rightarrow>
         and_then (require_fully_consumed bs (consumed + 1) ''e2e_key_response'') (\<lambda>_.
         Ok \<lparr>ekr_username = username, ekr_key = None\<rparr>))))))"

section \<open>Round trips\<close>

lemma encode_e2e_public_key_append: "encode_e2e_public_key key out = out @ encode_e2e_public_key key []"
  by (simp add: encode_e2e_public_key_def)

lemma length_encode_e2e_public_key [simp]:
  "length (encode_e2e_public_key key out) = length out + E2E_PUBLIC_KEY_SIZE"
  by (simp add: encode_e2e_public_key_def E2E_PUBLIC_KEY_SIZE_def size_defs)

lemma decode_e2e_public_key_eq_Ok:
  "decode_e2e_public_key bs = Ok key \<longleftrightarrow> (\<exists>rest. bs = encode_e2e_public_key key [] @ rest)"
proof
  assume "decode_e2e_public_key bs = Ok key"
  then have "take 32 bs = as_slice (pk_x25519_public key)"
    "take 1184 (drop 32 bs) = as_slice (pk_ml_kem_ek key)"
    "take 1952 (drop 1216 bs) = as_slice (pk_dsa_verifying_key key)"
    by (auto simp: decode_e2e_public_key_def wire size_defs E2E_PUBLIC_KEY_SIZE_def Let_def)
  from join_3 [OF this(1,2) refl] join_2 [OF this(3) refl]
  show "\<exists>rest. bs = encode_e2e_public_key key [] @ rest"
    by (intro exI [of _ "drop 3168 bs"]) (simp add: encode_e2e_public_key_def)
next
  assume "\<exists>rest. bs = encode_e2e_public_key key [] @ rest"
  then show "decode_e2e_public_key bs = Ok key"
    by (cases key) (auto simp: decode_e2e_public_key_def encode_e2e_public_key_def wire size_defs
        E2E_PUBLIC_KEY_SIZE_def Let_def)
qed

lemma decode_e2e_public_key_encode:
  "decode_e2e_public_key (encode_e2e_public_key key []) = Ok key"
  unfolding decode_e2e_public_key_eq_Ok by (intro exI [of _ "[]"]) simp

lemma wire_e2e_public_key [wire]:
  "and_then (decode_e2e_public_key bs) f = Ok y \<longleftrightarrow>
     (\<exists>key rest. bs = encode_e2e_public_key key [] @ rest \<and> f key = Ok y)"
  by (auto simp: and_then_eq_Ok decode_e2e_public_key_eq_Ok)

lemma decode_e2e_public_key_not_Panic [simp]: "decode_e2e_public_key bs \<noteq> Panic"
  by (auto simp: decode_e2e_public_key_def array_panic_conditions inversions size_defs
      E2E_PUBLIC_KEY_SIZE_def Let_def)

lemma e2e_key_status_from_u8_eq_Ok: "E2eKeyStatus_from_u8 b = Ok r \<longleftrightarrow> E2eKeyStatus_as_u8 r = b"
  by (cases r) (auto simp: E2eKeyStatus_from_u8_def)

interpretation e2e_key_status_enum: byte_enum E2eKeyStatus_as_u8 E2eKeyStatus_from_u8
  by unfold_locales (simp_all add: e2e_key_status_from_u8_eq_Ok, simp add: E2eKeyStatus_from_u8_def)

lemma wire_e2e_key_status [wire]:
  "and_then (E2eKeyStatus_from_u8 b) f = Ok y \<longleftrightarrow> (\<exists>r. E2eKeyStatus_as_u8 r = b \<and> f r = Ok y)"
  by (simp add: and_then_eq_Ok e2e_key_status_from_u8_eq_Ok)

lemma ex_E2eKeyStatus: "(\<exists>r. P r) \<longleftrightarrow> P E2eFound \<or> P E2eNotFound"
  by (metis E2eKeyStatus.exhaust)

lemma found_bundle:
  assumes "length rest = Suc E2E_PUBLIC_KEY_SIZE" "rest ! 0 = b"
    "drop (Suc 0) rest = encode_e2e_public_key key [] @ excess"
  shows "b # encode_e2e_public_key key [] = rest"
proof -
  have "excess = []"
    using arg_cong [OF assms(3), of length] assms(1) by simp
  with assms show ?thesis by (cases rest) auto
qed

interpretation publish_e2e_key: wire_format "\<lambda>p. Ok (PublishE2eKeyPayload_encode p)"
  PublishE2eKeyPayload_decode
proof
  fix bs p
  show "PublishE2eKeyPayload_decode bs = Ok p \<longleftrightarrow> Ok (PublishE2eKeyPayload_encode p) = Ok bs"
    by (cases p) (auto simp: PublishE2eKeyPayload_decode_def PublishE2eKeyPayload_encode_def wire)
  show "PublishE2eKeyPayload_decode bs \<noteq> Panic"
    by (auto simp: PublishE2eKeyPayload_decode_def panic_conditions)
qed simp

interpretation publish_e2e_key_result: wire_format PublishE2eKeyResultPayload_encode
  PublishE2eKeyResultPayload_decode
proof
  fix bs p
  show "PublishE2eKeyResultPayload_decode bs = Ok p
    \<longleftrightarrow> PublishE2eKeyResultPayload_encode p = Ok bs"
    by (cases p; cases bs) (auto simp: PublishE2eKeyResultPayload_decode_def
        PublishE2eKeyResultPayload_encode_def wire)
  show "PublishE2eKeyResultPayload_decode bs \<noteq> Panic" "PublishE2eKeyResultPayload_encode p \<noteq> Panic"
    by (auto simp: PublishE2eKeyResultPayload_decode_def PublishE2eKeyResultPayload_encode_def
        panic_conditions Suc_le_eq)
qed

interpretation fetch_e2e_key: wire_format FetchE2eKeyPayload_encode
  FetchE2eKeyPayload_decode
proof
  fix bs p
  show "FetchE2eKeyPayload_decode bs = Ok p \<longleftrightarrow> FetchE2eKeyPayload_encode p = Ok bs"
    by (cases p) (auto simp: FetchE2eKeyPayload_decode_def FetchE2eKeyPayload_encode_def wire)
  show "FetchE2eKeyPayload_decode bs \<noteq> Panic" "FetchE2eKeyPayload_encode p \<noteq> Panic"
    by (auto simp: FetchE2eKeyPayload_decode_def FetchE2eKeyPayload_encode_def panic_conditions)
qed

interpretation e2e_key_response: wire_format E2eKeyResponsePayload_encode
  E2eKeyResponsePayload_decode
proof
  fix bs p
  show "E2eKeyResponsePayload_decode bs = Ok p \<longleftrightarrow> E2eKeyResponsePayload_encode p = Ok bs"
  proof
    assume "E2eKeyResponsePayload_decode bs = Ok p"
    then show "E2eKeyResponsePayload_encode p = Ok bs"
      by (auto simp: E2eKeyResponsePayload_decode_def E2eKeyResponsePayload_encode_def wire
          encode_e2e_public_key_append [of _ "_ @ _"] ex_E2eKeyStatus
          intro: one_byteI found_bundle)
  next
    assume "E2eKeyResponsePayload_encode p = Ok bs"
    then show "E2eKeyResponsePayload_decode bs = Ok p"
      by (cases p; cases "ekr_key p")
        (auto simp: E2eKeyResponsePayload_decode_def E2eKeyResponsePayload_encode_def
          wire_field_steps decode_sized_string_append encode_e2e_public_key_append [of _ "_ @ _"]
          slice_from_def index_def E2eKeyStatus_from_u8_def require_fully_consumed_def
          decode_e2e_public_key_encode)
  qed
  show "E2eKeyResponsePayload_decode bs \<noteq> Panic"
    by (auto simp: E2eKeyResponsePayload_decode_def panic_conditions inversions Suc_le_eq
        decode_sized_string_eq_Ok e2e_key_status_enum.of_byte_total split: E2eKeyStatus.splits)
  show "E2eKeyResponsePayload_encode p \<noteq> Panic"
    by (simp add: E2eKeyResponsePayload_encode_def and_then_eq_Panic split: option.splits)
qed

end
