(* ===== verification/Packet_Payloads.thy ===== *)
theory Packet_Payloads
  imports Channel Ping_Payloads Hello_Payloads Close_Payloads Auth_Payloads Message_Payloads
    Friend_Payloads E2e_Key_Payloads
begin

text \<open>
  The payload of each packet type, as one interface: its encoder and decoder (a \<open>wire_format\<close>), its
  packet type, and the field limit under which it stays within the ceiling of that type.  What
  follows for sending a payload through two codecs is proved once, and every payload of the crate is
  an interpretation.
\<close>

section \<open>Ceilings\<close>

text \<open>An encoding that exists and is within the ceiling of its type.\<close>

definition within :: "PacketType \<Rightarrow> bytes io_result \<Rightarrow> bool" where
  "within t m \<longleftrightarrow> (case m of
       Ok bs \<Rightarrow> length bs \<le> unat (max_payload_size t)
     | Err e \<Rightarrow> False
     | Panic \<Rightarrow> False)"

lemma within_eq: "within t m \<longleftrightarrow> (\<exists>bs. m = Ok bs \<and> length bs \<le> unat (max_payload_size t))"
  by (auto simp: within_def split: outcome.splits)

lemma within_Ok [simp]: "within t (Ok bs) \<longleftrightarrow> length bs \<le> unat (max_payload_size t)"
  by (simp add: within_def)

section \<open>The interface\<close>

locale packet_payload = wire_format enc dec
  for enc :: "'a \<Rightarrow> bytes io_result" and dec :: "bytes \<Rightarrow> 'a io_result" +
  fixes ptype :: PacketType and fits :: "'a \<Rightarrow> bool"
  assumes within_iff: "within ptype (enc x) \<longleftrightarrow> fits x"
begin

lemma fits_encodes:
  assumes "fits x"
  obtains bs where "enc x = Ok bs" "length bs \<le> unat (max_payload_size ptype)"
  using assms within_iff [of x] that by (auto simp: within_eq)

text \<open>
  A payload that fits is encoded, sealed, sent, received, opened and decoded to itself, and the
  receiver is told its type.
\<close>

lemma payload_transfer:
  assumes "aead_correct A" "aead_seals_upto (1024 * 1024) A" "linked tx rx"
    and "unat (next_send_seq tx) < 2 ^ 64 - 1" "fits x"
  shows "\<exists>bs tx' rx' frame pkt. enc x = Ok bs
    \<and> write_packet A vec ptype 0 bs (tx, out) = (Ok (), (tx', out @ frame))
    \<and> read_packet A cursor (rx, frame @ rest) = (Ok pkt, (rx', rest))
    \<and> from_u8 (packet_type (raw_header pkt)) = Ok ptype
    \<and> dec (raw_payload pkt) = Ok x \<and> linked tx' rx'"
proof -
  obtain bs where bs: "enc x = Ok bs" "length bs \<le> unat (max_payload_size ptype)"
    using assms(5) by (rule fits_encodes)
  obtain n where n: "checked_add_u64 (next_send_seq tx) 1 = Some n"
    using next_exists [OF assms(4)] by blast
  have "sendable tx ptype 0 bs"
    using bs(2) by (simp add: sendable_def)
  from packet_transfer [OF assms(1-3) this n, of out rest] linked_advance [OF assms(3) n]
  show ?thesis
    using bs(1) dec_enc [OF bs(1)] by (fastforce simp: received_def from_u8_as_u8)
qed

end

section \<open>The payloads of the crate\<close>

text \<open>The encoders, for evaluating the length of an encoding.\<close>

lemma within_string_then:
  "within t (and_then (encode_sized_string s) f) \<longleftrightarrow>
     str_len s \<le> 65535 \<and> within t (f (u16_to_be_bytes (of_nat (str_len s)) @ as_bytes s))"
  by (auto simp: encode_sized_string_def Let_def str_len_def within_eq)

lemma within_string:
  "within t (encode_sized_string s) \<longleftrightarrow> str_len s \<le> 65535 \<and> str_len s + 2 \<le> unat (max_payload_size t)"
  by (auto simp: encode_sized_string_def Let_def str_len_def within_eq)

lemma within_bytes_then:
  "within t (and_then (encode_sized_bytes c) f) \<longleftrightarrow>
     length c \<le> 4294967295 \<and> within t (f (u32_to_be_bytes (of_nat (length c)) @ c))"
  by (auto simp: encode_sized_bytes_def within_eq)

lemma length_as_bytes [simp]: "length (as_bytes s) = str_len s"
  by (simp add: str_len_def)

lemmas within_rules = within_string_then within_string within_bytes_then size_defs Let_def

interpretation client_hello_packet: packet_payload ClientHelloPayload_encode
  ClientHelloPayload_decode ClientHello "\<lambda>p. str_len (ch_client_id p) \<le> 82"
  by unfold_locales (auto simp: ClientHelloPayload_encode_def within_rules)

interpretation server_hello_packet: packet_payload ServerHelloPayload_encode
  ServerHelloPayload_decode ServerHello "\<lambda>p. str_len (sh_server_id p) \<le> 78"
  by unfold_locales (auto simp: ServerHelloPayload_encode_def within_rules)

interpretation client_finish_packet: packet_payload "\<lambda>p. Ok (ClientFinishPayload_encode p)"
  ClientFinishPayload_decode ClientFinish "\<lambda>p. True"
  by unfold_locales (auto simp: ClientFinishPayload_encode_def within_rules)

interpretation server_accept_packet: packet_payload "\<lambda>p. Ok (ServerAcceptPayload_encode p)"
  ServerAcceptPayload_decode ServerAccept "\<lambda>p. True"
  by unfold_locales (auto simp: ServerAcceptPayload_encode_def within_rules)

interpretation auth_challenge_packet: packet_payload "\<lambda>p. Ok (AuthChallengePayload_encode p)"
  AuthChallengePayload_decode AuthChallenge "\<lambda>p. True"
  by unfold_locales (auto simp: AuthChallengePayload_encode_def within_rules)

interpretation auth_response_packet: packet_payload AuthResponsePayload_encode
  AuthResponsePayload_decode AuthResponse "\<lambda>p. length (ar_attestation_token p) \<le> 4096"
  by unfold_locales (auto simp: AuthResponsePayload_encode_def within_rules)

interpretation auth_accept_packet: packet_payload "\<lambda>p. Ok (AuthAcceptPayload_encode p)"
  AuthAcceptPayload_decode AuthAccept "\<lambda>p. True"
  by unfold_locales (auto simp: AuthAcceptPayload_encode_def within_rules)

interpretation auth_reject_packet: packet_payload "\<lambda>p. Ok (AuthRejectPayload_encode p)"
  AuthRejectPayload_decode AuthReject "\<lambda>p. True"
  by unfold_locales (auto simp: AuthRejectPayload_encode_def within_rules)

interpretation ping_packet: packet_payload "\<lambda>p. Ok (PingPayload_encode p)"
  PingPayload_decode Ping "\<lambda>p. True"
  by unfold_locales (auto simp: PingPayload_encode_def within_rules)

interpretation pong_packet: packet_payload "\<lambda>p. Ok (PongPayload_encode p)"
  PongPayload_decode Pong "\<lambda>p. True"
  by unfold_locales (auto simp: PongPayload_encode_def within_rules)

interpretation register_device_packet: packet_payload RegisterDevicePayload_encode
  RegisterDevicePayload_decode RegisterDevice "\<lambda>p. str_len (reg_username p) \<le> 128"
  by unfold_locales (auto simp: RegisterDevicePayload_encode_def within_rules)

interpretation register_response_packet: packet_payload RegisterResponsePayload_encode
  RegisterResponsePayload_decode RegisterResponse "\<lambda>p. str_len (rr_message p) \<le> 256"
  by unfold_locales (auto simp: RegisterResponsePayload_encode_def within_rules)

interpretation query_account_status_packet: packet_payload "\<lambda>p. Ok (QueryAccountStatusPayload_encode p)"
  QueryAccountStatusPayload_decode QueryAccountStatus "\<lambda>p. True"
  by unfold_locales (auto simp: QueryAccountStatusPayload_encode_def within_rules)

interpretation account_status_response_packet: packet_payload AccountStatusResponsePayload_encode
  AccountStatusResponsePayload_decode AccountStatusResponse "\<lambda>p. str_len (as_ban_reason p) \<le> 256"
  by unfold_locales (auto simp: AccountStatusResponsePayload_encode_def within_rules)

interpretation send_friend_request_packet: packet_payload SendFriendRequestPayload_encode
  SendFriendRequestPayload_decode SendFriendRequest "\<lambda>p. str_len (fr_target_username p) \<le> 128"
  by unfold_locales (auto simp: SendFriendRequestPayload_encode_def within_rules)

interpretation friend_request_result_packet: packet_payload "\<lambda>p. Ok (FriendRequestResultPayload_encode p)"
  FriendRequestResultPayload_decode FriendRequestResult "\<lambda>p. True"
  by unfold_locales (auto simp: FriendRequestResultPayload_encode_def within_rules)

interpretation incoming_friend_request_packet: packet_payload IncomingFriendRequestPayload_encode
  IncomingFriendRequestPayload_decode IncomingFriendRequest "\<lambda>p. str_len (ifr_sender_username p) \<le> 128"
  by unfold_locales (auto simp: IncomingFriendRequestPayload_encode_def within_rules)

interpretation friend_request_decision_packet: packet_payload FriendRequestDecisionPayload_encode
  FriendRequestDecisionPayload_decode FriendRequestDecision "\<lambda>p. str_len (frd_sender_username p) \<le> 128"
  by unfold_locales (auto simp: FriendRequestDecisionPayload_encode_def within_rules)

interpretation remove_friend_packet: packet_payload RemoveFriendPayload_encode
  RemoveFriendPayload_decode RemoveFriend "\<lambda>p. str_len (rf_friend_username p) \<le> 128"
  by unfold_locales (auto simp: RemoveFriendPayload_encode_def within_rules)

interpretation remove_friend_result_packet: packet_payload "\<lambda>p. Ok (RemoveFriendResultPayload_encode p)"
  RemoveFriendResultPayload_decode RemoveFriendResult "\<lambda>p. True"
  by unfold_locales (auto simp: RemoveFriendResultPayload_encode_def within_rules)

interpretation friend_removed_notification_packet: packet_payload FriendRemovedNotificationPayload_encode
  FriendRemovedNotificationPayload_decode FriendRemovedNotification "\<lambda>p. str_len (frn_removed_by_username p) \<le> 128"
  by unfold_locales (auto simp: FriendRemovedNotificationPayload_encode_def within_rules)

interpretation friend_status_update_packet: packet_payload FriendStatusUpdatePayload_encode
  FriendStatusUpdatePayload_decode FriendStatusUpdate "\<lambda>p. str_len (fsu_friend_username p) \<le> 128"
  by unfold_locales (auto simp: FriendStatusUpdatePayload_encode_def within_rules)

interpretation send_typing_indicator_packet: packet_payload SendTypingIndicatorPayload_encode
  SendTypingIndicatorPayload_decode SendTypingIndicator "\<lambda>p. str_len (sti_recipient_username p) \<le> 128"
  by unfold_locales (auto simp: SendTypingIndicatorPayload_encode_def within_rules)

interpretation publish_e2e_key_packet: packet_payload "\<lambda>p. Ok (PublishE2eKeyPayload_encode p)"
  PublishE2eKeyPayload_decode PublishE2eKey "\<lambda>p. True"
  by unfold_locales (auto simp: PublishE2eKeyPayload_encode_def within_rules E2E_PUBLIC_KEY_SIZE_def)

interpretation publish_e2e_key_result_packet: packet_payload PublishE2eKeyResultPayload_encode
  PublishE2eKeyResultPayload_decode PublishE2eKeyResult "\<lambda>p. str_len (pkr_message p) \<le> 256"
  by unfold_locales (auto simp: PublishE2eKeyResultPayload_encode_def within_rules)

interpretation fetch_e2e_key_packet: packet_payload FetchE2eKeyPayload_encode
  FetchE2eKeyPayload_decode FetchE2eKey "\<lambda>p. str_len (fek_target_username p) \<le> 128"
  by unfold_locales (auto simp: FetchE2eKeyPayload_encode_def within_rules)

interpretation e2e_key_response_packet: packet_payload E2eKeyResponsePayload_encode
  E2eKeyResponsePayload_decode E2eKeyResponse "\<lambda>p. str_len (ekr_username p) \<le> (if ekr_key p = None then 3296 else 128)"
  by unfold_locales (auto simp: E2eKeyResponsePayload_encode_def within_rules E2E_PUBLIC_KEY_SIZE_def split: option.splits)

interpretation send_message_packet: packet_payload SendMessagePayload_encode
  SendMessagePayload_decode SendMessage "\<lambda>p. str_len (sm_recipient_id p) + length (sm_content p) \<le> 65522"
  by unfold_locales (auto simp: SendMessagePayload_encode_def within_rules)

interpretation deliver_message_packet: packet_payload DeliverMessagePayload_encode
  DeliverMessagePayload_decode DeliverMessage "\<lambda>p. str_len (dm_sender_id p) + length (dm_content p) \<le> 65522"
  by unfold_locales (auto simp: DeliverMessagePayload_encode_def within_rules)

interpretation fetch_queued_packet: packet_payload "\<lambda>p. Ok (FetchQueuedMessagesPayload_encode p)"
  FetchQueuedMessagesPayload_decode FetchQueuedMessages "\<lambda>p. True"
  by unfold_locales (auto simp: FetchQueuedMessagesPayload_encode_def within_rules)

interpretation queued_delivery_packet: packet_payload QueuedMessageDeliveryPayload_encode
  QueuedMessageDeliveryPayload_decode QueuedMessageDelivery "\<lambda>p. str_len (qd_sender_id p) + length (qd_content p) \<le> 65514"
  by unfold_locales (auto simp: QueuedMessageDeliveryPayload_encode_def within_rules)

interpretation ack_queued_packet: packet_payload "\<lambda>p. Ok (AckQueuedMessagePayload_encode p)"
  AckQueuedMessagePayload_decode AckQueuedMessage "\<lambda>p. True"
  by unfold_locales (auto simp: AckQueuedMessagePayload_encode_def within_rules)

interpretation message_status_update_packet: packet_payload "\<lambda>p. Ok (MessageStatusUpdatePayload_encode p)"
  MessageStatusUpdatePayload_decode MessageStatusUpdate "\<lambda>p. True"
  by unfold_locales (auto simp: MessageStatusUpdatePayload_encode_def within_rules)

interpretation delivery_receipt_packet: packet_payload "\<lambda>p. Ok (DeliveryReceiptPayload_encode p)"
  DeliveryReceiptPayload_decode DeliveryReceipt "\<lambda>p. True"
  by unfold_locales (auto simp: DeliveryReceiptPayload_encode_def within_rules)

interpretation error_packet: packet_payload ErrorPayload_encode
  ErrorPayload_decode Error "\<lambda>p. str_len (err_message p) \<le> 1022"
  by unfold_locales (auto simp: ErrorPayload_encode_def within_rules)

interpretation close_packet: packet_payload ClosePayload_encode
  ClosePayload_decode Close "\<lambda>p. str_len (close_message p) \<le> 1021"
  by unfold_locales (auto simp: ClosePayload_encode_def within_rules)

end
