(* ===== verification/Session.thy ===== *)
theory Session
  imports Crypto_Lib
begin

text \<open>
  \<open>src/src/crypto/session.rs\<close>: the hybrid key exchange of the transport layer.  The client keeps
  ephemeral secrets between its hello and the server's; the server answers at once.
\<close>

record SessionKeys =
  client_to_server :: key32
  server_to_client :: key32

record ('x, 'dk) ClientHandshakeState =
  hs_x25519_secret :: 'x
  hs_ml_kem_dk :: "'dk option"
  hs_x25519_public :: key32
  hs_ml_kem_ek :: kem_ek

record ServerHandshakeState =
  srv_x25519_public :: key32
  srv_ml_kem_ciphertext :: kem_ct
  srv_session_keys :: SessionKeys

definition ClientHandshakeState_generate ::
    "'x x25519 \<Rightarrow> ('dk, 'ek, 'r) ml_kem \<Rightarrow> 'x \<Rightarrow> 'r \<Rightarrow> ('x, 'dk) ClientHandshakeState presult" where
  "ClientHandshakeState_generate X K x25519_secret coins =
     (let x25519_public = x_public X x25519_secret;
          (ml_kem_dk, ml_kem_ek) = kem_generate_keypair K coins;
          ek_slice = kem_ek_to_bytes K ml_kem_ek in
      and_then (ensure (\<not> length ek_slice \<noteq> ML_KEM_768_EK_SIZE) CryptoError) (\<lambda>_.
      and_then (copy_from_slice ek_slice) (\<lambda>ml_kem_ek_arr.
      Ok \<lparr>hs_x25519_secret = x25519_secret, hs_ml_kem_dk = Some ml_kem_dk,
          hs_x25519_public = x25519_public, hs_ml_kem_ek = ml_kem_ek_arr\<rparr>)))"

definition handshake_context :: "key32 \<Rightarrow> key32 \<Rightarrow> kem_ct \<Rightarrow> bytes" where
  "handshake_context client_x25519_pk server_x25519_pk ml_kem_ciphertext =
     as_slice client_x25519_pk @ as_slice server_x25519_pk @ as_slice ml_kem_ciphertext"

definition C2S_LABEL :: bytes where
  "C2S_LABEL = ascii ''chatix-c2s-v1''"

definition S2C_LABEL :: bytes where
  "S2C_LABEL = ascii ''chatix-s2c-v1''"

definition derive_keys :: "'prk hkdf \<Rightarrow> bytes \<Rightarrow> bytes \<Rightarrow> bytes \<Rightarrow> SessionKeys presult" where
  "derive_keys H x25519_shared kyber_shared context =
     (let ikm = x25519_shared @ kyber_shared;
          hk = hkdf_new H None ikm;
          c2s_info = context @ C2S_LABEL;
          s2c_info = context @ S2C_LABEL in
      and_then (ok_or CryptoError (hkdf_expand H hk c2s_info)) (\<lambda>c2s.
      and_then (ok_or CryptoError (hkdf_expand H hk s2c_info)) (\<lambda>s2c.
      Ok \<lparr>client_to_server = c2s, server_to_client = s2c\<rparr>)))"

definition derive_session_keys ::
    "'x x25519 \<Rightarrow> ('dk, 'ek, 'r) ml_kem \<Rightarrow> 'prk hkdf \<Rightarrow> ('x, 'dk) ClientHandshakeState
     \<Rightarrow> key32 \<Rightarrow> kem_ct \<Rightarrow> SessionKeys presult" where
  "derive_session_keys X K H state server_x25519_pk ml_kem_ciphertext =
     (let x25519_shared = x_diffie_hellman X (hs_x25519_secret state) server_x25519_pk in
      and_then (ok_or CryptoError (hs_ml_kem_dk state)) (\<lambda>dk.
      and_then (try_into_array CryptoError (as_slice ml_kem_ciphertext)) (\<lambda>ct.
      let kyber_shared = kem_decapsulate K dk ct;
          context = handshake_context (hs_x25519_public state) server_x25519_pk ml_kem_ciphertext in
      derive_keys H (as_slice x25519_shared) (as_slice kyber_shared) context)))"

definition ServerHandshakeState_respond ::
    "'x x25519 \<Rightarrow> ('dk, 'ek, 'r) ml_kem \<Rightarrow> 'prk hkdf \<Rightarrow> key32 \<Rightarrow> kem_ek \<Rightarrow> 'x \<Rightarrow> 'r
     \<Rightarrow> ServerHandshakeState presult" where
  "ServerHandshakeState_respond X K H client_x25519_pk client_ml_kem_ek server_secret coins =
     (let server_public = x_public X server_secret;
          x25519_shared = x_diffie_hellman X server_secret client_x25519_pk in
      and_then (try_into_array CryptoError (as_slice client_ml_kem_ek)) (\<lambda>ek_arr.
      and_then (ok_or CryptoError (kem_ek_new K ek_arr)) (\<lambda>ek.
      let (ct_bytes, kyber_shared) = kem_encapsulate K ek coins in
      and_then (ensure (\<not> length ct_bytes \<noteq> ML_KEM_768_CT_SIZE) CryptoError) (\<lambda>_.
      and_then (copy_from_slice ct_bytes) (\<lambda>ml_kem_ciphertext.
      let context = handshake_context client_x25519_pk server_public ml_kem_ciphertext in
      and_then (derive_keys H (as_slice x25519_shared) (as_slice kyber_shared) context)
        (\<lambda>session_keys.
      Ok \<lparr>srv_x25519_public = server_public, srv_ml_kem_ciphertext = ml_kem_ciphertext,
          srv_session_keys = session_keys\<rparr>))))))"

section \<open>The context and the labels\<close>

lemma handshake_context_inject [simp]:
  "handshake_context a b c = handshake_context a' b' c' \<longleftrightarrow> a = a' \<and> b = b' \<and> c = c'"
  by (simp add: handshake_context_def)

lemma length_handshake_context [simp]: "length (handshake_context a b c) = 1152"
  by (simp add: handshake_context_def)

lemma label_suffix_inject [simp]:
  "ctx @ C2S_LABEL = ctx' @ C2S_LABEL \<longleftrightarrow> ctx = ctx'"
  "ctx @ S2C_LABEL = ctx' @ S2C_LABEL \<longleftrightarrow> ctx = ctx'"
  "ctx @ C2S_LABEL \<noteq> ctx' @ S2C_LABEL" "ctx' @ S2C_LABEL \<noteq> ctx @ C2S_LABEL"
  by (auto simp: C2S_LABEL_def S2C_LABEL_def)

section \<open>What each step yields\<close>

lemma derive_keys_total:
  assumes "hkdf_correct H"
  shows "\<exists>ks. derive_keys H x k ctx = Ok ks"
proof -
  let ?prk = "hkdf_new H None (x @ k)"
  obtain a b where "hkdf_expand H ?prk (ctx @ C2S_LABEL) = Some a"
    "hkdf_expand H ?prk (ctx @ S2C_LABEL) = Some b"
    using hkdf_expands [OF assms] by meson
  then show ?thesis by (simp add: derive_keys_def Let_def)
qed

lemma derive_keys_eq_Ok:
  "derive_keys H x k ctx = Ok ks \<longleftrightarrow>
     hkdf_expand H (hkdf_new H None (x @ k)) (ctx @ C2S_LABEL) = Some (client_to_server ks)
   \<and> hkdf_expand H (hkdf_new H None (x @ k)) (ctx @ S2C_LABEL) = Some (server_to_client ks)"
  by (cases ks) (auto simp: derive_keys_def Let_def inversions)

lemma derive_keys_not_Panic [simp]: "derive_keys H x k ctx \<noteq> Panic"
  by (simp add: derive_keys_def Let_def and_then_eq_Panic)

lemma generate_result:
  assumes "ml_kem_correct K"
  shows "ClientHandshakeState_generate X K secret coins =
    Ok \<lparr>hs_x25519_secret = secret, hs_ml_kem_dk = Some (fst (kem_generate_keypair K coins)),
        hs_x25519_public = x_public X secret,
        hs_ml_kem_ek = mk_array (kem_ek_to_bytes K (kem_encapsulation_key K
          (fst (kem_generate_keypair K coins))))\<rparr>"
  using ml_kem_rules(1) [OF assms, of coins] ml_kem_rules(2) [OF assms]
  by (simp add: ClientHandshakeState_generate_def Let_def split_beta copy_from_slice_def
      ML_KEM_768_EK_SIZE_def)

lemma respond_result:
  assumes "ml_kem_correct K" and ek: "kem_ek_new K ek_bytes = Some ek"
  shows "ServerHandshakeState_respond X K H cpk ek_bytes secret coins =
    and_then (derive_keys H (as_slice (x_diffie_hellman X secret cpk))
        (as_slice (snd (kem_encapsulate K ek coins)))
        (handshake_context cpk (x_public X secret) (mk_array (fst (kem_encapsulate K ek coins)))))
      (\<lambda>ks. Ok \<lparr>srv_x25519_public = x_public X secret,
        srv_ml_kem_ciphertext = mk_array (fst (kem_encapsulate K ek coins)),
        srv_session_keys = ks\<rparr>)"
  using ml_kem_rules(4) [OF assms(1), of ek coins] ek
  by (simp add: ServerHandshakeState_respond_def Let_def split_beta copy_from_slice_def
      ML_KEM_768_CT_SIZE_def)

section \<open>Key agreement\<close>

text \<open>Both sides of an honest exchange compute the same function of the same secrets.\<close>

lemma responded_keys_agree:
  assumes "x25519_correct X" "ml_kem_correct K"
    and "ClientHandshakeState_generate X K client_secret client_coins = Ok client"
    and "ServerHandshakeState_respond X K H (hs_x25519_public client) (hs_ml_kem_ek client)
      server_secret server_coins = Ok server"
  shows "derive_session_keys X K H client (srv_x25519_public server) (srv_ml_kem_ciphertext server)
      = Ok (srv_session_keys server)"
proof -
  define dk where "dk = fst (kem_generate_keypair K client_coins)"
  define ek where "ek = kem_encapsulation_key K dk"
  have dh: "x_diffie_hellman X client_secret (x_public X server_secret)
      = x_diffie_hellman X server_secret (x_public X client_secret)"
    using assms(1) by (rule x25519_agree)
  have kem: "kem_decapsulate K dk (mk_array (fst (kem_encapsulate K ek server_coins)))
      = snd (kem_encapsulate K ek server_coins)"
    unfolding ek_def using assms(2) by (rule ml_kem_rules(5))
  have new: "kem_ek_new K (mk_array (kem_ek_to_bytes K ek)) = Some ek"
    unfolding ek_def using assms(2) by (rule ml_kem_rules(3))
  have client: "hs_x25519_secret client = client_secret" "hs_ml_kem_dk client = Some dk"
    "hs_x25519_public client = x_public X client_secret"
    "hs_ml_kem_ek client = mk_array (kem_ek_to_bytes K ek)"
    using assms(3) by (auto simp: generate_result [OF assms(2)] dk_def ek_def)
  show ?thesis
    using assms(4) unfolding client respond_result [OF assms(2) new]
    by (auto simp: derive_session_keys_def Let_def client dh kem and_then_eq_Ok)
qed

lemma honest_response_exists:
  assumes "ml_kem_correct K" "hkdf_correct H"
    and "ClientHandshakeState_generate X K client_secret client_coins = Ok client"
  shows "\<exists>server. ServerHandshakeState_respond X K H (hs_x25519_public client) (hs_ml_kem_ek client)
      server_secret server_coins = Ok server"
proof -
  let ?ek = "kem_encapsulation_key K (fst (kem_generate_keypair K client_coins))"
  have "hs_ml_kem_ek client = mk_array (kem_ek_to_bytes K ?ek)"
    using assms(3) by (auto simp: generate_result [OF assms(1)])
  then show ?thesis
    using derive_keys_total [OF assms(2)]
    by (simp add: respond_result [OF assms(1) ml_kem_rules(3) [OF assms(1)]] and_then_eq_Ok)
qed

text \<open>
  C2: key agreement.  For all random choices of both sides, the client can generate its hello
  material, the server can answer it, and the client then derives exactly the session keys the
  server already holds.
\<close>

theorem handshake_key_agreement:
  fixes X :: "'x x25519" and K :: "('dk, 'ek, 'r) ml_kem" and H :: "'prk hkdf"
  assumes "x25519_correct X" "ml_kem_correct K" "hkdf_correct H"
  shows "\<exists>client server.
     ClientHandshakeState_generate X K client_secret client_coins = Ok client
   \<and> ServerHandshakeState_respond X K H (hs_x25519_public client) (hs_ml_kem_ek client)
       server_secret server_coins = Ok server
   \<and> derive_session_keys X K H client (srv_x25519_public server) (srv_ml_kem_ciphertext server)
       = Ok (srv_session_keys server)"
proof -
  obtain client where gen: "ClientHandshakeState_generate X K client_secret client_coins = Ok client"
    using generate_result [OF assms(2), of X] by blast
  obtain server where "ServerHandshakeState_respond X K H (hs_x25519_public client)
      (hs_ml_kem_ek client) server_secret server_coins = Ok server"
    using honest_response_exists [OF assms(2,3) gen] by blast
  with gen responded_keys_agree [OF assms(1,2) gen this] show ?thesis by blast
qed

theorem handshake_key_agreement_witness:
  "\<exists>client server.
     ClientHandshakeState_generate demo_x25519 demo_ml_kem (const_array 1) (const_array 2) = Ok client
   \<and> ServerHandshakeState_respond demo_x25519 demo_ml_kem demo_hkdf (hs_x25519_public client)
       (hs_ml_kem_ek client) (const_array 3) (const_array 4) = Ok server
   \<and> derive_session_keys demo_x25519 demo_ml_kem demo_hkdf client (srv_x25519_public server)
       (srv_ml_kem_ciphertext server) = Ok (srv_session_keys server)"
  by (rule handshake_key_agreement
      [OF demo_x25519_correct demo_ml_kem_correct demo_hkdf_correct])

section \<open>Key separation\<close>

text \<open>
  C24: key separation.  Take two key derivations from the same shared secrets, for the public
  material of two handshakes, with an HKDF that does not collide on the (at most four) labels in
  play.  The key of one direction is never a key of the other direction, and an equal key means
  the very same public keys and ciphertext were exchanged.
\<close>

theorem derive_keys_separation:
  assumes "derive_keys H x k (handshake_context c s ct) = Ok ks"
    and "derive_keys H x k (handshake_context c' s' ct') = Ok ks'"
    and "inj_on (hkdf_expand H (hkdf_new H None (x @ k)))
      {handshake_context c s ct @ C2S_LABEL, handshake_context c s ct @ S2C_LABEL,
       handshake_context c' s' ct' @ C2S_LABEL, handshake_context c' s' ct' @ S2C_LABEL}"
  shows "client_to_server ks \<noteq> server_to_client ks'
    \<and> (client_to_server ks = client_to_server ks' \<longleftrightarrow> c = c' \<and> s = s' \<and> ct = ct')
    \<and> (server_to_client ks = server_to_client ks' \<longleftrightarrow> c = c' \<and> s = s' \<and> ct = ct')"
proof -
  let ?f = "hkdf_expand H (hkdf_new H None (x @ k))"
  note keys = assms(1,2) [unfolded derive_keys_eq_Ok]
  have same: "?f a = ?f b \<longleftrightarrow> a = b"
    if "a \<in> {handshake_context c s ct @ C2S_LABEL, handshake_context c s ct @ S2C_LABEL}"
      "b \<in> {handshake_context c' s' ct' @ C2S_LABEL, handshake_context c' s' ct' @ S2C_LABEL}" for a b
    using that by (intro inj_on_eq_iff [OF assms(3)]) auto
  show ?thesis
    using same [of "handshake_context c s ct @ C2S_LABEL" "handshake_context c' s' ct' @ S2C_LABEL"]
      same [of "handshake_context c s ct @ C2S_LABEL" "handshake_context c' s' ct' @ C2S_LABEL"]
      same [of "handshake_context c s ct @ S2C_LABEL" "handshake_context c' s' ct' @ S2C_LABEL"]
      keys by simp
qed

definition demo_context :: "u8 \<Rightarrow> bytes" where
  "demo_context b = handshake_context (const_array b) (const_array 0) (const_array b)"

lemma demo_expand_inj:
  "inj_on (hkdf_expand demo_hkdf (hkdf_new demo_hkdf None p))
     {demo_context 0 @ C2S_LABEL, demo_context 0 @ S2C_LABEL,
      demo_context 1 @ C2S_LABEL, demo_context 1 @ S2C_LABEL}"
  by (simp add: inj_on_def demo_hkdf_def mk_array_inject demo_context_def handshake_context_def
      C2S_LABEL_def S2C_LABEL_def)

theorem derive_keys_separation_witness:
  "\<exists>ks ks'. derive_keys demo_hkdf [1] [2]
       (handshake_context (const_array 0) (const_array 0) (const_array 0)) = Ok ks
   \<and> derive_keys demo_hkdf [1] [2]
       (handshake_context (const_array 1) (const_array 0) (const_array 1)) = Ok ks'
   \<and> client_to_server ks \<noteq> server_to_client ks' \<and> client_to_server ks \<noteq> client_to_server ks'"
proof -
  obtain ks ks' where ks: "derive_keys demo_hkdf [1] [2] (demo_context 0) = Ok ks"
    and ks': "derive_keys demo_hkdf [1] [2] (demo_context 1) = Ok ks'"
    using derive_keys_total [OF demo_hkdf_correct] by metis
  have "(const_array 0 :: key32) \<noteq> const_array 1"
    by (simp flip: as_slice_inject_iff)
  with derive_keys_separation [OF ks [unfolded demo_context_def] ks' [unfolded demo_context_def]
      demo_expand_inj [unfolded demo_context_def]] ks ks'
  show ?thesis by (auto simp: demo_context_def)
qed

section \<open>Failures\<close>

text \<open>
  C39: the server's answer fails exactly when the client's encapsulation key is not a valid ML-KEM
  key, always with \<open>CryptoError\<close> and never with a panic.
\<close>

theorem respond_fails_iff_bad_key:
  assumes "ml_kem_correct K" "hkdf_correct H"
  shows "(if kem_ek_new K ek = None
      then ServerHandshakeState_respond X K H cpk ek secret coins = Err CryptoError
      else is_ok (ServerHandshakeState_respond X K H cpk ek secret coins))"
proof (cases "kem_ek_new K ek")
  case None
  then show ?thesis by (simp add: ServerHandshakeState_respond_def Let_def)
next
  case (Some e)
  then show ?thesis
    using derive_keys_total [OF assms(2)]
    by (auto simp: respond_result [OF assms(1) Some] is_ok_iff and_then_eq_Ok)
qed

theorem respond_fails_iff_bad_key_witness:
  "ServerHandshakeState_respond demo_x25519 demo_ml_kem demo_hkdf (const_array 1) (const_array 1)
     (const_array 3) (const_array 4) = Err CryptoError
   \<and> is_ok (ServerHandshakeState_respond demo_x25519 demo_ml_kem demo_hkdf (const_array 1)
     (const_array 0) (const_array 3) (const_array 4))"
  using respond_fails_iff_bad_key [OF demo_ml_kem_correct demo_hkdf_correct, of "const_array 1"
      demo_x25519 "const_array 1" "const_array 3" "const_array 4"]
    respond_fails_iff_bad_key [OF demo_ml_kem_correct demo_hkdf_correct, of "const_array 0"
      demo_x25519 "const_array 1" "const_array 3" "const_array 4"]
  by (simp add: demo_ml_kem_def drop_replicate)

end
