(* ===== verification/Auth.thy ===== *)
theory Auth
  imports Crypto_Lib Hello_Payloads
begin

text \<open>
  \<open>src/src/crypto/auth.rs\<close>: the handshake transcript, the client's proof of identity bound to it,
  and the server's signature over its hello.
\<close>

definition TRANSCRIPT_LEN :: nat where "TRANSCRIPT_LEN = 32"

definition AUTH_NONCE_LEN :: nat where "AUTH_NONCE_LEN = 32"

lemma auth_sizes: "LENGTH(32) = TRANSCRIPT_LEN" "LENGTH(32) = AUTH_NONCE_LEN"
  by (simp_all add: TRANSCRIPT_LEN_def AUTH_NONCE_LEN_def)

definition compute_handshake_transcript :: "sha256 \<Rightarrow> bytes \<Rightarrow> bytes \<Rightarrow> key32" where
  "compute_handshake_transcript sha client_hello_bytes server_hello_bytes =
     (let hasher = Sha256_new;
          hasher = Sha256_update hasher client_hello_bytes;
          hasher = Sha256_update hasher server_hello_bytes in
      Sha256_finalize sha hasher)"

text \<open>The freshly generated signing key is the random argument.\<close>

definition generate_auth_identity ::
    "('sk, 'vk, 'sg) ml_dsa \<Rightarrow> 'sk \<Rightarrow> (key32 \<times> dsa_vk) presult" where
  "generate_auth_identity D sk =
     (let seed_slice = as_slice (dsa_to_seed D sk) in
      and_then (copy_from_slice seed_slice) (\<lambda>signing_seed.
      let vk_slice = dsa_vk_encode D (dsa_verifying_key D sk) in
      and_then (ensure (\<not> length vk_slice \<noteq> ML_DSA_65_VK_SIZE) CryptoError) (\<lambda>_.
      and_then (copy_from_slice vk_slice) (\<lambda>verifying_key.
      Ok (signing_seed, verifying_key)))))"

definition auth_message :: "key32 \<Rightarrow> key32 \<Rightarrow> bytes" where
  "auth_message transcript_hash nonce = as_slice transcript_hash @ as_slice nonce"

text \<open>Signing with a key rebuilt from its seed, and encoding the signature: shared by both signers.\<close>

definition sign_with_seed ::
    "('sk, 'vk, 'sg) ml_dsa \<Rightarrow> bytes \<Rightarrow> key32 \<Rightarrow> dsa_sig presult" where
  "sign_with_seed D message signing_seed =
     and_then (try_into_array CryptoError (as_slice signing_seed)) (\<lambda>seed_arr.
     let sk = dsa_from_seed D seed_arr;
         signature = dsa_sign D sk message;
         encoded = dsa_sig_encode D signature in
     and_then (ensure (\<not> length encoded \<noteq> ML_DSA_65_SIG_SIZE) CryptoError) (\<lambda>_.
     copy_from_slice encoded))"

text \<open>Decoding the key and the signature, and verifying: shared by both verifiers.\<close>

definition verify_with_key ::
    "('sk, 'vk, 'sg) ml_dsa \<Rightarrow> bytes \<Rightarrow> dsa_vk \<Rightarrow> dsa_sig \<Rightarrow> unit presult" where
  "verify_with_key D message verifying_key signature =
     and_then (try_into_array CryptoError (as_slice verifying_key)) (\<lambda>vk_arr.
     let vk = dsa_vk_decode D vk_arr in
     and_then (try_into_array CryptoError (as_slice signature)) (\<lambda>sig_arr.
     and_then (ok_or CryptoError (dsa_sig_decode D sig_arr)) (\<lambda>sig.
     ensure (dsa_verify D vk message sig) CryptoError)))"

definition sign_auth_response ::
    "('sk, 'vk, 'sg) ml_dsa \<Rightarrow> key32 \<Rightarrow> key32 \<Rightarrow> key32 \<Rightarrow> dsa_sig presult" where
  "sign_auth_response D transcript_hash nonce signing_seed =
     (let message = auth_message transcript_hash nonce in
      sign_with_seed D message signing_seed)"

definition verify_auth_response ::
    "('sk, 'vk, 'sg) ml_dsa \<Rightarrow> key32 \<Rightarrow> key32 \<Rightarrow> dsa_vk \<Rightarrow> dsa_sig \<Rightarrow> unit presult" where
  "verify_auth_response D transcript_hash nonce verifying_key signature =
     (let message = auth_message transcript_hash nonce in
      verify_with_key D message verifying_key signature)"

definition server_hello_message :: "sha256 \<Rightarrow> bytes \<Rightarrow> key32 \<Rightarrow> kem_ct \<Rightarrow> bytes" where
  "server_hello_message sha client_hello_bytes server_x25519_public_key server_ml_kem_ciphertext =
     (let hasher = Sha256_update Sha256_new client_hello_bytes;
          client_hello_hash = Sha256_finalize sha hasher in
      as_slice client_hello_hash @ as_slice server_x25519_public_key
        @ as_slice server_ml_kem_ciphertext)"

definition sign_server_hello ::
    "sha256 \<Rightarrow> ('sk, 'vk, 'sg) ml_dsa \<Rightarrow> bytes \<Rightarrow> key32 \<Rightarrow> kem_ct \<Rightarrow> key32 \<Rightarrow> dsa_sig presult" where
  "sign_server_hello sha D client_hello_bytes server_x25519_public_key server_ml_kem_ciphertext
     signing_seed =
     (let message = server_hello_message sha client_hello_bytes server_x25519_public_key
            server_ml_kem_ciphertext in
      sign_with_seed D message signing_seed)"

definition verify_server_hello ::
    "sha256 \<Rightarrow> ('sk, 'vk, 'sg) ml_dsa \<Rightarrow> bytes \<Rightarrow> key32 \<Rightarrow> kem_ct \<Rightarrow> dsa_vk \<Rightarrow> dsa_sig
     \<Rightarrow> unit presult" where
  "verify_server_hello sha D client_hello_bytes server_x25519_public_key server_ml_kem_ciphertext
     pinned_verifying_key signature =
     (let message = server_hello_message sha client_hello_bytes server_x25519_public_key
            server_ml_kem_ciphertext in
      verify_with_key D message pinned_verifying_key signature)"

section \<open>Messages are unambiguous\<close>

lemma auth_message_inject [simp]:
  "auth_message t n = auth_message t' n' \<longleftrightarrow> t = t' \<and> n = n'"
  by (simp add: auth_message_def)

lemma server_hello_message_inject [simp]:
  "server_hello_message sha c x ct = server_hello_message sha c' x' ct'
     \<longleftrightarrow> sha c = sha c' \<and> x = x' \<and> ct = ct'"
  by (simp add: server_hello_message_def Let_def hasher_defs)

text \<open>The two kinds of signed message have different lengths, so neither passes for the other.\<close>

lemma auth_message_not_server_hello [simp]:
  "auth_message t n \<noteq> server_hello_message sha c x ct"
proof
  assume "auth_message t n = server_hello_message sha c x ct"
  then have "length (auth_message t n) = length (server_hello_message sha c x ct)" by simp
  then show False
    by (simp add: auth_message_def server_hello_message_def Let_def hasher_defs)
qed

lemma compute_handshake_transcript_concat:
  "compute_handshake_transcript sha ch sh = sha (ch @ sh)"
  by (simp add: compute_handshake_transcript_def Let_def hasher_defs)

text \<open>
  A client hello is self-delimiting, so the two hellos can be read back from their concatenation,
  although the transcript puts no separator between them.
\<close>

lemma client_hello_prefix_free:
  assumes "ClientHelloPayload_decode ch = Ok p" "ClientHelloPayload_decode ch' = Ok p'"
    and "ch @ sh = ch' @ sh'"
  shows "ch = ch' \<and> sh = sh'"
proof -
  obtain d where d: "encode_sized_string (ch_client_id p) = Ok d"
    "ch = d @ as_slice (ch_x25519_public_key p) @ as_slice (ch_ml_kem_ek p)"
    using client_hello.enc_dec [OF assms(1)] by (auto simp: ClientHelloPayload_encode_def wire)
  obtain e where e: "encode_sized_string (ch_client_id p') = Ok e"
    "ch' = e @ as_slice (ch_x25519_public_key p') @ as_slice (ch_ml_kem_ek p')"
    using client_hello.enc_dec [OF assms(2)] by (auto simp: ClientHelloPayload_encode_def wire)
  have "ch_client_id p = ch_client_id p'"
    using sized_string_prefix_free [OF d(1) e(1)] assms(3) d(2) e(2) by fastforce
  with d e have "length ch = length ch'" by simp
  with assms(3) show ?thesis by simp
qed

section \<open>Signing and verifying\<close>

lemma sign_with_seed_result:
  assumes "ml_dsa_correct D"
  shows "sign_with_seed D m seed = Ok (mk_array (dsa_sig_encode D (dsa_sign D (dsa_from_seed D seed) m)))"
  using ml_dsa_rules(4) [OF assms]
  by (simp add: sign_with_seed_def Let_def copy_from_slice_def ML_DSA_65_SIG_SIZE_def)

lemma verify_with_key_eq_Ok:
  "verify_with_key D m vk sg = Ok () \<longleftrightarrow>
     (\<exists>s. dsa_sig_decode D sg = Some s \<and> dsa_verify D (dsa_vk_decode D vk) m s)"
  by (simp add: verify_with_key_def Let_def inversions)

lemma verify_with_key_failure:
  "verify_with_key D m vk sg \<noteq> Ok () \<Longrightarrow> verify_with_key D m vk sg = Err CryptoError"
  by (cases "dsa_sig_decode D sg") (auto simp: verify_with_key_def Let_def ensure_def)

lemma generate_auth_identity_result:
  assumes "ml_dsa_correct D"
  shows "generate_auth_identity D sk =
    Ok (dsa_to_seed D sk, mk_array (dsa_vk_encode D (dsa_verifying_key D sk)))"
  using ml_dsa_rules(2) [OF assms]
  by (simp add: generate_auth_identity_def Let_def copy_from_slice_def ML_DSA_65_VK_SIZE_def)

lemma verify_own_signature:
  assumes "ml_dsa_correct D"
  shows "verify_with_key D m (mk_array (dsa_vk_encode D (dsa_verifying_key D sk)))
    (mk_array (dsa_sig_encode D (dsa_sign D sk m))) = Ok ()"
  using ml_dsa_rules(3,5,6) [OF assms] by (simp add: verify_with_key_eq_Ok)

lemma verified_was_signed:
  "dsa_unforgeable D vk msgs \<Longrightarrow> verify_with_key D m vk sg = Ok () \<Longrightarrow> m \<in> msgs"
  by (auto simp: verify_with_key_eq_Ok dsa_unforgeable_def)

lemma own_signature_verifies:
  assumes "ml_dsa_correct D" "generate_auth_identity D sk = Ok (seed, vk)"
  shows "\<exists>sig. sign_with_seed D m seed = Ok sig \<and> verify_with_key D m vk sig = Ok ()"
  using assms(2) verify_own_signature [OF assms(1), of m sk] ml_dsa_rules(1) [OF assms(1), of sk]
  by (auto simp: generate_auth_identity_result [OF assms(1)] sign_with_seed_result [OF assms(1)])

lemma hello_signature_verifies:
  assumes "ml_dsa_correct D" "generate_auth_identity D sk = Ok (seed, vk)"
  shows "\<exists>sig. sign_server_hello sha D ch x ct seed = Ok sig \<and> verify_server_hello sha D ch x ct vk sig = Ok ()"
  using own_signature_verifies [OF assms] by (simp add: sign_server_hello_def verify_server_hello_def Let_def)

lemma auth_signature_verifies:
  assumes "ml_dsa_correct D" "generate_auth_identity D sk = Ok (seed, vk)"
  shows "\<exists>sig. sign_auth_response D transcript nonce seed = Ok sig
    \<and> verify_auth_response D transcript nonce vk sig = Ok ()"
  using own_signature_verifies [OF assms] by (simp add: sign_auth_response_def verify_auth_response_def Let_def)

text \<open>
  Completeness of both proofs.  With any generated identity, signing succeeds and the matching
  verification accepts: the client's answer for its transcript and nonce, and the server's signature
  over its hello.
\<close>

theorem signatures_verify:
  assumes "ml_dsa_correct D"
  shows "\<exists>seed vk auth_sig hello_sig. generate_auth_identity D sk = Ok (seed, vk)
    \<and> sign_auth_response D transcript nonce seed = Ok auth_sig
    \<and> verify_auth_response D transcript nonce vk auth_sig = Ok ()
    \<and> sign_server_hello sha D ch_bytes x ct seed = Ok hello_sig
    \<and> verify_server_hello sha D ch_bytes x ct vk hello_sig = Ok ()"
proof -
  obtain seed vk where "generate_auth_identity D sk = Ok (seed, vk)"
    by (simp add: generate_auth_identity_result [OF assms])
  with hello_signature_verifies [OF assms this] auth_signature_verifies [OF assms this]
  show ?thesis by blast
qed

theorem signatures_verify_witness:
  "\<exists>seed vk auth_sig hello_sig. generate_auth_identity demo_ml_dsa (const_array 7) = Ok (seed, vk)
    \<and> sign_auth_response demo_ml_dsa (const_array 1) (const_array 2) seed = Ok auth_sig
    \<and> verify_auth_response demo_ml_dsa (const_array 1) (const_array 2) vk auth_sig = Ok ()
    \<and> sign_server_hello (\<lambda>_. const_array 9) demo_ml_dsa [1, 2] (const_array 3) (const_array 4) seed
        = Ok hello_sig
    \<and> verify_server_hello (\<lambda>_. const_array 9) demo_ml_dsa [1, 2] (const_array 3) (const_array 4) vk
        hello_sig = Ok ()"
  by (rule signatures_verify [OF demo_ml_dsa_correct])

section \<open>The client's proof is bound to the session\<close>

text \<open>
  What an honest client signs with its identity key: one authentication message per session it runs,
  for the hello bytes it sent and received and the nonce it was given.
\<close>

definition client_signatures :: "sha256 \<Rightarrow> (bytes \<times> bytes \<times> key32) set \<Rightarrow> bytes set" where
  "client_signatures sha sessions =
     {auth_message (compute_handshake_transcript sha ch sh) nonce | ch sh nonce.
        (ch, sh, nonce) \<in> sessions}"

lemma auth_response_was_signed:
  assumes "dsa_unforgeable D vk (client_signatures sha sessions)"
    and "sha_collision_free sha ({ch @ sh} \<union> {c @ s | c s n. (c, s, n) \<in> sessions})"
    and "is_ok (ClientHelloPayload_decode ch)"
    and "\<And>c s n. (c, s, n) \<in> sessions \<Longrightarrow> is_ok (ClientHelloPayload_decode c)"
    and "verify_auth_response D (compute_handshake_transcript sha ch sh) nonce vk signature = Ok ()"
  shows "(ch, sh, nonce) \<in> sessions"
proof -
  have "auth_message (compute_handshake_transcript sha ch sh) nonce \<in> client_signatures sha sessions"
    using assms(5) unfolding verify_auth_response_def Let_def by (rule verified_was_signed [OF assms(1)])
  then obtain c s where run: "(c, s, nonce) \<in> sessions" and hash: "sha (c @ s) = sha (ch @ sh)"
    by (auto simp: client_signatures_def compute_handshake_transcript_concat)
  have "c @ s = ch @ sh"
    using run by (intro inj_onD [OF assms(2) [unfolded sha_collision_free_def] hash]) auto
  moreover obtain p q where "ClientHelloPayload_decode c = Ok p" "ClientHelloPayload_decode ch = Ok q"
    using assms(3) assms(4) [OF run] by (auto simp: is_ok_iff)
  ultimately show ?thesis
    using client_hello_prefix_free run by metis
qed

text \<open>
  C5: no relay.  If the server accepts an authentication response for the hello bytes it saw and the
  nonce it issued, then the client that owns the key ran a session with exactly those client hello
  bytes, those server hello bytes and that nonce.  A response obtained in any other session is
  rejected.  The hash must not collide on the transcripts of the runs at hand, and client hellos are
  well-formed (both sides decode them).
\<close>

theorem auth_response_agreement:
  assumes "dsa_unforgeable D vk (client_signatures sha sessions)"
    and "sha_collision_free sha ({ch @ sh} \<union> {c @ s | c s n. (c, s, n) \<in> sessions})"
    and "is_ok (ClientHelloPayload_decode ch)"
    and "\<And>c s n. (c, s, n) \<in> sessions \<Longrightarrow> is_ok (ClientHelloPayload_decode c)"
    and "verify_auth_response D (compute_handshake_transcript sha ch sh) nonce vk signature = Ok ()"
  shows "(ch, sh, nonce) \<in> sessions"
  using assms by (rule auth_response_was_signed)

definition demo_hello :: ClientHelloPayload where
  "demo_hello = \<lparr>ch_client_id = str_lit ''al'', ch_x25519_public_key = const_array 1,
     ch_ml_kem_ek = const_array 2\<rparr>"

definition demo_hello_bytes :: bytes where
  "demo_hello_bytes =
     [0, 2, 97, 108] @ as_slice (const_array 1 :: key32) @ as_slice (const_array 2 :: kem_ek)"

lemma demo_id_encodes: "encode_sized_string (str_lit ''al'') = Ok [0, 2, 97, 108]"
  by (simp add: encode_sized_string_def as_bytes_str_lit u16_to_be_bytes_def be_bytes_numeral Let_def)

lemma demo_hello_encodes: "ClientHelloPayload_encode demo_hello = Ok demo_hello_bytes"
  by (simp add: ClientHelloPayload_encode_def demo_hello_def demo_hello_bytes_def demo_id_encodes
      del: as_slice_const_array)

lemma last_demo_hello_bytes: "last demo_hello_bytes = 2" "demo_hello_bytes \<noteq> []"
  by (simp_all add: demo_hello_bytes_def last_append)

lemma demo_hello_decodes: "ClientHelloPayload_decode demo_hello_bytes = Ok demo_hello"
  using demo_hello_encodes by (rule client_hello.dec_enc)

text \<open>A digest that separates the transcripts of the two examples below: the last byte, repeated.\<close>

definition demo_sha :: sha256 where
  "demo_sha bs = const_array (last (0 # bs))"

definition demo_auth_dsa :: "(unit, unit, unit) ml_dsa" where
  "demo_auth_dsa = once_ml_dsa (auth_message (const_array 8) (const_array 6))"

lemma demo_client_signatures:
  "client_signatures demo_sha {(demo_hello_bytes, [8], const_array 6)}
     = {auth_message (const_array 8) (const_array 6)}"
  by (simp add: client_signatures_def compute_handshake_transcript_concat demo_sha_def)

theorem auth_response_agreement_witness:
  "verify_auth_response demo_auth_dsa (compute_handshake_transcript demo_sha demo_hello_bytes [8])
     (const_array 6) (const_array 0) (const_array 0) = Ok ()
   \<and> verify_auth_response demo_auth_dsa (compute_handshake_transcript demo_sha demo_hello_bytes [9])
     (const_array 6) (const_array 0) (const_array 0) \<noteq> Ok ()"
proof
  let ?runs = "{(demo_hello_bytes, [8 :: u8], const_array 6 :: key32)}"
  show "verify_auth_response demo_auth_dsa (compute_handshake_transcript demo_sha demo_hello_bytes [8])
     (const_array 6) (const_array 0) (const_array 0) = Ok ()"
    by (simp add: verify_auth_response_def verify_with_key_eq_Ok once_ml_dsa_def demo_auth_dsa_def
        compute_handshake_transcript_concat demo_sha_def)
  have unf: "dsa_unforgeable demo_auth_dsa (const_array 0) (client_signatures demo_sha ?runs)"
    unfolding demo_client_signatures demo_auth_dsa_def by (rule once_ml_dsa_unforgeable)
  have inj: "sha_collision_free demo_sha
      ({demo_hello_bytes @ [9]} \<union> {c @ s | c s n. (c, s, n) \<in> ?runs})"
    by (simp add: sha_collision_free_def inj_on_def demo_sha_def flip: as_slice_inject_iff)
  show "verify_auth_response demo_auth_dsa (compute_handshake_transcript demo_sha demo_hello_bytes [9])
     (const_array 6) (const_array 0) (const_array 0) \<noteq> Ok ()"
    using auth_response_agreement [OF unf inj] by (auto simp: demo_hello_decodes)
qed

section \<open>The server's signature is bound to the client hello\<close>

definition server_signatures :: "sha256 \<Rightarrow> (bytes \<times> key32 \<times> kem_ct) set \<Rightarrow> bytes set" where
  "server_signatures sha hellos = {server_hello_message sha ch x ct | ch x ct. (ch, x, ct) \<in> hellos}"

lemma server_hello_was_signed:
  assumes "dsa_unforgeable D pinned (server_signatures sha hellos \<union> client_signatures sha sessions)"
    and "sha_collision_free sha ({ch} \<union> fst ` hellos)"
    and "verify_server_hello sha D ch x ct pinned signature = Ok ()"
  shows "(ch, x, ct) \<in> hellos"
proof -
  have "server_hello_message sha ch x ct \<in> server_signatures sha hellos \<union> client_signatures sha sessions"
    using assms(3) unfolding verify_server_hello_def Let_def by (rule verified_was_signed [OF assms(1)])
  then obtain c where run: "(c, x, ct) \<in> hellos" and hash: "sha c = sha ch"
    using auth_message_not_server_hello [symmetric]
    by (auto simp: server_signatures_def client_signatures_def)
  have "c = ch"
    using run by (intro inj_onD [OF assms(2) [unfolded sha_collision_free_def] hash]) force+
  with run show ?thesis by simp
qed

text \<open>
  C10: server authentication.  If a client accepts a server hello under the pinned key, the server
  signed exactly this key material in answer to exactly this client hello, even when the same key
  also signs authentication responses.
\<close>

theorem server_hello_agreement:
  assumes "dsa_unforgeable D pinned (server_signatures sha hellos \<union> client_signatures sha sessions)"
    and "sha_collision_free sha ({ch} \<union> fst ` hellos)"
    and "verify_server_hello sha D ch x ct pinned signature = Ok ()"
  shows "(ch, x, ct) \<in> hellos"
  using assms by (rule server_hello_was_signed)

definition demo_server_dsa :: "(unit, unit, unit) ml_dsa" where
  "demo_server_dsa = once_ml_dsa
     (server_hello_message demo_sha demo_hello_bytes (const_array 3) (const_array 4))"

theorem server_hello_agreement_witness:
  "verify_server_hello demo_sha demo_server_dsa demo_hello_bytes (const_array 3) (const_array 4)
     (const_array 0) (const_array 0) = Ok ()
   \<and> verify_server_hello demo_sha demo_server_dsa [1] (const_array 3) (const_array 4)
     (const_array 0) (const_array 0) \<noteq> Ok ()"
proof
  let ?runs = "{(demo_hello_bytes, const_array 3 :: key32, const_array 4 :: kem_ct)}"
  show "verify_server_hello demo_sha demo_server_dsa demo_hello_bytes (const_array 3) (const_array 4)
     (const_array 0) (const_array 0) = Ok ()"
    by (simp add: verify_server_hello_def Let_def verify_with_key_eq_Ok demo_server_dsa_def
        once_ml_dsa_def)
  have "server_signatures demo_sha ?runs \<union> client_signatures demo_sha {}
      = {server_hello_message demo_sha demo_hello_bytes (const_array 3) (const_array 4)}"
    by (simp add: server_signatures_def client_signatures_def)
  then have unf: "dsa_unforgeable demo_server_dsa (const_array 0)
      (server_signatures demo_sha ?runs \<union> client_signatures demo_sha {})"
    by (simp add: demo_server_dsa_def once_ml_dsa_unforgeable)
  have inj: "sha_collision_free demo_sha ({[1]} \<union> fst ` ?runs)"
    using last_demo_hello_bytes
    by (simp add: sha_collision_free_def inj_on_def demo_sha_def flip: as_slice_inject_iff)
  show "verify_server_hello demo_sha demo_server_dsa [1] (const_array 3) (const_array 4)
     (const_array 0) (const_array 0) \<noteq> Ok ()"
    using server_hello_agreement [OF unf inj] by (auto simp: demo_hello_bytes_def)
qed

end
