(* ===== verification/Connection_State.thy ===== *)
theory Connection_State
  imports Packet_Type
begin

text \<open>
  \<open>src/src/connection_state.rs\<close>: the role-aware connection state machine.  A received packet is
  first checked by \<open>validate_incoming\<close> (direction, then phase) and only then fed to \<open>advance\<close>;
  \<open>conn_step\<close> is that pair as a step relation and \<open>conn_run\<close> its executions, each with the list of
  packet types it accepted.  The lemmas determine which packet sequences reach which state, and
  \<open>phase\<close> is the abstract connection both roles refine.
\<close>

datatype Role = Client | Server

datatype ConnectionState =
    AwaitingClientHello
  | AwaitingClientFinish
  | AwaitingAuth
  | AwaitingServerHello
  | AwaitingServerAccept
  | AwaitingAuthChallenge
  | AwaitingAuthResult
  | Established
  | Closing

primrec initial :: "Role \<Rightarrow> ConnectionState" where
  "initial Server = AwaitingClientHello"
| "initial Client = AwaitingServerHello"

definition direction_allowed :: "Role \<Rightarrow> PacketType \<Rightarrow> bool" where
  "direction_allowed r t =
     (case (r, direction t) of
        (Client, ServerToClient) \<Rightarrow> True
      | (Client, Bidirectional) \<Rightarrow> True
      | (Server, ClientToServer) \<Rightarrow> True
      | (Server, Bidirectional) \<Rightarrow> True
      | _ \<Rightarrow> False)"

primrec phase_allowed :: "ConnectionState \<Rightarrow> PacketType \<Rightarrow> bool" where
  "phase_allowed AwaitingClientHello t = (t \<in> {ClientHello})"
| "phase_allowed AwaitingClientFinish t = (t \<in> {ClientFinish, Error})"
| "phase_allowed AwaitingAuth t = (t \<in> {AuthResponse, Error})"
| "phase_allowed AwaitingServerHello t = (t \<in> {ServerHello, Error})"
| "phase_allowed AwaitingServerAccept t = (t \<in> {ServerAccept, Error})"
| "phase_allowed AwaitingAuthChallenge t = (t \<in> {AuthChallenge, Error})"
| "phase_allowed AwaitingAuthResult t = (t \<in> {AuthAccept, AuthReject, Error})"
| "phase_allowed Established t =
     (t \<in> {Ping, Pong, SendMessage, DeliverMessage, MessageStatusUpdate, DeliveryReceipt,
           RegisterDevice, RegisterResponse, QueryAccountStatus, AccountStatusResponse,
           FetchQueuedMessages, QueuedMessageDelivery, AckQueuedMessage, SendFriendRequest,
           FriendRequestResult, IncomingFriendRequest, FriendRequestDecision, RemoveFriend,
           RemoveFriendResult, FriendRemovedNotification, FriendStatusUpdate,
           SendTypingIndicator, PublishE2eKey, PublishE2eKeyResult, FetchE2eKey,
           E2eKeyResponse, Close, Error})"
| "phase_allowed Closing t = False"

definition validate_incoming :: "ConnectionState \<Rightarrow> Role \<Rightarrow> PacketType \<Rightarrow> unit presult" where
  "validate_incoming s r t =
     (if \<not> direction_allowed r t then Err InvalidStateTransition
      else if phase_allowed s t then Ok ()
      else Err InvalidStateTransition)"

text \<open>The match of \<open>advance\<close>, arm by arm.\<close>

definition advance :: "ConnectionState \<Rightarrow> PacketType \<Rightarrow> ConnectionState" where
  "advance s t =
     (if (s, t) = (AwaitingClientHello, ClientHello) then AwaitingClientFinish
      else if (s, t) = (AwaitingClientFinish, ClientFinish) then AwaitingAuth
      else if (s, t) = (AwaitingAuth, AuthResponse) then Established
      else if (s, t) = (AwaitingServerHello, ServerHello) then AwaitingServerAccept
      else if (s, t) = (AwaitingServerAccept, ServerAccept) then AwaitingAuthChallenge
      else if (s, t) = (AwaitingAuthChallenge, AuthChallenge) then AwaitingAuthResult
      else if (s, t) = (AwaitingAuthResult, AuthAccept) then Established
      else if (s, t) = (AwaitingAuthResult, AuthReject) then Closing
      else if t \<in> {Close, Error} then Closing
      else s)"

section \<open>Executions\<close>

inductive conn_step :: "Role \<Rightarrow> ConnectionState \<Rightarrow> PacketType \<Rightarrow> ConnectionState \<Rightarrow> bool" where
  receive: "validate_incoming s r t = Ok () \<Longrightarrow> conn_step r s t (advance s t)"

inductive conn_run :: "Role \<Rightarrow> PacketType list \<Rightarrow> ConnectionState \<Rightarrow> bool" where
  start: "conn_run r [] (initial r)"
| more: "conn_run r ts s \<Longrightarrow> conn_step r s t s' \<Longrightarrow> conn_run r (ts @ [t]) s'"

code_pred conn_step .

inductive_simps conn_step_iff: "conn_step r s t s'"
inductive_simps conn_run_Nil_iff [simp]: "conn_run r [] s"
inductive_cases conn_runE: "conn_run r ts s"

section \<open>Specification vocabulary\<close>

text \<open>
  The packets a role receives on the way to \<open>Established\<close>, the states it waits in, and the packets
  it may receive while established without leaving that state.
\<close>

primrec handshake :: "Role \<Rightarrow> PacketType list" where
  "handshake Server = [ClientHello, ClientFinish, AuthResponse]"
| "handshake Client = [ServerHello, ServerAccept, AuthChallenge, AuthAccept]"

primrec waiting_states :: "Role \<Rightarrow> ConnectionState list" where
  "waiting_states Server = [AwaitingClientHello, AwaitingClientFinish, AwaitingAuth]"
| "waiting_states Client =
     [AwaitingServerHello, AwaitingServerAccept, AwaitingAuthChallenge, AwaitingAuthResult]"

definition app_packets :: "Role \<Rightarrow> PacketType set" where
  "app_packets r = {t. direction_allowed r t \<and> phase_allowed Established t \<and> t \<notin> {Close, Error}}"

definition terminators :: "PacketType set" where
  "terminators = {Close, Error, AuthReject}"

lemma conn_step_eq:
  "conn_step r s t s' \<longleftrightarrow> direction_allowed r t \<and> phase_allowed s t \<and> s' = advance s t"
  by (auto simp: conn_step_iff validate_incoming_def)

lemma conn_run_snoc_iff:
  "conn_run r (ts @ [t]) s' \<longleftrightarrow> (\<exists>s. conn_run r ts s \<and> conn_step r s t s')"
  by (auto intro: conn_run.more elim: conn_runE)

lemma conn_run_deterministic: "conn_run r ts s \<Longrightarrow> conn_run r ts s' \<Longrightarrow> s = s'"
proof (induction arbitrary: s' rule: conn_run.induct)
  case (more r ts s t u)
  from more.prems obtain s0 where s0: "conn_run r ts s0" "conn_step r s0 t s'"
    by (auto simp only: conn_run_snoc_iff)
  from more.IH s0(1) have "s = s0" .
  with s0(2) more.hyps(2) show ?case by (simp only: conn_step_eq)
qed simp

section \<open>Which packets lead where\<close>

text \<open>The packets accepted so far, for every state of every role.\<close>

primrec history :: "ConnectionState \<Rightarrow> Role \<Rightarrow> PacketType list \<Rightarrow> bool" where
  "history AwaitingClientHello r ts = (r = Server \<and> ts = [])"
| "history AwaitingClientFinish r ts = (r = Server \<and> ts = [ClientHello])"
| "history AwaitingAuth r ts = (r = Server \<and> ts = [ClientHello, ClientFinish])"
| "history AwaitingServerHello r ts = (r = Client \<and> ts = [])"
| "history AwaitingServerAccept r ts = (r = Client \<and> ts = [ServerHello])"
| "history AwaitingAuthChallenge r ts = (r = Client \<and> ts = [ServerHello, ServerAccept])"
| "history AwaitingAuthResult r ts =
     (r = Client \<and> ts = [ServerHello, ServerAccept, AuthChallenge])"
| "history Established r ts = (\<exists>app. ts = handshake r @ app \<and> set app \<subseteq> app_packets r)"
| "history Closing r ts =
     (\<exists>us t. ts = us @ [t] \<and> t \<in> terminators \<and> set us \<inter> terminators = {})"

lemma app_packets_not_terminators: "app_packets r \<inter> terminators = {}"
  by (auto simp: app_packets_def terminators_def)

lemma handshake_not_terminators: "set (handshake r) \<inter> terminators = {}"
  by (cases r) (auto simp: terminators_def)

lemma advance_Established:
  "advance Established t = (if t \<in> {Close, Error} then Closing else Established)"
  by (simp add: advance_def)

lemma history_step:
  assumes "history s r ts" "direction_allowed r t" "phase_allowed s t"
  shows "history (advance s t) r (ts @ [t])"
proof (cases "s = Established")
  case True
  with assms(1) obtain app where app: "ts = handshake r @ app" "set app \<subseteq> app_packets r"
    by auto
  show ?thesis
  proof (cases "t \<in> {Close, Error}")
    case True
    have "set ts \<inter> terminators = {}"
      using app handshake_not_terminators [of r] app_packets_not_terminators [of r] by auto
    with True \<open>s = Established\<close> show ?thesis
      by (auto simp: advance_Established terminators_def)
  next
    case False
    with assms True have "t \<in> app_packets r" by (auto simp: app_packets_def)
    with False True app show ?thesis by (auto simp: advance_Established)
  qed
next
  case False
  with assms show ?thesis
    by (cases s) (auto simp: advance_def terminators_def direction_allowed_def)
qed

lemma conn_run_history: "conn_run r ts s \<Longrightarrow> history s r ts"
proof (induction rule: conn_run.induct)
  case (start r)
  show ?case by (cases r) simp_all
next
  case (more r ts s t s')
  then show ?case by (auto simp: conn_step_eq intro: history_step)
qed

lemma conn_run_app:
  "conn_run r ts Established \<Longrightarrow> set app \<subseteq> app_packets r \<Longrightarrow> conn_run r (ts @ app) Established"
proof (induction app rule: rev_induct)
  case (snoc t app)
  then have "conn_run r (ts @ app) Established" "t \<in> app_packets r" by auto
  then have "conn_run r ((ts @ app) @ [t]) Established"
    by (intro conn_run.more [where s = Established])
      (auto simp: conn_step_eq app_packets_def advance_Established)
  then show ?case by simp
qed simp

lemma conn_run_waiting:
  "i < length (handshake r) \<Longrightarrow> conn_run r (take i (handshake r)) (waiting_states r ! i)"
proof (induction i)
  case 0
  then show ?case by (cases r) simp_all
next
  case (Suc i)
  then have "conn_run r (take i (handshake r) @ [handshake r ! i]) (waiting_states r ! Suc i)"
    by (intro conn_run.more [where s = "waiting_states r ! i"])
      (cases r; auto simp: conn_step_eq less_Suc_eq numeral_eq_Suc nth_Cons' advance_def
        direction_allowed_def split: if_splits)+
  with Suc.prems show ?case by (simp add: take_Suc_conv_app_nth)
qed

lemma conn_run_handshake: "conn_run r (handshake r) Established"
proof (cases r)
  case Server
  have "conn_run r ([ClientHello, ClientFinish] @ [AuthResponse]) Established"
    using conn_run_waiting [of 2 r] Server
    by (intro conn_run.more [where s = AwaitingAuth])
      (auto simp: conn_step_eq advance_def direction_allowed_def)
  with Server show ?thesis by simp
next
  case Client
  have "conn_run r ([ServerHello, ServerAccept, AuthChallenge] @ [AuthAccept]) Established"
    using conn_run_waiting [of 3 r] Client
    by (intro conn_run.more [where s = AwaitingAuthResult])
      (auto simp: conn_step_eq advance_def direction_allowed_def)
  with Client show ?thesis by simp
qed

section \<open>Properties\<close>

text \<open>C4: A connection is established exactly when it has accepted the whole handshake of its role
  in order, followed only by application packets its role may receive: there is no other way in,
  and that way is open.\<close>

theorem conn_run_Established_iff:
  "conn_run r ts Established \<longleftrightarrow> (\<exists>app. ts = handshake r @ app \<and> set app \<subseteq> app_packets r)"
proof
  assume "conn_run r ts Established"
  then show "\<exists>app. ts = handshake r @ app \<and> set app \<subseteq> app_packets r"
    using conn_run_history by fastforce
next
  assume "\<exists>app. ts = handshake r @ app \<and> set app \<subseteq> app_packets r"
  then show "conn_run r ts Established"
    using conn_run_app conn_run_handshake by blast
qed

text \<open>C16: No application packet is accepted before the identity proof: whenever a reachable
  connection accepts one, it is established and its first accepted packets are its role's
  complete handshake.\<close>

theorem no_application_packet_before_auth:
  assumes "conn_run r ts s" and "conn_step r s t s'" and "t \<in> app_packets r"
  shows "s = Established \<and> s' = Established \<and> take (length (handshake r)) ts = handshake r"
proof -
  have "s = Established"
    using assms(2,3) by (cases s) (auto simp: conn_step_eq app_packets_def)
  moreover have "s' = Established"
    using assms(2,3) calculation by (auto simp: conn_step_eq app_packets_def advance_Established)
  moreover have "take (length (handshake r)) ts = handshake r"
    using conn_run_history [OF assms(1)] \<open>s = Established\<close> by auto
  ultimately show ?thesis by blast
qed

theorem no_application_packet_before_auth_witness:
  "take 3 [ClientHello, ClientFinish, AuthResponse] = handshake Server"
proof -
  have step: "conn_step Server Established SendMessage Established"
    by (simp add: conn_step_eq direction_allowed_def advance_Established)
  have app: "SendMessage \<in> app_packets Server"
    by (simp add: app_packets_def direction_allowed_def)
  show ?thesis
    using no_application_packet_before_auth [OF conn_run_handshake step app] by simp
qed

text \<open>C30: the two roles never mix: a reachable client is in a client waiting state, established or
  closing, a reachable server in a server one; and the waiting state is fixed by the handshake
  packets accepted so far.\<close>

theorem conn_run_role_states:
  assumes "conn_run r ts s"
  shows "(\<exists>i < length (handshake r). s = waiting_states r ! i \<and> ts = take i (handshake r))
    \<or> s \<in> {Established, Closing}"
proof (cases "s \<in> {Established, Closing}")
  case False
  from conn_run_history [OF assms] False
  have "\<exists>i \<in> {0, 1, 2, 3}. i < length (handshake r) \<and> s = waiting_states r ! i
      \<and> ts = take i (handshake r)"
    by (cases s) auto
  then show ?thesis by blast
qed simp

theorem conn_run_role_states_witness:
  "\<exists>i < length (handshake Client). AwaitingServerHello = waiting_states Client ! i
     \<and> [] = take i (handshake Client)"
  using conn_run_role_states [OF conn_run.start [of Client]] by auto

text \<open>
  C40: a connection that is not closing can always still be established, within at most four further packets.
\<close>

theorem conn_run_can_complete:
  assumes "conn_run r ts s" and "s \<noteq> Closing"
  shows "\<exists>rest. length rest \<le> 4 \<and> conn_run r (ts @ rest) Established"
proof (cases "s = Established")
  case True
  with assms show ?thesis by (intro exI [of _ "[]"]) simp
next
  case False
  with assms(2) conn_run_history [OF assms(1)]
  have "\<exists>i. ts = take i (handshake r)"
    by (cases s) (auto intro: exI [of _ "0::nat"] exI [of _ "1::nat"] exI [of _ "2::nat"]
        exI [of _ "3::nat"])
  then obtain i where "ts @ drop i (handshake r) = handshake r"
    using append_take_drop_id by blast
  moreover have "length (drop i (handshake r)) \<le> 4"
    by (cases r) auto
  ultimately show ?thesis
    using conn_run_handshake [of r] by (intro exI [of _ "drop i (handshake r)"]) simp
qed

theorem conn_run_can_complete_witness:
  "\<exists>rest. length rest \<le> 4 \<and> conn_run Server ([] @ rest) Established"
  using conn_run_can_complete [OF conn_run.start [of Server]] by simp

text \<open>C31: A closing connection got there by exactly one terminating packet (\<open>Close\<close>, \<open>Error\<close> or the
  client's \<open>AuthReject\<close>), its last one, and accepts nothing afterwards.\<close>

theorem conn_run_Closing_final:
  assumes "conn_run r ts Closing"
  shows "(\<exists>us t. ts = us @ [t] \<and> t \<in> terminators \<and> set us \<inter> terminators = {})
    \<and> (\<forall>t. validate_incoming Closing r t = Err InvalidStateTransition)"
  using conn_run_history [OF assms] by (auto simp: validate_incoming_def)

theorem conn_run_Closing_final_witness:
  "\<exists>us t. [ServerHello, ServerAccept, AuthChallenge, AuthReject] = us @ [t] \<and> t \<in> terminators
     \<and> set us \<inter> terminators = {}"
proof -
  have "conn_run Client ([ServerHello, ServerAccept, AuthChallenge] @ [AuthReject]) Closing"
    using conn_run_waiting [of 3 Client]
    by (intro conn_run.more [where s = AwaitingAuthResult])
      (auto simp: conn_step_eq advance_def direction_allowed_def)
  from conn_run_Closing_final [OF this] show ?thesis by simp
qed

text \<open>C32: Where \<open>Close\<close> and \<open>Error\<close> are accepted, state by state: \<open>advance\<close> sends both to \<open>Closing\<close>
  from anywhere, but \<open>validate_incoming\<close> lets \<open>Close\<close> through only once established, and \<open>Error\<close>
  neither as a server's first packet nor when already closing.\<close>

theorem close_and_error_acceptance:
  "(validate_incoming s r Close = Ok () \<longleftrightarrow> s = Established)
   \<and> (validate_incoming s r Error = Ok () \<longleftrightarrow> s \<notin> {AwaitingClientHello, Closing})
   \<and> advance s Close = Closing \<and> advance s Error = Closing"
  by (cases s; cases r) (simp_all add: validate_incoming_def direction_allowed_def advance_def)

section \<open>The abstract connection\<close>

text \<open>
  What both roles promise, without the packet types: a countdown of handshake packets, an open
  connection, a closed one.
\<close>

datatype phase = Handshaking nat | Open | Closed

inductive phase_step :: "phase \<Rightarrow> phase \<Rightarrow> bool" where
  progress: "phase_step (Handshaking (Suc (Suc n))) (Handshaking (Suc n))"
| authenticated: "phase_step (Handshaking (Suc 0)) Open"
| abort: "phase_step (Handshaking n) Closed"
| exchange: "phase_step Open Open"
| shutdown: "phase_step Open Closed"

inductive_simps phase_step_iff: "phase_step p q"

primrec phase_of :: "ConnectionState \<Rightarrow> phase" where
  "phase_of AwaitingClientHello = Handshaking 3"
| "phase_of AwaitingClientFinish = Handshaking 2"
| "phase_of AwaitingAuth = Handshaking 1"
| "phase_of AwaitingServerHello = Handshaking 4"
| "phase_of AwaitingServerAccept = Handshaking 3"
| "phase_of AwaitingAuthChallenge = Handshaking 2"
| "phase_of AwaitingAuthResult = Handshaking 1"
| "phase_of Established = Open"
| "phase_of Closing = Closed"

text \<open>C29: The state machine refines the abstract connection: it starts with as many handshake
  packets to go as its role's handshake has, and every accepted packet is one abstract step, so the
  countdown strictly decreases until the connection is open or closed.\<close>

theorem conn_refines_phase:
  "phase_of (initial r) = Handshaking (length (handshake r))
   \<and> (conn_step r s t s' \<longrightarrow> phase_step (phase_of s) (phase_of s'))"
  by (cases s; cases r)
    (auto simp: conn_step_eq phase_step_iff advance_def direction_allowed_def numeral_eq_Suc)

theorem conn_refines_phase_witness:
  "phase_step (phase_of AwaitingAuth) (phase_of Established)"
proof -
  have "conn_step Server AwaitingAuth AuthResponse Established"
    by (simp add: conn_step_eq direction_allowed_def advance_def)
  with conn_refines_phase [of Server AwaitingAuth AuthResponse Established] show ?thesis by simp
qed

end
