(* ===== verification/Handshake.thy ===== *)
theory Handshake
  imports Packet_Payloads Session Auth Connection_State
begin

text \<open>
  The whole handshake, as the crate's documentation lays it out for its callers: the client and the
  server each hold a codec and a connection state, and exchange the seven handshake packets over a
  network that may change any of them.  Every call is one of the library's operations; the functions
  here fix only their order, which is that of the state machine.  Errors of the payload decoders
  become \<open>ProtocolError::Io\<close>, as the conversion in \<open>error.rs\<close> makes them.
\<close>

section \<open>Endpoints and the network\<close>

record endpoint =
  ep_role :: Role
  ep_codec :: PacketCodec
  ep_state :: ConnectionState

definition new_endpoint :: "Role \<Rightarrow> endpoint" where
  "new_endpoint r = \<lparr>ep_role = r, ep_codec = codec_new, ep_state = initial r\<rparr>"

text \<open>
  One packet from one end to the other: written with the sender's codec, changed by the network, read
  with the receiver's codec, checked against the receiver's state, which then advances.  A packet of
  another type than the one the handshake is at (an \<open>Error\<close>, or \<open>AuthReject\<close>) ends the run.
\<close>

definition deliver ::
    "'k aead \<Rightarrow> (bytes \<Rightarrow> bytes) \<Rightarrow> PacketType \<Rightarrow> bytes \<Rightarrow> endpoint \<Rightarrow> endpoint
     \<Rightarrow> (bytes \<times> endpoint \<times> endpoint) presult" where
  "deliver A net t payload tx rx =
     (let (sent, (tx_codec, wire)) = write_packet A vec t 0 payload (ep_codec tx, []);
          (got, (rx_codec, _)) = read_packet A cursor (ep_codec rx, net wire) in
      and_then sent (\<lambda>_.
      and_then got (\<lambda>pkt.
      and_then (from_u8 (packet_type (raw_header pkt))) (\<lambda>ptype.
      and_then (validate_incoming (ep_state rx) (ep_role rx) ptype) (\<lambda>_.
      and_then (ensure (ptype = t) InvalidStateTransition) (\<lambda>_.
      Ok (raw_payload pkt, tx\<lparr>ep_codec := tx_codec\<rparr>,
          rx\<lparr>ep_codec := rx_codec, ep_state := advance (ep_state rx) ptype\<rparr>)))))))"

section \<open>The three phases\<close>

text \<open>What each side brings: its name, its random choices and its long-term keys.\<close>

record ('x, 'r) client_party =
  cp_id :: str
  cp_secret :: 'x
  cp_coins :: 'r
  cp_pinned :: dsa_vk
  cp_seed :: key32
  cp_vk :: dsa_vk
  cp_token :: bytes

record ('x, 'r) server_party =
  sp_id :: str
  sp_secret :: 'x
  sp_coins :: 'r
  sp_seed :: key32
  sp_nonce :: key32

text \<open>
  The hellos: the client's key material, the server's answer and signature, the client's check against
  the pinned key, and the keys both sides derive.
\<close>

record hellos =
  he_client :: endpoint
  he_server :: endpoint
  he_ch_sent :: bytes
  he_ch_seen :: bytes
  he_sh_sent :: bytes
  he_sh_seen :: bytes
  he_keys :: SessionKeys
  he_answer :: ServerHandshakeState

definition hello_phase ::
    "'x x25519 \<Rightarrow> ('dk, 'ek, 'r) ml_kem \<Rightarrow> 'prk hkdf \<Rightarrow> 'k aead \<Rightarrow> ('sk, 'vk, 'sg) ml_dsa \<Rightarrow> sha256
     \<Rightarrow> (PacketType \<Rightarrow> bytes \<Rightarrow> bytes) \<Rightarrow> ('x, 'r) client_party \<Rightarrow> ('x, 'r) server_party
     \<Rightarrow> hellos presult" where
  "hello_phase X K H A D sha net cp sp =
     and_then (ClientHandshakeState_generate X K (cp_secret cp) (cp_coins cp)) (\<lambda>hs.
     and_then (map_err Io (ClientHelloPayload_encode \<lparr>ch_client_id = cp_id cp,
       ch_x25519_public_key = hs_x25519_public hs, ch_ml_kem_ek = hs_ml_kem_ek hs\<rparr>)) (\<lambda>ch.
     and_then (deliver A (net ClientHello) ClientHello ch (new_endpoint Client) (new_endpoint Server))
       (\<lambda>(ch_seen, client, server).
     and_then (map_err Io (ClientHelloPayload_decode ch_seen)) (\<lambda>hello.
     and_then (ServerHandshakeState_respond X K H (ch_x25519_public_key hello) (ch_ml_kem_ek hello)
       (sp_secret sp) (sp_coins sp)) (\<lambda>srv.
     and_then (sign_server_hello sha D ch_seen (srv_x25519_public srv) (srv_ml_kem_ciphertext srv)
       (sp_seed sp)) (\<lambda>sig.
     and_then (map_err Io (ServerHelloPayload_encode \<lparr>sh_server_id = sp_id sp,
       sh_x25519_public_key = srv_x25519_public srv, sh_ml_kem_ciphertext = srv_ml_kem_ciphertext srv,
       sh_signature = sig\<rparr>)) (\<lambda>sh.
     and_then (deliver A (net ServerHello) ServerHello sh server client) (\<lambda>(sh_seen, server, client).
     and_then (map_err Io (ServerHelloPayload_decode sh_seen)) (\<lambda>answer.
     and_then (verify_server_hello sha D ch (sh_x25519_public_key answer)
       (sh_ml_kem_ciphertext answer) (cp_pinned cp) (sh_signature answer)) (\<lambda>_.
     and_then (derive_session_keys X K H hs (sh_x25519_public_key answer)
       (sh_ml_kem_ciphertext answer)) (\<lambda>keys.
     Ok \<lparr>he_client = client, he_server = server, he_ch_sent = ch, he_ch_seen = ch_seen,
         he_sh_sent = sh, he_sh_seen = sh_seen, he_keys = keys, he_answer = srv\<rparr>)))))))))))"

text \<open>
  \<open>ClientFinish\<close> and \<open>ServerAccept\<close>; then each side gives its codec the session keys, in the order the
  documentation of \<open>establish_session\<close> assigns to its role.
\<close>

definition finish_phase ::
    "'k aead \<Rightarrow> (PacketType \<Rightarrow> bytes \<Rightarrow> bytes) \<Rightarrow> hellos \<Rightarrow> (endpoint \<times> endpoint) presult" where
  "finish_phase A net he =
     and_then (deliver A (net ClientFinish) ClientFinish
       (ClientFinishPayload_encode \<lparr>cf_ready = True\<rparr>) (he_client he) (he_server he))
       (\<lambda>(finish, client, server).
     and_then (map_err Io (ClientFinishPayload_decode finish)) (\<lambda>_.
     and_then (deliver A (net ServerAccept) ServerAccept
       (ServerAcceptPayload_encode \<lparr>sa_accepted = True\<rparr>) server client) (\<lambda>(accept, server, client).
     and_then (map_err Io (ServerAcceptPayload_decode accept)) (\<lambda>_.
     Ok (client\<lparr>ep_codec := establish_session (ep_codec client)
           (client_to_server (he_keys he)) (server_to_client (he_keys he))\<rparr>,
         server\<lparr>ep_codec := establish_session (ep_codec server)
           (server_to_client (srv_session_keys (he_answer he)))
           (client_to_server (srv_session_keys (he_answer he)))\<rparr>)))))"

text \<open>
  The identity proof inside the session: each side computes the transcript from the bytes it sent and
  received itself.  A run also tells which nonce the client answered and which key the server accepted.
\<close>

record auth_outcome =
  au_nonce :: key32
  au_key :: dsa_vk

definition auth_phase ::
    "'k aead \<Rightarrow> ('sk, 'vk, 'sg) ml_dsa \<Rightarrow> sha256 \<Rightarrow> (PacketType \<Rightarrow> bytes \<Rightarrow> bytes)
     \<Rightarrow> ('x, 'r) client_party \<Rightarrow> ('x, 'r) server_party \<Rightarrow> hellos \<Rightarrow> endpoint \<Rightarrow> endpoint
     \<Rightarrow> (auth_outcome \<times> endpoint \<times> endpoint) presult" where
  "auth_phase A D sha net cp sp he client server =
     and_then (deliver A (net AuthChallenge) AuthChallenge
       (AuthChallengePayload_encode \<lparr>ac_nonce = sp_nonce sp\<rparr>) server client)
       (\<lambda>(challenge, server, client).
     and_then (map_err Io (AuthChallengePayload_decode challenge)) (\<lambda>ac.
     and_then (sign_auth_response D (compute_handshake_transcript sha (he_ch_sent he) (he_sh_seen he))
       (ac_nonce ac) (cp_seed cp)) (\<lambda>sig.
     and_then (map_err Io (AuthResponsePayload_encode \<lparr>ar_public_key = cp_vk cp, ar_signature = sig,
       ar_attestation_token = cp_token cp\<rparr>)) (\<lambda>response.
     and_then (deliver A (net AuthResponse) AuthResponse response client server)
       (\<lambda>(response, client, server).
     and_then (map_err Io (AuthResponsePayload_decode response)) (\<lambda>ar.
     and_then (verify_auth_response D (compute_handshake_transcript sha (he_ch_seen he) (he_sh_sent he))
       (sp_nonce sp) (ar_public_key ar) (ar_signature ar)) (\<lambda>_.
     and_then (deliver A (net AuthAccept) AuthAccept (AuthAcceptPayload_encode AuthAcceptPayload)
       server client) (\<lambda>(accept, server, client).
     and_then (map_err Io (AuthAcceptPayload_decode accept)) (\<lambda>_.
     Ok (\<lparr>au_nonce = ac_nonce ac, au_key = ar_public_key ar\<rparr>, client, server))))))))))"

definition run_handshake ::
    "'x x25519 \<Rightarrow> ('dk, 'ek, 'r) ml_kem \<Rightarrow> 'prk hkdf \<Rightarrow> 'k aead \<Rightarrow> ('sk, 'vk, 'sg) ml_dsa \<Rightarrow> sha256
     \<Rightarrow> (PacketType \<Rightarrow> bytes \<Rightarrow> bytes) \<Rightarrow> ('x, 'r) client_party \<Rightarrow> ('x, 'r) server_party
     \<Rightarrow> (hellos \<times> auth_outcome \<times> endpoint \<times> endpoint) presult" where
  "run_handshake X K H A D sha net cp sp =
     and_then (hello_phase X K H A D sha net cp sp) (\<lambda>he.
     and_then (finish_phase A net he) (\<lambda>(client, server).
     and_then (auth_phase A D sha net cp sp he client server) (\<lambda>(au, client, server).
     Ok (he, au, client, server))))"

section \<open>An honest run completes\<close>

lemma deliver_linked:
  assumes "aead_correct A" "aead_seals_upto (1024 * 1024) A"
    and "linked (ep_codec tx) (ep_codec rx)" "sendable (ep_codec tx) t 0 payload"
    and "next_send_seq (ep_codec tx) < 100"
    and "validate_incoming (ep_state rx) (ep_role rx) t = Ok ()"
  shows "deliver A id t payload tx rx =
    Ok (payload, tx\<lparr>ep_codec := (ep_codec tx)\<lparr>next_send_seq := next_send_seq (ep_codec tx) + 1\<rparr>\<rparr>,
      rx\<lparr>ep_codec := (ep_codec rx)\<lparr>last_recv_seq := Some (next_send_seq (ep_codec tx))\<rparr>,
         ep_state := advance (ep_state rx) t\<rparr>)"
proof -
  have "checked_add_u64 (next_send_seq (ep_codec tx)) 1 = Some (next_send_seq (ep_codec tx) + 1)"
    using assms(5) by (simp add: checked_add_u64_def word_less_nat_alt)
  from packet_transfer [OF assms(1-4) this, of "[]" "[]"] assms(6)
  show ?thesis
    by (auto simp: deliver_def received_def from_u8_as_u8)
qed

lemma sendable_plain: "length p \<le> unat (max_payload_size t) \<Longrightarrow> sendable c t 0 p"
  by (simp add: sendable_def)

text \<open>The endpoints of an honest run, by what they have sent and received.\<close>

definition at :: "Role \<Rightarrow> SessionCipher option \<Rightarrow> u64 \<Rightarrow> u64 option \<Rightarrow> ConnectionState \<Rightarrow> endpoint" where
  "at r sess next seen st =
     \<lparr>ep_role = r, ep_codec = \<lparr>last_recv_seq = seen, next_send_seq = next, session = sess\<rparr>, ep_state = st\<rparr>"

lemma new_endpoint_at: "new_endpoint r = at r None 1 None (initial r)"
  by (simp add: new_endpoint_def at_def codec_new_def)

lemma deliver_at:
  assumes "aead_correct A" "aead_seals_upto (1024 * 1024) A"
    and "length payload \<le> unat (max_payload_size t)" "n < 100" "case m of None \<Rightarrow> True | Some k \<Rightarrow> k < n"
    and "case (sess, sess') of (None, None) \<Rightarrow> True | (Some a, Some b) \<Rightarrow> outbound_key a = inbound_key b | _ \<Rightarrow> False"
    and "validate_incoming st' r' t = Ok ()"
  shows "deliver A id t payload (at r sess n k st) (at r' sess' j m st')
    = Ok (payload, at r sess (n + 1) k st, at r' sess' j (Some n) (advance st' t))"
  using deliver_linked [OF assms(1,2), of "at r sess n k st" "at r' sess' j m st'" t payload] assms(3-7)
  by (simp add: at_def linked_def sendable_def fresh_seq_def)

text \<open>What an honest pair exchanges in its hellos.\<close>

definition honest_hellos ::
    "'x x25519 \<Rightarrow> ('dk, 'ek, 'r) ml_kem \<Rightarrow> 'prk hkdf \<Rightarrow> ('x, 'r) client_party \<Rightarrow> ('x, 'r) server_party
     \<Rightarrow> ('x, 'dk) ClientHandshakeState \<Rightarrow> ServerHandshakeState \<Rightarrow> bytes \<Rightarrow> bool" where
  "honest_hellos X K H cp sp hs srv ch \<longleftrightarrow>
     ClientHandshakeState_generate X K (cp_secret cp) (cp_coins cp) = Ok hs
   \<and> ServerHandshakeState_respond X K H (hs_x25519_public hs) (hs_ml_kem_ek hs) (sp_secret sp) (sp_coins sp) = Ok srv
   \<and> ClientHelloPayload_encode \<lparr>ch_client_id = cp_id cp, ch_x25519_public_key = hs_x25519_public hs,
       ch_ml_kem_ek = hs_ml_kem_ek hs\<rparr> = Ok ch"

lemma honest_hello_phase:
  fixes X :: "'x x25519" and K :: "('dk, 'ek, 'r) ml_kem" and H :: "'prk hkdf" and A :: "'k aead"
    and D :: "('sk, 'vk, 'sg) ml_dsa"
  assumes laws: "x25519_correct X" "ml_kem_correct K" "hkdf_correct H" "aead_correct A"
    and seals: "aead_seals_upto (1024 * 1024) A"
    and pinned: "\<And>hs srv ch. honest_hellos X K H cp sp hs srv ch \<Longrightarrow>
      \<exists>sig. sign_server_hello sha D ch (srv_x25519_public srv) (srv_ml_kem_ciphertext srv) (sp_seed sp) = Ok sig
        \<and> verify_server_hello sha D ch (srv_x25519_public srv) (srv_ml_kem_ciphertext srv) (cp_pinned cp) sig = Ok ()"
    and ids: "str_len (cp_id cp) \<le> 82" "str_len (sp_id sp) \<le> 78"
  shows "\<exists>he. hello_phase X K H A D sha (\<lambda>_. id) cp sp = Ok he
    \<and> he_client he = at Client None 2 (Some 1) AwaitingServerAccept
    \<and> he_server he = at Server None 2 (Some 1) AwaitingClientFinish
    \<and> he_ch_seen he = he_ch_sent he \<and> he_sh_seen he = he_sh_sent he
    \<and> he_keys he = srv_session_keys (he_answer he)
    \<and> (\<exists>hs. honest_hellos X K H cp sp hs (he_answer he) (he_ch_sent he))"
proof -
  obtain hs where gen: "ClientHandshakeState_generate X K (cp_secret cp) (cp_coins cp) = Ok hs"
    using generate_result [OF laws(2), of X] by blast
  obtain srv where resp: "ServerHandshakeState_respond X K H (hs_x25519_public hs) (hs_ml_kem_ek hs)
      (sp_secret sp) (sp_coins sp) = Ok srv"
    using honest_response_exists [OF laws(2,3) gen] by blast
  note keys = responded_keys_agree [OF laws(1,2) gen resp]
  let ?ch = "\<lparr>ch_client_id = cp_id cp, ch_x25519_public_key = hs_x25519_public hs,
      ch_ml_kem_ek = hs_ml_kem_ek hs\<rparr>"
  obtain ch where ch: "ClientHelloPayload_encode ?ch = Ok ch" "length ch \<le> unat (max_payload_size ClientHello)"
    using client_hello_packet.within_iff [of ?ch] ids(1) unfolding within_eq by auto
  have honest: "honest_hellos X K H cp sp hs srv ch"
    using gen resp ch(1) by (simp add: honest_hellos_def)
  obtain sig where sig: "sign_server_hello sha D ch (srv_x25519_public srv) (srv_ml_kem_ciphertext srv)
      (sp_seed sp) = Ok sig"
    and ver: "verify_server_hello sha D ch (srv_x25519_public srv) (srv_ml_kem_ciphertext srv)
      (cp_pinned cp) sig = Ok ()"
    using pinned [OF honest] by blast
  let ?sh = "\<lparr>sh_server_id = sp_id sp, sh_x25519_public_key = srv_x25519_public srv,
      sh_ml_kem_ciphertext = srv_ml_kem_ciphertext srv, sh_signature = sig\<rparr>"
  obtain sh where sh: "ServerHelloPayload_encode ?sh = Ok sh" "length sh \<le> unat (max_payload_size ServerHello)"
    using server_hello_packet.within_iff [of ?sh] ids(2) unfolding within_eq by auto
  have "deliver A id ClientHello ch (new_endpoint Client) (new_endpoint Server)
      = Ok (ch, at Client None 2 None AwaitingServerHello, at Server None 1 (Some 1) AwaitingClientFinish)"
    using deliver_at [OF laws(4) seals ch(2), of 1 None None None AwaitingClientHello Server]
    by (simp add: new_endpoint_at validate_incoming_def direction_allowed_def advance_def)
  moreover have "deliver A id ServerHello sh (at Server None 1 (Some 1) AwaitingClientFinish)
      (at Client None 2 None AwaitingServerHello)
      = Ok (sh, at Server None 2 (Some 1) AwaitingClientFinish, at Client None 2 (Some 1) AwaitingServerAccept)"
    using deliver_at [OF laws(4) seals sh(2), of 1 None None None AwaitingServerHello Client]
    by (simp add: validate_incoming_def direction_allowed_def advance_def)
  ultimately show ?thesis
    using honest gen resp keys ver sig ch(1) sh(1) client_hello.dec_enc [OF ch(1)] server_hello.dec_enc [OF sh(1)]
    by (auto simp: hello_phase_def)
qed

lemma honest_finish_phase:
  assumes "aead_correct A" "aead_seals_upto (1024 * 1024) A"
    and "he_client he = at Client None 2 (Some 1) AwaitingServerAccept"
    and "he_server he = at Server None 2 (Some 1) AwaitingClientFinish"
  shows "finish_phase A (\<lambda>_. id) he =
    Ok (at Client (Some \<lparr>outbound_key = client_to_server (he_keys he),
          inbound_key = server_to_client (he_keys he)\<rparr>) 3 (Some 2) AwaitingAuthChallenge,
        at Server (Some \<lparr>outbound_key = server_to_client (srv_session_keys (he_answer he)),
          inbound_key = client_to_server (srv_session_keys (he_answer he))\<rparr>) 3 (Some 2) AwaitingAuth)"
proof -
  let ?cf = "\<lparr>cf_ready = True\<rparr>" and ?sa = "\<lparr>sa_accepted = True\<rparr>"
  have len: "length (ClientFinishPayload_encode ?cf) \<le> unat (max_payload_size ClientFinish)"
    "length (ServerAcceptPayload_encode ?sa) \<le> unat (max_payload_size ServerAccept)"
    using client_finish_packet.within_iff [of ?cf] server_accept_packet.within_iff [of ?sa] by simp_all
  note deliver = deliver_at [OF assms(1,2) len(1), of 2 "Some 1" None None AwaitingClientFinish Server]
    deliver_at [OF assms(1,2) len(2), of 2 "Some 1" None None AwaitingServerAccept Client]
  show ?thesis
    using deliver client_finish.dec_enc [of ?cf, OF refl] server_accept.dec_enc [of ?sa, OF refl]
    by (simp add: finish_phase_def assms validate_incoming_def direction_allowed_def advance_def)
      (simp add: at_def establish_session_def)
qed

lemma honest_auth_phase:
  assumes "aead_correct A" "aead_seals_upto (1024 * 1024) A"
    and "\<exists>sig. sign_auth_response D (compute_handshake_transcript sha (he_ch_sent he) (he_sh_sent he))
        (sp_nonce sp) (cp_seed cp) = Ok sig
      \<and> verify_auth_response D (compute_handshake_transcript sha (he_ch_sent he) (he_sh_sent he))
          (sp_nonce sp) (cp_vk cp) sig = Ok ()" "length (cp_token cp) \<le> 4096"
    and "he_ch_seen he = he_ch_sent he" "he_sh_seen he = he_sh_sent he"
    and "outbound_key cs = inbound_key ss" "outbound_key ss = inbound_key cs"
  shows "auth_phase A D sha (\<lambda>_. id) cp sp he (at Client (Some cs) 3 (Some 2) AwaitingAuthChallenge)
      (at Server (Some ss) 3 (Some 2) AwaitingAuth)
    = Ok (\<lparr>au_nonce = sp_nonce sp, au_key = cp_vk cp\<rparr>, at Client (Some cs) 4 (Some 4) Established,
        at Server (Some ss) 5 (Some 3) Established)"
proof -
  let ?ac = "\<lparr>ac_nonce = sp_nonce sp\<rparr>" and ?tr = "compute_handshake_transcript sha (he_ch_sent he) (he_sh_sent he)"
  obtain sig where sig: "sign_auth_response D ?tr (sp_nonce sp) (cp_seed cp) = Ok sig"
    "verify_auth_response D ?tr (sp_nonce sp) (cp_vk cp) sig = Ok ()"
    using assms(3) by blast
  let ?ar = "\<lparr>ar_public_key = cp_vk cp, ar_signature = sig, ar_attestation_token = cp_token cp\<rparr>"
  obtain ar where ar: "AuthResponsePayload_encode ?ar = Ok ar" "length ar \<le> unat (max_payload_size AuthResponse)"
    using auth_response_packet.within_iff [of ?ar] assms(4) unfolding within_eq by auto
  have len: "length (AuthChallengePayload_encode ?ac) \<le> unat (max_payload_size AuthChallenge)"
    "length (AuthAcceptPayload_encode AuthAcceptPayload) \<le> unat (max_payload_size AuthAccept)"
    using auth_challenge_packet.within_iff [of ?ac] by (simp_all add: AuthAcceptPayload_encode_def)
  note deliver = deliver_at [OF assms(1,2) len(1), of 3 "Some 2" "Some ss" "Some cs" AwaitingAuthChallenge Client]
    deliver_at [OF assms(1,2) ar(2), of 3 "Some 2" "Some cs" "Some ss" AwaitingAuth Server]
    deliver_at [OF assms(1,2) len(2), of 4 "Some 3" "Some ss" "Some cs" AwaitingAuthResult Client]
  show ?thesis
    using deliver sig ar(1) auth_response.dec_enc [OF ar(1)] auth_challenge.dec_enc [of ?ac, OF refl]
      auth_accept.dec_enc [of AuthAcceptPayload, OF refl] assms(5-8)
    by (simp add: auth_phase_def validate_incoming_def direction_allowed_def advance_def)
qed

lemma handshake_runs:
  fixes X :: "'x x25519" and K :: "('dk, 'ek, 'r) ml_kem" and H :: "'prk hkdf" and A :: "'k aead"
    and D :: "('sk, 'vk, 'sg) ml_dsa"
  assumes laws: "x25519_correct X" "ml_kem_correct K" "hkdf_correct H" "aead_correct A"
    and seals: "aead_seals_upto (1024 * 1024) A"
    and pinned: "\<And>hs srv ch. honest_hellos X K H cp sp hs srv ch \<Longrightarrow>
      \<exists>sig. sign_server_hello sha D ch (srv_x25519_public srv) (srv_ml_kem_ciphertext srv) (sp_seed sp) = Ok sig
        \<and> verify_server_hello sha D ch (srv_x25519_public srv) (srv_ml_kem_ciphertext srv) (cp_pinned cp) sig = Ok ()"
    and identity: "\<And>he. hello_phase X K H A D sha (\<lambda>_. id) cp sp = Ok he \<Longrightarrow>
      \<exists>sig. sign_auth_response D (compute_handshake_transcript sha (he_ch_sent he) (he_sh_sent he))
          (sp_nonce sp) (cp_seed cp) = Ok sig
        \<and> verify_auth_response D (compute_handshake_transcript sha (he_ch_sent he) (he_sh_sent he))
            (sp_nonce sp) (cp_vk cp) sig = Ok ()"
    and limits: "str_len (cp_id cp) \<le> 82" "str_len (sp_id sp) \<le> 78" "length (cp_token cp) \<le> 4096"
  shows "\<exists>he au client server hs. run_handshake X K H A D sha (\<lambda>_. id) cp sp = Ok (he, au, client, server)
    \<and> au = \<lparr>au_nonce = sp_nonce sp, au_key = cp_vk cp\<rparr>
    \<and> ep_state client = Established \<and> ep_state server = Established
    \<and> he_keys he = srv_session_keys (he_answer he) \<and> session (ep_codec client) \<noteq> None
    \<and> linked (ep_codec client) (ep_codec server) \<and> linked (ep_codec server) (ep_codec client)
    \<and> hello_phase X K H A D sha (\<lambda>_. id) cp sp = Ok he
    \<and> he_ch_seen he = he_ch_sent he \<and> he_sh_seen he = he_sh_sent he
    \<and> honest_hellos X K H cp sp hs (he_answer he) (he_ch_sent he)"
proof -
  obtain he hs where he: "hello_phase X K H A D sha (\<lambda>_. id) cp sp = Ok he"
    "he_client he = at Client None 2 (Some 1) AwaitingServerAccept"
    "he_server he = at Server None 2 (Some 1) AwaitingClientFinish"
    "he_ch_seen he = he_ch_sent he" "he_sh_seen he = he_sh_sent he"
    "he_keys he = srv_session_keys (he_answer he)" "honest_hellos X K H cp sp hs (he_answer he) (he_ch_sent he)"
    using honest_hello_phase [where D = D and sha = sha, OF laws seals _ limits(1,2)] pinned by blast
  from honest_finish_phase [OF laws(4) seals he(2,3)]
    honest_auth_phase [where D = D, OF laws(4) seals identity [OF he(1)] limits(3) he(4,5)] he(1,4-7)
  show ?thesis
    by (simp add: run_handshake_def) (auto simp: at_def linked_def fresh_seq_def)
qed

text \<open>
  C11: the handshake completes.  Over a network that delivers what it is given, with any random choices,
  a client that has pinned the server's verifying key, names within their limits and an attestation
  token of at most 4096 bytes: every one of the calls of the seven-packet handshake succeeds, both ends are
  established, they hold the same session keys, their codecs are linked in both directions, and the
  server has accepted the client's key for the nonce it issued.
\<close>

theorem handshake_completes:
  fixes X :: "'x x25519" and K :: "('dk, 'ek, 'r) ml_kem" and H :: "'prk hkdf" and A :: "'k aead"
    and D :: "('sk, 'vk, 'sg) ml_dsa"
  assumes laws: "x25519_correct X" "ml_kem_correct K" "hkdf_correct H" "aead_correct A" "ml_dsa_correct D"
    and seals: "aead_seals_upto (1024 * 1024) A"
    and keys: "generate_auth_identity D server_sk = Ok (sp_seed sp, cp_pinned cp)"
      "generate_auth_identity D client_sk = Ok (cp_seed cp, cp_vk cp)"
    and limits: "str_len (cp_id cp) \<le> 82" "str_len (sp_id sp) \<le> 78" "length (cp_token cp) \<le> 4096"
  shows "\<exists>he au client server. run_handshake X K H A D sha (\<lambda>_. id) cp sp = Ok (he, au, client, server)
    \<and> au_nonce au = sp_nonce sp \<and> au_key au = cp_vk cp
    \<and> ep_state client = Established \<and> ep_state server = Established
    \<and> he_keys he = srv_session_keys (he_answer he) \<and> session (ep_codec client) \<noteq> None
    \<and> linked (ep_codec client) (ep_codec server) \<and> linked (ep_codec server) (ep_codec client)"
  using handshake_runs [where D = D and sha = sha and cp = cp and sp = sp, OF laws(1-4) seals
      hello_signature_verifies [OF laws(5) keys(1)] auth_signature_verifies [OF laws(5) keys(2)] limits]
  by fastforce

definition demo_client_party :: "(key32, key32) client_party" where
  "demo_client_party = \<lparr>cp_id = str_lit ''al'', cp_secret = const_array 1, cp_coins = const_array 2,
     cp_pinned = mk_array (dsa_vk_encode demo_ml_dsa (const_array 7)), cp_seed = const_array 5,
     cp_vk = mk_array (dsa_vk_encode demo_ml_dsa (const_array 5)), cp_token = []\<rparr>"

definition demo_server_party :: "(key32, key32) server_party" where
  "demo_server_party = \<lparr>sp_id = str_lit ''srv'', sp_secret = const_array 3, sp_coins = const_array 4,
     sp_seed = const_array 7, sp_nonce = const_array 6\<rparr>"

lemma demo_parties:
  "generate_auth_identity demo_ml_dsa (const_array 7) = Ok (sp_seed demo_server_party, cp_pinned demo_client_party)"
  "generate_auth_identity demo_ml_dsa (const_array 5) = Ok (cp_seed demo_client_party, cp_vk demo_client_party)"
  "str_len (cp_id demo_client_party) \<le> 82" "str_len (sp_id demo_server_party) \<le> 78"
  "length (cp_token demo_client_party) \<le> 4096"
  by (simp_all add: generate_auth_identity_result [OF demo_ml_dsa_correct] demo_client_party_def
      demo_server_party_def str_len_def as_bytes_str_lit) (simp_all add: demo_ml_dsa_def)

theorem handshake_completes_witness:
  "\<exists>he au client server. run_handshake demo_x25519 demo_ml_kem demo_hkdf demo_aead demo_ml_dsa demo_sha
       (\<lambda>_. id) demo_client_party demo_server_party = Ok (he, au, client, server)
    \<and> au_nonce au = sp_nonce demo_server_party \<and> au_key au = cp_vk demo_client_party
    \<and> ep_state client = Established \<and> ep_state server = Established
    \<and> he_keys he = srv_session_keys (he_answer he) \<and> session (ep_codec client) \<noteq> None
    \<and> linked (ep_codec client) (ep_codec server) \<and> linked (ep_codec server) (ep_codec client)"
  by (rule handshake_completes [OF demo_x25519_correct demo_ml_kem_correct demo_hkdf_correct
      demo_aead_correct demo_ml_dsa_correct demo_aead_seals demo_parties])

section \<open>A network that changes what it is given\<close>

text \<open>
  The server's side of a handshake: it decodes the client hello it received and answers it.
\<close>

definition server_run ::
    "'x x25519 \<Rightarrow> ('dk, 'ek, 'r) ml_kem \<Rightarrow> 'prk hkdf \<Rightarrow> bytes \<Rightarrow> ServerHandshakeState \<Rightarrow> bool" where
  "server_run X K H ch_bytes server \<longleftrightarrow>
     (\<exists>hello secret coins. ClientHelloPayload_decode ch_bytes = Ok hello
        \<and> ServerHandshakeState_respond X K H (ch_x25519_public_key hello) (ch_ml_kem_ek hello)
            secret coins = Ok server)"

lemma server_runI:
  "ClientHelloPayload_decode ch = Ok hello \<Longrightarrow>
   ServerHandshakeState_respond X K H (ch_x25519_public_key hello) (ch_ml_kem_ek hello) secret coins = Ok srv \<Longrightarrow>
   server_run X K H ch srv"
  by (auto simp: server_run_def)

definition hellos_of :: "(bytes \<times> ServerHandshakeState) set \<Rightarrow> (bytes \<times> key32 \<times> kem_ct) set" where
  "hellos_of runs = {(ch, srv_x25519_public srv, srv_ml_kem_ciphertext srv) | ch srv. (ch, srv) \<in> runs}"

text \<open>What a delivery leaves behind when it succeeds, whatever the network did.\<close>

lemma deliver_OkE:
  assumes "deliver A net t payload tx rx = Ok (got, tx', rx')"
  obtains "validate_incoming (ep_state rx) (ep_role rx) t = Ok ()"
    "ep_state rx' = advance (ep_state rx) t" "ep_state tx' = ep_state tx"
    "ep_role rx' = ep_role rx" "ep_role tx' = ep_role tx"
    "session (ep_codec rx') = session (ep_codec rx)" "session (ep_codec tx') = session (ep_codec tx)"
proof -
  obtain sent c w where wr: "write_packet A vec t 0 payload (ep_codec tx, []) = (sent, (c, w))"
    by (metis prod.exhaust)
  obtain res c' w' where rd: "read_packet A cursor (ep_codec rx, net w) = (res, (c', w'))"
    by (metis prod.exhaust)
  have "session c = session (ep_codec tx)"
    using write_packet_state [OF wr] by auto
  moreover have "session c' = session (ep_codec rx)"
    using read_packet_state [OF rd] by (auto simp: recv_step_def)
  ultimately show thesis
    using assms that by (auto simp: deliver_def wr rd inversions)
qed

lemma hello_phase_OkE:
  assumes "hello_phase X K H A D sha net cp sp = Ok he"
  obtains hs answer sig where
    "ClientHandshakeState_generate X K (cp_secret cp) (cp_coins cp) = Ok hs"
    "ClientHelloPayload_encode \<lparr>ch_client_id = cp_id cp, ch_x25519_public_key = hs_x25519_public hs,
       ch_ml_kem_ek = hs_ml_kem_ek hs\<rparr> = Ok (he_ch_sent he)"
    "server_run X K H (he_ch_seen he) (he_answer he)"
    "sign_server_hello sha D (he_ch_seen he) (srv_x25519_public (he_answer he))
       (srv_ml_kem_ciphertext (he_answer he)) (sp_seed sp) = Ok sig"
    "ServerHelloPayload_encode \<lparr>sh_server_id = sp_id sp, sh_x25519_public_key = srv_x25519_public (he_answer he),
       sh_ml_kem_ciphertext = srv_ml_kem_ciphertext (he_answer he), sh_signature = sig\<rparr> = Ok (he_sh_sent he)"
    "ServerHelloPayload_decode (he_sh_seen he) = Ok answer"
    "verify_server_hello sha D (he_ch_sent he) (sh_x25519_public_key answer)
       (sh_ml_kem_ciphertext answer) (cp_pinned cp) (sh_signature answer) = Ok ()"
    "derive_session_keys X K H hs (sh_x25519_public_key answer) (sh_ml_kem_ciphertext answer)
       = Ok (he_keys he)"
    "ep_state (he_client he) = AwaitingServerAccept" "ep_state (he_server he) = AwaitingClientFinish"
    "ep_role (he_client he) = Client" "ep_role (he_server he) = Server"
proof -
  from assms obtain hs client server hello srv sig server' client' answer where
    hs: "ClientHandshakeState_generate X K (cp_secret cp) (cp_coins cp) = Ok hs"
      "ClientHelloPayload_encode \<lparr>ch_client_id = cp_id cp, ch_x25519_public_key = hs_x25519_public hs,
         ch_ml_kem_ek = hs_ml_kem_ek hs\<rparr> = Ok (he_ch_sent he)"
    and ch: "deliver A (net ClientHello) ClientHello (he_ch_sent he) (new_endpoint Client)
        (new_endpoint Server) = Ok (he_ch_seen he, client, server)"
    and run: "ClientHelloPayload_decode (he_ch_seen he) = Ok hello"
      "ServerHandshakeState_respond X K H (ch_x25519_public_key hello) (ch_ml_kem_ek hello)
         (sp_secret sp) (sp_coins sp) = Ok (he_answer he)"
    and signed: "sign_server_hello sha D (he_ch_seen he) (srv_x25519_public (he_answer he))
        (srv_ml_kem_ciphertext (he_answer he)) (sp_seed sp) = Ok sig"
      "ServerHelloPayload_encode \<lparr>sh_server_id = sp_id sp, sh_x25519_public_key = srv_x25519_public (he_answer he),
        sh_ml_kem_ciphertext = srv_ml_kem_ciphertext (he_answer he), sh_signature = sig\<rparr> = Ok (he_sh_sent he)"
    and sh: "deliver A (net ServerHello) ServerHello (he_sh_sent he) server client
        = Ok (he_sh_seen he, he_server he, he_client he)"
    and answer: "ServerHelloPayload_decode (he_sh_seen he) = Ok answer"
      "verify_server_hello sha D (he_ch_sent he) (sh_x25519_public_key answer)
         (sh_ml_kem_ciphertext answer) (cp_pinned cp) (sh_signature answer) = Ok ()"
      "derive_session_keys X K H hs (sh_x25519_public_key answer) (sh_ml_kem_ciphertext answer)
         = Ok (he_keys he)"
    by (auto simp: hello_phase_def inversions)
  from ch have "ep_state client = AwaitingServerHello" "ep_state server = AwaitingClientFinish"
    "ep_role client = Client" "ep_role server = Server"
    by (auto simp: new_endpoint_def advance_def elim: deliver_OkE)
  with sh have "ep_state (he_client he) = AwaitingServerAccept" "ep_state (he_server he) = AwaitingClientFinish"
    "ep_role (he_client he) = Client" "ep_role (he_server he) = Server"
    by (auto simp: advance_def elim: deliver_OkE)
  with that [OF hs server_runI [OF run] signed answer] show thesis by blast
qed

lemma finish_phase_OkE:
  assumes "finish_phase A net he = Ok (client, server)"
    and "ep_state (he_client he) = AwaitingServerAccept" "ep_state (he_server he) = AwaitingClientFinish"
    and "ep_role (he_client he) = Client" "ep_role (he_server he) = Server"
  shows "session (ep_codec client) = Some \<lparr>outbound_key = client_to_server (he_keys he),
      inbound_key = server_to_client (he_keys he)\<rparr>
    \<and> session (ep_codec server) = Some \<lparr>outbound_key = server_to_client (srv_session_keys (he_answer he)),
      inbound_key = client_to_server (srv_session_keys (he_answer he))\<rparr>
    \<and> ep_state client = AwaitingAuthChallenge \<and> ep_state server = AwaitingAuth
    \<and> ep_role client = Client \<and> ep_role server = Server"
  using assms unfolding finish_phase_def
  by (auto simp: inversions establish_session_def advance_def elim!: deliver_OkE)

lemma auth_phase_OkE:
  assumes "auth_phase A D sha net cp sp he client server = Ok (au, client', server')"
    and "ep_state client = AwaitingAuthChallenge" "ep_state server = AwaitingAuth"
    and "ep_role client = Client" "ep_role server = Server"
  shows "session (ep_codec client') = session (ep_codec client)
    \<and> session (ep_codec server') = session (ep_codec server)
    \<and> ep_state client' = Established \<and> ep_state server' = Established
    \<and> (\<exists>sig. verify_auth_response D (compute_handshake_transcript sha (he_ch_seen he) (he_sh_sent he))
          (sp_nonce sp) (au_key au) sig = Ok ())"
  using assms unfolding auth_phase_def
  by (auto simp: inversions advance_def elim!: deliver_OkE)

lemma accepted_hello_agrees:
  assumes "x25519_correct X" "ml_kem_correct K"
    and "ClientHandshakeState_generate X K secret coins = Ok client"
    and "ClientHelloPayload_encode \<lparr>ch_client_id = cid, ch_x25519_public_key = hs_x25519_public client,
      ch_ml_kem_ek = hs_ml_kem_ek client\<rparr> = Ok ch_bytes"
    and "server_run X K H ch_bytes srv"
  shows "derive_session_keys X K H client (srv_x25519_public srv) (srv_ml_kem_ciphertext srv)
    = Ok (srv_session_keys srv)"
proof -
  have "ClientHelloPayload_decode ch_bytes = Ok \<lparr>ch_client_id = cid,
      ch_x25519_public_key = hs_x25519_public client, ch_ml_kem_ek = hs_ml_kem_ek client\<rparr>"
    using assms(4) by (rule client_hello.dec_enc)
  then obtain s c where "ServerHandshakeState_respond X K H (hs_x25519_public client)
      (hs_ml_kem_ek client) s c = Ok srv"
    using assms(5) by (auto simp: server_run_def)
  then show ?thesis by (rule responded_keys_agree [OF assms(1-3)])
qed


text \<open>
  The client's side of a handshake: the hello bytes it sent and received, and the keys it derived.
\<close>

definition client_session ::
    "'x x25519 \<Rightarrow> ('dk, 'ek, 'r) ml_kem \<Rightarrow> 'prk hkdf \<Rightarrow> bytes \<Rightarrow> bytes \<Rightarrow> SessionKeys \<Rightarrow> bool" where
  "client_session X K H ch sh keys \<longleftrightarrow>
     (\<exists>secret coins hs cid answer. ClientHandshakeState_generate X K secret coins = Ok hs
        \<and> ClientHelloPayload_encode \<lparr>ch_client_id = cid, ch_x25519_public_key = hs_x25519_public hs,
            ch_ml_kem_ek = hs_ml_kem_ek hs\<rparr> = Ok ch
        \<and> ServerHelloPayload_decode sh = Ok answer
        \<and> derive_session_keys X K H hs (sh_x25519_public_key answer) (sh_ml_kem_ciphertext answer) = Ok keys)"

lemma client_session_decodes: "client_session X K H ch sh keys \<Longrightarrow> is_ok (ClientHelloPayload_decode ch)"
  by (auto simp: client_session_def is_ok_iff dest: client_hello.dec_enc)

lemma accepted_response_agrees:
  assumes "x25519_correct X" "ml_kem_correct K"
    and "server_run X K H ch srv"
    and "ServerHelloPayload_encode \<lparr>sh_server_id = sid, sh_x25519_public_key = srv_x25519_public srv,
      sh_ml_kem_ciphertext = srv_ml_kem_ciphertext srv, sh_signature = hello_sig\<rparr> = Ok sh"
    and "\<And>c s n. (c, s, n) \<in> sessions \<Longrightarrow> \<exists>keys. client_session X K H c s keys"
    and "dsa_unforgeable D vk (client_signatures sha sessions)"
    and "sha_collision_free sha ({ch @ sh} \<union> {c @ s | c s n. (c, s, n) \<in> sessions})"
    and "verify_auth_response D (compute_handshake_transcript sha ch sh) nonce vk signature = Ok ()"
  shows "(ch, sh, nonce) \<in> sessions \<and> client_session X K H ch sh (srv_session_keys srv)"
proof -
  have "is_ok (ClientHelloPayload_decode ch)"
    using assms(3) by (auto simp: server_run_def is_ok_iff)
  then have run: "(ch, sh, nonce) \<in> sessions"
    using assms(5) client_session_decodes
    by (intro auth_response_was_signed [OF assms(6,7) _ _ assms(8)]) blast+
  then obtain secret coins hs cid where gen: "ClientHandshakeState_generate X K secret coins = Ok hs"
    and ch: "ClientHelloPayload_encode \<lparr>ch_client_id = cid, ch_x25519_public_key = hs_x25519_public hs,
      ch_ml_kem_ek = hs_ml_kem_ek hs\<rparr> = Ok ch"
    using assms(5) by (fastforce simp: client_session_def)
  from gen ch server_hello.dec_enc [OF assms(4)] accepted_hello_agrees [OF assms(1,2) gen ch assms(3)] run
  show ?thesis by (fastforce simp: client_session_def)
qed

text \<open>The session of the client in a run, and what the server's signature gives it.\<close>

lemma client_of_run:
  assumes "x25519_correct X" "ml_kem_correct K"
    and hello: "hello_phase X K H A D sha net cp sp = Ok he"
    and others: "\<And>ch srv. (ch, srv) \<in> others \<Longrightarrow> server_run X K H ch srv"
    and unf: "dsa_unforgeable D (cp_pinned cp) (server_signatures sha
      (hellos_of (insert (he_ch_seen he, he_answer he) others)) \<union> client_signatures sha sessions)"
    and inj: "sha_collision_free sha ({he_ch_sent he, he_ch_seen he} \<union> fst ` others)"
  shows "client_session X K H (he_ch_sent he) (he_sh_seen he) (he_keys he)
    \<and> (\<exists>srv. (he_ch_sent he, srv) \<in> insert (he_ch_seen he, he_answer he) others \<and> he_keys he = srv_session_keys srv)"
proof (rule hello_phase_OkE [OF hello])
  fix hs answer sig
  assume gen: "ClientHandshakeState_generate X K (cp_secret cp) (cp_coins cp) = Ok hs"
    and ch: "ClientHelloPayload_encode \<lparr>ch_client_id = cp_id cp, ch_x25519_public_key = hs_x25519_public hs,
      ch_ml_kem_ek = hs_ml_kem_ek hs\<rparr> = Ok (he_ch_sent he)"
    and run: "server_run X K H (he_ch_seen he) (he_answer he)"
    and dec: "ServerHelloPayload_decode (he_sh_seen he) = Ok answer"
    and ver: "verify_server_hello sha D (he_ch_sent he) (sh_x25519_public_key answer)
      (sh_ml_kem_ciphertext answer) (cp_pinned cp) (sh_signature answer) = Ok ()"
    and keys: "derive_session_keys X K H hs (sh_x25519_public_key answer) (sh_ml_kem_ciphertext answer)
      = Ok (he_keys he)"
  let ?runs = "insert (he_ch_seen he, he_answer he) others"
  have "fst ` hellos_of ?runs = insert (he_ch_seen he) (fst ` others)"
    by (force simp: hellos_of_def)
  then have "(he_ch_sent he, sh_x25519_public_key answer, sh_ml_kem_ciphertext answer) \<in> hellos_of ?runs"
    using inj by (intro server_hello_was_signed [OF unf _ ver]) (simp add: insert_commute)
  then obtain srv where srv: "(he_ch_sent he, srv) \<in> ?runs"
    "sh_x25519_public_key answer = srv_x25519_public srv" "sh_ml_kem_ciphertext answer = srv_ml_kem_ciphertext srv"
    by (auto simp: hellos_of_def)
  then have "server_run X K H (he_ch_sent he) srv"
    using others run by auto
  from accepted_hello_agrees [OF assms(1,2) gen ch this] keys
  have "he_keys he = srv_session_keys srv" by (simp add: srv)
  with srv(1) gen ch dec keys show ?thesis
    unfolding client_session_def by blast
qed

lemma unchanged_hellos_agree:
  assumes "x25519_correct X" "ml_kem_correct K"
    and hello: "hello_phase X K H A D sha net cp sp = Ok he"
    and same: "he_ch_seen he = he_ch_sent he" "he_sh_seen he = he_sh_sent he"
  shows "he_keys he = srv_session_keys (he_answer he)"
  using hello
proof (rule hello_phase_OkE)
  fix hs answer sig
  assume gen: "ClientHandshakeState_generate X K (cp_secret cp) (cp_coins cp) = Ok hs"
    and ch: "ClientHelloPayload_encode \<lparr>ch_client_id = cp_id cp, ch_x25519_public_key = hs_x25519_public hs,
      ch_ml_kem_ek = hs_ml_kem_ek hs\<rparr> = Ok (he_ch_sent he)"
    and run: "server_run X K H (he_ch_seen he) (he_answer he)"
    and sh: "ServerHelloPayload_encode \<lparr>sh_server_id = sp_id sp,
      sh_x25519_public_key = srv_x25519_public (he_answer he),
      sh_ml_kem_ciphertext = srv_ml_kem_ciphertext (he_answer he), sh_signature = sig\<rparr> = Ok (he_sh_sent he)"
    and dec: "ServerHelloPayload_decode (he_sh_seen he) = Ok answer"
    and keys: "derive_session_keys X K H hs (sh_x25519_public_key answer) (sh_ml_kem_ciphertext answer)
      = Ok (he_keys he)"
  from accepted_hello_agrees [OF assms(1,2) gen ch run [unfolded same]] keys dec server_hello.dec_enc [OF sh]
  show ?thesis by (auto simp: same)
qed

text \<open>What the server knows when it has accepted this client's key.\<close>

lemma server_of_run:
  assumes "x25519_correct X" "ml_kem_correct K"
    and hello: "hello_phase X K H A D sha net cp sp = Ok he"
    and ver: "verify_auth_response D (compute_handshake_transcript sha (he_ch_seen he) (he_sh_sent he))
      (sp_nonce sp) vk sig = Ok ()"
    and this_session: "client_session X K H (he_ch_sent he) (he_sh_seen he) (he_keys he)"
    and sessions: "\<And>c s n. (c, s, n) \<in> sessions \<Longrightarrow> \<exists>keys. client_session X K H c s keys"
    and unf: "dsa_unforgeable D vk
      (client_signatures sha (insert (he_ch_sent he, he_sh_seen he, nonce) sessions))"
    and inj: "sha_collision_free sha ({he_ch_seen he @ he_sh_sent he, he_ch_sent he @ he_sh_seen he}
      \<union> {c @ s | c s n. (c, s, n) \<in> sessions})"
  shows "(he_ch_seen he, he_sh_sent he, sp_nonce sp) \<in> insert (he_ch_sent he, he_sh_seen he, nonce) sessions
    \<and> client_session X K H (he_ch_seen he) (he_sh_sent he) (srv_session_keys (he_answer he))"
  using hello
proof (rule hello_phase_OkE)
  let ?sessions = "insert (he_ch_sent he, he_sh_seen he, nonce) sessions"
  fix sig'
  assume run: "server_run X K H (he_ch_seen he) (he_answer he)"
    and sh: "ServerHelloPayload_encode \<lparr>sh_server_id = sp_id sp,
      sh_x25519_public_key = srv_x25519_public (he_answer he),
      sh_ml_kem_ciphertext = srv_ml_kem_ciphertext (he_answer he), sh_signature = sig'\<rparr> = Ok (he_sh_sent he)"
  have "{c @ s | c s n. (c, s, n) \<in> ?sessions}
      = insert (he_ch_sent he @ he_sh_seen he) {c @ s | c s n. (c, s, n) \<in> sessions}" by auto
  then have "sha_collision_free sha ({he_ch_seen he @ he_sh_sent he} \<union> {c @ s | c s n. (c, s, n) \<in> ?sessions})"
    using inj by (simp add: insert_commute)
  with sessions this_session show ?thesis
    by (intro accepted_response_agrees [OF assms(1,2) run sh _ unf _ ver]) auto
qed

text \<open>
  C12: a network attacker cannot split a handshake.  The network may replace any of the seven packets by
  whatever it likes, while the server answers hellos on any number of other connections (this client's
  hello among them) and this client runs any number of other sessions with the same key.  If the run
  completes and the server accepted this client's key, both ends are established; the client's keys are
  those of one of the server's runs that answered exactly the hello the client sent; and as for this
  connection of the server: when the client's hello arrived unchanged, so did the server's hello and the
  nonce, and the two codecs hold the same pair of keys, crosswise; when it did not, the server has
  accepted another session of this client, with exactly the bytes and the nonce of this connection, and
  shares its keys with that one.  Relied on: the pinned key signs only the server's answers and
  authentication messages, the client's key only the authentication messages of its sessions;
  a client's hello is fresh, being made of random keys; the hash does not collide on the hellos and the
  transcripts in play.
\<close>

theorem tampered_handshake_agrees:
  assumes "x25519_correct X" "ml_kem_correct K"
    and "run_handshake X K H A D sha net cp sp = Ok (he, au, client, server)"
    and "au_key au = cp_vk cp"
    and "\<And>ch srv. (ch, srv) \<in> others \<Longrightarrow> server_run X K H ch srv"
    and "\<And>ch sh nonce. (ch, sh, nonce) \<in> sessions \<Longrightarrow> \<exists>keys. client_session X K H ch sh keys"
    and "he_ch_sent he \<notin> fst ` sessions"
    and "dsa_unforgeable D (cp_pinned cp) (server_signatures sha
      (hellos_of (insert (he_ch_seen he, he_answer he) others)) \<union> client_signatures sha responses)"
    and "dsa_unforgeable D (cp_vk cp)
      (client_signatures sha (insert (he_ch_sent he, he_sh_seen he, au_nonce au) sessions))"
    and "sha_collision_free sha ({he_ch_sent he, he_ch_seen he} \<union> fst ` others)"
    and "sha_collision_free sha ({he_ch_seen he @ he_sh_sent he, he_ch_sent he @ he_sh_seen he}
      \<union> {c @ s | c s n. (c, s, n) \<in> sessions})"
  shows "ep_state client = Established \<and> ep_state server = Established
    \<and> session (ep_codec client) = Some \<lparr>outbound_key = client_to_server (he_keys he),
        inbound_key = server_to_client (he_keys he)\<rparr>
    \<and> session (ep_codec server) = Some \<lparr>outbound_key = server_to_client (srv_session_keys (he_answer he)),
        inbound_key = client_to_server (srv_session_keys (he_answer he))\<rparr>
    \<and> (\<exists>srv. (he_ch_sent he, srv) \<in> insert (he_ch_seen he, he_answer he) others
        \<and> he_keys he = srv_session_keys srv)
    \<and> (if he_ch_seen he = he_ch_sent he
       then he_sh_seen he = he_sh_sent he \<and> au_nonce au = sp_nonce sp
         \<and> he_keys he = srv_session_keys (he_answer he)
       else (he_ch_seen he, he_sh_sent he, sp_nonce sp) \<in> sessions
         \<and> client_session X K H (he_ch_seen he) (he_sh_sent he) (srv_session_keys (he_answer he)))"
proof -
  from assms(3) obtain client1 server1 where hello: "hello_phase X K H A D sha net cp sp = Ok he"
    and finish: "finish_phase A net he = Ok (client1, server1)"
    and auth: "auth_phase A D sha net cp sp he client1 server1 = Ok (au, client, server)"
    by (auto simp: run_handshake_def inversions)
  have "ep_state (he_client he) = AwaitingServerAccept" "ep_state (he_server he) = AwaitingClientFinish"
    "ep_role (he_client he) = Client" "ep_role (he_server he) = Server"
    using hello by (rule hello_phase_OkE, simp)+
  note ends = finish_phase_OkE [OF finish this]
  with auth_phase_OkE [OF auth] obtain sig where established: "ep_state client = Established"
    "ep_state server = Established" "session (ep_codec client) = session (ep_codec client1)"
    "session (ep_codec server) = session (ep_codec server1)"
    and ver: "verify_auth_response D (compute_handshake_transcript sha (he_ch_seen he) (he_sh_sent he))
      (sp_nonce sp) (cp_vk cp) sig = Ok ()"
    using assms(4) by auto
  note own = client_of_run [OF assms(1,2) hello assms(5,8,10)]
  then have this_session: "client_session X K H (he_ch_sent he) (he_sh_seen he) (he_keys he)" ..
  note peer = server_of_run [OF assms(1,2) hello ver this_session assms(6,9,11)]
  show ?thesis
  proof (cases "he_ch_seen he = he_ch_sent he")
    case True
    then have "he_sh_seen he = he_sh_sent he \<and> au_nonce au = sp_nonce sp"
      using peer assms(7) by (force simp: image_iff)
    with unchanged_hellos_agree [OF assms(1,2) hello True] True own ends established show ?thesis by auto
  next
    case False
    with peer own ends established show ?thesis by auto
  qed
qed

text \<open>
  A scheme with two keys that verify one message each: a key that begins with 1 the client's, every other
  key the server's.
\<close>

definition two_key_dsa :: "bytes \<Rightarrow> bytes \<Rightarrow> (unit, bool, unit) ml_dsa" where
  "two_key_dsa hello response = \<lparr>dsa_from_seed = (\<lambda>s. ()), dsa_to_seed = (\<lambda>sk. const_array 0),
     dsa_verifying_key = (\<lambda>sk. True), dsa_vk_encode = (\<lambda>vk. replicate 1952 1),
     dsa_vk_decode = (\<lambda>b. hd (as_slice b) = 1), dsa_sign = (\<lambda>sk m. ()),
     dsa_sig_encode = (\<lambda>sg. replicate 3309 0), dsa_sig_decode = (\<lambda>b. Some ()),
     dsa_verify = (\<lambda>vk m sg. m = (if vk then response else hello))\<rparr>"

lemma two_key_dsa_signs: "sign_with_seed (two_key_dsa h r) msg seed = Ok (mk_array (replicate 3309 0))"
  by (simp add: sign_with_seed_def two_key_dsa_def size_defs Let_def copy_from_slice_def)

lemma two_key_dsa_verify:
  "verify_with_key (two_key_dsa h r) h (const_array 0) sig = Ok ()"
  "verify_with_key (two_key_dsa h r) r (const_array 1) sig = Ok ()"
  by (simp_all add: verify_with_key_eq_Ok two_key_dsa_def)

lemma two_key_dsa_unforgeable:
  "h \<in> msgs \<Longrightarrow> dsa_unforgeable (two_key_dsa h r) (const_array 0) msgs"
  "r \<in> msgs \<Longrightarrow> dsa_unforgeable (two_key_dsa h r) (const_array 1) msgs"
  by (simp_all add: dsa_unforgeable_def two_key_dsa_def)

definition demo_tampered_party :: "(key32, key32) client_party" where
  "demo_tampered_party = demo_client_party\<lparr>cp_pinned := const_array 0, cp_vk := const_array 1\<rparr>"

lemma demo_tampered_party_simps:
  "cp_pinned demo_tampered_party = const_array 0" "cp_vk demo_tampered_party = const_array 1"
  "cp_id demo_tampered_party = cp_id demo_client_party" "cp_token demo_tampered_party = cp_token demo_client_party"
  by (simp_all add: demo_tampered_party_def)

lemma honest_server_run: "honest_hellos X K H cp sp hs srv ch \<Longrightarrow> server_run X K H ch srv"
  by (fastforce simp: honest_hellos_def server_run_def dest: client_hello.dec_enc)

lemma honest_hellos_unique:
  "honest_hellos X K H cp sp hs srv ch \<Longrightarrow> honest_hellos X K H cp sp hs' srv' ch' \<Longrightarrow>
   hs' = hs \<and> srv' = srv \<and> ch' = ch"
  by (auto simp: honest_hellos_def)

lemma demo_honest_hellos:
  "\<exists>hs srv ch. honest_hellos demo_x25519 demo_ml_kem demo_hkdf demo_tampered_party sp hs srv ch"
proof -
  obtain hs where gen: "ClientHandshakeState_generate demo_x25519 demo_ml_kem
      (cp_secret demo_tampered_party) (cp_coins demo_tampered_party) = Ok hs"
    using generate_result [OF demo_ml_kem_correct, of demo_x25519] by blast
  moreover obtain srv where "ServerHandshakeState_respond demo_x25519 demo_ml_kem demo_hkdf
      (hs_x25519_public hs) (hs_ml_kem_ek hs) (sp_secret sp) (sp_coins sp) = Ok srv"
    using honest_response_exists [OF demo_ml_kem_correct demo_hkdf_correct gen] by blast
  ultimately show ?thesis
    by (simp add: honest_hellos_def ClientHelloPayload_encode_def demo_tampered_party_def
        demo_client_party_def demo_id_encodes)
qed

text \<open>The stand-in digest of a transcript whose server hello ends in the scheme's signature.\<close>

lemma two_key_transcript:
  assumes "hello_phase X K H A (two_key_dsa h r) sha net cp sp = Ok he"
  shows "compute_handshake_transcript demo_sha ch (he_sh_sent he) = const_array 0"
  using assms
proof (rule hello_phase_OkE)
  fix sig
  assume sig: "sign_server_hello sha (two_key_dsa h r) (he_ch_seen he) (srv_x25519_public (he_answer he))
      (srv_ml_kem_ciphertext (he_answer he)) (sp_seed sp) = Ok sig"
    and sh: "ServerHelloPayload_encode \<lparr>sh_server_id = sp_id sp, sh_x25519_public_key = srv_x25519_public (he_answer he),
      sh_ml_kem_ciphertext = srv_ml_kem_ciphertext (he_answer he), sh_signature = sig\<rparr> = Ok (he_sh_sent he)"
  have "sig = mk_array (replicate 3309 0)"
    using sig by (simp add: sign_server_hello_def Let_def two_key_dsa_signs)
  moreover obtain e where "encode_sized_string (sp_id sp) = Ok e"
    using sh by (auto simp: ServerHelloPayload_encode_def wire)
  ultimately have "he_sh_sent he = e @ as_slice (srv_x25519_public (he_answer he))
      @ as_slice (srv_ml_kem_ciphertext (he_answer he)) @ replicate 3309 0"
    using sh by (simp add: ServerHelloPayload_encode_def wire)
  then show ?thesis
    by (simp add: compute_handshake_transcript_concat demo_sha_def last_append)
qed

text \<open>
  In the example the network has also taken the client's hello to another connection of the server,
  which answered it.
\<close>

definition demo_parallel_party :: "(key32, key32) server_party" where
  "demo_parallel_party = demo_server_party\<lparr>sp_secret := const_array 8\<rparr>"

theorem tampered_handshake_agrees_witness:
  "\<exists>D he au client server srv. run_handshake demo_x25519 demo_ml_kem demo_hkdf demo_aead
       (D :: (unit, bool, unit) ml_dsa) demo_sha (\<lambda>_. id) demo_tampered_party demo_server_party
       = Ok (he, au, client, server)
    \<and> server_run demo_x25519 demo_ml_kem demo_hkdf (he_ch_sent he) srv
    \<and> ep_state client = Established \<and> ep_state server = Established
    \<and> he_sh_seen he = he_sh_sent he \<and> au_nonce au = sp_nonce demo_server_party
    \<and> he_keys he = srv_session_keys (he_answer he)"
proof -
  let ?honest = "honest_hellos demo_x25519 demo_ml_kem demo_hkdf demo_tampered_party"
  let ?msg = "\<lambda>ch srv. server_hello_message demo_sha ch (srv_x25519_public srv) (srv_ml_kem_ciphertext srv)"
  obtain hs srv ch where honest: "?honest demo_server_party hs srv ch"
    using demo_honest_hellos by blast
  obtain srv' where parallel: "?honest demo_parallel_party hs srv' ch"
    using demo_honest_hellos [of demo_parallel_party] honest by (auto simp: honest_hellos_def)
  let ?response = "auth_message (const_array 0) (sp_nonce demo_server_party)"
  let ?D = "two_key_dsa (?msg ch srv) ?response"
  have "\<exists>sig. sign_server_hello demo_sha ?D c (srv_x25519_public s) (srv_ml_kem_ciphertext s) seed = Ok sig
      \<and> verify_server_hello demo_sha ?D c (srv_x25519_public s) (srv_ml_kem_ciphertext s) (const_array 0) sig = Ok ()"
    if "?honest demo_server_party h s c" for h s c seed
    using honest_hellos_unique [OF honest that] two_key_dsa_verify(1)
    by (simp add: sign_server_hello_def verify_server_hello_def Let_def two_key_dsa_signs)
  moreover have "\<exists>sig. sign_auth_response ?D (compute_handshake_transcript demo_sha (he_ch_sent he) (he_sh_sent he))
        (sp_nonce demo_server_party) seed = Ok sig
      \<and> verify_auth_response ?D (compute_handshake_transcript demo_sha (he_ch_sent he) (he_sh_sent he))
          (sp_nonce demo_server_party) (const_array 1) sig = Ok ()"
    if "hello_phase demo_x25519 demo_ml_kem demo_hkdf demo_aead ?D demo_sha (\<lambda>_. id) demo_tampered_party
      demo_server_party = Ok he" for he seed
    using two_key_transcript [OF that] two_key_dsa_verify(2)
    by (simp add: sign_auth_response_def verify_auth_response_def Let_def two_key_dsa_signs)
  ultimately obtain he au client server hs' where
    run: "run_handshake demo_x25519 demo_ml_kem demo_hkdf demo_aead ?D demo_sha (\<lambda>_. id)
      demo_tampered_party demo_server_party = Ok (he, au, client, server)"
    and au: "au = \<lparr>au_nonce = sp_nonce demo_server_party, au_key = cp_vk demo_tampered_party\<rparr>"
    and hello: "hello_phase demo_x25519 demo_ml_kem demo_hkdf demo_aead ?D demo_sha (\<lambda>_. id)
      demo_tampered_party demo_server_party = Ok he"
    and he: "he_ch_seen he = he_ch_sent he" "he_sh_seen he = he_sh_sent he" "?honest demo_server_party hs' (he_answer he) (he_ch_sent he)"
    using handshake_runs [where D = ?D and sha = demo_sha and cp = demo_tampered_party and sp = demo_server_party,
        OF demo_x25519_correct demo_ml_kem_correct demo_hkdf_correct demo_aead_correct demo_aead_seals]
      demo_parties(3-5) unfolding demo_tampered_party_simps by blast
  have same: "he_ch_sent he = ch" "he_answer he = srv"
    using honest_hellos_unique [OF honest he(3)] by auto
  have others: "server_run demo_x25519 demo_ml_kem demo_hkdf c s" if "(c, s) \<in> {(ch, srv')}" for c s
    using that honest_server_run [OF parallel] by simp
  have server_key: "dsa_unforgeable ?D (cp_pinned demo_tampered_party) (server_signatures demo_sha
      (hellos_of (insert (he_ch_seen he, he_answer he) {(ch, srv')})) \<union> client_signatures demo_sha {})"
    unfolding demo_tampered_party_simps by (rule two_key_dsa_unforgeable)
      (auto simp: server_signatures_def hellos_of_def he same)
  have client_key: "dsa_unforgeable ?D (cp_vk demo_tampered_party)
      (client_signatures demo_sha (insert (he_ch_sent he, he_sh_seen he, au_nonce au) {}))"
    unfolding demo_tampered_party_simps by (rule two_key_dsa_unforgeable)
      (simp add: client_signatures_def he(2) au two_key_transcript [OF hello])
  from tampered_handshake_agrees [OF demo_x25519_correct demo_ml_kem_correct run _ others _ _ server_key client_key]
  have agreed: "ep_state client = Established \<and> ep_state server = Established
      \<and> he_sh_seen he = he_sh_sent he \<and> au_nonce au = sp_nonce demo_server_party
      \<and> he_keys he = srv_session_keys (he_answer he)"
    by (simp add: sha_collision_free_def he same au)
  show ?thesis
    by (intro exI [of _ ?D] exI [of _ he] exI [of _ au] exI [of _ client] exI [of _ server] exI [of _ srv'])
      (simp only: run others [OF singletonI] same agreed simp_thms)
qed

section \<open>The server's view\<close>

text \<open>
  C13: authenticated key agreement, as the server sees it.  A server that answered a client hello and
  accepts an authentication response under a client's key, for the hello bytes it saw and sent and the
  nonce it issued, shares its session keys with a session of that client with exactly these bytes and
  this nonce.  With the converse guarantee for the client, authentication is mutual.
\<close>

theorem client_authenticated_key_agreement:
  assumes "x25519_correct X" "ml_kem_correct K"
    and "server_run X K H ch srv"
    and "ServerHelloPayload_encode \<lparr>sh_server_id = sid, sh_x25519_public_key = srv_x25519_public srv,
      sh_ml_kem_ciphertext = srv_ml_kem_ciphertext srv, sh_signature = hello_sig\<rparr> = Ok sh"
    and "\<And>c s n. (c, s, n) \<in> sessions \<Longrightarrow> \<exists>keys. client_session X K H c s keys"
    and "dsa_unforgeable D vk (client_signatures sha sessions)"
    and "sha_collision_free sha ({ch @ sh} \<union> {c @ s | c s n. (c, s, n) \<in> sessions})"
    and "verify_auth_response D (compute_handshake_transcript sha ch sh) nonce vk signature = Ok ()"
  shows "(ch, sh, nonce) \<in> sessions \<and> client_session X K H ch sh (srv_session_keys srv)"
  using assms by (rule accepted_response_agrees)

theorem client_authenticated_key_agreement_witness:
  "\<exists>ch sh srv. server_run demo_x25519 demo_ml_kem demo_hkdf ch srv
     \<and> client_session demo_x25519 demo_ml_kem demo_hkdf ch sh (srv_session_keys srv)"
proof -
  obtain hs srv ch where honest: "honest_hellos demo_x25519 demo_ml_kem demo_hkdf demo_tampered_party
      demo_server_party hs srv ch"
    using demo_honest_hellos by blast
  then have gen: "ClientHandshakeState_generate demo_x25519 demo_ml_kem (cp_secret demo_tampered_party)
      (cp_coins demo_tampered_party) = Ok hs"
    and ch: "ClientHelloPayload_encode \<lparr>ch_client_id = cp_id demo_tampered_party,
      ch_x25519_public_key = hs_x25519_public hs, ch_ml_kem_ek = hs_ml_kem_ek hs\<rparr> = Ok ch"
    by (simp_all add: honest_hellos_def)
  let ?hello = "\<lparr>sh_server_id = str_lit ''al'', sh_x25519_public_key = srv_x25519_public srv,
      sh_ml_kem_ciphertext = srv_ml_kem_ciphertext srv, sh_signature = const_array 0\<rparr>"
  obtain sh where sh: "ServerHelloPayload_encode ?hello = Ok sh"
    by (simp add: ServerHelloPayload_encode_def demo_id_encodes)
  have run: "server_run demo_x25519 demo_ml_kem demo_hkdf ch srv"
    using honest by (rule honest_server_run)
  let ?sessions = "{(ch, sh, const_array 6 :: key32)}"
  let ?D = "once_ml_dsa (auth_message (compute_handshake_transcript demo_sha ch sh) (const_array 6))"
  have sessions: "\<exists>keys. client_session demo_x25519 demo_ml_kem demo_hkdf c s keys" if "(c, s, n) \<in> ?sessions" for c s n
    using that gen ch server_hello.dec_enc [OF sh] accepted_hello_agrees [OF demo_x25519_correct demo_ml_kem_correct gen ch run]
    by (fastforce simp: client_session_def)
  have unf: "dsa_unforgeable ?D (const_array 0) (client_signatures demo_sha ?sessions)"
    by (simp add: client_signatures_def once_ml_dsa_unforgeable)
  have ver: "verify_auth_response ?D (compute_handshake_transcript demo_sha ch sh) (const_array 6) (const_array 0)
      (const_array 0) = Ok ()"
    by (simp add: verify_auth_response_def Let_def verify_with_key_eq_Ok once_ml_dsa_def)
  have "(ch, sh, const_array 6) \<in> ?sessions
      \<and> client_session demo_x25519 demo_ml_kem demo_hkdf ch sh (srv_session_keys srv)"
    by (rule client_authenticated_key_agreement [OF demo_x25519_correct demo_ml_kem_correct run sh _ unf _ ver])
      (use sessions in blast, simp add: sha_collision_free_def)
  with run show ?thesis by blast
qed

end
