(* ===== verification/Framing.thy ===== *)
theory Framing
  imports Channel
begin

text \<open>
  How packets lie in a byte stream: exactly which bytes \<open>read_packet\<close> accepts and how many it
  consumes, what \<open>write_packet\<close> leaves on a stream that fails, and what becomes of a payload that is too
  long.
\<close>

section \<open>Acceptance\<close>

lemma cursor_read_eq_Ok:
  "read_exact cursor input n = (Ok bs, rest) \<longleftrightarrow> input = bs @ rest \<and> length bs = n"
  by (auto simp: cursor_def)

lemma read_after_24:
  "read_packet A cursor (codec, as_slice (to_bytes h) @ rest) =
     (case check_header (session codec) h of
        Ok _ \<Rightarrow> receive_body A cursor h (codec, rest)
      | Err e \<Rightarrow> (Err e, (codec, rest))
      | Panic \<Rightarrow> (Panic, (codec, rest)))"
proof -
  have "read_exact cursor (as_slice (to_bytes h) @ rest) 24 = (Ok (as_slice (to_bytes h)), rest)"
    by (simp add: cursor_read_eq_Ok)
  then show ?thesis by (simp add: read_packet_unfold read_after_header_unfold from_to_bytes)
qed

lemma read_packet_frame_iff:
  "read_packet A cursor (codec, input) = (Ok pkt, (codec', rest)) \<longleftrightarrow>
     (\<exists>h body. input = as_slice (to_bytes h) @ body @ rest
        \<and> check_header (session codec) h = Ok () \<and> fresh_seq codec (sequence h)
        \<and> length body = unat (payload_len h) \<and> open_payload A (session codec) h body = Ok pkt
        \<and> codec' = codec\<lparr>last_recv_seq := Some (sequence h)\<rparr>)"
  (is "?read \<longleftrightarrow> ?frame")
proof
  assume ?read
  then obtain hb r1 where hb: "input = as_slice hb @ r1"
    and chk: "check_header (session codec) (from_bytes hb) = Ok ()"
    and body: "receive_body A cursor (from_bytes hb) (codec, r1) = (Ok pkt, (codec', rest))"
    by (auto simp: read_packet_unfold read_after_header_unfold cursor_read_eq_Ok inversions
        split: prod.splits outcome.splits)
  obtain payload where "fresh_seq codec (sequence (from_bytes hb))"
    "length payload = unat (payload_len (from_bytes hb))" "r1 = payload @ rest"
    "open_payload A (session codec) (from_bytes hb) payload = Ok pkt"
    "codec' = codec\<lparr>last_recv_seq := Some (sequence (from_bytes hb))\<rparr>"
    using body
    by (auto simp: receive_body_def Let_def inversions cursor_read_eq_Ok split: if_splits prod.splits)
  then show ?frame
    using hb chk to_from_bytes [of hb] by (intro exI [of _ "from_bytes hb"] exI [of _ payload]) simp
next
  assume ?frame
  then show ?read using read_frame [of codec _ _ A rest] by auto
qed

text \<open>
  C19: what is accepted.  \<open>read_packet\<close> returns a packet exactly when the stream starts with the 24
  bytes of a header that is valid, encrypted if a session exists, of a known type and within the
  ceiling of that type, whose sequence number is above the last one, and with as many further bytes
  as the header states, which open to the packet.  It consumes exactly these bytes and records the
  sequence number.
\<close>

theorem read_packet_accepts_iff:
  "read_packet A cursor (codec, input) = (Ok pkt, (codec', rest)) \<longleftrightarrow>
     (\<exists>h body t. input = as_slice (to_bytes h) @ body @ rest
        \<and> validate h = Ok () \<and> (session codec = None \<or> is_encrypted h)
        \<and> from_u8 (packet_type h) = Ok t \<and> payload_len h \<le> max_for_type h t
        \<and> (case last_recv_seq codec of None \<Rightarrow> True | Some prev \<Rightarrow> prev < sequence h)
        \<and> length body = unat (payload_len h)
        \<and> open_payload A (session codec) h body = Ok pkt
        \<and> codec' = codec\<lparr>last_recv_seq := Some (sequence h)\<rparr>)"
  by (simp only: read_packet_frame_iff check_header_eq_Ok fresh_seq_def imp_conv_disj not_not)
    (intro iffI; elim exE conjE; intro exI conjI; assumption)

section \<open>Writing to a stream that may fail\<close>

text \<open>The bytes \<open>write_packet\<close> emits for a packet with a given number.\<close>

definition frame :: "'k aead \<Rightarrow> PacketCodec \<Rightarrow> u64 \<Rightarrow> outgoing \<Rightarrow> bytes" where
  "frame A tx seq m = (case m of (t, f, p) \<Rightarrow>
     case seal_payload A (session tx) t f seq p of
       Ok (fl, body) \<Rightarrow> as_slice (to_bytes (header_new (as_u8 t) fl (of_nat (length body)) seq)) @ body
     | Err e \<Rightarrow> []
     | Panic \<Rightarrow> [])"

lemma counter_exhausted: "checked_add_u64 s 1 = None \<Longrightarrow> s = - 1"
proof (rule ccontr)
  assume none: "checked_add_u64 s 1 = None" and "s \<noteq> - 1"
  then have "unat s < unat (- 1 :: u64)"
    by (metis word_less_nat_alt word_order.not_eq_extremum)
  then have "unat s < 2 ^ 64 - 1"
    by (simp add: unsigned_minus_1_eq_mask mask_eq_exp_minus_1)
  with none next_exists [of s] show False by simp
qed

text \<open>
  The documented contract of a writer, relative to the bytes that have left through it: \<open>write_all\<close>
  passes on everything or fails after some prefix, and \<open>flush\<close> adds nothing.
\<close>

definition write_all_correct :: "'w async_write \<Rightarrow> ('w \<Rightarrow> bytes) \<Rightarrow> bool" where
  "write_all_correct W sink \<longleftrightarrow>
     (\<forall>w bs. case write_all W w bs of
          (Ok _, w') \<Rightarrow> sink w' = sink w @ bs
        | (Err e, w') \<Rightarrow> (\<exists>out. prefix out bs \<and> sink w' = sink w @ out)
        | (Panic, w') \<Rightarrow> False)
   \<and> (\<forall>w. fst (flush W w) \<noteq> Panic \<and> sink (snd (flush W w)) = sink w)"

lemma emit_outcome:
  assumes "write_all_correct W sink"
    and "act_then (writing W a) (\<lambda>_. act_then (writing W b) (\<lambda>_. flushing W)) (c, w) = (res, (c', w'))"
  shows "res \<noteq> Panic \<and> c' = c
    \<and> (\<exists>out. sink w' = sink w @ out \<and> prefix out (a @ b) \<and> (res = Ok () \<longrightarrow> out = a @ b))"
proof -
  obtain r1 w1 where w1: "write_all W w a = (r1, w1)" by (metis prod.exhaust)
  obtain r2 w2 where w2: "write_all W w1 b = (r2, w2)" by (metis prod.exhaust)
  have one: "case r1 of Ok _ \<Rightarrow> sink w1 = sink w @ a
      | Err e \<Rightarrow> (\<exists>out. prefix out a \<and> sink w1 = sink w @ out) | Panic \<Rightarrow> False"
    using assms(1) [unfolded write_all_correct_def, THEN conjunct1, rule_format, of w a] by (simp add: w1)
  have two: "case r2 of Ok _ \<Rightarrow> sink w2 = sink w1 @ b
      | Err e \<Rightarrow> (\<exists>out. prefix out b \<and> sink w2 = sink w1 @ out) | Panic \<Rightarrow> False"
    using assms(1) [unfolded write_all_correct_def, THEN conjunct1, rule_format, of w1 b] by (simp add: w2)
  have fl: "fst (flush W w2) \<noteq> Panic" "sink (snd (flush W w2)) = sink w2"
    using assms(1) by (simp_all add: write_all_correct_def)
  show ?thesis
  proof (cases r1)
    case (Ok u)
    with one two fl assms(2) w1 w2 show ?thesis
      by (cases r2) (auto simp: act_then_def writing_def flushing_def split: prod.splits outcome.splits
          intro: same_prefix_prefix [THEN iffD2])
  next
    case (Err e)
    with one assms(2) w1 show ?thesis
      by (auto simp: act_then_def writing_def intro: prefix_prefix)
  qed (use one in simp)
qed

text \<open>
  C22: a failed write never reuses a number and never sends anything but the packet.  Whatever goes wrong
  (the counter is exhausted, the cipher refuses, the stream fails at any point), \<open>write_packet\<close> does not
  panic; either the counter is at its maximum and neither codec nor stream has changed, or the number
  has been taken for good and what left through the stream is a prefix of the frame of this packet
  under this number, all of it when the call succeeds.
\<close>

theorem write_packet_outcomes:
  assumes "write_all_correct W sink" "write_packet A W t f p (c, w) = (res, (c', w'))"
  shows "res \<noteq> Panic
    \<and> (res = Err CryptoError \<and> next_send_seq c = - 1 \<and> c' = c \<and> w' = w
     \<or> (\<exists>out. unat (next_send_seq c') = unat (next_send_seq c) + 1
          \<and> c' = c\<lparr>next_send_seq := next_send_seq c'\<rparr> \<and> sink w' = sink w @ out
          \<and> prefix out (frame A c (next_send_seq c) (t, f, p))
          \<and> (res = Ok () \<longrightarrow> out = frame A c (next_send_seq c) (t, f, p))))"
proof (cases "checked_add_u64 (next_send_seq c) 1")
  case None
  with assms(2) show ?thesis by (auto simp: write_packet_def act_then_take_seq counter_exhausted)
next
  case (Some n)
  let ?seal = "seal_payload A (session c) t f (next_send_seq c) p"
  show ?thesis
  proof (cases ?seal)
    case (Ok sealed)
    obtain fl body where sealed: "sealed = (fl, body)" by (rule prod.exhaust)
    let ?h = "as_slice (to_bytes (header_new (as_u8 t) fl (of_nat (length body)) (next_send_seq c)))"
    have "act_then (writing W ?h) (\<lambda>_. act_then (writing W body) (\<lambda>_. flushing W))
        (c\<lparr>next_send_seq := n\<rparr>, w) = (res, (c', w'))"
      using assms(2) Some Ok sealed by (simp add: write_packet_def act_then_take_seq Let_def)
    from emit_outcome [OF assms(1) this] Some show ?thesis
      by (auto simp: unat_next frame_def Ok sealed)
  next
    case (Err e)
    with assms(2) Some show ?thesis
      by (auto simp: write_packet_def act_then_take_seq frame_def unat_next)
  qed simp
qed

text \<open>A writer with room for a bounded number of bytes.\<close>

definition bounded_vec :: "nat \<Rightarrow> bytes async_write" where
  "bounded_vec room = \<lparr>write_all = (\<lambda>out bs.
       if length (out @ bs) \<le> room then (Ok (), out @ bs)
       else (Err (IoError OtherKind ''failed to write whole buffer''), out @ take (room - length out) bs)),
     flush = (\<lambda>out. (Ok (), out))\<rparr>"

lemma bounded_vec_correct: "write_all_correct (bounded_vec room) (\<lambda>out. out)"
  by (auto simp: write_all_correct_def bounded_vec_def take_is_prefix)

theorem write_packet_outcomes_witness:
  "\<exists>c' w' out. write_packet demo_aead (bounded_vec 30) Ping 0 (replicate 8 7) (demo_client, [])
       = (Err (Io (IoError OtherKind ''failed to write whole buffer'')), (c', w'))
     \<and> next_send_seq c' = 2 \<and> w' = out \<and> prefix out (frame demo_aead demo_client 1 (Ping, 0, replicate 8 7))"
proof -
  have seq: "next_send_seq demo_client = 1"
    by (simp add: demo_client_def establish_session_def codec_new_def)
  obtain body where seal: "seal_payload demo_aead (session demo_client) Ping 0 1 (replicate 8 7) = Ok (0 OR ENCRYPTED, body)"
    "length body = 24"
    by (simp add: seal_payload_def demo_client_def establish_session_def demo_aead_def Let_def)
  obtain res c' w' where run: "write_packet demo_aead (bounded_vec 30) Ping 0 (replicate 8 7) (demo_client, [])
      = (res, (c', w'))"
    by (metis prod.exhaust)
  moreover from this have "res = Err (Io (IoError OtherKind ''failed to write whole buffer''))"
    using seal by (simp add: write_packet_def act_then_take_seq seq checked_add_u64_def Let_def)
      (simp add: act_then_def writing_def bounded_vec_def)
  moreover have "unat (next_send_seq c') = 2 \<longleftrightarrow> next_send_seq c' = 2"
    by (simp add: word_unat_eq_iff)
  ultimately show ?thesis
    using write_packet_outcomes [OF bounded_vec_correct run] by (auto simp: seq)
qed

section \<open>Payloads that are too long\<close>

lemma receive_plain:
  assumes "\<not> is_encrypted h" "fresh_seq rx (sequence h)" "unat (payload_len h) \<le> length p"
  shows "receive_body A cursor h (rx, p) =
    (Ok \<lparr>raw_header = h, raw_payload = take (unat (payload_len h)) p\<rparr>,
      (rx\<lparr>last_recv_seq := Some (sequence h)\<rparr>, drop (unat (payload_len h)) p))"
  using assms by (auto simp: receive_body_def cursor_def Let_def open_payload_eq_Ok)

text \<open>
  C23: the sender does not check the length.  Before a session exists, \<open>write_packet\<close> sends a payload of any
  length and states its length modulo \<open>2 ^ 32\<close>.  A receiver that gets such a frame refuses it if the
  stated length is above the global or the type's ceiling, and is then left in front of the payload
  bytes; otherwise it returns a packet with the first bytes of the payload only and is left in front of the
  others, which it will take for the next header.
\<close>

theorem write_packet_unchecked_length:
  fixes p :: bytes
  defines "k \<equiv> length p mod 2 ^ 32"
  assumes "linked tx rx" "session tx = None" "f AND ENCRYPTED = 0"
    and "unat (next_send_seq tx) < 2 ^ 64 - 1"
  shows "\<exists>tx' wire. write_packet A vec t f p (tx, []) = (Ok (), (tx', wire)) \<and> length wire = 24 + length p
    \<and> read_packet A cursor (rx, wire) =
       (if k > 1024 * 1024 then (Err (PayloadTooLarge (of_nat k) MAX_PAYLOAD_LEN), (rx, p))
        else if k > unat (max_payload_size t)
          then (Err (PayloadTooLarge (of_nat k) (max_payload_size t)), (rx, p))
        else (Ok \<lparr>raw_header = header_new (as_u8 t) f (of_nat k) (next_send_seq tx), raw_payload = take k p\<rparr>,
              (rx\<lparr>last_recv_seq := Some (next_send_seq tx)\<rparr>, drop k p)))"
proof -
  obtain n where n: "checked_add_u64 (next_send_seq tx) 1 = Some n"
    using next_exists [OF assms(5)] by blast
  have rx: "session rx = None" "fresh_seq rx (next_send_seq tx)"
    using assms(2,3) by (auto simp: linked_def split: option.splits)
  let ?h = "header_new (as_u8 t) f (of_nat (length p)) (next_send_seq tx)"
  have len: "(of_nat (length p) :: u32) = of_nat k" and k: "unat (of_nat k :: u32) = k"
    by (simp_all add: k_def unat_of_nat word_unat_eq_iff)
  have plain: "\<not> is_encrypted ?h"
    using assms(4) by (simp add: is_encrypted_header_new)
  have "seal_payload A (session tx) t f (next_send_seq tx) p = Ok (f, p)"
    using assms(3) by (simp add: seal_payload_def)
  from write_to_vec [OF n this, of "[]"]
  have wr: "write_packet A vec t f p (tx, []) = (Ok (), (tx\<lparr>next_send_seq := n\<rparr>, as_slice (to_bytes ?h) @ p))"
    by simp
  have big: "of_nat k > MAX_PAYLOAD_LEN \<longleftrightarrow> k > 1024 * 1024" "of_nat k > max_payload_size t \<longleftrightarrow> k > unat (max_payload_size t)"
    by (simp_all add: word_less_nat_alt k MAX_PAYLOAD_LEN_def)
  have chk: "check_header None ?h = (if k > 1024 * 1024 then Err (PayloadTooLarge (of_nat k) MAX_PAYLOAD_LEN)
      else if k > unat (max_payload_size t) then Err (PayloadTooLarge (of_nat k) (max_payload_size t)) else Ok ())"
    using plain big unfolding check_header_def len
    by (simp add: validate_def header_new_def from_u8_as_u8 max_for_type_def ensure_def)
  have "receive_body A cursor ?h (rx, p) =
      (Ok \<lparr>raw_header = ?h, raw_payload = take k p\<rparr>,
        (rx\<lparr>last_recv_seq := Some (next_send_seq tx)\<rparr>, drop k p))"
    using receive_plain [OF plain, of rx p A] rx k by (simp add: len) (simp add: k_def)
  then have "read_packet A cursor (rx, as_slice (to_bytes ?h) @ p) =
       (if k > 1024 * 1024 then (Err (PayloadTooLarge (of_nat k) MAX_PAYLOAD_LEN), (rx, p))
        else if k > unat (max_payload_size t)
          then (Err (PayloadTooLarge (of_nat k) (max_payload_size t)), (rx, p))
        else (Ok \<lparr>raw_header = header_new (as_u8 t) f (of_nat k) (next_send_seq tx), raw_payload = take k p\<rparr>,
              (rx\<lparr>last_recv_seq := Some (next_send_seq tx)\<rparr>, drop k p)))"
    unfolding read_after_24 rx chk by (simp add: len)
  with wr show ?thesis by (intro exI conjI) auto
qed

theorem write_packet_unchecked_length_witness:
  "\<exists>tx' wire pkt rx'. write_packet demo_aead vec Ping 0 (replicate (2 ^ 32 + 8) 7) (codec_new, []) = (Ok (), (tx', wire))
     \<and> read_packet demo_aead cursor (codec_new, wire) = (Ok pkt, (rx', replicate (2 ^ 32) 7))
     \<and> raw_payload pkt = replicate 8 7"
proof -
  have "linked codec_new codec_new" "session codec_new = None" "unat (next_send_seq codec_new) < 2 ^ 64 - 1"
    by (simp_all add: linked_def codec_new_def fresh_seq_def)
  from write_packet_unchecked_length [OF this(1,2) _ this(3), of 0 demo_aead Ping "replicate (2 ^ 32 + 8) 7"]
  show ?thesis by (auto simp: drop_replicate take_replicate)
qed

end
