(* ===== verification/Duplex.thy ===== *)
theory Duplex
  imports Framing Connection_State
begin

text \<open>
  Both directions of a connection at once.  Each end has one codec, which it uses for writing and
  for reading; the bytes in flight towards each end are a stream that \<open>write_packet\<close> appends to and
  \<open>read_packet\<close> consumes.  Writes and reads of the two ends interleave in any order.  The pair of
  codecs and streams is shown to implement a pair of first-in-first-out queues of packets, as long as
  the callers keep to the limits that \<open>write_packet\<close> itself does not check.
\<close>

section \<open>Events\<close>

primrec peer :: "Role \<Rightarrow> Role" where
  "peer Client = Server"
| "peer Server = Client"

lemma peer_peer [simp]: "peer (peer r) = r"
  by (cases r) simp_all

lemma peer_neq [simp]: "peer r \<noteq> r" "r \<noteq> peer r"
  by (cases r; simp)+

lemma peer_eq_iff: "r \<noteq> s \<longleftrightarrow> s = peer r"
  by (cases r; cases s; simp)

text \<open>
  A call to \<open>write_packet\<close> by one end, with whether it succeeded; a call to \<open>read_packet\<close> by one end,
  with its result.  Nothing restricts the calls: a payload may be of any length, and a stream may be
  read when nothing is in flight.
\<close>

datatype 'm event = Write Role outgoing bool | Read Role 'm

section \<open>The abstract connection: two queues\<close>

type_synonym queues = "Role \<Rightarrow> outgoing list"

text \<open>Reading an empty queue yields nothing.\<close>

inductive queue_step :: "queues \<Rightarrow> (u8 \<times> bytes) option event \<Rightarrow> queues \<Rightarrow> bool" where
  enqueue: "queue_step q (Write r m True) (q(peer r := q (peer r) @ [m]))"
| refuse: "queue_step q (Write r m False) q"
| dequeue: "q r = m # ms \<Longrightarrow> queue_step q (Read r (Some (sent_contents m))) (q(r := ms))"
| empty: "q r = [] \<Longrightarrow> queue_step q (Read r None) q"

inductive queue_run :: "queues \<Rightarrow> (u8 \<times> bytes) option event list \<Rightarrow> queues \<Rightarrow> bool" for q0 where
  queue_start: "queue_run q0 [] q0"
| queue_more: "queue_run q0 evs q \<Longrightarrow> queue_step q e q' \<Longrightarrow> queue_run q0 (evs @ [e]) q'"

section \<open>The two codecs and the streams between them\<close>

record duplex =
  endpoint :: "Role \<Rightarrow> PacketCodec"
  inbox :: "Role \<Rightarrow> bytes"

inductive duplex_step :: "'k aead \<Rightarrow> duplex \<Rightarrow> RawPacket presult event \<Rightarrow> duplex \<Rightarrow> bool" for A where
  step_write: "write_packet A vec t f p (endpoint d r, inbox d (peer r)) = (res, (c, w)) \<Longrightarrow>
    duplex_step A d (Write r (t, f, p) (res = Ok ()))
      \<lparr>endpoint = (endpoint d)(r := c), inbox = (inbox d)(peer r := w)\<rparr>"
| step_read: "read_packet A cursor (endpoint d r, inbox d r) = (res, (c, w)) \<Longrightarrow>
    duplex_step A d (Read r res)
      \<lparr>endpoint = (endpoint d)(r := c), inbox = (inbox d)(r := w)\<rparr>"

inductive duplex_run ::
    "'k aead \<Rightarrow> duplex \<Rightarrow> RawPacket presult event list \<Rightarrow> duplex \<Rightarrow> bool" for A d0 where
  duplex_start: "duplex_run A d0 [] d0"
| duplex_more: "duplex_run A d0 evs d \<Longrightarrow> duplex_step A d e d' \<Longrightarrow> duplex_run A d0 (evs @ [e]) d'"

text \<open>
  The limits: every payload written is within the ceiling of its type, and before a session exists no
  caller sets the encryption flag itself.  Nothing is asked of the reads.
\<close>

primrec within_limits :: "duplex \<Rightarrow> 'm event \<Rightarrow> bool" where
  "within_limits d (Write r m ok) = (case m of (t, f, p) \<Rightarrow> sendable (endpoint d r) t f p)"
| "within_limits d (Read r m) = True"

lemma write_packet_session:
  assumes "write_packet A W t f p (c, w) = (res, (c', w'))"
  shows "session c' = session c"
  using write_packet_state [OF assms] by auto

lemma sendable_cong: "session c = session c' \<Longrightarrow> sendable c t f p = sendable c' t f p"
  by (simp add: sendable_def)

text \<open>The keys stay what they are, so the limits are those of the start.\<close>

lemma duplex_run_session:
  assumes "duplex_run A d0 evs d"
  shows "session (endpoint d r) = session (endpoint d0 r)"
  using assms
proof induction
  case (duplex_more evs d e d')
  from duplex_more.hyps(2) have "session (endpoint d' r) = session (endpoint d r)"
    by cases (auto dest: write_packet_session recv_step_keeps(1) [OF read_packet_state])
  with duplex_more.IH show ?case by simp
qed simp

lemma within_limits_later:
  "duplex_run A d0 evs d \<Longrightarrow> within_limits d0 e \<Longrightarrow> within_limits d e"
proof (cases e)
  case (Write r m ok)
  assume "duplex_run A d0 evs d" "within_limits d0 e"
  with Write show ?thesis
    using sendable_cong [OF duplex_run_session [of A d0 evs d r]] by (auto split: prod.splits)
qed simp

section \<open>What is in flight\<close>

text \<open>
  A stream carries a queue: it is the frames of the queued packets, numbered upwards between what
  the receiver has seen and what the sender will use next.
\<close>

definition carries ::
    "'k aead \<Rightarrow> PacketCodec \<Rightarrow> PacketCodec \<Rightarrow> bytes \<Rightarrow> outgoing list \<Rightarrow> bool" where
  "carries A tx rx stream q \<longleftrightarrow> linked tx rx \<and> list_all (\<lambda>(t, f, p). sendable tx t f p) q
     \<and> (\<exists>seqs. length seqs = length q \<and> sorted_wrt (<) seqs
          \<and> list_all (\<lambda>s. fresh_seq rx s \<and> s < next_send_seq tx) seqs
          \<and> stream = concat (map2 (frame A tx) seqs q))"

definition simulates :: "'k aead \<Rightarrow> duplex \<Rightarrow> queues \<Rightarrow> bool" where
  "simulates A d q \<longleftrightarrow>
     (\<forall>r. carries A (endpoint d (peer r)) (endpoint d r) (inbox d r) (q r))"

text \<open>Each direction looks only at the sender's counter, the receiver's counter and the keys.\<close>

lemma carries_cong:
  assumes "next_send_seq tx = next_send_seq tx'" "session tx = session tx'"
    and "last_recv_seq rx = last_recv_seq rx'" "session rx = session rx'"
  shows "carries A tx rx stream q \<longleftrightarrow> carries A tx' rx' stream q"
proof -
  have "frame A tx = frame A tx'" "sendable tx = sendable tx'" "linked tx rx = linked tx' rx'"
    "fresh_seq rx = fresh_seq rx'"
    using assms by (simp_all add: frame_def sendable_def linked_def fresh_seq_def fun_eq_iff)
  with assms(1) show ?thesis by (simp add: carries_def)
qed

lemma frame_transfer:
  assumes "aead_correct A" "aead_seals_upto (1024 * 1024) A" "linked tx rx" "sendable tx t f p"
    and "fresh_seq rx seq"
  shows "read_packet A cursor (rx, frame A tx seq (t, f, p) @ rest) =
    (Ok \<lparr>raw_header = header_new (as_u8 t) (wire_flags tx f) (of_nat (length p)) seq, raw_payload = p\<rparr>,
      (rx\<lparr>last_recv_seq := Some seq\<rparr>, rest))"
  using assms(1-4)
proof (rule seal_then_open)
  fix body :: bytes
  let ?h = "header_new (as_u8 t) (wire_flags tx f) (of_nat (length body)) seq"
  assume seal: "seal_payload A (session tx) t f seq p = Ok (wire_flags tx f, body)"
    and chk: "check_header (session rx) ?h = Ok ()"
    and len: "unat (of_nat (length body) :: u32) = length body"
    and opn: "open_payload A (session rx) ?h body
      = Ok \<lparr>raw_header = header_new (as_u8 t) (wire_flags tx f) (of_nat (length p)) seq, raw_payload = p\<rparr>"
  have "frame A tx seq (t, f, p) = as_slice (to_bytes ?h) @ body"
    by (simp add: frame_def seal)
  then show ?thesis
    using read_frame [OF chk, of body A rest] assms(5) len by (simp add: opn)
qed

lemma frame_not_Nil:
  assumes "aead_correct A" "aead_seals_upto (1024 * 1024) A" "linked tx rx" "sendable tx t f p"
  shows "frame A tx seq (t, f, p) \<noteq> []"
  by (rule seal_then_open [OF assms, of seq]) (simp add: frame_def flip: length_greater_0_conv)

text \<open>A write appends one frame and takes the next number, or changes nothing.\<close>

lemma write_outcome:
  assumes "aead_correct A" "aead_seals_upto (1024 * 1024) A" "linked tx rx" "sendable tx t f p"
    and "write_packet A vec t f p (tx, stream) = (res, (c, w))"
  shows "(res = Ok () \<and> w = stream @ frame A tx (next_send_seq tx) (t, f, p)
      \<and> (\<exists>n. checked_add_u64 (next_send_seq tx) 1 = Some n \<and> c = tx\<lparr>next_send_seq := n\<rparr>))
    \<or> (res = Err CryptoError \<and> next_send_seq tx = - 1 \<and> c = tx \<and> w = stream)"
proof (cases "checked_add_u64 (next_send_seq tx) 1")
  case None
  with assms(5) show ?thesis
    by (simp add: write_packet_def act_then_take_seq counter_exhausted)
next
  case (Some n)
  show ?thesis
    using assms(1-4)
  proof (rule seal_then_open)
    fix body :: bytes
    assume seal: "seal_payload A (session tx) t f (next_send_seq tx) p = Ok (wire_flags tx f, body)"
    then show ?thesis
      using write_to_vec [OF Some seal, of stream] assms(5) Some by (simp add: frame_def)
  qed
qed

section \<open>The simulation\<close>

lemma carries_write:
  assumes "aead_correct A" "aead_seals_upto (1024 * 1024) A" "carries A tx rx stream q"
    and "sendable tx t f p" "checked_add_u64 (next_send_seq tx) 1 = Some n"
  shows "carries A (tx\<lparr>next_send_seq := n\<rparr>) rx
    (stream @ frame A tx (next_send_seq tx) (t, f, p)) (q @ [(t, f, p)])"
proof -
  let ?tx = "tx\<lparr>next_send_seq := n\<rparr>"
  obtain seqs where seqs: "length seqs = length q" "sorted_wrt (<) seqs"
      "list_all (\<lambda>s. fresh_seq rx s \<and> s < next_send_seq tx) seqs"
      "stream = concat (map2 (frame A tx) seqs q)"
    using assms(3) by (auto simp: carries_def)
  have up: "next_send_seq tx < n"
    using assms(5) by (simp add: unat_next word_less_nat_alt)
  have link: "linked tx rx" and q: "list_all (\<lambda>(t, f, p). sendable tx t f p) q"
    using assms(3) by (simp_all add: carries_def)
  have same: "frame A ?tx = frame A tx" "sendable ?tx = sendable tx"
    by (simp_all add: frame_def sendable_def fun_eq_iff)
  have "linked ?tx rx"
    using link up by (auto simp: linked_def intro: fresh_seq_mono)
  moreover have "fresh_seq rx (next_send_seq tx)"
    using link by (simp add: linked_def)
  ultimately show ?thesis
    using seqs up q assms(4) unfolding carries_def same
    by (intro conjI exI [of _ "seqs @ [next_send_seq tx]"])
      (auto simp: sorted_wrt_append list_all_iff intro: order.strict_trans)
qed

lemma carries_read:
  assumes "aead_correct A" "aead_seals_upto (1024 * 1024) A" "carries A tx rx stream q" "stream \<noteq> []"
    and "read_packet A cursor (rx, stream) = (res, (c, w))"
  obtains m ms pkt where "q = m # ms" "res = Ok pkt" "contents pkt = sent_contents m"
    "carries A tx c w ms"
proof -
  obtain seqs where seqs: "length seqs = length q" "sorted_wrt (<) seqs"
      "list_all (\<lambda>s. fresh_seq rx s \<and> s < next_send_seq tx) seqs"
      "stream = concat (map2 (frame A tx) seqs q)"
    using assms(3) by (auto simp: carries_def)
  with assms(4) obtain t f p ms s ss where q: "q = (t, f, p) # ms" and ss: "seqs = s # ss"
    by (cases q; cases seqs) auto
  have link: "linked tx rx" and sendable: "sendable tx t f p" and s: "fresh_seq rx s" "s < next_send_seq tx"
    using assms(3) seqs q ss by (auto simp: carries_def)
  let ?rx = "rx\<lparr>last_recv_seq := Some s\<rparr>"
  from frame_transfer [OF assms(1,2) link sendable s(1)] assms(5) seqs(4)
  have res: "res = Ok \<lparr>raw_header = header_new (as_u8 t) (wire_flags tx f) (of_nat (length p)) s,
      raw_payload = p\<rparr>" "c = ?rx" "w = concat (map2 (frame A tx) ss ms)"
    by (simp_all add: q ss)
  have "carries A tx ?rx w ms"
    using assms(3) seqs s unfolding carries_def q ss res
    by (intro conjI exI [of _ ss]) (auto simp: linked_def list_all_iff)
  then show thesis
    using that [OF q res(1)] by (simp add: contents_def sent_contents_def res(2))
qed

text \<open>
  One step of the two codecs is one step of the two queues: a read returns the type and the payload at the
  head of the queue, or the end of the stream when the queue is empty.
\<close>

abbreviation early_eof :: ProtocolError where
  "early_eof \<equiv> Io (IoError UnexpectedEof ''early eof'')"

definition same_result :: "RawPacket presult \<Rightarrow> (u8 \<times> bytes) option \<Rightarrow> bool" where
  "same_result res m \<longleftrightarrow> (case m of None \<Rightarrow> res = Err early_eof | Some c \<Rightarrow> \<exists>pkt. res = Ok pkt \<and> contents pkt = c)"

abbreviation same_event :: "RawPacket presult event \<Rightarrow> (u8 \<times> bytes) option event \<Rightarrow> bool" where
  "same_event \<equiv> rel_event same_result"

lemma read_nothing: "read_packet A cursor (c, []) = (Err early_eof, (c, []))"
  by (simp add: read_packet_unfold cursor_def)

lemma carries_Nil_iff:
  assumes "aead_correct A" "aead_seals_upto (1024 * 1024) A" "carries A tx rx stream q"
  shows "stream = [] \<longleftrightarrow> q = []"
proof -
  obtain seqs where "length seqs = length q" "stream = concat (map2 (frame A tx) seqs q)"
    using assms(3) by (auto simp: carries_def)
  moreover have "linked tx rx" "list_all (\<lambda>(t, f, p). sendable tx t f p) q"
    using assms(3) by (simp_all add: carries_def)
  ultimately show ?thesis
    using frame_not_Nil [OF assms(1,2)] by (cases q; cases seqs) (auto split: prod.splits)
qed

lemma simulation_step:
  assumes "aead_correct A" "aead_seals_upto (1024 * 1024) A" "simulates A d q" "duplex_step A d e d'"
    and "within_limits d e"
  shows "\<exists>e' q'. same_event e e' \<and> queue_step q e' q' \<and> simulates A d' q'"
  using assms(4)
proof cases
  case (step_write t f p r res c w)
  have dir: "carries A (endpoint d (peer s)) (endpoint d s) (inbox d s) (q s)" for s
    using assms(3) by (simp add: simulates_def)
  have link: "linked (endpoint d r) (endpoint d (peer r))"
    using dir [of "peer r"] by (simp add: carries_def)
  have send: "sendable (endpoint d r) t f p"
    using assms(5) by (simp add: step_write(1))
  consider (sent) n where "res = Ok ()" "checked_add_u64 (next_send_seq (endpoint d r)) 1 = Some n"
      "c = (endpoint d r)\<lparr>next_send_seq := n\<rparr>"
      "w = inbox d (peer r) @ frame A (endpoint d r) (next_send_seq (endpoint d r)) (t, f, p)"
    | (refused) "res = Err CryptoError" "c = endpoint d r" "w = inbox d (peer r)"
    using write_outcome [OF assms(1,2) link send step_write(3)] by blast
  then show ?thesis
  proof cases
    case sent
    have "carries A c (endpoint d (peer r)) w (q (peer r) @ [(t, f, p)])"
      unfolding sent by (rule carries_write [OF assms(1,2)]) (use dir [of "peer r"] send sent in simp_all)
    moreover have "carries A (endpoint d (peer r)) c (inbox d r) (q r)"
      using dir [of r] by (subst carries_cong [of _ "endpoint d (peer r)" _ "endpoint d r"]) (simp_all add: sent)
    ultimately have "simulates A d' (q(peer r := q (peer r) @ [(t, f, p)]))"
      unfolding simulates_def step_write(2) by (intro allI) (case_tac "ra = r"; simp add: peer_eq_iff)
    moreover have "same_event e (Write r (t, f, p) True)"
      by (simp add: step_write(1) sent(1))
    ultimately show ?thesis using enqueue [of q r "(t, f, p)"] by blast
  next
    case refused
    then have "d' = d"
      using step_write(2) by simp
    moreover have "same_event e (Write r (t, f, p) False)"
      by (simp add: step_write(1) refused(1))
    ultimately show ?thesis using assms(3) refuse [of q r "(t, f, p)"] by blast
  qed
next
  case (step_read r res c w)
  have dir: "carries A (endpoint d (peer s)) (endpoint d s) (inbox d s) (q s)" for s
    using assms(3) by (simp add: simulates_def)
  show ?thesis
  proof (cases "inbox d r = []")
    case True
    then have "res = Err early_eof" "d' = d"
      using step_read(2,3) by (simp_all add: read_nothing fun_upd_idem)
    moreover have "q r = []"
      using True carries_Nil_iff [OF assms(1,2) dir [of r]] by simp
    ultimately show ?thesis
      using empty [of q r] assms(3) by (intro exI [of _ "Read r None"]) (auto simp: step_read(1) same_result_def)
  next
    case False
    obtain m ms pkt where q: "q r = m # ms" and res: "res = Ok pkt" "contents pkt = sent_contents m"
      and left: "carries A (endpoint d (peer r)) c w ms"
      by (rule carries_read [OF assms(1,2) dir False step_read(3)])
    note kept = read_packet_state [OF step_read(3)]
    have "carries A c (endpoint d (peer r)) (inbox d (peer r)) (q (peer r))"
      using dir [of "peer r"] kept
      by (subst carries_cong [of _ "endpoint d r" _ "endpoint d (peer r)"]) (auto simp: recv_step_def)
    with left have "simulates A d' (q(r := ms))"
      unfolding simulates_def step_read(2) by (intro allI) (case_tac "ra = r"; simp add: peer_eq_iff)
    moreover have "same_event e (Read r (Some (sent_contents m)))"
      by (simp add: step_read(1) res same_result_def)
    ultimately show ?thesis using dequeue [of q, OF q] by blast
  qed
qed

definition fresh_connection :: "duplex \<Rightarrow> bool" where
  "fresh_connection d \<longleftrightarrow> (\<forall>r. linked (endpoint d r) (endpoint d (peer r)) \<and> inbox d r = [])"

lemma fresh_simulates:
  assumes "fresh_connection d"
  shows "simulates A d (\<lambda>r. [])"
proof -
  have "linked (endpoint d (peer r)) (endpoint d r)" for r
    using assms unfolding fresh_connection_def by (metis peer_peer)
  with assms show ?thesis by (simp add: simulates_def carries_def fresh_connection_def)
qed

lemma simulation_run:
  assumes "aead_correct A" "aead_seals_upto (1024 * 1024) A" "fresh_connection d0" "duplex_run A d0 evs d"
    and "list_all (within_limits d0) evs"
  shows "\<exists>evs' q. list_all2 same_event evs evs' \<and> queue_run (\<lambda>r. []) evs' q \<and> simulates A d q"
  using assms(4,5)
proof induction
  case duplex_start
  show ?case
    using fresh_simulates [OF assms(3)] queue_start [of "\<lambda>r. []"]
    by (intro exI [of _ "[]"] exI [of _ "\<lambda>r. []"]) simp
next
  case (duplex_more evs d e d')
  then obtain evs' q where IH: "list_all2 same_event evs evs'" "queue_run (\<lambda>r. []) evs' q"
    "simulates A d q" by auto
  have "within_limits d e"
    by (rule within_limits_later [OF duplex_more.hyps(1)]) (use duplex_more.prems in simp)
  from simulation_step [OF assms(1,2) IH(3) duplex_more.hyps(2) this]
  obtain e' q' where "same_event e e'" "queue_step q e' q'" "simulates A d' q'" by blast
  moreover have "list_all2 same_event (evs @ [e]) (evs' @ [e'])"
    using IH(1) \<open>same_event e e'\<close> by (simp add: list_all2_appendI)
  ultimately show ?case using queue_more [OF IH(2)] by blast
qed

text \<open>
  C14: a connection is a pair of queues, for callers that respect the limits.  Take two codecs linked in
  both directions, and any interleaving of \<open>write_packet\<close> and \<open>read_packet\<close> calls by the two ends in which
  every payload written is within the ceiling of its packet type and no caller sets the encryption flag
  before a session exists (\<open>write_packet\<close> checks neither, and an oversized payload does break the
  connection).  Then every call does what the same call on a pair of first-in-first-out queues does: a
  write enqueues for the other end, or is refused when the counter is exhausted; a read returns the
  type and payload at the head of its queue, or reports the end of the stream when the queue is empty.
\<close>

theorem duplex_refines_queues:
  assumes "aead_correct A" "aead_seals_upto (1024 * 1024) A"
    and "fresh_connection d0" "duplex_run A d0 evs d" "list_all (within_limits d0) evs"
  shows "\<exists>evs' q. list_all2 same_event evs evs' \<and> queue_run (\<lambda>r. []) evs' q"
  using simulation_run [OF assms] by blast

text \<open>A connection in which the client sends a ping, the server reads it, and reads again.\<close>

definition demo_duplex :: duplex where
  "demo_duplex = \<lparr>endpoint = (\<lambda>r. case r of Client \<Rightarrow> demo_client | Server \<Rightarrow> demo_server),
     inbox = (\<lambda>r. [])\<rparr>"

lemma demo_duplex_fresh: "fresh_connection demo_duplex"
  unfolding fresh_connection_def
  by (intro allI, case_tac r)
    (simp_all add: demo_duplex_def linked_def demo_client_def demo_server_def establish_session_def
      codec_new_def fresh_seq_def)

definition demo_events :: "RawPacket presult \<Rightarrow> RawPacket presult \<Rightarrow> RawPacket presult event list" where
  "demo_events res res' = [Write Client (Ping, 0, replicate 8 7) True, Read Server res, Read Server res']"

lemma demo_duplex_run: "\<exists>res res' d. duplex_run demo_aead demo_duplex (demo_events res res') d"
proof -
  let ?m = "(Ping, 0, replicate 8 7) :: outgoing"
  have send: "sendable demo_client Ping 0 (replicate 8 7)"
    using demo_packets_sendable by (simp add: demo_packets_def)
  obtain res c w where wr: "write_packet demo_aead vec Ping 0 (replicate 8 7) (demo_client, []) = (res, (c, w))"
    by (metis prod.exhaust)
  have seq: "next_send_seq demo_client = 1"
    by (simp add: demo_client_def establish_session_def codec_new_def)
  have ok: "res = Ok ()"
    using write_outcome [OF demo_aead_correct demo_aead_seals demo_linked send wr] by (auto simp: seq)
  let ?d = "\<lparr>endpoint = (endpoint demo_duplex)(Client := c), inbox = (inbox demo_duplex)(Server := w)\<rparr>"
  have "duplex_step demo_aead demo_duplex (Write Client ?m (res = Ok ())) ?d"
    using step_write [of demo_aead Ping 0 "replicate 8 7" demo_duplex Client res c w] wr
    by (simp add: demo_duplex_def)
  then have one: "duplex_run demo_aead demo_duplex ([] @ [Write Client ?m True]) ?d"
    unfolding ok by (intro duplex_more [OF duplex_start]) simp
  have "\<exists>res d'. duplex_step demo_aead d (Read Server res) d'" for d
    using step_read [of demo_aead d Server] by (metis prod.exhaust)
  with one duplex_more show ?thesis unfolding demo_events_def by (metis append_Cons append_Nil)
qed

lemma demo_events_within: "list_all (within_limits demo_duplex) (demo_events res res')"
  using demo_packets_sendable by (simp add: demo_events_def demo_duplex_def demo_packets_def)

theorem duplex_refines_queues_witness:
  "\<exists>res res' evs' q. list_all2 same_event (demo_events res res') evs' \<and> queue_run (\<lambda>r. []) evs' q"
  using duplex_refines_queues [OF demo_aead_correct demo_aead_seals demo_duplex_fresh _ demo_events_within]
    demo_duplex_run by blast

section \<open>Order of delivery\<close>

fun written :: "Role \<Rightarrow> 'm event list \<Rightarrow> outgoing list" where
  "written r [] = []"
| "written r (Write s m ok # evs) = (if s = r \<and> ok then m # written r evs else written r evs)"
| "written r (Read s m # evs) = written r evs"

fun results :: "Role \<Rightarrow> 'm event list \<Rightarrow> 'm list" where
  "results r [] = []"
| "results r (Write s m ok # evs) = results r evs"
| "results r (Read s m # evs) = (if s = r then m # results r evs else results r evs)"

lemma written_append [simp]: "written r (evs @ evs') = written r evs @ written r evs'"
  by (induction r evs rule: written.induct) auto

lemma results_append [simp]: "results r (evs @ evs') = results r evs @ results r evs'"
  by (induction r evs rule: results.induct) auto

text \<open>The packets among the results of the reads.\<close>

definition oks :: "('a, 'e) outcome list \<Rightarrow> 'a list" where
  "oks rs = List.map_filter (\<lambda>res. case res of Ok x \<Rightarrow> Some x | Err e \<Rightarrow> None | Panic \<Rightarrow> None) rs"

lemma oks_simps [simp]:
  "oks [] = []" "oks (Ok x # rs) = x # oks rs" "oks (Err e # rs) = oks rs"
  by (simp_all add: oks_def List.map_filter_simps)

definition somes :: "'a option list \<Rightarrow> 'a list" where
  "somes ms = List.map_filter id ms"

lemma somes_simps [simp]:
  "somes [] = []" "somes (Some x # ms) = x # somes ms" "somes (None # ms) = somes ms"
  by (simp_all add: somes_def List.map_filter_simps)

lemma somes_append [simp]: "somes (ms @ ms') = somes ms @ somes ms'"
  by (induction ms) (auto split: option.splits simp: somes_def List.map_filter_simps)

lemma queue_step_balance:
  assumes "queue_step q e q'"
  shows "map sent_contents (q r) @ map sent_contents (written (peer r) [e])
    = somes (results r [e]) @ map sent_contents (q' r)"
  using assms by cases (cases "r"; auto simp: peer_eq_iff)+

lemma queue_run_order:
  assumes "queue_run (\<lambda>r. []) evs q"
  shows "map sent_contents (written (peer r) evs) = somes (results r evs) @ map sent_contents (q r)"
  using assms
proof induction
  case (queue_more evs q e q')
  with queue_step_balance [OF queue_more.hyps(2), of r] show ?case by simp
qed simp

lemma same_results:
  assumes "list_all2 same_result rs ms"
  shows "map contents (oks rs) = somes ms \<and> list_all (\<lambda>res. is_ok res \<or> res = Err early_eof) rs"
  using assms by induction (auto simp: same_result_def split: option.splits)

lemma same_events_projections:
  assumes "list_all2 same_event evs evs'"
  shows "written r evs' = written r evs \<and> list_all2 same_result (results r evs) (results r evs')"
  using assms
proof induction
  case (Cons e evs e' evs')
  from Cons.hyps(1) Cons.IH show ?case by (cases e; cases e') auto
qed simp

text \<open>
  C15: delivery in order, with both ends busy, for callers that respect the limits.  Over any interleaving of
  the calls of two linked ends in which every payload written is within the ceiling of its type and no
  caller sets the encryption flag before a session exists: a \<open>read_packet\<close> never fails but with the end
  of the stream, the packets one end has read are a prefix of the packets the other has written, and they
  are all of them exactly when no bytes are left in flight.
\<close>

theorem duplex_in_order:
  assumes "aead_correct A" "aead_seals_upto (1024 * 1024) A"
    and "fresh_connection d0" "duplex_run A d0 evs d" "list_all (within_limits d0) evs"
  shows "list_all (\<lambda>res. is_ok res \<or> res = Err early_eof) (results r evs)
    \<and> prefix (map contents (oks (results r evs))) (map sent_contents (written (peer r) evs))
    \<and> (inbox d r = [] \<longleftrightarrow>
         map contents (oks (results r evs)) = map sent_contents (written (peer r) evs))"
proof -
  obtain evs' q where same: "list_all2 same_event evs evs'" and run: "queue_run (\<lambda>r. []) evs' q"
    and sim: "simulates A d q"
    using simulation_run [OF assms] by blast
  note proj = same_events_projections [OF same]
  note res = same_results [of "results r evs" "results r evs'"]
  have "map sent_contents (written (peer r) evs)
      = map contents (oks (results r evs)) @ map sent_contents (q r)"
    using queue_run_order [OF run, of r] proj [of r] proj [of "peer r"] res by simp
  moreover have "inbox d r = [] \<longleftrightarrow> q r = []"
    using sim by (intro carries_Nil_iff [OF assms(1,2)]) (auto simp: simulates_def)
  ultimately show ?thesis using res proj [of r] by (auto simp: prefix_def)
qed

theorem duplex_in_order_witness:
  "\<exists>res res' d. duplex_run demo_aead demo_duplex (demo_events res res') d
     \<and> prefix (map contents (oks [res, res'])) [(20, replicate 8 7)]
     \<and> (inbox d Server = [] \<longleftrightarrow> map contents (oks [res, res']) = [(20, replicate 8 7)])"
proof -
  obtain res res' d where run: "duplex_run demo_aead demo_duplex (demo_events res res') d"
    using demo_duplex_run by blast
  from duplex_in_order [OF demo_aead_correct demo_aead_seals demo_duplex_fresh run demo_events_within, of Server] run
  show ?thesis
    by (intro exI [of _ res] exI [of _ res'] exI [of _ d]) (simp add: demo_events_def sent_contents_def)
qed

end
