(* ===== verification/E2e.thy ===== *)
theory E2e
  imports Crypto_Lib E2e_Key_Payloads
begin

text \<open>
  \<open>src/src/crypto/e2e.rs\<close>: end-to-end encryption and signing of message content.  The public key
  bundle \<open>E2ePublicKey\<close> is in the theory of its payloads.
\<close>

section \<open>Layout of the content blob\<close>

definition SENDER_X25519_END :: nat where "SENDER_X25519_END = 32"

definition ML_KEM_CT_END :: nat where "ML_KEM_CT_END = SENDER_X25519_END + ML_KEM_768_CT_SIZE"

definition AES_NONCE_END :: nat where "AES_NONCE_END = ML_KEM_CT_END + NONCE_LEN"

definition MIN_BLOB_LEN :: nat where
  "MIN_BLOB_LEN = AES_NONCE_END + GCM_TAG_LEN + ML_DSA_65_SIG_SIZE"

lemmas blob_defs = MIN_BLOB_LEN_def AES_NONCE_END_def ML_KEM_CT_END_def SENDER_X25519_END_def size_defs

record E2eSecretKey =
  sk_x25519_secret :: key32
  sk_ml_kem_seed :: "64 barray"
  sk_dsa_signing_seed :: key32

section \<open>Operations\<close>

text \<open>
  The random arguments: the X25519 secret, what the random generator filled the ML-KEM seed with
  (\<open>None\<close> when it failed), and the signing key.
\<close>

definition generate_e2e_keypair ::
    "'x x25519 \<Rightarrow> ('dk, 'ek, 'r) ml_kem \<Rightarrow> ('sk, 'vk, 'sg) ml_dsa \<Rightarrow> 'x \<Rightarrow> 64 barray option \<Rightarrow> 'sk
     \<Rightarrow> (E2eSecretKey \<times> E2ePublicKey) presult" where
  "generate_e2e_keypair X K D x25519_secret seed_sample dsa_sk =
     (let x25519_public = x_public X x25519_secret;
          x25519_secret_bytes = x_static_to_bytes X x25519_secret in
      and_then (ok_or CryptoError seed_sample) (\<lambda>ml_kem_seed.
      and_then (try_into_array CryptoError (as_slice ml_kem_seed)) (\<lambda>seed_arr.
      let ml_kem_dk = kem_from_seed K seed_arr;
          ek_slice = kem_ek_to_bytes K (kem_encapsulation_key K ml_kem_dk) in
      and_then (ensure (\<not> length ek_slice \<noteq> ML_KEM_768_EK_SIZE) CryptoError) (\<lambda>_.
      and_then (copy_from_slice ek_slice) (\<lambda>ml_kem_ek.
      and_then (copy_from_slice (as_slice (dsa_to_seed D dsa_sk))) (\<lambda>dsa_signing_seed.
      let vk_slice = dsa_vk_encode D (dsa_verifying_key D dsa_sk) in
      and_then (ensure (\<not> length vk_slice \<noteq> ML_DSA_65_VK_SIZE) CryptoError) (\<lambda>_.
      and_then (copy_from_slice vk_slice) (\<lambda>dsa_verifying_key.
      Ok (\<lparr>sk_x25519_secret = x25519_secret_bytes, sk_ml_kem_seed = ml_kem_seed,
           sk_dsa_signing_seed = dsa_signing_seed\<rparr>,
          \<lparr>pk_x25519_public = x25519_public, pk_ml_kem_ek = ml_kem_ek,
           pk_dsa_verifying_key = dsa_verifying_key\<rparr>)))))))))"

definition e2e_context :: "key32 \<Rightarrow> key32 \<Rightarrow> bytes \<Rightarrow> bytes" where
  "e2e_context sender_x25519_pk recipient_x25519_pk ml_kem_ct =
     as_slice sender_x25519_pk @ as_slice recipient_x25519_pk @ ml_kem_ct"

definition derive_e2e_key :: "'prk hkdf \<Rightarrow> bytes \<Rightarrow> bytes \<Rightarrow> bytes \<Rightarrow> key32 presult" where
  "derive_e2e_key H x25519_shared kyber_shared context =
     (let ikm = x25519_shared @ kyber_shared;
          hk = hkdf_new H None ikm;
          info = context @ ascii ''chatix-e2e-content-v1'' in
      ok_or CryptoError (hkdf_expand H hk info))"

text \<open>What \<open>SystemRandom\<close> filled the nonce with, or its failure.\<close>

definition random_nonce :: "gcm_nonce option \<Rightarrow> gcm_nonce presult" where
  "random_nonce filled = ok_or CryptoError filled"

text \<open>The body of a blob: everything but the signature.\<close>

definition e2e_body ::
    "'x x25519 \<Rightarrow> ('dk, 'ek, 'r) ml_kem \<Rightarrow> 'prk hkdf \<Rightarrow> 'k aead \<Rightarrow> bytes \<Rightarrow> key32 \<Rightarrow> kem_ek
     \<Rightarrow> 'x \<Rightarrow> 'r \<Rightarrow> gcm_nonce option \<Rightarrow> bytes presult" where
  "e2e_body X K H A plaintext recipient_x25519_pk recipient_ml_kem_ek sender_ephemeral coins
     nonce_sample =
     (let sender_x25519_pk = x_public X sender_ephemeral;
          x25519_shared = x_diffie_hellman X sender_ephemeral recipient_x25519_pk in
      and_then (try_into_array CryptoError (as_slice recipient_ml_kem_ek)) (\<lambda>ek_arr.
      and_then (ok_or CryptoError (kem_ek_new K ek_arr)) (\<lambda>ek.
      let (ct_bytes, kyber_shared) = kem_encapsulate K ek coins in
      and_then (copy_from_slice ct_bytes) (\<lambda>ml_kem_ct :: kem_ct.
      let context = e2e_context sender_x25519_pk recipient_x25519_pk (as_slice ml_kem_ct) in
      and_then (derive_e2e_key H (as_slice x25519_shared) (as_slice kyber_shared) context)
        (\<lambda>content_key.
      and_then (random_nonce nonce_sample) (\<lambda>nonce_bytes.
      and_then (ok_or CryptoError (aead_unbound_key A content_key)) (\<lambda>sealing_key.
      and_then (ok_or CryptoError (aead_seal A sealing_key nonce_bytes [] plaintext))
        (\<lambda>ciphertext.
      Ok (as_slice sender_x25519_pk @ as_slice ml_kem_ct @ as_slice nonce_bytes @ ciphertext)))))))))"

definition encrypt_and_sign ::
    "'x x25519 \<Rightarrow> ('dk, 'ek, 'r) ml_kem \<Rightarrow> 'prk hkdf \<Rightarrow> 'k aead \<Rightarrow> ('sk, 'vk, 'sg) ml_dsa
     \<Rightarrow> bytes \<Rightarrow> key32 \<Rightarrow> kem_ek \<Rightarrow> key32 \<Rightarrow> 'x \<Rightarrow> 'r \<Rightarrow> gcm_nonce option \<Rightarrow> bytes presult" where
  "encrypt_and_sign X K H A D plaintext recipient_x25519_pk recipient_ml_kem_ek sender_signing_seed
     sender_ephemeral coins nonce_sample =
     and_then (e2e_body X K H A plaintext recipient_x25519_pk recipient_ml_kem_ek sender_ephemeral
       coins nonce_sample) (\<lambda>blob.
     and_then (try_into_array CryptoError (as_slice sender_signing_seed)) (\<lambda>dsa_seed_arr.
     let dsa_sk = dsa_from_seed D dsa_seed_arr;
         signature = dsa_sign D dsa_sk blob;
         sig_encoded = dsa_sig_encode D signature in
     Ok (blob @ sig_encoded)))"

text \<open>Decryption of a body whose signature has been checked.\<close>

definition open_body ::
    "'x x25519 \<Rightarrow> ('dk, 'ek, 'r) ml_kem \<Rightarrow> 'prk hkdf \<Rightarrow> 'k aead \<Rightarrow> bytes \<Rightarrow> key32 \<Rightarrow> 64 barray
     \<Rightarrow> bytes presult" where
  "open_body X K H A signed_part recipient_x25519_sk recipient_ml_kem_seed =
     and_then (slice signed_part 0 SENDER_X25519_END) (\<lambda>pk_bytes.
     and_then (try_into_array CryptoError pk_bytes) (\<lambda>sender_x25519_pk.
     and_then (slice signed_part SENDER_X25519_END ML_KEM_CT_END) (\<lambda>ml_kem_ct_bytes.
     and_then (slice signed_part ML_KEM_CT_END AES_NONCE_END) (\<lambda>nonce_slice.
     and_then (try_into_array CryptoError nonce_slice) (\<lambda>aes_nonce_bytes.
     and_then (slice_from signed_part AES_NONCE_END) (\<lambda>aes_ct.
     let recipient_sk = x_static_from X recipient_x25519_sk;
         recipient_pk = x_public X recipient_sk;
         x25519_shared = x_diffie_hellman X recipient_sk sender_x25519_pk in
     and_then (try_into_array CryptoError (as_slice recipient_ml_kem_seed)) (\<lambda>ml_kem_seed_arr.
     let ml_kem_dk = kem_from_seed K ml_kem_seed_arr in
     and_then (try_into_array CryptoError ml_kem_ct_bytes) (\<lambda>ct.
     let kyber_shared = kem_decapsulate K ml_kem_dk ct;
         context = e2e_context sender_x25519_pk recipient_pk ml_kem_ct_bytes in
     and_then (derive_e2e_key H (as_slice x25519_shared) (as_slice kyber_shared) context)
       (\<lambda>content_key.
     and_then (ok_or CryptoError (aead_unbound_key A content_key)) (\<lambda>opening_key.
     ok_or CryptoError (aead_open A opening_key aes_nonce_bytes [] aes_ct)))))))))))"

definition verify_and_decrypt ::
    "'x x25519 \<Rightarrow> ('dk, 'ek, 'r) ml_kem \<Rightarrow> 'prk hkdf \<Rightarrow> 'k aead \<Rightarrow> ('sk, 'vk, 'sg) ml_dsa
     \<Rightarrow> bytes \<Rightarrow> key32 \<Rightarrow> 64 barray \<Rightarrow> dsa_vk \<Rightarrow> bytes presult" where
  "verify_and_decrypt X K H A D blob recipient_x25519_sk recipient_ml_kem_seed sender_verifying_key =
     and_then (ensure (\<not> length blob < MIN_BLOB_LEN) CryptoError) (\<lambda>_.
     and_then (slice blob 0 (length blob - ML_DSA_65_SIG_SIZE)) (\<lambda>signed_part.
     and_then (slice_from blob (length blob - ML_DSA_65_SIG_SIZE)) (\<lambda>sig_bytes.
     and_then (try_into_array CryptoError (as_slice sender_verifying_key)) (\<lambda>vk_arr.
     let dsa_vk = dsa_vk_decode D vk_arr in
     and_then (try_into_array CryptoError sig_bytes) (\<lambda>sig_arr.
     and_then (ok_or CryptoError (dsa_sig_decode D sig_arr)) (\<lambda>signature.
     and_then (ensure (dsa_verify D dsa_vk signed_part signature) CryptoError) (\<lambda>_.
     open_body X K H A signed_part recipient_x25519_sk recipient_ml_kem_seed)))))))"

section \<open>Errors\<close>

lemma derive_e2e_key_error:
  "derive_e2e_key H x k c = Err e \<Longrightarrow> e = CryptoError" "derive_e2e_key H x k c \<noteq> Panic"
  by (auto simp: derive_e2e_key_def Let_def dest: ok_or_error)

lemmas error_rules = step_errors derive_e2e_key_error(1)

lemma open_body_error:
  "AES_NONCE_END \<le> length body \<Longrightarrow> open_body X K H A body xs seed \<noteq> Panic"
  "open_body X K H A body xs seed = Err e \<Longrightarrow> e = CryptoError"
  by (auto simp: open_body_def panic_conditions inversions blob_defs Let_def derive_e2e_key_error
      and_then_eq_Err dest: error_rules)

text \<open>
  C34: verification and decryption of arbitrary bytes either yields a plaintext or fails with
  \<open>CryptoError\<close>; no blob, however short or mangled, makes it panic, and a blob below the minimum
  length is always rejected.
\<close>

theorem verify_and_decrypt_total:
  "(is_ok (verify_and_decrypt X K H A D blob xs seed vk)
      \<or> verify_and_decrypt X K H A D blob xs seed vk = Err CryptoError)
   \<and> (if length blob < MIN_BLOB_LEN
      then verify_and_decrypt X K H A D blob xs seed vk = Err CryptoError else True)"
proof (cases "length blob < MIN_BLOB_LEN")
  case True
  then show ?thesis by (simp add: verify_and_decrypt_def)
next
  case False
  then have "verify_and_decrypt X K H A D blob xs seed vk \<noteq> Panic"
    by (auto simp: verify_and_decrypt_def panic_conditions inversions Let_def blob_defs
        intro!: open_body_error(1))
  moreover have "e = CryptoError" if "verify_and_decrypt X K H A D blob xs seed vk = Err e" for e
    using that by (auto simp: verify_and_decrypt_def and_then_eq_Err Let_def
        dest: error_rules open_body_error(2))
  ultimately show ?thesis
    using False by (cases "verify_and_decrypt X K H A D blob xs seed vk") auto
qed

section \<open>Round trip\<close>

text \<open>
  What an honest body contains, and that the holder of the matching secrets opens it.
\<close>

lemma e2e_body_opens:
  fixes X :: "'x x25519"
  assumes laws: "x25519_correct X" "ml_kem_correct K" "hkdf_correct H" "aead_correct A"
    and body: "e2e_body X K H A pt (x_public X rs)
      (mk_array (kem_ek_to_bytes K (kem_encapsulation_key K (kem_from_seed K seed)))) eph coins
      nonce_sample = Ok body"
  shows "length body = AES_NONCE_END + length pt + GCM_TAG_LEN
    \<and> open_body X K H A body (x_static_to_bytes X rs) seed = Ok pt"
proof -
  define dk where "dk = kem_from_seed K seed"
  define ek where "ek = kem_encapsulation_key K dk"
  define kct where "kct = (mk_array (fst (kem_encapsulate K ek coins)) :: kem_ct)"
  let ?ctx = "e2e_context (x_public X eph) (x_public X rs) (as_slice kct)"
  have len: "length (fst (kem_encapsulate K ek coins)) = 1088"
    using ml_kem_rules(4) [OF laws(2)] by (simp add: size_defs)
  have kem: "kem_ek_new K (mk_array (kem_ek_to_bytes K ek)) = Some ek"
    "kem_decapsulate K dk kct = snd (kem_encapsulate K ek coins)"
    unfolding kct_def ek_def by (rule ml_kem_rules [OF laws(2)])+
  obtain ck n k ct where key: "derive_e2e_key H (as_slice (x_diffie_hellman X eph (x_public X rs)))
        (as_slice (snd (kem_encapsulate K ek coins))) ?ctx = Ok ck"
    and seal: "aead_unbound_key A ck = Some k" "aead_seal A k n [] pt = Some ct"
    and body_eq: "body = as_slice (x_public X eph) @ as_slice kct @ as_slice n @ ct"
    using body kem(1) len unfolding dk_def [symmetric] ek_def [symmetric]
    by (auto simp: e2e_body_def Let_def split_beta inversions kct_def random_nonce_def)
  have "length body = AES_NONCE_END + length pt + GCM_TAG_LEN"
    using aead_seal_length [OF laws(4) seal(2)] by (simp add: body_eq blob_defs)
  moreover have "open_body X K H A body (x_static_to_bytes X rs) seed = Ok pt"
    using key seal(1) aead_open_seal [OF laws(4) seal(2)] laws(1)
    by (simp add: open_body_def body_eq slice_def slice_from_def blob_defs Let_def kem(2)
        x25519_agree [OF laws(1), of rs] flip: dk_def)
  ultimately show ?thesis ..
qed

lemma e2e_body_total:
  assumes "ml_kem_correct K" "hkdf_correct H" "aead_correct A" "aead_seals_upto (length pt) A"
    and "kem_ek_new K ek_bytes = Some ek"
  shows "\<exists>body. e2e_body X K H A pt rpk ek_bytes eph coins (Some nonce) = Ok body"
proof -
  have len: "length (fst (kem_encapsulate K ek coins)) = 1088"
    using ml_kem_rules(4) [OF assms(1)] by (simp add: size_defs)
  obtain ck where "derive_e2e_key H (as_slice (x_diffie_hellman X eph rpk))
      (as_slice (snd (kem_encapsulate K ek coins)))
      (e2e_context (x_public X eph) rpk (fst (kem_encapsulate K ek coins))) = Ok ck"
    using hkdf_expands [OF assms(2)] by (fastforce simp: derive_e2e_key_def Let_def ok_or_eq_Ok)
  moreover obtain k where "aead_unbound_key A ck = Some k"
    using aead_key_total [OF assms(3)] by blast
  moreover obtain ct where "aead_seal A k nonce [] pt = Some ct"
    using assms(4) by (fastforce simp: aead_seals_upto_def)
  ultimately show ?thesis
    using len assms(5)
    by (simp add: e2e_body_def Let_def split_beta copy_from_slice_def random_nonce_def)
qed

lemma generate_e2e_keypair_result:
  assumes "ml_kem_correct K" "ml_dsa_correct D"
  shows "generate_e2e_keypair X K D xs (Some seed) sk = Ok
     (\<lparr>sk_x25519_secret = x_static_to_bytes X xs, sk_ml_kem_seed = seed,
       sk_dsa_signing_seed = dsa_to_seed D sk\<rparr>,
      \<lparr>pk_x25519_public = x_public X xs,
       pk_ml_kem_ek = mk_array (kem_ek_to_bytes K (kem_encapsulation_key K (kem_from_seed K seed))),
       pk_dsa_verifying_key = mk_array (dsa_vk_encode D (dsa_verifying_key D sk))\<rparr>)"
  using ml_kem_rules(2) [OF assms(1)] ml_dsa_rules(2) [OF assms(2)]
  by (simp add: generate_e2e_keypair_def Let_def copy_from_slice_def ML_KEM_768_EK_SIZE_def
      ML_DSA_65_VK_SIZE_def)

lemma verify_and_decrypt_signed:
  assumes "ml_dsa_correct D" "AES_NONCE_END + GCM_TAG_LEN \<le> length body"
  shows "verify_and_decrypt X K H A D (body @ dsa_sig_encode D (dsa_sign D sk body)) xs seed
      (mk_array (dsa_vk_encode D (dsa_verifying_key D sk)))
    = open_body X K H A body xs seed"
  using assms(2) ml_dsa_rules [OF assms(1)]
  by (simp add: verify_and_decrypt_def slice_def slice_from_def blob_defs Let_def try_into_array_def)

lemma encrypt_then_decrypt:
  fixes X :: "'x x25519" and K :: "('dk, 'ek, 'r) ml_kem" and H :: "'prk hkdf" and A :: "'k aead"
    and D :: "('sk, 'vk, 'sg) ml_dsa"
  assumes "x25519_correct X" "ml_kem_correct K" "hkdf_correct H" "aead_correct A" "ml_dsa_correct D"
    and "aead_seals_upto (length pt) A"
    and "generate_e2e_keypair X K D sender_x (Some sender_seed) sender_dsa = Ok (sender_sk, sender_pk)"
    and "generate_e2e_keypair X K D rcpt_x (Some rcpt_seed) rcpt_dsa = Ok (rcpt_sk, rcpt_pk)"
  shows "\<exists>blob. encrypt_and_sign X K H A D pt (pk_x25519_public rcpt_pk) (pk_ml_kem_ek rcpt_pk)
        (sk_dsa_signing_seed sender_sk) eph coins (Some nonce) = Ok blob
    \<and> length blob = MIN_BLOB_LEN + length pt
    \<and> verify_and_decrypt X K H A D blob (sk_x25519_secret rcpt_sk) (sk_ml_kem_seed rcpt_sk)
        (pk_dsa_verifying_key sender_pk) = Ok pt"
proof -
  let ?ek = "kem_encapsulation_key K (kem_from_seed K rcpt_seed)"
  obtain body where body: "e2e_body X K H A pt (x_public X rcpt_x) (mk_array (kem_ek_to_bytes K ?ek))
      eph coins (Some nonce) = Ok body"
    using e2e_body_total [OF assms(2-4,6) ml_kem_rules(3) [OF assms(2)],
        where X = X] by blast
  note opens = e2e_body_opens [OF assms(1-4) body]
  then have long: "AES_NONCE_END + GCM_TAG_LEN \<le> length body" by simp
  show ?thesis
    using assms(7,8) opens body ml_dsa_rules(1,4) [OF assms(5)]
    by (auto simp: verify_and_decrypt_signed [OF assms(5) long] generate_e2e_keypair_result [OF assms(2,5)] encrypt_and_sign_def Let_def
        MIN_BLOB_LEN_def)
qed

text \<open>
  C6: end-to-end round trip.  For any two generated identities, any plaintext the cipher can seal and
  any random choices, encryption succeeds, the blob has exactly the documented length, and the
  recipient gets the plaintext back under the sender's verifying key.
\<close>

theorem e2e_round_trip:
  fixes X :: "'x x25519" and K :: "('dk, 'ek, 'r) ml_kem" and H :: "'prk hkdf" and A :: "'k aead"
    and D :: "('sk, 'vk, 'sg) ml_dsa"
  assumes "x25519_correct X" "ml_kem_correct K" "hkdf_correct H" "aead_correct A" "ml_dsa_correct D"
    and "aead_seals_upto (length pt) A"
    and "generate_e2e_keypair X K D sender_x (Some sender_seed) sender_dsa = Ok (sender_sk, sender_pk)"
    and "generate_e2e_keypair X K D rcpt_x (Some rcpt_seed) rcpt_dsa = Ok (rcpt_sk, rcpt_pk)"
  shows "\<exists>blob. encrypt_and_sign X K H A D pt (pk_x25519_public rcpt_pk) (pk_ml_kem_ek rcpt_pk)
        (sk_dsa_signing_seed sender_sk) eph coins (Some nonce) = Ok blob
    \<and> length blob = MIN_BLOB_LEN + length pt
    \<and> verify_and_decrypt X K H A D blob (sk_x25519_secret rcpt_sk) (sk_ml_kem_seed rcpt_sk)
        (pk_dsa_verifying_key sender_pk) = Ok pt"
  using assms by (rule encrypt_then_decrypt)

abbreviation demo_identity :: "u8 \<Rightarrow> (E2eSecretKey \<times> E2ePublicKey) presult" where
  "demo_identity b \<equiv> generate_e2e_keypair demo_x25519 demo_ml_kem demo_ml_dsa (const_array b)
     (Some (const_array b)) (const_array b)"

theorem e2e_round_trip_witness:
  "\<exists>ask apk bsk bpk blob. demo_identity 1 = Ok (ask, apk) \<and> demo_identity 2 = Ok (bsk, bpk)
    \<and> encrypt_and_sign demo_x25519 demo_ml_kem demo_hkdf demo_aead demo_ml_dsa [104, 105]
        (pk_x25519_public bpk) (pk_ml_kem_ek bpk) (sk_dsa_signing_seed ask) (const_array 3)
        (const_array 4) (Some (const_array 5)) = Ok blob
    \<and> length blob = MIN_BLOB_LEN + 2
    \<and> verify_and_decrypt demo_x25519 demo_ml_kem demo_hkdf demo_aead demo_ml_dsa blob
        (sk_x25519_secret bsk) (sk_ml_kem_seed bsk) (pk_dsa_verifying_key apk) = Ok [104, 105]"
proof -
  obtain ask apk bsk bpk where ids: "demo_identity 1 = Ok (ask, apk)" "demo_identity 2 = Ok (bsk, bpk)"
    using generate_e2e_keypair_result [OF demo_ml_kem_correct demo_ml_dsa_correct] by metis
  then show ?thesis
    using e2e_round_trip [OF demo_x25519_correct demo_ml_kem_correct demo_hkdf_correct
        demo_aead_correct demo_ml_dsa_correct demo_aead_seals ids, where pt = "[104, 105]"]
    by (simp add: numeral_2_eq_2)
qed

section \<open>Authenticity\<close>

text \<open>
  What a sender did: it encrypted plaintexts to key bundles, those of any recipients, with random choices
  of its own.  The bodies it signed; the inputs from which it derived a content key; and what it sealed
  under a given content key.
\<close>

type_synonym ('x, 'r) sent = "bytes \<times> E2ePublicKey \<times> 'x \<times> 'r \<times> gcm_nonce"

definition sent_bodies ::
    "'x x25519 \<Rightarrow> ('dk, 'ek, 'r) ml_kem \<Rightarrow> 'prk hkdf \<Rightarrow> 'k aead \<Rightarrow> ('x, 'r) sent set \<Rightarrow> bytes set" where
  "sent_bodies X K H A sent =
     {body | pt to eph coins nonce body. (pt, to, eph, coins, nonce) \<in> sent
        \<and> e2e_body X K H A pt (pk_x25519_public to) (pk_ml_kem_ek to) eph coins (Some nonce) = Ok body}"

definition sender_input ::
    "'x x25519 \<Rightarrow> ('dk, 'ek, 'r) ml_kem \<Rightarrow> E2ePublicKey \<Rightarrow> 'ek \<Rightarrow> 'x \<Rightarrow> 'r \<Rightarrow> bytes \<times> bytes \<times> bytes" where
  "sender_input X K to ek eph coins =
     (as_slice (x_diffie_hellman X eph (pk_x25519_public to)), as_slice (snd (kem_encapsulate K ek coins)),
      e2e_context (x_public X eph) (pk_x25519_public to) (fst (kem_encapsulate K ek coins)))"

definition sender_inputs ::
    "'x x25519 \<Rightarrow> ('dk, 'ek, 'r) ml_kem \<Rightarrow> ('x, 'r) sent set \<Rightarrow> (bytes \<times> bytes \<times> bytes) set" where
  "sender_inputs X K sent =
     {sender_input X K to ek eph coins | pt to ek eph coins nonce. (pt, to, eph, coins, nonce) \<in> sent
        \<and> kem_ek_new K (pk_ml_kem_ek to) = Some ek}"

text \<open>The input from which the holder of a secret key derives the content key of a body.\<close>

definition recipient_input ::
    "'x x25519 \<Rightarrow> ('dk, 'ek, 'r) ml_kem \<Rightarrow> E2eSecretKey \<Rightarrow> bytes \<Rightarrow> bytes \<times> bytes \<times> bytes" where
  "recipient_input X K sk body =
     (let sender_pk = mk_array (take 32 body);
          ct = take 1088 (drop 32 body);
          xs = x_static_from X (sk_x25519_secret sk) in
      (as_slice (x_diffie_hellman X xs sender_pk),
       as_slice (kem_decapsulate K (kem_from_seed K (sk_ml_kem_seed sk)) (mk_array ct)),
       e2e_context sender_pk (x_public X xs) ct))"

abbreviation content_key :: "'prk hkdf \<Rightarrow> bytes \<times> bytes \<times> bytes \<Rightarrow> key32 presult" where
  "content_key H \<equiv> (\<lambda>(x25519_shared, kyber_shared, context). derive_e2e_key H x25519_shared kyber_shared context)"

definition sealed_under ::
    "'x x25519 \<Rightarrow> ('dk, 'ek, 'r) ml_kem \<Rightarrow> 'prk hkdf \<Rightarrow> 'k aead \<Rightarrow> ('x, 'r) sent set \<Rightarrow> key32
     \<Rightarrow> (gcm_nonce \<times> bytes \<times> bytes \<times> bytes) set" where
  "sealed_under X K H A sent key =
     {(nonce, [], pt, ct) | pt to ek eph coins nonce k ct. (pt, to, eph, coins, nonce) \<in> sent
        \<and> kem_ek_new K (pk_ml_kem_ek to) = Some ek
        \<and> content_key H (sender_input X K to ek eph coins) = Ok key
        \<and> aead_unbound_key A key = Some k \<and> aead_seal A k nonce [] pt = Some ct}"

lemma e2e_context_inject [simp]:
  "e2e_context a b c = e2e_context a' b' c' \<longleftrightarrow> a = a' \<and> b = b' \<and> c = c'"
  by (simp add: e2e_context_def)

lemma e2e_body_eq_Ok:
  "e2e_body X K H A pt (pk_x25519_public to) (pk_ml_kem_ek to) eph coins (Some nonce) = Ok body \<longleftrightarrow>
     (\<exists>ek ck k ct. kem_ek_new K (pk_ml_kem_ek to) = Some ek
        \<and> length (fst (kem_encapsulate K ek coins)) = 1088
        \<and> content_key H (sender_input X K to ek eph coins) = Ok ck
        \<and> aead_unbound_key A ck = Some k \<and> aead_seal A k nonce [] pt = Some ct
        \<and> body = as_slice (x_public X eph) @ fst (kem_encapsulate K ek coins) @ as_slice nonce @ ct)"
  by (auto simp: e2e_body_def Let_def split_beta inversions random_nonce_def sender_input_def
      try_into_array_def copy_from_slice_def size_defs)

lemma open_body_eq_Ok:
  "open_body X K H A body (sk_x25519_secret sk) (sk_ml_kem_seed sk) = Ok pt \<longleftrightarrow>
     1132 \<le> length body \<and> (\<exists>ck k. content_key H (recipient_input X K sk body) = Ok ck
       \<and> aead_unbound_key A ck = Some k
       \<and> aead_open A k (mk_array (take 12 (drop 1120 body))) [] (drop 1132 body) = Some pt)"
  by (auto simp: open_body_def Let_def inversions slice_def slice_from_def blob_defs recipient_input_def
      try_into_array_def split: if_splits)

lemma sent_bodies_simps:
  "sent_bodies X K H A {} = {}"
  "sent_bodies X K H A (insert (pt, to, eph, coins, nonce) sent) =
     {body. e2e_body X K H A pt (pk_x25519_public to) (pk_ml_kem_ek to) eph coins (Some nonce) = Ok body}
     \<union> sent_bodies X K H A sent"
  unfolding sent_bodies_def by blast+

lemma sender_inputs_simps:
  "sender_inputs X K {} = {}"
  "sender_inputs X K (insert (pt, to, eph, coins, nonce) sent) =
     {sender_input X K to ek eph coins | ek. kem_ek_new K (pk_ml_kem_ek to) = Some ek}
     \<union> sender_inputs X K sent"
  unfolding sender_inputs_def by blast+

lemma sender_inputsI:
  "(pt, to, eph, coins, nonce) \<in> sent \<Longrightarrow> kem_ek_new K (pk_ml_kem_ek to) = Some ek
   \<Longrightarrow> sender_input X K to ek eph coins \<in> sender_inputs X K sent"
  unfolding sender_inputs_def by blast

lemma split_body:
  "body = take 32 body @ take 1088 (drop 32 body) @ take 12 (drop 1120 body) @ drop 1132 body"
  using append_take_drop_id [of 32 body] append_take_drop_id [of 1088 "drop 32 body"]
    append_take_drop_id [of 12 "drop 1120 body"] by simp

text \<open>
  C7: end-to-end authenticity.  The sender writes to any recipients it likes.  If the holder of a
  generated identity accepts a blob under the sender's verifying key and gets a plaintext, then the
  sender encrypted exactly that plaintext, for exactly this recipient's X25519 key, and the signed part
  of the blob is the body it made then: the server can neither put in content of its own nor pass on to
  this recipient what was written to another.  Relied on: the sender's signing key is unforgeable
  for the bodies it signed, to whomever; different inputs give different content keys, for the inputs
  the sender and this recipient derive them from; and under a content key this recipient derives from one
  of those bodies nothing opens but what the sender sealed under it.
\<close>

theorem e2e_authenticity:
  fixes X :: "'x x25519" and K :: "('dk, 'ek, 'r) ml_kem" and H :: "'prk hkdf" and A :: "'k aead"
  assumes "x25519_correct X"
    and "generate_e2e_keypair X K D rcpt_x (Some rcpt_seed) rcpt_dsa = Ok (rcpt_sk, rcpt_pk)"
    and "dsa_unforgeable D' sender_vk (sent_bodies X K H A sent)"
    and "inj_on (content_key H)
      (sender_inputs X K sent \<union> recipient_input X K rcpt_sk ` sent_bodies X K H A sent)"
    and "\<And>body ck. body \<in> sent_bodies X K H A sent \<Longrightarrow> content_key H (recipient_input X K rcpt_sk body) = Ok ck
      \<Longrightarrow> aead_authentic A ck (sealed_under X K H A sent ck)"
    and "verify_and_decrypt X K H A D' blob (sk_x25519_secret rcpt_sk) (sk_ml_kem_seed rcpt_sk)
      sender_vk = Ok pt"
  shows "\<exists>to eph coins nonce. (pt, to, eph, coins, nonce) \<in> sent
    \<and> pk_x25519_public to = pk_x25519_public rcpt_pk
    \<and> e2e_body X K H A pt (pk_x25519_public to) (pk_ml_kem_ek to) eph coins (Some nonce)
        = Ok (take (length blob - ML_DSA_65_SIG_SIZE) blob)"
proof -
  define body where "body = take (length blob - ML_DSA_65_SIG_SIZE) blob"
  have logged: "body \<in> sent_bodies X K H A sent"
    and opened: "open_body X K H A body (sk_x25519_secret rcpt_sk) (sk_ml_kem_seed rcpt_sk) = Ok pt"
    using assms(3,6)
    by (auto simp: verify_and_decrypt_def inversions Let_def dsa_unforgeable_def slice_def body_def)
  from opened obtain ck k where ck: "content_key H (recipient_input X K rcpt_sk body) = Ok ck"
    and k: "aead_unbound_key A ck = Some k" and len: "1132 \<le> length body"
    and op: "aead_open A k (mk_array (take 12 (drop 1120 body))) [] (drop 1132 body) = Some pt"
    by (auto simp: open_body_eq_Ok)
  have "(mk_array (take 12 (drop 1120 body)), [], pt, drop 1132 body) \<in> sealed_under X K H A sent ck"
    using assms(5) [OF logged ck] k op by (auto simp: aead_authentic_def)
  then obtain to ek eph coins where sent: "(pt, to, eph, coins, mk_array (take 12 (drop 1120 body))) \<in> sent"
    and ek: "kem_ek_new K (pk_ml_kem_ek to) = Some ek"
    and same: "content_key H (sender_input X K to ek eph coins) = Ok ck"
    and seal: "aead_seal A k (mk_array (take 12 (drop 1120 body))) [] pt = Some (drop 1132 body)"
    using k by (auto simp: sealed_under_def)
  have "recipient_input X K rcpt_sk body = sender_input X K to ek eph coins"
    using sender_inputsI [OF sent ek] logged
    by (intro inj_onD [OF assms(4)]) (auto simp: ck same)
  moreover have "x_public X (x_static_from X (sk_x25519_secret rcpt_sk)) = pk_x25519_public rcpt_pk"
    using assms(1,2) by (auto simp: generate_e2e_keypair_def Let_def inversions)
  ultimately have to: "pk_x25519_public to = pk_x25519_public rcpt_pk"
    and eph: "x_public X eph = mk_array (take 32 body)"
    and kct: "fst (kem_encapsulate K ek coins) = take 1088 (drop 32 body)"
    by (auto simp: recipient_input_def sender_input_def Let_def)
  have "e2e_body X K H A pt (pk_x25519_public to) (pk_ml_kem_ek to) eph coins
      (Some (mk_array (take 12 (drop 1120 body)))) = Ok body"
    using ek same k seal len eph kct split_body [of body]
    by (auto simp: e2e_body_eq_Ok)
  then show ?thesis using sent to unfolding body_def by blast
qed

text \<open>
  A sender that wrote to two recipients, and the content keys of the two messages; with the stand-in
  primitives a content key shows the X25519 secret it was derived from.
\<close>

definition demo_content_key :: "u8 \<Rightarrow> key32" where
  "demo_content_key b = mk_array (replicate 16 b @ take 16 (rev (ascii ''chatix-e2e-content-v1'')))"

lemma demo_content_key_inject [simp]: "demo_content_key a = demo_content_key b \<longleftrightarrow> a = b"
  by (simp add: demo_content_key_def mk_array_inject)

lemma derive_demo_content_key [simp]:
  "derive_e2e_key demo_hkdf (replicate 32 b) ks ctx = Ok (demo_content_key b)"
  by (simp add: derive_e2e_key_def demo_hkdf_def demo_content_key_def)

lemma mk_array_replicate [simp]:
  "n = LENGTH('n) \<Longrightarrow> mk_array (replicate n b) = (const_array b :: 'n::len barray)"
  by (simp add: const_array_def)

lemma demo_x25519_simps [simp]:
  "x_diffie_hellman demo_x25519 (const_array a) (const_array b) = const_array (a + b)"
  "x_public demo_x25519 s = s" "x_static_from demo_x25519 k = k"
  by (simp_all add: demo_x25519_def add_bytes_def zip_replicate)

abbreviation demo_secrets :: "u8 \<Rightarrow> E2eSecretKey" where
  "demo_secrets b \<equiv> \<lparr>sk_x25519_secret = const_array b, sk_ml_kem_seed = const_array b,
     sk_dsa_signing_seed = const_array b\<rparr>"

abbreviation demo_bundle :: "u8 \<Rightarrow> E2ePublicKey" where
  "demo_bundle b \<equiv> \<lparr>pk_x25519_public = const_array b,
     pk_ml_kem_ek = mk_array (replicate 32 b @ replicate 1152 0),
     pk_dsa_verifying_key = mk_array (replicate 1920 0 @ replicate 32 b)\<rparr>"

lemma demo_identity_result: "demo_identity b = Ok (demo_secrets b, demo_bundle b)"
  by (simp add: generate_e2e_keypair_result [OF demo_ml_kem_correct demo_ml_dsa_correct])
    (simp add: demo_x25519_def demo_ml_kem_def demo_ml_dsa_def min_def)

definition demo_body :: "u8 \<Rightarrow> u8 \<Rightarrow> u8 \<Rightarrow> gcm_nonce \<Rightarrow> bytes \<Rightarrow> bytes" where
  "demo_body b e c n pt = replicate 32 e @ (replicate 32 c @ replicate 1056 0) @ as_slice n
     @ pt @ demo_tag (demo_content_key (e + b)) n []"

lemma demo_ek [simp]:
  "kem_ek_new demo_ml_kem (mk_array (replicate 32 b @ replicate 1152 0)) = Some (const_array b)"
  "fst (kem_encapsulate demo_ml_kem ek (const_array c)) = replicate 32 c @ replicate 1056 0"
  by (simp_all add: demo_ml_kem_def)

lemma demo_e2e_body:
  "e2e_body demo_x25519 demo_ml_kem demo_hkdf (logged_aead calls) pt (const_array b)
     (mk_array (replicate 32 b @ replicate 1152 0)) (const_array e) (const_array c) (Some n) = Ok body
   \<longleftrightarrow> (demo_content_key (e + b), n, [], pt) \<in> set calls \<and> body = demo_body b e c n pt"
  using e2e_body_eq_Ok [of demo_x25519 demo_ml_kem demo_hkdf "logged_aead calls" pt "demo_bundle b"
      "const_array e" "const_array c" n body]
  by (auto simp: sender_input_def demo_body_def)

lemma demo_recipient_input [simp]:
  "content_key demo_hkdf (recipient_input demo_x25519 demo_ml_kem (demo_secrets r) (demo_body b e c n pt))
     = Ok (demo_content_key (r + e))"
  by (simp add: recipient_input_def demo_body_def Let_def)

abbreviation demo_aead_calls :: "key32 aead" where
  "demo_aead_calls \<equiv> logged_aead [(demo_content_key 5, const_array 5, [], [104, 105]),
     (demo_content_key 13, const_array 7, [], [121, 111])]"

abbreviation demo_sent :: "(key32, key32) sent set" where
  "demo_sent \<equiv> {([104, 105], demo_bundle 2, const_array 3, const_array 4, const_array 5),
     ([121, 111], demo_bundle 9, const_array 4, const_array 6, const_array 7)}"

lemma demo_sent_bodies:
  "sent_bodies demo_x25519 demo_ml_kem demo_hkdf demo_aead_calls demo_sent
     = {demo_body 2 3 4 (const_array 5) [104, 105], demo_body 9 4 6 (const_array 7) [121, 111]}"
  by (auto simp: sent_bodies_simps demo_e2e_body)

lemma inj_on_three: "f x \<noteq> f y \<Longrightarrow> f x \<noteq> f z \<Longrightarrow> f y \<noteq> f z \<Longrightarrow> inj_on f {x, y, z}"
  by (auto simp: inj_on_def)

lemma demo_keys_differ:
  "inj_on (content_key demo_hkdf) (sender_inputs demo_x25519 demo_ml_kem demo_sent
     \<union> recipient_input demo_x25519 demo_ml_kem (demo_secrets 2)
         ` sent_bodies demo_x25519 demo_ml_kem demo_hkdf demo_aead_calls demo_sent)"
proof -
  have "recipient_input demo_x25519 demo_ml_kem (demo_secrets 2) (demo_body 2 3 4 (const_array 5) [104, 105])
      = sender_input demo_x25519 demo_ml_kem (demo_bundle 2) (const_array 2) (const_array 3) (const_array 4)"
    by (simp add: recipient_input_def demo_body_def Let_def sender_input_def demo_ml_kem_def)
  then have "sender_inputs demo_x25519 demo_ml_kem demo_sent
      \<union> recipient_input demo_x25519 demo_ml_kem (demo_secrets 2)
          ` sent_bodies demo_x25519 demo_ml_kem demo_hkdf demo_aead_calls demo_sent
    = {sender_input demo_x25519 demo_ml_kem (demo_bundle 2) (const_array 2) (const_array 3) (const_array 4),
       sender_input demo_x25519 demo_ml_kem (demo_bundle 9) (const_array 9) (const_array 4) (const_array 6),
       recipient_input demo_x25519 demo_ml_kem (demo_secrets 2) (demo_body 9 4 6 (const_array 7) [121, 111])}"
    by (auto simp: demo_sent_bodies sender_inputs_simps)
  moreover have "content_key demo_hkdf (sender_input demo_x25519 demo_ml_kem (demo_bundle b) (const_array b)
      (const_array e) (const_array c)) = Ok (demo_content_key (e + b))" for b e c
    by (simp add: sender_input_def)
  ultimately show ?thesis by (simp only:) (rule inj_on_three; simp)
qed

lemma demo_calls_authentic:
  assumes "body \<in> sent_bodies demo_x25519 demo_ml_kem demo_hkdf demo_aead_calls demo_sent"
    and "content_key demo_hkdf (recipient_input demo_x25519 demo_ml_kem (demo_secrets 2) body) = Ok ck"
  shows "aead_authentic demo_aead_calls ck
    (sealed_under demo_x25519 demo_ml_kem demo_hkdf demo_aead_calls demo_sent ck)"
  using assms unfolding demo_sent_bodies
  by (auto simp: aead_authentic_def sealed_under_def sender_input_def)

theorem e2e_authenticity_witness:
  "demo_identity 2 = Ok (demo_secrets 2, demo_bundle 2) \<and> demo_identity 9 = Ok (demo_secrets 9, demo_bundle 9)
   \<and> (let body = demo_body 2 3 4 (const_array 5) [104, 105]; blob = body @ replicate 3309 0 in
      verify_and_decrypt demo_x25519 demo_ml_kem demo_hkdf demo_aead_calls (once_ml_dsa body) blob
        (const_array 2) (const_array 2) (const_array 0) = Ok [104, 105]
      \<and> (\<exists>to eph coins nonce. ([104, 105], to, eph, coins, nonce) \<in> demo_sent
        \<and> pk_x25519_public to = const_array 2
        \<and> e2e_body demo_x25519 demo_ml_kem demo_hkdf demo_aead_calls [104, 105] (pk_x25519_public to)
            (pk_ml_kem_ek to) eph coins (Some nonce) = Ok body))"
proof -
  define body where "body = demo_body 2 3 4 (const_array 5) [104, 105]"
  have log: "dsa_unforgeable (once_ml_dsa body) (const_array 0)
      (sent_bodies demo_x25519 demo_ml_kem demo_hkdf demo_aead_calls demo_sent)"
    unfolding demo_sent_bodies by (simp add: dsa_unforgeable_def once_ml_dsa_def body_def)
  have len: "length body = 1150" by (simp add: body_def demo_body_def)
  have opens: "open_body demo_x25519 demo_ml_kem demo_hkdf demo_aead_calls body (const_array 2) (const_array 2)
      = Ok [104, 105]"
    using open_body_eq_Ok [of demo_x25519 demo_ml_kem demo_hkdf demo_aead_calls body "demo_secrets 2" "[104, 105]"]
    by (simp add: body_def) (simp add: demo_body_def)
  have accepted: "verify_and_decrypt demo_x25519 demo_ml_kem demo_hkdf demo_aead_calls (once_ml_dsa body)
      (body @ replicate 3309 0) (sk_x25519_secret (demo_secrets 2)) (sk_ml_kem_seed (demo_secrets 2))
      (const_array 0) = Ok [104, 105]"
    using opens len by (simp add: verify_and_decrypt_def slice_def slice_from_def blob_defs Let_def
        try_into_array_def once_ml_dsa_def)
  have "\<exists>to eph coins nonce. ([104, 105], to, eph, coins, nonce) \<in> demo_sent
    \<and> pk_x25519_public to = pk_x25519_public (demo_bundle 2)
    \<and> e2e_body demo_x25519 demo_ml_kem demo_hkdf demo_aead_calls [104, 105] (pk_x25519_public to)
        (pk_ml_kem_ek to) eph coins (Some nonce)
      = Ok (take (length (body @ replicate 3309 0) - ML_DSA_65_SIG_SIZE) (body @ replicate 3309 0))"
    by (rule e2e_authenticity [OF demo_x25519_correct demo_identity_result log demo_keys_differ
          demo_calls_authentic accepted])
  moreover have "take (length (body @ replicate 3309 0) - ML_DSA_65_SIG_SIZE) (body @ replicate 3309 0) = body"
    by (simp add: size_defs)
  ultimately show ?thesis
    using accepted unfolding Let_def body_def [symmetric]
    by (simp only: demo_identity_result E2ePublicKey.simps E2eSecretKey.simps simp_thms)
qed

end
