(* ===== verification/Safety_Number.thy ===== *)
theory Safety_Number
  imports Crypto_Lib E2e_Key_Payloads
begin

text \<open>
  \<open>src/src/crypto/safety_number.rs\<close>: iterated fingerprints of identity keys, the sixty-digit number
  two users compare, and the check of a fetched key against a pinned one.
\<close>

definition FINGERPRINT_ITERATIONS :: nat where "FINGERPRINT_ITERATIONS = 5200"

definition FINGERPRINT_LEN :: nat where "FINGERPRINT_LEN = 32"

definition DIGIT_SOURCE_LEN :: nat where "DIGIT_SOURCE_LEN = 30"

definition serialize_public_key :: "E2ePublicKey \<Rightarrow> bytes" where
  "serialize_public_key public_key =
     as_slice (pk_x25519_public public_key) @ as_slice (pk_ml_kem_ek public_key)
       @ as_slice (pk_dsa_verifying_key public_key)"

text \<open>One round of the loop, and the loop as a recursion over its remaining rounds.\<close>

definition fingerprint_round :: "sha256 \<Rightarrow> str \<Rightarrow> bytes \<Rightarrow> key32 \<Rightarrow> key32" where
  "fingerprint_round sha identifier key_bytes digest =
     (let hasher = Sha256_new;
          hasher = Sha256_update hasher (as_slice digest);
          hasher = Sha256_update hasher (as_bytes identifier);
          hasher = Sha256_update hasher key_bytes in
      Sha256_finalize sha hasher)"

primrec fingerprint_rounds :: "nat \<Rightarrow> sha256 \<Rightarrow> str \<Rightarrow> bytes \<Rightarrow> key32 \<Rightarrow> key32" where
  "fingerprint_rounds 0 sha identifier key_bytes digest = digest"
| "fingerprint_rounds (Suc n) sha identifier key_bytes digest =
     fingerprint_rounds n sha identifier key_bytes
       (fingerprint_round sha identifier key_bytes digest)"

definition initial_digest :: "sha256 \<Rightarrow> str \<Rightarrow> bytes \<Rightarrow> key32" where
  "initial_digest sha identifier key_bytes =
     (let hasher = Sha256_new;
          hasher = Sha256_update hasher (as_bytes identifier);
          hasher = Sha256_update hasher key_bytes in
      Sha256_finalize sha hasher)"

definition compute_fingerprint :: "sha256 \<Rightarrow> str \<Rightarrow> E2ePublicKey \<Rightarrow> key32" where
  "compute_fingerprint sha identifier public_key =
     (let key_bytes = serialize_public_key public_key;
          digest = initial_digest sha identifier key_bytes in
      fingerprint_rounds FINGERPRINT_ITERATIONS sha identifier key_bytes digest)"

text \<open>\<open>slice.chunks(n)\<close>: pieces of \<open>n\<close> elements, the last one possibly shorter.\<close>

fun chunks :: "nat \<Rightarrow> 'a list \<Rightarrow> 'a list list" where
  "chunks n xs = (if n = 0 \<or> xs = [] then [] else take n xs # chunks n (drop n xs))"

declare chunks.simps [simp del]

text \<open>
  The closure of the iterator: \<open>buf[3..].copy_from_slice(chunk)\<close> needs a chunk of five bytes.
\<close>

definition digit_group :: "bytes \<Rightarrow> (string, 'e) outcome" where
  "digit_group chunk =
     and_then (copy_from_slice chunk) (\<lambda>low :: 5 barray.
     let buf = [0, 0, 0] @ as_slice low;
         val = u64_from_be_bytes buf mod 100000 in
     Ok (format_05 (unat val)))"

primrec collect :: "('a, 'e) outcome list \<Rightarrow> ('a list, 'e) outcome" where
  "collect [] = Ok []"
| "collect (m # ms) = and_then m (\<lambda>x. and_then (collect ms) (\<lambda>xs. Ok (x # xs)))"

definition digit_groups :: "key32 \<Rightarrow> (string list, 'e) outcome" where
  "digit_groups fingerprint =
     and_then (slice (as_slice fingerprint) 0 DIGIT_SOURCE_LEN) (\<lambda>source.
     collect (map digit_group (chunks 5 source)))"

primrec join :: "string \<Rightarrow> string list \<Rightarrow> string" where
  "join sep [] = []"
| "join sep (g # gs) = (if gs = [] then g else g @ sep @ join sep gs)"

definition safety_number ::
    "sha256 \<Rightarrow> str \<Rightarrow> E2ePublicKey \<Rightarrow> str \<Rightarrow> E2ePublicKey \<Rightarrow> string presult" where
  "safety_number sha local_id local_key remote_id remote_key =
     (let local_fingerprint = compute_fingerprint sha local_id local_key;
          remote_fingerprint = compute_fingerprint sha remote_id remote_key;
          (first, second) = (if local_id \<le> remote_id
            then (local_fingerprint, remote_fingerprint)
            else (remote_fingerprint, local_fingerprint)) in
      and_then (digit_groups first) (\<lambda>groups.
      and_then (digit_groups second) (\<lambda>more_groups.
      Ok (join '' '' (groups @ more_groups)))))"

definition verify_key_unchanged :: "str \<Rightarrow> E2ePublicKey \<Rightarrow> E2ePublicKey \<Rightarrow> unit presult" where
  "verify_key_unchanged identifier pinned fetched =
     (if pinned = fetched then Ok () else Err (IdentityKeyChanged identifier))"

section \<open>Digits\<close>

text \<open>The reading of the documentation: five bytes as a 40-bit number, modulo 100000.\<close>

definition group_digits :: "bytes \<Rightarrow> nat \<Rightarrow> string" where
  "group_digits fingerprint i = format_05 (be_nat (take 5 (drop (5 * i) fingerprint)) mod 100000)"

lemma fingerprint_size: "length (as_slice (compute_fingerprint sha i k)) = FINGERPRINT_LEN"
  by (simp add: FINGERPRINT_LEN_def)

lemma be_nat_zero_Cons: "be_nat (0 # bs) = be_nat bs"
  by (simp add: be_nat_def)

lemma digit_group_result:
  assumes "length chunk = 5"
  shows "digit_group chunk = Ok (format_05 (be_nat chunk mod 100000))"
proof -
  have "unat (u64_from_be_bytes ([0, 0, 0] @ chunk)) = be_nat chunk"
    using assms by (simp add: unat_u64_from_be be_nat_zero_Cons)
  then have "unat (u64_from_be_bytes ([0, 0, 0] @ chunk) mod 100000) = be_nat chunk mod 100000"
    by (simp only: unat_mod) simp
  then show ?thesis
    using assms by (simp add: digit_group_def copy_from_slice_def Let_def)
qed

lemma chunks_take:
  "0 < n \<Longrightarrow> length xs = n * m \<Longrightarrow> chunks n xs = map (\<lambda>i. take n (drop (n * i) xs)) [0..<m]"
proof (induction m arbitrary: xs)
  case 0
  then show ?case by (simp add: chunks.simps)
next
  case (Suc m)
  have "chunks n (drop n xs) = map (\<lambda>i. take n (drop (n * i) (drop n xs))) [0..<m]"
    using Suc.prems by (intro Suc.IH) auto
  moreover have "xs \<noteq> []" using Suc.prems by auto
  ultimately show ?case
    using Suc.prems
    by (subst chunks.simps) (simp add: map_upt_Suc add.commute del: upt_Suc)
qed

lemma collect_map_Ok: "(\<And>x. x \<in> set xs \<Longrightarrow> f x = Ok (g x)) \<Longrightarrow> collect (map f xs) = Ok (map g xs)"
  by (induction xs) auto

text \<open>
  C28: the digits are what the documentation says.  For every fingerprint the formatting code (through
  a zero-padded eight-byte buffer and a \<open>u64\<close>) succeeds with six groups, group \<open>i\<close> being bytes
  \<open>5i\<close> to \<open>5i+4\<close> read as a big-endian 40-bit number modulo 100000, in five digits.
\<close>

theorem digit_groups_spec:
  "digit_groups fingerprint = Ok (map (group_digits (as_slice fingerprint)) [0..<6])"
proof -
  let ?source = "take 30 (as_slice fingerprint)"
  have "chunks 5 ?source = map (\<lambda>i. take 5 (drop (5 * i) ?source)) [0..<6]"
    by (rule chunks_take) simp_all
  moreover have "take 5 (drop (5 * i) ?source) = take 5 (drop (5 * i) (as_slice fingerprint))"
    if "i < 6" for i
    using that by (simp add: drop_take min_def)
  ultimately have "chunks 5 ?source = map (\<lambda>i. take 5 (drop (5 * i) (as_slice fingerprint))) [0..<6]"
    by simp
  moreover have "digit_group (take 5 (drop (5 * i) (as_slice fingerprint)))
      = Ok (group_digits (as_slice fingerprint) i)" if "i < 6" for i
    using that by (subst digit_group_result) (simp_all add: group_digits_def)
  then have "collect (map (\<lambda>i. digit_group (take 5 (drop (5 * i) (as_slice fingerprint)))) [0..<6])
      = Ok (map (group_digits (as_slice fingerprint)) [0..<6])"
    by (intro collect_map_Ok) simp
  ultimately show ?thesis
    by (simp add: digit_groups_def slice_def DIGIT_SOURCE_LEN_def comp_def)
qed

section \<open>Shape and symmetry\<close>

lemma group_digits_shape:
  "length (group_digits fp i) = 5" "list_all is_ascii_digit (group_digits fp i)"
  by (auto simp: group_digits_def length_format_05 list_all_iff dest: format_05_digits)

lemma groups_shape:
  "list_all (\<lambda>g. length g = 5 \<and> list_all is_ascii_digit g)
     (map (group_digits a) is @ map (group_digits b) js)"
  by (simp add: list.pred_map list_all_append comp_def group_digits_shape) (simp add: list_all_iff)

lemma length_join:
  "gs \<noteq> [] \<Longrightarrow> list_all (\<lambda>g. length g = n) gs \<Longrightarrow>
     length (join sep gs) = length gs * n + (length gs - 1) * length sep"
proof (induction gs)
  case Nil
  then show ?case by simp
next
  case (Cons g gs)
  then show ?case by (cases gs) auto
qed

lemma safety_number_result:
  "safety_number sha local_id local_key remote_id remote_key = Ok (join '' ''
     (map (group_digits (as_slice (if local_id \<le> remote_id
        then compute_fingerprint sha local_id local_key
        else compute_fingerprint sha remote_id remote_key))) [0..<6]
    @ map (group_digits (as_slice (if local_id \<le> remote_id
        then compute_fingerprint sha remote_id remote_key
        else compute_fingerprint sha local_id local_key))) [0..<6]))"
  by (simp add: safety_number_def Let_def digit_groups_spec)

text \<open>
  A safety number always exists and is twelve groups of five decimal digits joined by single
  spaces: 71 characters, 60 of them digits.
\<close>

theorem safety_number_shape:
  "\<exists>groups. safety_number sha local_id local_key remote_id remote_key = Ok (join '' '' groups)
     \<and> length groups = 12
     \<and> list_all (\<lambda>g. length g = 5 \<and> list_all is_ascii_digit g) groups
     \<and> length (join '' '' groups) = 71"
proof -
  obtain groups where "safety_number sha local_id local_key remote_id remote_key
      = Ok (join '' '' groups)" and len: "length groups = 12"
    and all: "list_all (\<lambda>g. length g = 5 \<and> list_all is_ascii_digit g) groups"
    by (rule that [OF safety_number_result]) (simp, rule groups_shape)
  moreover have "list_all (\<lambda>g. length g = 5) groups"
    using all by (simp add: list_all_iff)
  then have "length (join '' '' groups) = 71"
    using length_join [of groups 5 "'' ''"] len by fastforce
  ultimately show ?thesis by blast
qed

text \<open>Groups of one length can be read back from the joined string.\<close>

lemma join_inject:
  "length gs = length hs \<Longrightarrow> list_all (\<lambda>g. length g = n) (gs @ hs) \<Longrightarrow> join sep gs = join sep hs \<longleftrightarrow> gs = hs"
proof (induction gs hs rule: list_induct2)
  case (Cons g gs h hs)
  then show ?case by (cases gs; cases hs) auto
qed simp

definition shown_digits :: "key32 \<Rightarrow> string list" where
  "shown_digits fingerprint = map (group_digits (as_slice fingerprint)) [0..<6]"

lemma shown_digits_shape: "length (shown_digits f) = 6" "list_all (\<lambda>g. length g = 5) (shown_digits f)"
  by (simp_all add: shown_digits_def list_all_iff group_digits_shape)

lemma join_shown_inject:
  "join sep (shown_digits a @ shown_digits b) = join sep (shown_digits a' @ shown_digits b')
     \<longleftrightarrow> shown_digits a = shown_digits a' \<and> shown_digits b = shown_digits b'"
proof -
  have "join sep (shown_digits a @ shown_digits b) = join sep (shown_digits a' @ shown_digits b')
      \<longleftrightarrow> shown_digits a @ shown_digits b = shown_digits a' @ shown_digits b'"
    by (rule join_inject [of _ _ 5]) (simp_all add: shown_digits_shape)
  then show ?thesis by (simp add: shown_digits_shape)
qed

lemma safety_number_shown:
  "safety_number sha l lk r rk = Ok (join '' '' (if l \<le> r
     then shown_digits (compute_fingerprint sha l lk) @ shown_digits (compute_fingerprint sha r rk)
     else shown_digits (compute_fingerprint sha r rk) @ shown_digits (compute_fingerprint sha l lk)))"
  by (simp add: safety_number_result shown_digits_def)

text \<open>
  C26: what comparing safety numbers tells.  Two users with the same pair of identifiers, in the same
  order, see the same number for two pairs of keys exactly when the sixty digits agree fingerprint by
  fingerprint: a substituted key goes unnoticed only if its fingerprint shows the same thirty digits.
\<close>

theorem safety_number_equal_iff:
  "safety_number sha local_id local_key remote_id remote_key
     = safety_number sha local_id local_key' remote_id remote_key'
   \<longleftrightarrow> shown_digits (compute_fingerprint sha local_id local_key)
         = shown_digits (compute_fingerprint sha local_id local_key')
     \<and> shown_digits (compute_fingerprint sha remote_id remote_key)
         = shown_digits (compute_fingerprint sha remote_id remote_key')"
  by (auto simp: safety_number_shown join_shown_inject)

text \<open>
  C27: when both users see the same number.  Swapping the two parties gives the same safety number
  whenever their identifiers differ, because the fingerprints are ordered by identifier and not by
  who asks; with one identifier for both it does so only if the two fingerprints show the same
  digits, because then each side puts its own first.
\<close>

theorem safety_number_symmetric:
  "safety_number sha local_id local_key remote_id remote_key
     = safety_number sha remote_id remote_key local_id local_key
   \<longleftrightarrow> (if local_id = remote_id
      then shown_digits (compute_fingerprint sha local_id local_key)
         = shown_digits (compute_fingerprint sha remote_id remote_key)
      else True)"
  by (cases local_id remote_id rule: linorder_cases) (auto simp: safety_number_shown join_shown_inject)

definition demo_key :: "u8 \<Rightarrow> E2ePublicKey" where
  "demo_key b = \<lparr>pk_x25519_public = const_array b, pk_ml_kem_ek = const_array b,
     pk_dsa_verifying_key = const_array b\<rparr>"

text \<open>A digest that looks at the last byte only.\<close>

definition last_byte_sha :: sha256 where
  "last_byte_sha bs = const_array (last (0 # bs))"

section \<open>Fingerprints bind identifier and key\<close>

lemma serialize_public_key_inject [simp]:
  "serialize_public_key k = serialize_public_key k' \<longleftrightarrow> k = k'"
  by (cases k; cases k') (simp add: serialize_public_key_def)

lemma length_serialize_public_key [simp]: "length (serialize_public_key k) = 3168"
  by (simp add: serialize_public_key_def)

text \<open>
  The hash input of a round, given the digest so far.  The key has a fixed length, so the
  identifier before it is delimited although it has no length prefix.
\<close>

definition round_input :: "key32 \<Rightarrow> str \<Rightarrow> E2ePublicKey \<Rightarrow> bytes" where
  "round_input digest identifier key =
     as_slice digest @ as_bytes identifier @ serialize_public_key key"

lemma round_input_inject [simp]:
  "round_input d i k = round_input d' i' k' \<longleftrightarrow> d = d' \<and> i = i' \<and> k = k'"
  by (auto simp: round_input_def)

lemma fingerprint_rounds_last:
  "fingerprint_rounds (Suc n) sha i kb d
     = fingerprint_round sha i kb (fingerprint_rounds n sha i kb d)"
  by (induction n arbitrary: d) simp_all

text \<open>The input of the last round of a fingerprint.\<close>

definition final_input :: "sha256 \<Rightarrow> str \<Rightarrow> E2ePublicKey \<Rightarrow> bytes" where
  "final_input sha identifier key =
     round_input (fingerprint_rounds (FINGERPRINT_ITERATIONS - 1) sha identifier
       (serialize_public_key key) (initial_digest sha identifier (serialize_public_key key)))
       identifier key"

lemma compute_fingerprint_final: "compute_fingerprint sha i k = sha (final_input sha i k)"
proof -
  have "FINGERPRINT_ITERATIONS = Suc (FINGERPRINT_ITERATIONS - 1)"
    by (simp add: FINGERPRINT_ITERATIONS_def)
  then have "compute_fingerprint sha i k = fingerprint_round sha i (serialize_public_key k)
      (fingerprint_rounds (FINGERPRINT_ITERATIONS - 1) sha i (serialize_public_key k)
        (initial_digest sha i (serialize_public_key k)))"
    unfolding compute_fingerprint_def Let_def by (metis fingerprint_rounds_last)
  then show ?thesis
    by (simp add: fingerprint_round_def Let_def hasher_defs final_input_def round_input_def)
qed

text \<open>
  C25: a fingerprint determines the identity.  Unless the hash collides on the last inputs of the two
  computations, equal fingerprints come from the same identifier and the same X25519, ML-KEM and
  ML-DSA keys: substituting any one of the three keys changes the fingerprint.
\<close>

theorem fingerprint_binds_identity:
  assumes "sha_collision_free sha {final_input sha i k, final_input sha i' k'}"
  shows "compute_fingerprint sha i k = compute_fingerprint sha i' k' \<longleftrightarrow> i = i' \<and> k = k'"
proof -
  have "sha (final_input sha i k) = sha (final_input sha i' k')
      \<longleftrightarrow> final_input sha i k = final_input sha i' k'"
    by (intro inj_on_eq_iff [OF assms [unfolded sha_collision_free_def]]) simp_all
  then show ?thesis
    unfolding compute_fingerprint_final by (auto simp: final_input_def)
qed

lemma last_final_input: "last (0 # final_input sha i (demo_key b)) = b"
  by (simp add: final_input_def round_input_def serialize_public_key_def demo_key_def last_append)

theorem fingerprint_binds_identity_witness:
  "compute_fingerprint last_byte_sha (str_lit ''bob'') (demo_key 1)
     \<noteq> compute_fingerprint last_byte_sha (str_lit ''bob'') (demo_key 2)"
proof -
  have keys: "demo_key 1 \<noteq> demo_key 2"
    by (simp add: demo_key_def flip: as_slice_inject_iff)
  have "sha_collision_free last_byte_sha {final_input last_byte_sha (str_lit ''bob'') (demo_key 1),
      final_input last_byte_sha (str_lit ''bob'') (demo_key 2)}"
    unfolding sha_collision_free_def inj_on_def last_byte_sha_def
    by (auto simp: last_final_input simp flip: as_slice_inject_iff simp del: last.simps)
  from fingerprint_binds_identity [OF this] keys show ?thesis by simp
qed

text \<open>
  With one identifier for two different keys the order is not symmetric: each side puts its own
  fingerprint first.
\<close>

lemma last_byte_fingerprint: "compute_fingerprint last_byte_sha i (demo_key b) = const_array b"
  unfolding compute_fingerprint_final last_byte_sha_def by (simp only: last_final_input)

lemma first_group: "gs \<noteq> [] \<Longrightarrow> length (hd gs) = 5 \<Longrightarrow> take 5 (join sep gs) = hd gs"
  by (cases gs) auto

lemma five_copies: "replicate 5 b = [b, b, b, b, b]"
  by (simp add: eval_nat_numeral)

lemma demo_first_group:
  "group_digits (replicate 32 b) 0 = format_05 (be_nat [b, b, b, b, b] mod 100000)"
  by (simp add: group_digits_def five_copies)

lemma last_format_05: "last (format_05 n) = digit_char (n mod 10)"
  by (simp add: format_05_def show_nat.simps [of n])

lemma demo_residues:
  "be_nat [1, 1, 1, 1, 1] mod 100000 = 10305" "be_nat [2, 2, 2, 2, 2] mod 100000 = 20610"
  by (simp_all add: be_nat_def)

theorem safety_number_same_identifier:
  "safety_number last_byte_sha i (demo_key 1) i (demo_key 2)
     \<noteq> safety_number last_byte_sha i (demo_key 2) i (demo_key 1)"
proof
  let ?g = "\<lambda>a b. map (group_digits (as_slice (const_array a :: key32))) [0..<6]
      @ map (group_digits (as_slice (const_array b :: key32))) [0..<6]"
  assume "safety_number last_byte_sha i (demo_key 1) i (demo_key 2)
      = safety_number last_byte_sha i (demo_key 2) i (demo_key 1)"
  then have eq: "join '' '' (?g 1 2) = join '' '' (?g 2 1)"
    by (simp add: safety_number_result last_byte_fingerprint)
  have "take 5 (join '' '' (?g a b)) = group_digits (as_slice (const_array a :: key32)) 0" for a b
    by (subst first_group) (simp_all add: upt_conv_Cons group_digits_shape)
  with arg_cong [OF eq, of "take 5"] have "last (format_05 10305) = last (format_05 20610)"
    by (simp add: demo_first_group demo_residues)
  then show False
    by (simp add: last_format_05 digit_char_inject)
qed

text \<open>
  The pin check accepts exactly the pinned bundle and otherwise reports the identifier whose key
  changed, whichever of the three keys differs.
\<close>

theorem verify_key_unchanged_iff:
  "verify_key_unchanged identifier pinned fetched =
     (if pk_x25519_public pinned = pk_x25519_public fetched
         \<and> pk_ml_kem_ek pinned = pk_ml_kem_ek fetched
         \<and> pk_dsa_verifying_key pinned = pk_dsa_verifying_key fetched
      then Ok () else Err (IdentityKeyChanged identifier))"
  by (cases pinned; cases fetched) (auto simp: verify_key_unchanged_def)

end
