(* ===== verification/Prefix_Free.thy ===== *)
theory Prefix_Free
  imports Packet_Payloads
begin

text \<open>
  Encodings are self-delimiting: no encoding of a payload is a proper prefix of another encoding of the
  same kind of payload.  So a decoder refuses every truncation and every extension of what it accepts:
  a frame cut short or padded is never taken for another payload.
\<close>

section \<open>The interfaces\<close>

locale self_delimiting = wire_format enc dec
  for enc :: "'a \<Rightarrow> bytes io_result" and dec :: "bytes \<Rightarrow> 'a io_result" +
  assumes prefix_free: "enc x = Ok a \<Longrightarrow> enc y = Ok (a @ b) \<Longrightarrow> b = []"
begin

lemma rejects_extension:
  assumes "dec bs = Ok x" "b \<noteq> []"
  shows "\<exists>e. dec (bs @ b) = Err e"
  using assms prefix_free [of x bs _ b] dec_iff_enc dec_rejects_iff by blast

lemma rejects_truncation:
  assumes "dec bs = Ok x" "n < length bs"
  shows "\<exists>e. dec (take n bs) = Err e"
proof -
  have "enc y \<noteq> Ok (take n bs)" for y
    using prefix_free [of y "take n bs" x "drop n bs"] assms enc_dec by auto
  then show ?thesis by (simp add: dec_rejects_iff)
qed

end

text \<open>A payload whose encodings all have the same length.\<close>

locale fixed_size = wire_format enc dec
  for enc :: "'a \<Rightarrow> bytes io_result" and dec :: "bytes \<Rightarrow> 'a io_result" +
  fixes size :: nat
  assumes enc_size: "enc x = Ok bs \<Longrightarrow> length bs = size"
begin

lemma rejects_size:
  assumes "length bs \<noteq> size"
  shows "\<exists>e. dec bs = Err e"
  using assms enc_size dec_rejects_iff by blast

end

sublocale fixed_size \<subseteq> self_delimiting
proof
  fix x a y b
  assume "enc x = Ok a" "enc y = Ok (a @ b)"
  then have "length a = size" "length (a @ b) = size"
    using enc_size by blast+
  then show "b = []" by simp
qed

text \<open>The two guarantees, as predicates on an encoder and a decoder.\<close>

definition canonical :: "('a \<Rightarrow> bytes io_result) \<Rightarrow> (bytes \<Rightarrow> 'a io_result) \<Rightarrow> bool" where
  "canonical enc dec \<longleftrightarrow>
     (\<forall>bs x. (dec bs = Ok x \<longleftrightarrow> enc x = Ok bs) \<and> dec bs \<noteq> Panic \<and> enc x \<noteq> Panic)"

primrec is_err :: "('a, 'e) outcome \<Rightarrow> bool" where
  "is_err (Ok x) \<longleftrightarrow> False"
| "is_err (Err e) \<longleftrightarrow> True"
| "is_err Panic \<longleftrightarrow> False"

lemma is_err_iff: "is_err m \<longleftrightarrow> (\<exists>e. m = Err e)"
  by (cases m) auto

definition delimits :: "(bytes \<Rightarrow> 'a io_result) \<Rightarrow> bool" where
  "delimits dec \<longleftrightarrow> (\<forall>bs x. dec bs = Ok x \<longrightarrow>
     (\<forall>b. b \<noteq> [] \<longrightarrow> is_err (dec (bs @ b))) \<and> (\<forall>n < length bs. is_err (dec (take n bs))))"

context wire_format
begin

lemma is_canonical: "canonical enc dec"
  by (simp add: canonical_def dec_iff_enc dec_not_Panic enc_not_Panic)

end

context self_delimiting
begin

lemma decoder_delimits: "delimits dec"
  using rejects_extension rejects_truncation by (simp add: delimits_def is_err_iff)

end

section \<open>Payloads of a fixed size\<close>

interpretation client_finish_fixed: fixed_size "\<lambda>p. Ok (ClientFinishPayload_encode p)"
  ClientFinishPayload_decode 1
  by unfold_locales (auto simp: ClientFinishPayload_encode_def size_defs)

interpretation server_accept_fixed: fixed_size "\<lambda>p. Ok (ServerAcceptPayload_encode p)"
  ServerAcceptPayload_decode 1
  by unfold_locales (auto simp: ServerAcceptPayload_encode_def size_defs)

interpretation auth_challenge_fixed: fixed_size "\<lambda>p. Ok (AuthChallengePayload_encode p)"
  AuthChallengePayload_decode 32
  by unfold_locales (auto simp: AuthChallengePayload_encode_def size_defs)

interpretation auth_accept_fixed: fixed_size "\<lambda>p. Ok (AuthAcceptPayload_encode p)"
  AuthAcceptPayload_decode 0
  by unfold_locales (auto simp: AuthAcceptPayload_encode_def size_defs)

interpretation auth_reject_fixed: fixed_size "\<lambda>p. Ok (AuthRejectPayload_encode p)"
  AuthRejectPayload_decode 0
  by unfold_locales (auto simp: AuthRejectPayload_encode_def size_defs)

interpretation ping_fixed: fixed_size "\<lambda>p. Ok (PingPayload_encode p)"
  PingPayload_decode 8
  by unfold_locales (auto simp: PingPayload_encode_def size_defs)

interpretation pong_fixed: fixed_size "\<lambda>p. Ok (PongPayload_encode p)"
  PongPayload_decode 8
  by unfold_locales (auto simp: PongPayload_encode_def size_defs)

interpretation query_account_status_fixed: fixed_size "\<lambda>p. Ok (QueryAccountStatusPayload_encode p)"
  QueryAccountStatusPayload_decode 0
  by unfold_locales (auto simp: QueryAccountStatusPayload_encode_def size_defs)

interpretation friend_request_result_fixed: fixed_size "\<lambda>p. Ok (FriendRequestResultPayload_encode p)"
  FriendRequestResultPayload_decode 1
  by unfold_locales (auto simp: FriendRequestResultPayload_encode_def size_defs)

interpretation remove_friend_result_fixed: fixed_size "\<lambda>p. Ok (RemoveFriendResultPayload_encode p)"
  RemoveFriendResultPayload_decode 1
  by unfold_locales (auto simp: RemoveFriendResultPayload_encode_def size_defs)

interpretation publish_e2e_key_fixed: fixed_size "\<lambda>p. Ok (PublishE2eKeyPayload_encode p)"
  PublishE2eKeyPayload_decode E2E_PUBLIC_KEY_SIZE
  by unfold_locales (auto simp: PublishE2eKeyPayload_encode_def size_defs)

interpretation fetch_queued_fixed: fixed_size "\<lambda>p. Ok (FetchQueuedMessagesPayload_encode p)"
  FetchQueuedMessagesPayload_decode 0
  by unfold_locales (auto simp: FetchQueuedMessagesPayload_encode_def size_defs)

interpretation ack_queued_fixed: fixed_size "\<lambda>p. Ok (AckQueuedMessagePayload_encode p)"
  AckQueuedMessagePayload_decode 8
  by unfold_locales (auto simp: AckQueuedMessagePayload_encode_def size_defs)

interpretation message_status_update_fixed: fixed_size "\<lambda>p. Ok (MessageStatusUpdatePayload_encode p)"
  MessageStatusUpdatePayload_decode 9
  by unfold_locales (auto simp: MessageStatusUpdatePayload_encode_def size_defs)

interpretation delivery_receipt_fixed: fixed_size "\<lambda>p. Ok (DeliveryReceiptPayload_encode p)"
  DeliveryReceiptPayload_decode 8
  by unfold_locales (auto simp: DeliveryReceiptPayload_encode_def size_defs)

section \<open>Payloads with variable fields\<close>

text \<open>Two encodings that agree up to a sized field agree on the field.\<close>

lemma sized_cancel:
  "encode_sized_string s = Ok d \<Longrightarrow> encode_sized_string t = Ok e \<Longrightarrow> d @ x = e @ y \<longleftrightarrow> d = e \<and> x = y"
  "encode_sized_string s = Ok d \<Longrightarrow> encode_sized_string t = Ok e \<Longrightarrow> d @ x = e \<longleftrightarrow> d = e \<and> x = []"
  "encode_sized_bytes b = Ok d \<Longrightarrow> encode_sized_bytes c = Ok e \<Longrightarrow> d @ x = e @ y \<longleftrightarrow> d = e \<and> x = y"
  "encode_sized_bytes b = Ok d \<Longrightarrow> encode_sized_bytes c = Ok e \<Longrightarrow> d @ x = e \<longleftrightarrow> d = e \<and> x = []"
  using sized_string_prefix_free [of s d t e x y] sized_string_prefix_free [of s d t e x "[]"]
    sized_bytes_prefix_free [of b d c e x y] sized_bytes_prefix_free [of b d c e x "[]"]
  by auto

lemma sized_extension:
  "encode_sized_string s = Ok a \<Longrightarrow> encode_sized_string t = Ok (a @ b) \<Longrightarrow> b = []"
  "encode_sized_bytes c = Ok a \<Longrightarrow> encode_sized_bytes d = Ok (a @ b) \<Longrightarrow> b = []"
  using sized_cancel(2) [of s a t "a @ b" b] sized_cancel(4) [of c a d "a @ b" b] by auto

lemma same_length_extension: "length p = length q \<Longrightarrow> p = q @ b \<longleftrightarrow> p = q \<and> b = []"
  by auto

lemma field_extension:
  "as_slice x = as_slice y @ b \<longleftrightarrow> x = y \<and> b = []"
  "u64_to_be_bytes n = u64_to_be_bytes m @ b \<longleftrightarrow> n = m \<and> b = []"
  "encode_e2e_public_key k [] = encode_e2e_public_key l [] @ b \<longleftrightarrow> encode_e2e_public_key k [] = encode_e2e_public_key l [] \<and> b = []"
  by (simp_all add: same_length_extension)

interpretation client_hello_delimited: self_delimiting ClientHelloPayload_encode ClientHelloPayload_decode
  by unfold_locales (auto simp: ClientHelloPayload_encode_def wire sized_cancel field_extension dest: sized_extension)

interpretation server_hello_delimited: self_delimiting ServerHelloPayload_encode ServerHelloPayload_decode
  by unfold_locales (auto simp: ServerHelloPayload_encode_def wire sized_cancel field_extension dest: sized_extension)

interpretation auth_response_delimited: self_delimiting AuthResponsePayload_encode AuthResponsePayload_decode
  by unfold_locales (auto simp: AuthResponsePayload_encode_def wire sized_cancel field_extension dest: sized_extension)

interpretation register_device_delimited: self_delimiting RegisterDevicePayload_encode RegisterDevicePayload_decode
  by unfold_locales (auto simp: RegisterDevicePayload_encode_def wire sized_cancel field_extension dest: sized_extension)

interpretation register_response_delimited: self_delimiting RegisterResponsePayload_encode RegisterResponsePayload_decode
  by unfold_locales (auto simp: RegisterResponsePayload_encode_def wire sized_cancel field_extension dest: sized_extension)

interpretation account_status_response_delimited: self_delimiting AccountStatusResponsePayload_encode AccountStatusResponsePayload_decode
  by unfold_locales (auto simp: AccountStatusResponsePayload_encode_def wire sized_cancel field_extension dest: sized_extension)

interpretation send_friend_request_delimited: self_delimiting SendFriendRequestPayload_encode SendFriendRequestPayload_decode
  by unfold_locales (auto simp: SendFriendRequestPayload_encode_def wire sized_cancel field_extension dest: sized_extension)

interpretation incoming_friend_request_delimited: self_delimiting IncomingFriendRequestPayload_encode IncomingFriendRequestPayload_decode
  by unfold_locales (auto simp: IncomingFriendRequestPayload_encode_def wire sized_cancel field_extension dest: sized_extension)

interpretation friend_request_decision_delimited: self_delimiting FriendRequestDecisionPayload_encode FriendRequestDecisionPayload_decode
  by unfold_locales (auto simp: FriendRequestDecisionPayload_encode_def wire sized_cancel field_extension dest: sized_extension)

interpretation remove_friend_delimited: self_delimiting RemoveFriendPayload_encode RemoveFriendPayload_decode
  by unfold_locales (auto simp: RemoveFriendPayload_encode_def wire sized_cancel field_extension dest: sized_extension)

interpretation friend_removed_notification_delimited: self_delimiting FriendRemovedNotificationPayload_encode FriendRemovedNotificationPayload_decode
  by unfold_locales (auto simp: FriendRemovedNotificationPayload_encode_def wire sized_cancel field_extension dest: sized_extension)

interpretation friend_status_update_delimited: self_delimiting FriendStatusUpdatePayload_encode FriendStatusUpdatePayload_decode
  by unfold_locales (auto simp: FriendStatusUpdatePayload_encode_def wire sized_cancel field_extension dest: sized_extension)

interpretation send_typing_indicator_delimited: self_delimiting SendTypingIndicatorPayload_encode SendTypingIndicatorPayload_decode
  by unfold_locales (auto simp: SendTypingIndicatorPayload_encode_def wire sized_cancel field_extension dest: sized_extension)

interpretation publish_e2e_key_result_delimited: self_delimiting PublishE2eKeyResultPayload_encode PublishE2eKeyResultPayload_decode
  by unfold_locales (auto simp: PublishE2eKeyResultPayload_encode_def wire sized_cancel field_extension dest: sized_extension)

interpretation fetch_e2e_key_delimited: self_delimiting FetchE2eKeyPayload_encode FetchE2eKeyPayload_decode
  by unfold_locales (auto simp: FetchE2eKeyPayload_encode_def wire sized_cancel field_extension dest: sized_extension)

interpretation e2e_key_response_delimited: self_delimiting E2eKeyResponsePayload_encode E2eKeyResponsePayload_decode
  by unfold_locales
    (auto simp: E2eKeyResponsePayload_encode_def wire sized_cancel field_extension
      encode_e2e_public_key_append [of _ "_ @ _"] split: option.splits)

interpretation send_message_delimited: self_delimiting SendMessagePayload_encode SendMessagePayload_decode
  by unfold_locales (auto simp: SendMessagePayload_encode_def wire sized_cancel field_extension dest: sized_extension)

interpretation deliver_message_delimited: self_delimiting DeliverMessagePayload_encode DeliverMessagePayload_decode
  by unfold_locales (auto simp: DeliverMessagePayload_encode_def wire sized_cancel field_extension dest: sized_extension)

interpretation queued_delivery_delimited: self_delimiting QueuedMessageDeliveryPayload_encode QueuedMessageDeliveryPayload_decode
  by unfold_locales (auto simp: QueuedMessageDeliveryPayload_encode_def wire sized_cancel field_extension dest: sized_extension)

interpretation error_delimited: self_delimiting ErrorPayload_encode ErrorPayload_decode
  by unfold_locales (auto simp: ErrorPayload_encode_def wire sized_cancel field_extension dest: sized_extension)

interpretation close_delimited: self_delimiting ClosePayload_encode ClosePayload_decode
  by unfold_locales (auto simp: ClosePayload_encode_def wire sized_cancel field_extension dest: sized_extension)

end
