(* ===== verification/Test_Kit.thy ===== *)
theory Test_Kit
  imports Prefix_Free
begin

text \<open>
  What the crate's unit tests are made of.  A test is a computation that panics when an assertion fails
  or an \<open>unwrap\<close> meets an error, and passes when it returns.  The shapes most payload tests share are
  definitions, with the lemmas that make them pass for every payload of a wire format.
\<close>

named_theorems tests \<open>the bodies of the unit tests\<close>

type_synonym test = "unit presult"

definition unwrap :: "('a, 'e) outcome \<Rightarrow> ('a, 'f) outcome" where
  "unwrap m = (case m of Ok x \<Rightarrow> Ok x | Err e \<Rightarrow> Panic | Panic \<Rightarrow> Panic)"

text \<open>\<open>assert!(b)\<close>, \<open>assert!(m.is_ok())\<close>, \<open>assert!(m.is_err())\<close>, \<open>assert_eq!\<close> and \<open>assert_ne!\<close>\<close>

definition assert_true :: "bool \<Rightarrow> test" where
  "assert_true b = (if b then Ok () else Panic)"

definition assert_ok :: "('a, 'e) outcome \<Rightarrow> test" where
  "assert_ok m = (case m of Ok x \<Rightarrow> Ok () | Err e \<Rightarrow> Panic | Panic \<Rightarrow> Panic)"

definition assert_err :: "('a, 'e) outcome \<Rightarrow> test" where
  "assert_err m = (case m of Ok x \<Rightarrow> Panic | Err e \<Rightarrow> Ok () | Panic \<Rightarrow> Panic)"

abbreviation assert_eq :: "'a \<Rightarrow> 'a \<Rightarrow> test" where
  "assert_eq a b \<equiv> assert_true (a = b)"

abbreviation assert_ne :: "'a \<Rightarrow> 'a \<Rightarrow> test" where
  "assert_ne a b \<equiv> assert_true (a \<noteq> b)"

text \<open>\<open>for x in xs { f(x) }\<close>, \<open>bs[i] = v\<close>, \<open>*bs.last_mut().unwrap() = v\<close>\<close>

primrec for_each :: "'a list \<Rightarrow> ('a \<Rightarrow> test) \<Rightarrow> test" where
  "for_each [] f = Ok ()"
| "for_each (x # xs) f = and_then (f x) (\<lambda>_. for_each xs f)"

definition set_index :: "bytes \<Rightarrow> nat \<Rightarrow> u8 \<Rightarrow> (bytes, 'e) outcome" where
  "set_index bs i v = (if i < length bs then Ok (bs[i := v]) else Panic)"

definition set_last :: "bytes \<Rightarrow> u8 \<Rightarrow> (bytes, 'e) outcome" where
  "set_last bs v = (if bs = [] then Panic else Ok (butlast bs @ [v]))"

lemma unwrap_Ok [simp]: "unwrap (Ok x) = Ok x"
  by (simp add: unwrap_def)

lemma assert_simps [simp]:
  "assert_true b = Ok () \<longleftrightarrow> b" "assert_ok m = Ok () \<longleftrightarrow> is_ok m" "assert_err m = Ok () \<longleftrightarrow> is_err m"
  by (simp_all add: assert_true_def assert_ok_def assert_err_def split: outcome.splits)

lemma assert_true_True [simp]: "assert_true True = Ok ()"
  by (simp add: assert_true_def)

lemma and_then_test [simp]: "and_then (m :: test) f = Ok y \<longleftrightarrow> m = Ok () \<and> f () = Ok y"
  by (cases m) auto

declare for_each.simps [simp del]

lemma for_each_passes [simp]: "for_each xs f = Ok () \<longleftrightarrow> list_all (\<lambda>x. f x = Ok ()) xs"
  by (induction xs) (simp_all add: for_each.simps)

text \<open>Strings given as literals encode to their length and their bytes.\<close>

lemma encode_lit:
  "list_all (\<lambda>c. of_char c < (128 :: nat)) cs \<Longrightarrow> length cs \<le> 65535 \<Longrightarrow>
   encode_sized_string (str_lit cs) = Ok (u16_to_be_bytes (of_nat (length cs)) @ ascii cs)"
  by (simp add: encode_sized_string_def as_bytes_str_lit Let_def)

lemma decode_u64_to_be: "decode_u64 (u64_to_be_bytes x) msg = Ok x"
  by (simp add: decode_u64_eq_Ok)

lemma encode_e2e_public_key_not_Nil: "encode_e2e_public_key key out \<noteq> []"
  by (simp add: E2E_PUBLIC_KEY_SIZE_def size_defs flip: length_greater_0_conv)

lemmas reject_steps = ensure_def index_def slice_def slice_from_def set_index_def set_last_def decode_bool_def
  require_fully_consumed_def

text \<open>Decoding a sized string that is given byte by byte.\<close>

lemmas literal_bytes = decode_sized_string_def u16_to_be_bytes_def u16_from_be_bytes_def be_bytes_numeral
  be_nat_def from_utf8_def Let_def checked_add_usize_def usize_limit_def

section \<open>Round trips and rejections\<close>

text \<open>Encode, decode, and compare with the original; append a zero byte to an encoding and decode it.\<close>

definition roundtrip_test :: "('a \<Rightarrow> bytes io_result) \<Rightarrow> (bytes \<Rightarrow> 'a io_result) \<Rightarrow> 'a \<Rightarrow> test" where
  "roundtrip_test enc dec payload =
     and_then (unwrap (enc payload)) (\<lambda>encoded.
     and_then (unwrap (dec encoded)) (\<lambda>decoded.
     assert_eq decoded payload))"

definition trailing_test :: "('a \<Rightarrow> bytes io_result) \<Rightarrow> (bytes \<Rightarrow> 'a io_result) \<Rightarrow> 'a \<Rightarrow> test" where
  "trailing_test enc dec payload =
     and_then (unwrap (enc payload)) (\<lambda>encoded.
     assert_err (dec (encoded @ [0])))"

text \<open>Drop the last byte of an encoding and decode the rest.\<close>

definition truncated_test :: "('a \<Rightarrow> bytes io_result) \<Rightarrow> (bytes \<Rightarrow> 'a io_result) \<Rightarrow> 'a \<Rightarrow> test" where
  "truncated_test enc dec payload =
     and_then (unwrap (enc payload)) (\<lambda>encoded.
     and_then (slice encoded 0 (length encoded - 1)) (\<lambda>shorter.
     assert_err (dec shorter)))"

context wire_format
begin

lemma roundtrip_passes: "roundtrip_test enc dec x = Ok () \<longleftrightarrow> is_ok (enc x)"
  using enc_not_Panic [of x] dec_enc [of x]
  by (cases "enc x") (auto simp: roundtrip_test_def unwrap_def)

lemma field_roundtrip_passes:
  "and_then (unwrap (enc x)) (\<lambda>encoded.
   and_then (unwrap (dec encoded)) (\<lambda>decoded. assert_eq (f decoded) (f x))) = Ok () \<longleftrightarrow> is_ok (enc x)"
  using enc_not_Panic [of x] dec_enc [of x] by (cases "enc x") (auto simp: unwrap_def)

end

context self_delimiting
begin

lemma trailing_passes: "trailing_test enc dec x = Ok () \<longleftrightarrow> is_ok (enc x)"
  using enc_not_Panic [of x] dec_enc [of x] rejects_extension [of _ x "[0]"]
  by (cases "enc x") (auto simp: trailing_test_def unwrap_def is_err_iff)

lemma truncated_passes:
  "truncated_test enc dec x = Ok () \<longleftrightarrow> (case enc x of Ok bs \<Rightarrow> bs \<noteq> [] | Err e \<Rightarrow> False | Panic \<Rightarrow> False)"
proof (cases "enc x")
  case (Ok bs)
  then show ?thesis
    using dec_enc [of x bs] rejects_truncation [of bs x "length bs - 1"]
    by (auto simp: truncated_test_def slice_def is_err_iff)
qed (simp_all add: truncated_test_def unwrap_def)

end

end
