(* ===== verification/Payload_Tests.thy ===== *)
theory Payload_Tests
  imports Test_Kit
begin

text \<open>
  The unit tests of the payload modules (\<open>src/src/payloads/*.rs\<close>), each as a definition, module by module,
  and the lemmas that they pass.
\<close>

section \<open>Accounts (account_payloads.rs)\<close>

definition query_account_status_roundtrip :: test where [tests]:
  "query_account_status_roundtrip =
     roundtrip_test (\<lambda>p. Ok (QueryAccountStatusPayload_encode p)) QueryAccountStatusPayload_decode
       QueryAccountStatusPayload"

definition query_account_status_rejects_nonempty_payload :: test where [tests]:
  "query_account_status_rejects_nonempty_payload = assert_err (QueryAccountStatusPayload_decode [0])"

definition account_status_response_roundtrip_not_banned :: test where [tests]:
  "account_status_response_roundtrip_not_banned =
     roundtrip_test AccountStatusResponsePayload_encode AccountStatusResponsePayload_decode
       \<lparr>as_is_banned = False, as_ban_reason = str_lit '''', as_subscription_active = True,
        as_subscription_expiry_timestamp = 1900000000\<rparr>"

definition account_status_response_roundtrip_banned_with_reason :: test where [tests]:
  "account_status_response_roundtrip_banned_with_reason =
     roundtrip_test AccountStatusResponsePayload_encode AccountStatusResponsePayload_decode
       \<lparr>as_is_banned = True, as_ban_reason = str_lit ''spam'', as_subscription_active = False,
        as_subscription_expiry_timestamp = 0\<rparr>"

definition account_status_response_rejects_empty_payload :: test where [tests]:
  "account_status_response_rejects_empty_payload = assert_err (AccountStatusResponsePayload_decode [])"

text \<open>The payload the next three tests share.\<close>

definition active_account :: AccountStatusResponsePayload where
  "active_account = \<lparr>as_is_banned = False, as_ban_reason = str_lit '''', as_subscription_active = True,
     as_subscription_expiry_timestamp = 0\<rparr>"

definition account_status_response_rejects_non_canonical_boolean :: test where [tests]:
  "account_status_response_rejects_non_canonical_boolean =
     and_then (unwrap (AccountStatusResponsePayload_encode active_account)) (\<lambda>encoded.
     and_then (set_index encoded 0 7) (\<lambda>encoded.
     assert_err (AccountStatusResponsePayload_decode encoded)))"

definition account_status_response_rejects_trailing_bytes :: test where [tests]:
  "account_status_response_rejects_trailing_bytes =
     trailing_test AccountStatusResponsePayload_encode AccountStatusResponsePayload_decode active_account"

definition account_status_response_rejects_truncated_subscription_fields :: test where [tests]:
  "account_status_response_rejects_truncated_subscription_fields =
     truncated_test AccountStatusResponsePayload_encode AccountStatusResponsePayload_decode active_account"

definition account_tests :: "test list" where
  "account_tests =
    [query_account_status_roundtrip,
     query_account_status_rejects_nonempty_payload,
     account_status_response_roundtrip_not_banned,
     account_status_response_roundtrip_banned_with_reason,
     account_status_response_rejects_empty_payload,
     account_status_response_rejects_non_canonical_boolean,
     account_status_response_rejects_trailing_bytes,
     account_status_response_rejects_truncated_subscription_fields]"

lemma account_tests_pass: "list_all (\<lambda>t. t = Ok ()) account_tests"
  by (simp add: account_tests_def tests query_account_status.roundtrip_passes
      account_status_response.roundtrip_passes account_status_response_delimited.trailing_passes
      account_status_response_delimited.truncated_passes AccountStatusResponsePayload_encode_def
      AccountStatusResponsePayload_decode_def QueryAccountStatusPayload_decode_def encode_lit active_account_def
      reject_steps)

section \<open>Authentication (auth_payloads.rs)\<close>

definition auth_challenge_roundtrip :: test where [tests]:
  "auth_challenge_roundtrip =
     (let p = \<lparr>ac_nonce = const_array 0xAB\<rparr>;
          enc = AuthChallengePayload_encode p in
      and_then (assert_eq (length enc) 32) (\<lambda>_.
      and_then (unwrap (AuthChallengePayload_decode enc)) (\<lambda>dec.
      assert_eq dec p)))"

definition auth_response_roundtrip_with_attestation :: test where [tests]:
  "auth_response_roundtrip_with_attestation =
     roundtrip_test AuthResponsePayload_encode AuthResponsePayload_decode
       \<lparr>ar_public_key = const_array 0x01, ar_signature = const_array 0x02,
        ar_attestation_token = [0xDE, 0xAD, 0xBE, 0xEF]\<rparr>"

definition auth_response_roundtrip_empty_attestation :: test where [tests]:
  "auth_response_roundtrip_empty_attestation =
     roundtrip_test AuthResponsePayload_encode AuthResponsePayload_decode
       \<lparr>ar_public_key = const_array 0x03, ar_signature = const_array 0x04, ar_attestation_token = []\<rparr>"

definition auth_accept_rejects_nonempty :: test where [tests]:
  "auth_accept_rejects_nonempty =
     assert_err (AuthAcceptPayload_decode [0])"

definition auth_reject_rejects_nonempty :: test where [tests]:
  "auth_reject_rejects_nonempty =
     assert_err (AuthRejectPayload_decode [0])"

definition auth_payload_tests :: "test list" where
  "auth_payload_tests =
    [auth_challenge_roundtrip,
     auth_response_roundtrip_with_attestation,
     auth_response_roundtrip_empty_attestation,
     auth_accept_rejects_nonempty,
     auth_reject_rejects_nonempty]"

lemma auth_payload_tests_pass: "list_all (\<lambda>t. t = Ok ()) auth_payload_tests"
  by (simp add: auth_payload_tests_def tests auth_challenge.dec_enc auth_response.roundtrip_passes
      AuthChallengePayload_encode_def AuthResponsePayload_encode_def encode_sized_bytes_def
      AuthAcceptPayload_decode_def AuthRejectPayload_decode_def Let_def)

section \<open>Termination (close_payloads.rs, error_payloads.rs)\<close>

definition close_payload_roundtrip :: test where [tests]:
  "close_payload_roundtrip =
     roundtrip_test ClosePayload_encode ClosePayload_decode
       \<lparr>close_reason = ClientRequest, close_message = str_lit ''done''\<rparr>"

definition close_payload_rejects_trailing_bytes :: test where [tests]:
  "close_payload_rejects_trailing_bytes =
     trailing_test ClosePayload_encode ClosePayload_decode
       \<lparr>close_reason = ProtocolError, close_message = str_lit ''bad frame''\<rparr>"

definition error_payload_roundtrip :: test where
  "error_payload_roundtrip =
     (let payload = \<lparr>err_message = str_lit ''protocol violation''\<rparr> in
      and_then (unwrap (ErrorPayload_encode payload)) (\<lambda>encoded.
      and_then (unwrap (ErrorPayload_decode encoded)) (\<lambda>decoded.
      assert_eq (err_message decoded) (err_message payload))))"

definition error_payload_rejects_trailing_bytes :: test where [tests]:
  "error_payload_rejects_trailing_bytes =
     trailing_test ErrorPayload_encode ErrorPayload_decode
       \<lparr>err_message = str_lit ''bad''\<rparr>"

lemma error_payload_roundtrip_passes: "error_payload_roundtrip = Ok ()"
  unfolding error_payload_roundtrip_def Let_def error.field_roundtrip_passes
  by (simp add: ErrorPayload_encode_def encode_lit)

definition close_tests :: "test list" where
  "close_tests =
    [close_payload_roundtrip,
     close_payload_rejects_trailing_bytes,
     error_payload_roundtrip,
     error_payload_rejects_trailing_bytes]"

lemma close_tests_pass: "list_all (\<lambda>t. t = Ok ()) close_tests"
  by (simp add: close_tests_def tests close.roundtrip_passes close_delimited.trailing_passes
      error_delimited.trailing_passes error_payload_roundtrip_passes ClosePayload_encode_def ErrorPayload_encode_def
      encode_lit Let_def)

section \<open>Registration (registration_payloads.rs)\<close>

definition register_device_roundtrip :: test where [tests]:
  "register_device_roundtrip =
     roundtrip_test RegisterDevicePayload_encode RegisterDevicePayload_decode
       \<lparr>reg_username = str_lit ''alice''\<rparr>"

definition register_device_rejects_trailing_bytes :: test where [tests]:
  "register_device_rejects_trailing_bytes =
     trailing_test RegisterDevicePayload_encode RegisterDevicePayload_decode
       \<lparr>reg_username = str_lit ''bob''\<rparr>"

definition register_response_roundtrip_success :: test where [tests]:
  "register_response_roundtrip_success =
     roundtrip_test RegisterResponsePayload_encode RegisterResponsePayload_decode
       \<lparr>rr_success = True, rr_message = str_lit ''ok''\<rparr>"

definition register_response_roundtrip_failure :: test where [tests]:
  "register_response_roundtrip_failure =
     roundtrip_test RegisterResponsePayload_encode RegisterResponsePayload_decode
       \<lparr>rr_success = False, rr_message = str_lit ''username taken''\<rparr>"

definition register_response_rejects_non_canonical_boolean :: test where [tests]:
  "register_response_rejects_non_canonical_boolean =
     and_then (unwrap (RegisterResponsePayload_encode \<lparr>rr_success = True, rr_message = str_lit ''''\<rparr>)) (\<lambda>encoded.
     and_then (set_index encoded 0 2) (\<lambda>encoded.
     assert_err (RegisterResponsePayload_decode encoded)))"

definition register_response_rejects_empty_payload :: test where [tests]:
  "register_response_rejects_empty_payload =
     assert_err (RegisterResponsePayload_decode [])"

definition registration_tests :: "test list" where
  "registration_tests =
    [register_device_roundtrip,
     register_device_rejects_trailing_bytes,
     register_response_roundtrip_success,
     register_response_roundtrip_failure,
     register_response_rejects_non_canonical_boolean,
     register_response_rejects_empty_payload]"

lemma registration_tests_pass: "list_all (\<lambda>t. t = Ok ()) registration_tests"
  by (simp add: registration_tests_def tests register_device.roundtrip_passes register_device_delimited.trailing_passes
      register_response.roundtrip_passes RegisterDevicePayload_encode_def RegisterResponsePayload_encode_def
      RegisterResponsePayload_decode_def encode_lit reject_steps)

section \<open>Hellos (hello_payloads.rs)\<close>

definition client_hello_roundtrip :: test where [tests]:
  "client_hello_roundtrip =
     roundtrip_test ClientHelloPayload_encode ClientHelloPayload_decode
       \<lparr>ch_client_id = str_lit ''device-abc'', ch_x25519_public_key = const_array 0x01,
        ch_ml_kem_ek = const_array 0x02\<rparr>"

definition server_hello_roundtrip :: test where [tests]:
  "server_hello_roundtrip =
     roundtrip_test ServerHelloPayload_encode ServerHelloPayload_decode
       \<lparr>sh_server_id = str_lit ''chatix-server-1'', sh_x25519_public_key = const_array 0xAA,
        sh_ml_kem_ciphertext = const_array 0xBB, sh_signature = const_array 0xCC\<rparr>"

definition client_hello_rejects_truncated_key_material :: test where [tests]:
  "client_hello_rejects_truncated_key_material =
     and_then (unwrap (encode_sized_string (str_lit ''dev''))) (\<lambda>id_only.
     assert_err (ClientHelloPayload_decode id_only))"

definition client_finish_rejects_non_canonical_boolean :: test where [tests]:
  "client_finish_rejects_non_canonical_boolean =
     assert_err (ClientFinishPayload_decode [2])"

definition server_accept_rejects_non_canonical_boolean :: test where [tests]:
  "server_accept_rejects_non_canonical_boolean =
     assert_err (ServerAcceptPayload_decode [255])"

definition hello_tests :: "test list" where
  "hello_tests =
    [client_hello_roundtrip,
     server_hello_roundtrip,
     client_hello_rejects_truncated_key_material,
     client_finish_rejects_non_canonical_boolean,
     server_accept_rejects_non_canonical_boolean]"

lemma hello_tests_pass: "list_all (\<lambda>t. t = Ok ()) hello_tests"
  by (simp add: hello_tests_def tests client_hello.roundtrip_passes server_hello.roundtrip_passes
      ClientHelloPayload_encode_def ServerHelloPayload_encode_def ClientHelloPayload_decode_def
      ClientFinishPayload_decode_def ServerAcceptPayload_decode_def hello_decode_bool_common encode_lit
      literal_bytes reject_steps size_defs)

section \<open>Messages (message_payloads.rs)\<close>

definition send_message_roundtrip :: test where [tests]:
  "send_message_roundtrip =
     roundtrip_test SendMessagePayload_encode SendMessagePayload_decode
       \<lparr>sm_message_id = 1001, sm_recipient_id = str_lit ''bob-1'', sm_content = [0, 159, 255, 42]\<rparr>"

definition send_message_rejects_trailing_bytes :: test where [tests]:
  "send_message_rejects_trailing_bytes =
     trailing_test SendMessagePayload_encode SendMessagePayload_decode
       \<lparr>sm_message_id = 1, sm_recipient_id = str_lit ''bob'', sm_content = [1, 2, 3]\<rparr>"

definition send_message_rejects_truncated_message_id :: test where [tests]:
  "send_message_rejects_truncated_message_id =
     assert_err (SendMessagePayload_decode [0, 1, 2])"

definition deliver_message_roundtrip :: test where [tests]:
  "deliver_message_roundtrip =
     roundtrip_test DeliverMessagePayload_encode DeliverMessagePayload_decode
       \<lparr>dm_message_id = 9999, dm_sender_id = str_lit ''alice'', dm_content = [7, 8, 9]\<rparr>"

definition message_status_update_roundtrip_all_statuses :: test where [tests]:
  "message_status_update_roundtrip_all_statuses =
     for_each [SentToServer, Delivered, Failed] (\<lambda>status.
     roundtrip_test (\<lambda>p. Ok (MessageStatusUpdatePayload_encode p)) MessageStatusUpdatePayload_decode
       \<lparr>ms_message_id = 42, ms_status = status\<rparr>)"

definition message_status_update_rejects_unknown_status :: test where
  "message_status_update_rejects_unknown_status =
     and_then (set_last (MessageStatusUpdatePayload_encode
       \<lparr>ms_message_id = 1, ms_status = Delivered\<rparr>) 9) (\<lambda>enc.
     assert_err (MessageStatusUpdatePayload_decode enc))"

lemma message_status_update_rejects_unknown_status_passes: "message_status_update_rejects_unknown_status = Ok ()"
  by (simp add: message_status_update_rejects_unknown_status_def MessageStatusUpdatePayload_encode_def
      MessageStatusUpdatePayload_decode_def MessageStatus_from_u8_def set_last_def index_def slice_def nth_append decode_u64_to_be)

definition message_status_update_rejects_wrong_length :: test where [tests]:
  "message_status_update_rejects_wrong_length =
     and_then (assert_err (MessageStatusUpdatePayload_decode (replicate 8 0))) (\<lambda>_.
     assert_err (MessageStatusUpdatePayload_decode (replicate 10 0)))"

definition delivery_receipt_roundtrip :: test where [tests]:
  "delivery_receipt_roundtrip =
     roundtrip_test (\<lambda>p. Ok (DeliveryReceiptPayload_encode p)) DeliveryReceiptPayload_decode
       \<lparr>dr_message_id = 777\<rparr>"

definition delivery_receipt_rejects_wrong_length :: test where [tests]:
  "delivery_receipt_rejects_wrong_length =
     and_then (assert_err (DeliveryReceiptPayload_decode (replicate 7 0))) (\<lambda>_.
     assert_err (DeliveryReceiptPayload_decode (replicate 9 0)))"

definition message_tests :: "test list" where
  "message_tests =
    [send_message_roundtrip,
     send_message_rejects_trailing_bytes,
     send_message_rejects_truncated_message_id,
     deliver_message_roundtrip,
     message_status_update_roundtrip_all_statuses,
     message_status_update_rejects_unknown_status,
     message_status_update_rejects_wrong_length,
     delivery_receipt_roundtrip,
     delivery_receipt_rejects_wrong_length]"

lemma message_tests_pass: "list_all (\<lambda>t. t = Ok ()) message_tests"
  by (simp add: message_tests_def tests send_message.roundtrip_passes send_message_delimited.trailing_passes
      deliver_message.roundtrip_passes message_status_update.roundtrip_passes
      delivery_receipt.roundtrip_passes SendMessagePayload_encode_def SendMessagePayload_decode_def
      DeliverMessagePayload_encode_def MessageStatusUpdatePayload_decode_def DeliveryReceiptPayload_decode_def
      encode_sized_bytes_def encode_lit reject_steps
      message_status_update_rejects_unknown_status_passes)

section \<open>Queue (queue_payloads.rs)\<close>

definition fetch_queued_messages_roundtrip :: test where [tests]:
  "fetch_queued_messages_roundtrip =
     roundtrip_test (\<lambda>p. Ok (FetchQueuedMessagesPayload_encode p)) FetchQueuedMessagesPayload_decode
       FetchQueuedMessagesPayload"

definition fetch_queued_messages_rejects_nonempty_payload :: test where [tests]:
  "fetch_queued_messages_rejects_nonempty_payload =
     assert_err (FetchQueuedMessagesPayload_decode [0])"

definition queued_message_delivery_roundtrip_keeps_content_opaque :: test where [tests]:
  "queued_message_delivery_roundtrip_keeps_content_opaque =
     roundtrip_test QueuedMessageDeliveryPayload_encode QueuedMessageDeliveryPayload_decode
       \<lparr>qd_queue_id = 42, qd_message_id = 1001, qd_sender_id = str_lit ''alice'',
        qd_content = [0, 159, 255, 42]\<rparr>"

definition queued_message_delivery_rejects_trailing_bytes :: test where [tests]:
  "queued_message_delivery_rejects_trailing_bytes =
     trailing_test QueuedMessageDeliveryPayload_encode QueuedMessageDeliveryPayload_decode
       \<lparr>qd_queue_id = 1, qd_message_id = 2, qd_sender_id = str_lit ''bob'', qd_content = [1, 2, 3]\<rparr>"

definition queued_message_delivery_rejects_truncated_ids :: test where [tests]:
  "queued_message_delivery_rejects_truncated_ids =
     assert_err (QueuedMessageDeliveryPayload_decode [0, 1, 2])"

definition ack_queued_message_roundtrip :: test where [tests]:
  "ack_queued_message_roundtrip =
     roundtrip_test (\<lambda>p. Ok (AckQueuedMessagePayload_encode p)) AckQueuedMessagePayload_decode
       \<lparr>ak_queue_id = 7\<rparr>"

definition ack_queued_message_rejects_wrong_length :: test where [tests]:
  "ack_queued_message_rejects_wrong_length =
     assert_err (AckQueuedMessagePayload_decode [0, 1, 2])"

definition queue_tests :: "test list" where
  "queue_tests =
    [fetch_queued_messages_roundtrip,
     fetch_queued_messages_rejects_nonempty_payload,
     queued_message_delivery_roundtrip_keeps_content_opaque,
     queued_message_delivery_rejects_trailing_bytes,
     queued_message_delivery_rejects_truncated_ids,
     ack_queued_message_roundtrip,
     ack_queued_message_rejects_wrong_length]"

lemma queue_tests_pass: "list_all (\<lambda>t. t = Ok ()) queue_tests"
  by (simp add: queue_tests_def tests fetch_queued.roundtrip_passes queued_delivery.roundtrip_passes
      queued_delivery_delimited.trailing_passes ack_queued.roundtrip_passes FetchQueuedMessagesPayload_decode_def
      QueuedMessageDeliveryPayload_encode_def QueuedMessageDeliveryPayload_decode_def
      AckQueuedMessagePayload_decode_def encode_sized_bytes_def encode_lit reject_steps)

section \<open>Friends (friend_payloads.rs)\<close>

definition send_friend_request_roundtrip :: test where [tests]:
  "send_friend_request_roundtrip =
     roundtrip_test SendFriendRequestPayload_encode SendFriendRequestPayload_decode
       \<lparr>fr_target_username = str_lit ''bob''\<rparr>"

definition send_friend_request_rejects_trailing_bytes :: test where [tests]:
  "send_friend_request_rejects_trailing_bytes =
     trailing_test SendFriendRequestPayload_encode SendFriendRequestPayload_decode
       \<lparr>fr_target_username = str_lit ''bob''\<rparr>"

definition friend_request_result_roundtrip_all_statuses :: test where [tests]:
  "friend_request_result_roundtrip_all_statuses =
     for_each [Accepted, Rejected, UserNotFound] (\<lambda>status.
     roundtrip_test (\<lambda>p. Ok (FriendRequestResultPayload_encode p)) FriendRequestResultPayload_decode
       \<lparr>frr_status = status\<rparr>)"

definition friend_request_result_rejects_unknown_status :: test where [tests]:
  "friend_request_result_rejects_unknown_status =
     assert_err (FriendRequestResultPayload_decode [3])"

definition friend_request_result_rejects_wrong_length :: test where [tests]:
  "friend_request_result_rejects_wrong_length =
     and_then (assert_err (FriendRequestResultPayload_decode [])) (\<lambda>_.
     assert_err (FriendRequestResultPayload_decode [0, 0]))"

definition incoming_friend_request_roundtrip :: test where [tests]:
  "incoming_friend_request_roundtrip =
     roundtrip_test IncomingFriendRequestPayload_encode IncomingFriendRequestPayload_decode
       \<lparr>ifr_sender_username = str_lit ''alice''\<rparr>"

definition friend_request_decision_roundtrip_accept :: test where [tests]:
  "friend_request_decision_roundtrip_accept =
     roundtrip_test FriendRequestDecisionPayload_encode FriendRequestDecisionPayload_decode
       \<lparr>frd_sender_username = str_lit ''alice'', frd_accepted = True\<rparr>"

definition friend_request_decision_roundtrip_reject :: test where [tests]:
  "friend_request_decision_roundtrip_reject =
     roundtrip_test FriendRequestDecisionPayload_encode FriendRequestDecisionPayload_decode
       \<lparr>frd_sender_username = str_lit ''alice'', frd_accepted = False\<rparr>"

definition friend_request_decision_rejects_non_canonical_bool :: test where [tests]:
  "friend_request_decision_rejects_non_canonical_bool =
     and_then (unwrap (FriendRequestDecisionPayload_encode
       \<lparr>frd_sender_username = str_lit ''alice'', frd_accepted = True\<rparr>)) (\<lambda>enc.
     and_then (set_last enc 7) (\<lambda>enc.
     assert_err (FriendRequestDecisionPayload_decode enc)))"

definition friend_request_decision_rejects_missing_bool :: test where [tests]:
  "friend_request_decision_rejects_missing_bool =
     and_then (unwrap (SendFriendRequestPayload_encode \<lparr>fr_target_username = str_lit ''alice''\<rparr>)) (\<lambda>enc.
     assert_err (FriendRequestDecisionPayload_decode enc))"

definition remove_friend_roundtrip :: test where [tests]:
  "remove_friend_roundtrip =
     roundtrip_test RemoveFriendPayload_encode RemoveFriendPayload_decode
       \<lparr>rf_friend_username = str_lit ''bob''\<rparr>"

definition remove_friend_result_roundtrip_all_statuses :: test where [tests]:
  "remove_friend_result_roundtrip_all_statuses =
     for_each [Success, NotFound] (\<lambda>status.
     roundtrip_test (\<lambda>p. Ok (RemoveFriendResultPayload_encode p)) RemoveFriendResultPayload_decode
       \<lparr>rfr_status = status\<rparr>)"

definition remove_friend_result_rejects_unknown_status :: test where [tests]:
  "remove_friend_result_rejects_unknown_status =
     assert_err (RemoveFriendResultPayload_decode [5])"

definition friend_removed_notification_roundtrip :: test where [tests]:
  "friend_removed_notification_roundtrip =
     roundtrip_test FriendRemovedNotificationPayload_encode FriendRemovedNotificationPayload_decode
       \<lparr>frn_removed_by_username = str_lit ''alice''\<rparr>"

definition friend_status_update_roundtrip_all_statuses :: test where [tests]:
  "friend_status_update_roundtrip_all_statuses =
     for_each [Online, Offline, IsTyping] (\<lambda>status.
     roundtrip_test FriendStatusUpdatePayload_encode FriendStatusUpdatePayload_decode
       \<lparr>fsu_friend_username = str_lit ''carol'', fsu_status = status, fsu_last_seen = 1700000000\<rparr>)"

definition friend_status_update_rejects_unknown_status :: test where [tests]:
  "friend_status_update_rejects_unknown_status =
     and_then (unwrap (FriendStatusUpdatePayload_encode
       \<lparr>fsu_friend_username = str_lit ''carol'', fsu_status = Online, fsu_last_seen = 0\<rparr>)) (\<lambda>enc.
     and_then (set_index enc (2 + length ''carol'') 9) (\<lambda>enc.
     assert_err (FriendStatusUpdatePayload_decode enc)))"

definition friend_status_update_rejects_truncated_payload :: test where [tests]:
  "friend_status_update_rejects_truncated_payload =
     truncated_test FriendStatusUpdatePayload_encode FriendStatusUpdatePayload_decode
       \<lparr>fsu_friend_username = str_lit ''carol'', fsu_status = Online, fsu_last_seen = 0\<rparr>"

definition send_typing_indicator_roundtrip :: test where [tests]:
  "send_typing_indicator_roundtrip =
     roundtrip_test SendTypingIndicatorPayload_encode SendTypingIndicatorPayload_decode
       \<lparr>sti_recipient_username = str_lit ''dave''\<rparr>"

definition friend_tests :: "test list" where
  "friend_tests =
    [send_friend_request_roundtrip,
     send_friend_request_rejects_trailing_bytes,
     friend_request_result_roundtrip_all_statuses,
     friend_request_result_rejects_unknown_status,
     friend_request_result_rejects_wrong_length,
     incoming_friend_request_roundtrip,
     friend_request_decision_roundtrip_accept,
     friend_request_decision_roundtrip_reject,
     friend_request_decision_rejects_non_canonical_bool,
     friend_request_decision_rejects_missing_bool,
     remove_friend_roundtrip,
     remove_friend_result_roundtrip_all_statuses,
     remove_friend_result_rejects_unknown_status,
     friend_removed_notification_roundtrip,
     friend_status_update_roundtrip_all_statuses,
     friend_status_update_rejects_unknown_status,
     friend_status_update_rejects_truncated_payload,
     send_typing_indicator_roundtrip]"

lemma friend_tests_pass: "list_all (\<lambda>t. t = Ok ()) friend_tests"
  by (simp add: friend_tests_def tests send_friend_request.roundtrip_passes send_friend_request_delimited.trailing_passes
      friend_request_result.roundtrip_passes incoming_friend_request.roundtrip_passes
      friend_request_decision.roundtrip_passes remove_friend.roundtrip_passes
      remove_friend_result.roundtrip_passes friend_removed_notification.roundtrip_passes
      friend_status_update.roundtrip_passes friend_status_update_delimited.truncated_passes
      send_typing_indicator.roundtrip_passes SendFriendRequestPayload_encode_def
      IncomingFriendRequestPayload_encode_def FriendRequestDecisionPayload_encode_def
      RemoveFriendPayload_encode_def FriendRemovedNotificationPayload_encode_def
      FriendStatusUpdatePayload_encode_def SendTypingIndicatorPayload_encode_def
      FriendRequestResultPayload_decode_def FriendRequestStatus_from_u8_def RemoveFriendResultPayload_decode_def
      RemoveFriendStatus_from_u8_def FriendRequestDecisionPayload_decode_def FriendStatusUpdatePayload_decode_def
      FriendStatus_from_u8_def encode_lit literal_bytes reject_steps)

section \<open>End-to-end keys (e2e_key_payloads.rs)\<close>

definition sample_key :: E2ePublicKey where
  "sample_key = \<lparr>pk_x25519_public = const_array 0x01, pk_ml_kem_ek = const_array 0x02,
     pk_dsa_verifying_key = const_array 0x03\<rparr>"

lemma publish_not_Nil: "PublishE2eKeyPayload_encode p \<noteq> []"
  by (simp add: PublishE2eKeyPayload_encode_def encode_e2e_public_key_not_Nil)

definition publish_e2e_key_roundtrip :: test where
  "publish_e2e_key_roundtrip =
     (let payload = \<lparr>pub_key = sample_key\<rparr>;
          encoded = PublishE2eKeyPayload_encode payload in
      and_then (assert_eq (length encoded) E2E_PUBLIC_KEY_SIZE) (\<lambda>_.
      and_then (unwrap (PublishE2eKeyPayload_decode encoded)) (\<lambda>decoded.
      assert_eq decoded payload)))"

lemma publish_e2e_key_roundtrip_passes: "publish_e2e_key_roundtrip = Ok ()"
  by (simp add: publish_e2e_key_roundtrip_def publish_e2e_key.dec_enc Let_def PublishE2eKeyPayload_encode_def)

definition publish_e2e_key_matches_expected_wire_size :: test where [tests]:
  "publish_e2e_key_matches_expected_wire_size =
     assert_eq E2E_PUBLIC_KEY_SIZE 3168"

definition publish_e2e_key_rejects_truncated_input :: test where [tests]:
  "publish_e2e_key_rejects_truncated_input =
     truncated_test (\<lambda>p. Ok (PublishE2eKeyPayload_encode p)) PublishE2eKeyPayload_decode
       \<lparr>pub_key = sample_key\<rparr>"

definition publish_e2e_key_rejects_trailing_bytes :: test where [tests]:
  "publish_e2e_key_rejects_trailing_bytes =
     trailing_test (\<lambda>p. Ok (PublishE2eKeyPayload_encode p)) PublishE2eKeyPayload_decode
       \<lparr>pub_key = sample_key\<rparr>"

definition publish_e2e_key_result_roundtrip_success :: test where [tests]:
  "publish_e2e_key_result_roundtrip_success =
     roundtrip_test PublishE2eKeyResultPayload_encode PublishE2eKeyResultPayload_decode
       \<lparr>pkr_success = True, pkr_message = str_lit ''ok''\<rparr>"

definition publish_e2e_key_result_roundtrip_failure :: test where [tests]:
  "publish_e2e_key_result_roundtrip_failure =
     roundtrip_test PublishE2eKeyResultPayload_encode PublishE2eKeyResultPayload_decode
       \<lparr>pkr_success = False, pkr_message = str_lit ''not authenticated''\<rparr>"

definition publish_e2e_key_result_rejects_non_canonical_boolean :: test where [tests]:
  "publish_e2e_key_result_rejects_non_canonical_boolean =
     and_then (unwrap (PublishE2eKeyResultPayload_encode
       \<lparr>pkr_success = True, pkr_message = str_lit ''''\<rparr>)) (\<lambda>encoded.
     and_then (set_index encoded 0 2) (\<lambda>encoded.
     assert_err (PublishE2eKeyResultPayload_decode encoded)))"

definition publish_e2e_key_result_rejects_empty_payload :: test where [tests]:
  "publish_e2e_key_result_rejects_empty_payload =
     assert_err (PublishE2eKeyResultPayload_decode [])"

definition fetch_e2e_key_roundtrip :: test where [tests]:
  "fetch_e2e_key_roundtrip =
     roundtrip_test FetchE2eKeyPayload_encode FetchE2eKeyPayload_decode
       \<lparr>fek_target_username = str_lit ''bob''\<rparr>"

definition fetch_e2e_key_rejects_trailing_bytes :: test where [tests]:
  "fetch_e2e_key_rejects_trailing_bytes =
     trailing_test FetchE2eKeyPayload_encode FetchE2eKeyPayload_decode
       \<lparr>fek_target_username = str_lit ''bob''\<rparr>"

definition e2e_key_response_roundtrip_found :: test where [tests]:
  "e2e_key_response_roundtrip_found =
     roundtrip_test E2eKeyResponsePayload_encode E2eKeyResponsePayload_decode
       \<lparr>ekr_username = str_lit ''alice'', ekr_key = Some sample_key\<rparr>"

definition e2e_key_response_matches_expected_max_wire_size :: test where
  "e2e_key_response_matches_expected_max_wire_size =
     and_then (unwrap (E2eKeyResponsePayload_encode
       \<lparr>ekr_username = str_lit (replicate 128 (CHR ''a'')), ekr_key = Some sample_key\<rparr>)) (\<lambda>encoded.
     assert_eq (length encoded) 3299)"

lemma e2e_key_response_matches_expected_max_wire_size_passes: "e2e_key_response_matches_expected_max_wire_size = Ok ()"
  by (simp add: e2e_key_response_matches_expected_max_wire_size_def E2eKeyResponsePayload_encode_def encode_lit list_all_iff E2E_PUBLIC_KEY_SIZE_def size_defs)

definition e2e_key_response_roundtrip_not_found :: test where [tests]:
  "e2e_key_response_roundtrip_not_found =
     roundtrip_test E2eKeyResponsePayload_encode E2eKeyResponsePayload_decode
       \<lparr>ekr_username = str_lit ''ghost'', ekr_key = None\<rparr>"

definition e2e_key_response_rejects_unknown_status :: test where [tests]:
  "e2e_key_response_rejects_unknown_status =
     and_then (unwrap (E2eKeyResponsePayload_encode
       \<lparr>ekr_username = str_lit ''alice'', ekr_key = None\<rparr>)) (\<lambda>encoded.
     and_then (set_last encoded 7) (\<lambda>encoded.
     assert_err (E2eKeyResponsePayload_decode encoded)))"

definition e2e_key_response_rejects_missing_status_byte :: test where [tests]:
  "e2e_key_response_rejects_missing_status_byte =
     and_then (unwrap (encode_sized_string (str_lit ''alice''))) (\<lambda>encoded.
     assert_err (E2eKeyResponsePayload_decode encoded))"

definition e2e_key_response_rejects_truncated_key_material :: test where [tests]:
  "e2e_key_response_rejects_truncated_key_material =
     truncated_test E2eKeyResponsePayload_encode E2eKeyResponsePayload_decode
       \<lparr>ekr_username = str_lit ''alice'', ekr_key = Some sample_key\<rparr>"

definition e2e_key_response_rejects_trailing_bytes_after_not_found :: test where [tests]:
  "e2e_key_response_rejects_trailing_bytes_after_not_found =
     trailing_test E2eKeyResponsePayload_encode E2eKeyResponsePayload_decode
       \<lparr>ekr_username = str_lit ''ghost'', ekr_key = None\<rparr>"

definition e2e_key_tests :: "test list" where
  "e2e_key_tests =
    [publish_e2e_key_roundtrip,
     publish_e2e_key_matches_expected_wire_size,
     publish_e2e_key_rejects_truncated_input,
     publish_e2e_key_rejects_trailing_bytes,
     publish_e2e_key_result_roundtrip_success,
     publish_e2e_key_result_roundtrip_failure,
     publish_e2e_key_result_rejects_non_canonical_boolean,
     publish_e2e_key_result_rejects_empty_payload,
     fetch_e2e_key_roundtrip,
     fetch_e2e_key_rejects_trailing_bytes,
     e2e_key_response_roundtrip_found,
     e2e_key_response_matches_expected_max_wire_size,
     e2e_key_response_roundtrip_not_found,
     e2e_key_response_rejects_unknown_status,
     e2e_key_response_rejects_missing_status_byte,
     e2e_key_response_rejects_truncated_key_material,
     e2e_key_response_rejects_trailing_bytes_after_not_found]"

lemma e2e_key_tests_pass: "list_all (\<lambda>t. t = Ok ()) e2e_key_tests"
  by (simp add: e2e_key_tests_def tests publish_e2e_key.dec_enc publish_e2e_key_fixed.truncated_passes
      publish_e2e_key_fixed.trailing_passes publish_e2e_key_result.roundtrip_passes fetch_e2e_key.roundtrip_passes
      fetch_e2e_key_delimited.trailing_passes e2e_key_response.roundtrip_passes
      e2e_key_response_delimited.truncated_passes e2e_key_response_delimited.trailing_passes
      PublishE2eKeyResultPayload_encode_def encode_e2e_public_key_not_Nil publish_not_Nil
      PublishE2eKeyResultPayload_decode_def FetchE2eKeyPayload_encode_def E2eKeyResponsePayload_encode_def
      E2eKeyResponsePayload_decode_def E2eKeyStatus_from_u8_def E2E_PUBLIC_KEY_SIZE_def encode_lit literal_bytes
      reject_steps size_defs
      publish_e2e_key_roundtrip_passes
      e2e_key_response_matches_expected_max_wire_size_passes)

end
