(* ===== verification/Codec_Tests.thy ===== *)
theory Codec_Tests
  imports Test_Kit Connection_State Framing
begin

text \<open>
  The unit tests of the header, the connection state machine and the packet codec (\<open>header.rs\<close>,
  \<open>connection_state.rs\<close>, \<open>codec.rs\<close>), each as a definition, and the lemmas that they pass.  The codec
  tests take the cipher as their argument.  The test that overwrites the type of a sealed packet depends on
  the security of the cipher and is not among them; what it is about is part of the integrity of the channel.
\<close>

section \<open>Headers (header.rs)\<close>

definition header_roundtrip :: test where [tests]:
  "header_roundtrip =
     (let header = header_new 10 (ENCRYPTED OR 2) 128 42;
          bytes = to_bytes header;
          decoded = from_bytes bytes in
      assert_eq header decoded)"

definition header_validation_ok :: test where [tests]:
  "header_validation_ok = assert_ok (validate (header_new 1 0 64 1))"

definition header_validation_invalid_magic :: test where [tests]:
  "header_validation_invalid_magic =
     assert_err (validate ((header_new 1 0 64 1)\<lparr>magic := mk_array (ascii ''NOPE'')\<rparr>))"

definition header_validation_invalid_version :: test where [tests]:
  "header_validation_invalid_version = assert_err (validate ((header_new 1 0 64 1)\<lparr>version := 99\<rparr>))"

definition header_validation_payload_too_large :: test where [tests]:
  "header_validation_payload_too_large = assert_err (validate (header_new 1 0 (MAX_PAYLOAD_LEN + 1) 1))"

definition header_validation_reserved_nonzero :: test where [tests]:
  "header_validation_reserved_nonzero = assert_err (validate ((header_new 1 0 64 1)\<lparr>reserved := 1\<rparr>))"

definition header_tests :: "test list" where
  "header_tests =
    [header_roundtrip,
     header_validation_ok,
     header_validation_invalid_magic,
     header_validation_invalid_version,
     header_validation_payload_too_large,
     header_validation_reserved_nonzero]"

lemma wrong_magic: "mk_array (ascii ''NOPE'') \<noteq> CHATIX_MAGIC"
  by (simp add: CHATIX_MAGIC_def mk_array_inject)

lemma header_tests_pass: "list_all (\<lambda>t. t = Ok ()) header_tests"
  using wrong_magic
  by (simp add: header_tests_def tests from_to_bytes)
    (simp add: validate_def header_new_def MAX_PAYLOAD_LEN_def CHATIX_VERSION_def)

section \<open>The connection state machine (connection_state.rs)\<close>

text \<open>A packet is accepted in a state, which then advances to an expected one.\<close>

definition accept_then :: "Role \<Rightarrow> ConnectionState \<Rightarrow> PacketType \<Rightarrow> ConnectionState \<Rightarrow> (ConnectionState, ProtocolError) outcome" where
  "accept_then r s t expected =
     and_then (assert_ok (validate_incoming s r t)) (\<lambda>_.
     let s = advance s t in
     and_then (assert_eq s expected) (\<lambda>_. Ok s))"

definition handshake_happy_path :: test where [tests]:
  "handshake_happy_path =
     (let s = initial Server in
      and_then (accept_then Server s ClientHello AwaitingClientFinish) (\<lambda>s.
      and_then (accept_then Server s ClientFinish AwaitingAuth) (\<lambda>s.
      and_then (accept_then Server s AuthResponse Established) (\<lambda>s. Ok ()))))"

definition client_handshake_happy_path :: test where [tests]:
  "client_handshake_happy_path =
     (let s = initial Client in
      and_then (assert_eq s AwaitingServerHello) (\<lambda>_.
      and_then (accept_then Client s ServerHello AwaitingServerAccept) (\<lambda>s.
      and_then (accept_then Client s ServerAccept AwaitingAuthChallenge) (\<lambda>s.
      and_then (accept_then Client s AuthChallenge AwaitingAuthResult) (\<lambda>s.
      and_then (accept_then Client s AuthAccept Established) (\<lambda>s. Ok ()))))))"

definition client_closes_on_auth_reject :: test where [tests]:
  "client_closes_on_auth_reject =
     and_then (accept_then Client AwaitingAuthResult AuthReject Closing) (\<lambda>s. Ok ())"

definition rejects_message_before_handshake :: test where [tests]:
  "rejects_message_before_handshake = assert_err (validate_incoming AwaitingClientHello Server SendMessage)"

definition rejects_message_before_auth :: test where [tests]:
  "rejects_message_before_auth =
     and_then (assert_err (validate_incoming AwaitingAuth Server SendMessage)) (\<lambda>_.
     assert_err (validate_incoming AwaitingAuth Server Ping))"

definition allows_delivery_tracking_packets_once_established :: test where [tests]:
  "allows_delivery_tracking_packets_once_established =
     and_then (assert_err (validate_incoming Established Server MessageStatusUpdate)) (\<lambda>_.
     and_then (assert_ok (validate_incoming Established Client MessageStatusUpdate)) (\<lambda>_.
     assert_ok (validate_incoming Established Server DeliveryReceipt)))"

definition error_packet_always_closes :: test where [tests]:
  "error_packet_always_closes = assert_eq (advance Established Error) Closing"

definition closing_rejects_all :: test where [tests]:
  "closing_rejects_all =
     and_then (assert_err (validate_incoming Closing Server Ping)) (\<lambda>_.
     assert_err (validate_incoming Closing Server Close))"

definition server_rejects_server_to_client_packet_while_established :: test where [tests]:
  "server_rejects_server_to_client_packet_while_established =
     assert_err (validate_incoming Established Server DeliverMessage)"

definition client_rejects_client_to_server_packet_while_established :: test where [tests]:
  "client_rejects_client_to_server_packet_while_established =
     assert_err (validate_incoming Established Client SendMessage)"

definition both_roles_accept_bidirectional_packets_while_established :: test where [tests]:
  "both_roles_accept_bidirectional_packets_while_established =
     and_then (assert_ok (validate_incoming Established Server Ping)) (\<lambda>_.
     and_then (assert_ok (validate_incoming Established Client Ping)) (\<lambda>_.
     and_then (assert_ok (validate_incoming Established Server Close)) (\<lambda>_.
     assert_ok (validate_incoming Established Client Close))))"

definition state_tests :: "test list" where
  "state_tests =
    [handshake_happy_path,
     client_handshake_happy_path,
     client_closes_on_auth_reject,
     rejects_message_before_handshake,
     rejects_message_before_auth,
     allows_delivery_tracking_packets_once_established,
     error_packet_always_closes,
     closing_rejects_all,
     server_rejects_server_to_client_packet_while_established,
     client_rejects_client_to_server_packet_while_established,
     both_roles_accept_bidirectional_packets_while_established]"

lemma state_tests_pass: "list_all (\<lambda>t. t = Ok ()) state_tests"
  by (simp add: state_tests_def tests accept_then_def validate_incoming_def direction_allowed_def advance_def
      Let_def assert_ok_def)

section \<open>The codec (codec.rs)\<close>

definition raw_frame :: "u8 \<Rightarrow> u32 \<Rightarrow> u64 \<Rightarrow> bytes" where
  "raw_frame ptype plen seq =
     as_slice (to_bytes (header_new ptype 0 plen seq)) @ replicate (unat plen) 0xAA"

definition sample_session_keys :: "key32 \<times> key32" where
  "sample_session_keys = (const_array 0x11, const_array 0x22)"

definition rejects_oversized_payload_for_packet_type :: "'k aead \<Rightarrow> test" where
  "rejects_oversized_payload_for_packet_type A =
     (let oversized = ucast CHATIX_HEADER_LEN :: u32;
          frame = raw_frame (as_u8 Ping) oversized 1;
          result = fst (read_packet A cursor (codec_new, frame)) in
      assert_true (case result of Err (PayloadTooLarge _ _) \<Rightarrow> True | _ \<Rightarrow> False))"

definition accepts_payload_within_packet_type_limit :: "'k aead \<Rightarrow> test" where
  "accepts_payload_within_packet_type_limit A =
     (let frame = raw_frame (as_u8 Ping) 8 1 in
      and_then (unwrap (fst (read_packet A cursor (codec_new, frame)))) (\<lambda>packet.
      assert_eq (payload_len (raw_header packet)) 8))"

definition encrypted_roundtrip_succeeds :: "'k aead \<Rightarrow> test" where
  "encrypted_roundtrip_succeeds A =
     (let (key_a, key_b) = sample_session_keys;
          sender = establish_session codec_new key_a key_b;
          plaintext = ascii ''PINGDATA'';
          (sent, (sender, wire_bytes)) = write_packet A vec Ping 0 plaintext (sender, []);
          receiver = establish_session codec_new key_b key_a in
      and_then (unwrap sent) (\<lambda>_.
      and_then (unwrap (fst (read_packet A cursor (receiver, wire_bytes)))) (\<lambda>packet.
      and_then (assert_true (is_encrypted (raw_header packet))) (\<lambda>_.
      assert_eq (raw_payload packet) plaintext))))"

definition rejects_unencrypted_packet_once_session_established :: "'k aead \<Rightarrow> test" where
  "rejects_unencrypted_packet_once_session_established A =
     (let (key_a, key_b) = sample_session_keys;
          receiver = establish_session codec_new key_b key_a;
          injected = raw_frame (as_u8 Ping) 8 1 in
      assert_eq (fst (read_packet A cursor (receiver, injected))) (Err EncryptionRequired))"

text \<open>The lengths a frame of the tests states, and the two outcomes of reading it.\<close>

lemma read_raw_frame:
  assumes "check_header (session codec) (header_new t 0 n s) = Ok ()" "fresh_seq codec s"
  shows "fst (read_packet A cursor (codec, raw_frame t n s))
    = open_payload A (session codec) (header_new t 0 n s) (replicate (unat n) 0xAA)"
  using read_frame [of codec "header_new t 0 n s" "replicate (unat n) 0xAA" A "[]"] assms
  by (simp add: raw_frame_def)

lemma read_raw_frame_refused:
  assumes "check_header (session codec) (header_new t 0 n s) = Err e"
  shows "fst (read_packet A cursor (codec, raw_frame t n s)) = Err e"
  using assms by (simp add: raw_frame_def read_after_24)

lemmas header_checks = check_header_def validate_def header_new_def is_encrypted_def ENCRYPTED_def
  MAX_PAYLOAD_LEN_def from_u8_def max_for_type_def ensure_def

lemma rejects_oversized_payload_passes: "rejects_oversized_payload_for_packet_type A = Ok ()"
proof -
  have "check_header (session codec_new) (header_new (as_u8 Ping) 0 (ucast CHATIX_HEADER_LEN) 1)
      = Err (PayloadTooLarge 24 8)"
    by (simp add: header_checks codec_new_def CHATIX_HEADER_LEN_def)
  then show ?thesis
    by (simp add: rejects_oversized_payload_for_packet_type_def Let_def read_raw_frame_refused)
qed

lemma accepts_payload_within_limit_passes: "accepts_payload_within_packet_type_limit A = Ok ()"
proof -
  have ok: "check_header (session codec_new) (header_new (as_u8 Ping) 0 8 1) = Ok ()"
    by (simp add: header_checks codec_new_def)
  show ?thesis
    unfolding accepts_payload_within_packet_type_limit_def Let_def
    by (subst read_raw_frame [OF ok])
      (simp_all add: fresh_seq_def codec_new_def open_payload_def is_encrypted_header_new raw_packet_new_def)
qed

lemma rejects_unencrypted_packet_passes: "rejects_unencrypted_packet_once_session_established A = Ok ()"
  unfolding rejects_unencrypted_packet_once_session_established_def sample_session_keys_def Let_def prod.case
  by (subst read_raw_frame_refused [of _ _ _ _ EncryptionRequired])
    (simp_all add: header_checks establish_session_def)

text \<open>The two ends of the tests hold the same two keys in opposite roles.\<close>

lemma sample_codecs_linked:
  "linked (establish_session codec_new key_a key_b) (establish_session codec_new key_b key_a)"
  by (simp add: linked_def establish_session_def codec_new_def fresh_seq_def)

lemma first_seq: "next_send_seq (establish_session codec_new a b) = 1" "checked_add_u64 1 1 = Some (2 :: u64)"
  by (simp_all add: establish_session_def codec_new_def checked_add_u64_def)

lemma encrypted_roundtrip_passes:
  assumes "aead_correct A" "aead_seals_upto (1024 * 1024) A"
  shows "encrypted_roundtrip_succeeds A = Ok ()"
proof -
  define tx where "tx = establish_session codec_new (const_array 0x11) (const_array 0x22)"
  define rx where "rx = establish_session codec_new (const_array 0x22) (const_array 0x11)"
  have "linked tx rx" "sendable tx Ping 0 (ascii ''PINGDATA'')" "checked_add_u64 (next_send_seq tx) 1 = Some 2"
    using sample_codecs_linked first_seq by (simp_all add: tx_def rx_def sendable_def establish_session_def)
  from packet_transfer [OF assms this, of "[]" "[]"] obtain wire where
    "write_packet A vec Ping 0 (ascii ''PINGDATA'') (tx, []) = (Ok (), (tx\<lparr>next_send_seq := 2\<rparr>, wire))"
    "fst (read_packet A cursor (rx, wire)) = Ok (received tx Ping 0 (ascii ''PINGDATA''))"
    by auto
  then show ?thesis
    unfolding encrypted_roundtrip_succeeds_def sample_session_keys_def Let_def prod.case tx_def rx_def
    using or_encrypted [of 0]
    by (simp add: received_def wire_flags_def is_encrypted_header_new establish_session_def)
qed

definition codec_tests :: "'k aead \<Rightarrow> test list" where
  "codec_tests A =
    [rejects_oversized_payload_for_packet_type A,
     accepts_payload_within_packet_type_limit A,
     encrypted_roundtrip_succeeds A,
     rejects_unencrypted_packet_once_session_established A]"

text \<open>
  These unit tests of the codec pass with every cipher that is correct and seals up to the frame limit: a
  receiver reports an oversized payload, accepts one at the ceiling, opens what the other end sealed and
  refuses plaintext in a session.
\<close>

lemma codec_tests_pass:
  assumes "aead_correct A" "aead_seals_upto (1024 * 1024) A"
  shows "list_all (\<lambda>t. t = Ok ()) (codec_tests A)"
  using encrypted_roundtrip_passes [OF assms]
  by (simp add: codec_tests_def rejects_oversized_payload_passes accepts_payload_within_limit_passes
      rejects_unencrypted_packet_passes)

end
