(* ===== verification/Crypto_Tests.thy ===== *)
theory Crypto_Tests
  imports Test_Kit Session Auth E2e Safety_Number
begin

text \<open>
  Unit tests of the cryptographic modules (\<open>crypto/auth.rs\<close>, \<open>session.rs\<close>, \<open>e2e.rs\<close>,
  \<open>safety_number.rs\<close>), each as a definition over the primitives and the random draws it makes, and the
  lemmas that they pass for every lawful primitive.  The tests that tamper with something, or expect two
  keys or numbers to differ, depend on the security of the primitives and are not among them; what they
  are about is stated in general in the theories of the modules.
\<close>

section \<open>Authentication (crypto/auth.rs)\<close>

definition sample_transcript :: "sha256 \<Rightarrow> u8 \<Rightarrow> key32" where
  "sample_transcript sha tag = compute_handshake_transcript sha [tag] [tag + 1]"

definition auth_roundtrip_succeeds :: "sha256 \<Rightarrow> ('sk, 'vk, 'sg) ml_dsa \<Rightarrow> 'sk \<Rightarrow> test" where [tests]:
  "auth_roundtrip_succeeds sha D sk =
     and_then (unwrap (generate_auth_identity D sk)) (\<lambda>(seed, vk).
     let transcript = sample_transcript sha 1;
         nonce = const_array 0x42 in
     and_then (unwrap (sign_auth_response D transcript nonce seed)) (\<lambda>sig.
     assert_ok (verify_auth_response D transcript nonce vk sig)))"

definition server_hello_roundtrip_succeeds :: "sha256 \<Rightarrow> ('sk, 'vk, 'sg) ml_dsa \<Rightarrow> 'sk \<Rightarrow> test" where [tests]:
  "server_hello_roundtrip_succeeds sha D sk =
     and_then (unwrap (generate_auth_identity D sk)) (\<lambda>(seed, pinned_vk).
     let client_hello_bytes = ascii ''client-hello-wire-bytes'';
         server_x25519_pk = const_array 0x11;
         server_ml_kem_ct = const_array 0x22 in
     and_then (unwrap (sign_server_hello sha D client_hello_bytes server_x25519_pk server_ml_kem_ct seed)) (\<lambda>sig.
     assert_ok (verify_server_hello sha D client_hello_bytes server_x25519_pk server_ml_kem_ct pinned_vk sig)))"

text \<open>The two tests of the payload modules that put a real signature on the wire.\<close>

definition auth_response_uses_real_ml_dsa_65_signature ::
    "sha256 \<Rightarrow> ('sk, 'vk, 'sg) ml_dsa \<Rightarrow> 'sk \<Rightarrow> test" where
  "auth_response_uses_real_ml_dsa_65_signature sha D sk =
     and_then (unwrap (generate_auth_identity D sk)) (\<lambda>(seed, verifying_key).
     let transcript = compute_handshake_transcript sha (ascii ''client-hello-bytes'') (ascii ''server-hello-bytes'');
         nonce = const_array 0x7E in
     and_then (unwrap (sign_auth_response D transcript nonce seed)) (\<lambda>signature.
     let p = \<lparr>ar_public_key = verifying_key, ar_signature = signature, ar_attestation_token = []\<rparr> in
     and_then (unwrap (AuthResponsePayload_encode p)) (\<lambda>enc.
     and_then (unwrap (AuthResponsePayload_decode enc)) (\<lambda>dec.
     assert_ok (verify_auth_response D transcript nonce (ar_public_key dec) (ar_signature dec))))))"

definition server_hello_uses_real_ml_dsa_65_signature ::
    "sha256 \<Rightarrow> ('sk, 'vk, 'sg) ml_dsa \<Rightarrow> 'sk \<Rightarrow> test" where
  "server_hello_uses_real_ml_dsa_65_signature sha D sk =
     and_then (unwrap (generate_auth_identity D sk)) (\<lambda>(signing_seed, pinned_verifying_key).
     let client_hello_bytes = ascii ''client-hello-wire-bytes'';
         x25519_public_key = const_array 0xAA;
         ml_kem_ciphertext = const_array 0xBB in
     and_then (unwrap (sign_server_hello sha D client_hello_bytes x25519_public_key ml_kem_ciphertext signing_seed))
       (\<lambda>signature.
     let payload = \<lparr>sh_server_id = str_lit ''chatix-server-1'', sh_x25519_public_key = x25519_public_key,
           sh_ml_kem_ciphertext = ml_kem_ciphertext, sh_signature = signature\<rparr> in
     and_then (unwrap (ServerHelloPayload_encode payload)) (\<lambda>encoded.
     and_then (unwrap (ServerHelloPayload_decode encoded)) (\<lambda>decoded.
     assert_ok (verify_server_hello sha D client_hello_bytes (sh_x25519_public_key decoded)
       (sh_ml_kem_ciphertext decoded) pinned_verifying_key (sh_signature decoded))))))"

definition auth_tests :: "sha256 \<Rightarrow> ('sk, 'vk, 'sg) ml_dsa \<Rightarrow> 'sk \<Rightarrow> test list" where
  "auth_tests sha D sk =
    [auth_roundtrip_succeeds sha D sk,
     server_hello_roundtrip_succeeds sha D sk,
     auth_response_uses_real_ml_dsa_65_signature sha D sk,
     server_hello_uses_real_ml_dsa_65_signature sha D sk]"

lemma auth_identity_unwrapped:
  assumes "ml_dsa_correct D"
  shows "and_then (unwrap (generate_auth_identity D sk)) f
    = f (dsa_to_seed D sk, mk_array (dsa_vk_encode D (dsa_verifying_key D sk)))"
    and "and_then (unwrap (sign_with_seed D m (dsa_to_seed D sk))) g
    = g (mk_array (dsa_sig_encode D (dsa_sign D sk m)))"
  by (simp_all add: generate_auth_identity_result [OF assms] sign_with_seed_result [OF assms]
      ml_dsa_rules(1) [OF assms])

lemma signed_auth_response_passes:
  assumes "ml_dsa_correct D"
  shows "auth_response_uses_real_ml_dsa_65_signature sha D sk = Ok ()"
proof -
  define sig :: dsa_sig where "sig = mk_array (dsa_sig_encode D (dsa_sign D sk (auth_message
    (compute_handshake_transcript sha (ascii ''client-hello-bytes'') (ascii ''server-hello-bytes'')) (const_array 0x7E))))"
  define p where "p = \<lparr>ar_public_key = mk_array (dsa_vk_encode D (dsa_verifying_key D sk)), ar_signature = sig,
    ar_attestation_token = []\<rparr>"
  obtain enc where enc: "AuthResponsePayload_encode p = Ok enc"
    by (simp add: AuthResponsePayload_encode_def p_def encode_sized_bytes_def Let_def)
  with auth_response.dec_enc [OF enc] show ?thesis
    by (simp add: auth_response_uses_real_ml_dsa_65_signature_def auth_identity_unwrapped [OF assms]
        sign_auth_response_def verify_auth_response_def Let_def is_ok_iff flip: p_def sig_def)
      (simp add: p_def sig_def verify_own_signature [OF assms])
qed

lemma signed_server_hello_passes:
  assumes "ml_dsa_correct D"
  shows "server_hello_uses_real_ml_dsa_65_signature sha D sk = Ok ()"
proof -
  define sig :: dsa_sig where "sig = mk_array (dsa_sig_encode D (dsa_sign D sk (server_hello_message sha
    (ascii ''client-hello-wire-bytes'') (const_array 0xAA) (const_array 0xBB))))"
  define p where "p = \<lparr>sh_server_id = str_lit ''chatix-server-1'', sh_x25519_public_key = const_array 0xAA,
    sh_ml_kem_ciphertext = const_array 0xBB, sh_signature = sig\<rparr>"
  obtain enc where enc: "ServerHelloPayload_encode p = Ok enc"
    by (simp add: ServerHelloPayload_encode_def p_def encode_lit)
  with server_hello.dec_enc [OF enc] show ?thesis
    by (simp add: server_hello_uses_real_ml_dsa_65_signature_def auth_identity_unwrapped [OF assms]
        sign_server_hello_def verify_server_hello_def Let_def is_ok_iff flip: p_def sig_def)
      (simp add: p_def sig_def verify_own_signature [OF assms])
qed

lemmas signing_steps = sign_auth_response_def verify_auth_response_def sign_server_hello_def
  verify_server_hello_def Let_def is_ok_iff

text \<open>
  These unit tests of the authentication module pass with every correct signature scheme, for every
  digest and every identity: the honest answer and the honest hello verify, also after a trip over the wire.
\<close>

lemma auth_tests_pass:
  assumes "ml_dsa_correct D"
  shows "list_all (\<lambda>t. t = Ok ()) (auth_tests sha D sk)"
  using verify_own_signature [OF assms]
  by (simp add: auth_tests_def tests auth_identity_unwrapped [OF assms] signing_steps
      signed_auth_response_passes [OF assms] signed_server_hello_passes [OF assms])

section \<open>Session keys (crypto/session.rs)\<close>

definition session_key_derivation_matches ::
    "'x x25519 \<Rightarrow> ('dk, 'ek, 'r) ml_kem \<Rightarrow> 'prk hkdf \<Rightarrow> 'x \<Rightarrow> 'r \<Rightarrow> 'x \<Rightarrow> 'r \<Rightarrow> test" where
  "session_key_derivation_matches X K H client_secret client_coins server_secret server_coins =
     and_then (unwrap (ClientHandshakeState_generate X K client_secret client_coins)) (\<lambda>client_state.
     let x25519_pub = hs_x25519_public client_state;
         ml_kem_ek = hs_ml_kem_ek client_state in
     and_then (unwrap (ServerHandshakeState_respond X K H x25519_pub ml_kem_ek server_secret server_coins))
       (\<lambda>server_state.
     and_then (unwrap (derive_session_keys X K H client_state (srv_x25519_public server_state)
       (srv_ml_kem_ciphertext server_state))) (\<lambda>client_keys.
     and_then (assert_eq (client_to_server client_keys) (client_to_server (srv_session_keys server_state))) (\<lambda>_.
     assert_eq (server_to_client client_keys) (server_to_client (srv_session_keys server_state))))))"

lemma session_key_derivation_passes:
  assumes "x25519_correct X" "ml_kem_correct K" "hkdf_correct H"
  shows "session_key_derivation_matches X K H cs cc ss sc = Ok ()"
proof -
  obtain client where gen: "ClientHandshakeState_generate X K cs cc = Ok client"
    using generate_result [OF assms(2), of X] by blast
  obtain server where resp: "ServerHandshakeState_respond X K H (hs_x25519_public client)
      (hs_ml_kem_ek client) ss sc = Ok server"
    using honest_response_exists [OF assms(2,3) gen] by blast
  show ?thesis
    using gen resp responded_keys_agree [OF assms(1,2) gen resp]
    by (simp add: session_key_derivation_matches_def Let_def)
qed

section \<open>End-to-end encryption (crypto/e2e.rs)\<close>

text \<open>
  The primitives a test runs on, and the draws of one call to \<open>generate_e2e_keypair\<close> and of one
  call to \<open>encrypt_and_sign\<close>.
\<close>

type_synonym ('x, 'sk) key_draws = "'x \<times> 64 barray \<times> 'sk"
type_synonym ('x, 'r) send_draws = "'x \<times> 'r \<times> gcm_nonce"

definition drawn_keypair ::
    "'x x25519 \<Rightarrow> ('dk, 'ek, 'r) ml_kem \<Rightarrow> ('sk, 'vk, 'sg) ml_dsa \<Rightarrow> ('x, 'sk) key_draws
     \<Rightarrow> (E2eSecretKey \<times> E2ePublicKey) presult" where
  "drawn_keypair X K D = (\<lambda>(xs, seed, sk). generate_e2e_keypair X K D xs (Some seed) sk)"

definition drawn_blob ::
    "'x x25519 \<Rightarrow> ('dk, 'ek, 'r) ml_kem \<Rightarrow> 'prk hkdf \<Rightarrow> 'k aead \<Rightarrow> ('sk, 'vk, 'sg) ml_dsa
     \<Rightarrow> bytes \<Rightarrow> key32 \<Rightarrow> kem_ek \<Rightarrow> key32 \<Rightarrow> ('x, 'r) send_draws \<Rightarrow> bytes presult" where
  "drawn_blob X K H A D plaintext pk ek seed = (\<lambda>(eph, coins, nonce).
     encrypt_and_sign X K H A D plaintext pk ek seed eph coins (Some nonce))"

definition e2e_roundtrip ::
    "'x x25519 \<Rightarrow> ('dk, 'ek, 'r) ml_kem \<Rightarrow> 'prk hkdf \<Rightarrow> 'k aead \<Rightarrow> ('sk, 'vk, 'sg) ml_dsa
     \<Rightarrow> ('x, 'sk) key_draws \<Rightarrow> ('x, 'sk) key_draws \<Rightarrow> ('x, 'r) send_draws \<Rightarrow> test" where
  "e2e_roundtrip X K H A D recipient sender draws =
     and_then (unwrap (drawn_keypair X K D recipient)) (\<lambda>(recipient_sk, recipient_pk).
     and_then (unwrap (drawn_keypair X K D sender)) (\<lambda>(sender_sk, sender_pk).
     let plaintext = ascii ''hello end-to-end'' in
     and_then (unwrap (drawn_blob X K H A D plaintext (pk_x25519_public recipient_pk)
       (pk_ml_kem_ek recipient_pk) (sk_dsa_signing_seed sender_sk) draws)) (\<lambda>blob.
     and_then (unwrap (verify_and_decrypt X K H A D blob (sk_x25519_secret recipient_sk)
       (sk_ml_kem_seed recipient_sk) (pk_dsa_verifying_key sender_pk))) (\<lambda>recovered.
     assert_eq recovered plaintext))))"

definition blob_minimum_size_matches_constant ::
    "'x x25519 \<Rightarrow> ('dk, 'ek, 'r) ml_kem \<Rightarrow> 'prk hkdf \<Rightarrow> 'k aead \<Rightarrow> ('sk, 'vk, 'sg) ml_dsa
     \<Rightarrow> ('x, 'sk) key_draws \<Rightarrow> ('x, 'sk) key_draws \<Rightarrow> ('x, 'r) send_draws \<Rightarrow> test" where
  "blob_minimum_size_matches_constant X K H A D recipient sender draws =
     and_then (unwrap (drawn_keypair X K D recipient)) (\<lambda>(_, recipient_pk).
     and_then (unwrap (drawn_keypair X K D sender)) (\<lambda>(sender_sk, _).
     and_then (unwrap (drawn_blob X K H A D [] (pk_x25519_public recipient_pk)
       (pk_ml_kem_ek recipient_pk) (sk_dsa_signing_seed sender_sk) draws)) (\<lambda>blob.
     and_then (assert_eq (length blob) MIN_BLOB_LEN) (\<lambda>_.
     and_then (slice_from blob (length blob - ML_DSA_65_SIG_SIZE)) (\<lambda>sig_slice.
     and_then (unwrap (try_into_array () sig_slice)) (\<lambda>sig_arr.
     assert_true (dsa_sig_decode D sig_arr \<noteq> None)))))))"

text \<open>The body of the blob a sender makes for a recipient.\<close>

definition drawn_body ::
    "'x x25519 \<Rightarrow> ('dk, 'ek, 'r) ml_kem \<Rightarrow> 'prk hkdf \<Rightarrow> 'k aead \<Rightarrow> bytes \<Rightarrow> ('x, 'sk) key_draws
     \<Rightarrow> ('x, 'r) send_draws \<Rightarrow> bytes presult" where
  "drawn_body X K H A plaintext = (\<lambda>(xs, seed, sk) (eph, coins, nonce). e2e_body X K H A plaintext
     (x_public X xs) (mk_array (kem_ek_to_bytes K (kem_encapsulation_key K (kem_from_seed K seed)))) eph
     coins (Some nonce))"

lemma drawn_body_exists:
  assumes "x25519_correct X" "ml_kem_correct K" "hkdf_correct H" "aead_correct A" "aead_seals_upto (length pt) A"
  obtains body where "drawn_body X K H A pt recipient draws = Ok body"
    "length body = AES_NONCE_END + length pt + GCM_TAG_LEN"
proof -
  obtain xs seed sk eph coins nonce where draws: "recipient = (xs, seed, sk)" "draws = (eph, coins, nonce)"
    by (metis prod_cases3)
  let ?ek = "kem_encapsulation_key K (kem_from_seed K seed)"
  obtain body where body: "e2e_body X K H A pt (x_public X xs) (mk_array (kem_ek_to_bytes K ?ek)) eph coins
      (Some nonce) = Ok body"
    using e2e_body_total [OF assms(2-5) ml_kem_rules(3) [OF assms(2)], where X = X] by blast
  from e2e_body_opens [OF assms(1-4) body] body that [of body] draws show thesis
    by (simp add: drawn_body_def)
qed

definition e2e_tests ::
    "'x x25519 \<Rightarrow> ('dk, 'ek, 'r) ml_kem \<Rightarrow> 'prk hkdf \<Rightarrow> 'k aead \<Rightarrow> ('sk, 'vk, 'sg) ml_dsa
     \<Rightarrow> ('x, 'sk) key_draws \<Rightarrow> ('x, 'sk) key_draws \<Rightarrow> ('x, 'r) send_draws \<Rightarrow> test list" where
  "e2e_tests X K H A D recipient sender draws =
    [e2e_roundtrip X K H A D recipient sender draws,
     blob_minimum_size_matches_constant X K H A D recipient sender draws]"

lemma drawn_keypair_exists:
  assumes "ml_kem_correct K" "ml_dsa_correct D"
  obtains sk pk where "drawn_keypair X K D (xs, seed, dsa) = Ok (sk, pk)"
    "pk_dsa_verifying_key pk = mk_array (dsa_vk_encode D (dsa_verifying_key D dsa))"
  using generate_e2e_keypair_result [OF assms, of X xs seed dsa] that by (simp add: drawn_keypair_def)

lemma drawn_blob_result:
  assumes "ml_kem_correct K" "ml_dsa_correct D"
    and "drawn_keypair X K D recipient = Ok (rsk, rpk)"
    and "drawn_keypair X K D (sx, sseed, ssk) = Ok (s_sk, s_pk)"
    and "drawn_body X K H A pt recipient draws = Ok body"
  shows "drawn_blob X K H A D pt (pk_x25519_public rpk) (pk_ml_kem_ek rpk) (sk_dsa_signing_seed s_sk) draws
    = Ok (body @ dsa_sig_encode D (dsa_sign D ssk body))"
  using assms(3-5) ml_dsa_rules(1) [OF assms(2)]
  by (auto simp: drawn_keypair_def drawn_blob_def drawn_body_def generate_e2e_keypair_result [OF assms(1,2)]
      encrypt_and_sign_def Let_def split: prod.splits)

lemma e2e_roundtrip_passes:
  assumes laws: "x25519_correct X" "ml_kem_correct K" "hkdf_correct H" "aead_correct A" "ml_dsa_correct D"
    and "aead_seals_upto 16 A"
  shows "e2e_roundtrip X K H A D (rx, rseed, rdsa) (sx, sseed, ssk) (eph, coins, nonce) = Ok ()"
proof -
  obtain rsk rpk where rcpt: "drawn_keypair X K D (rx, rseed, rdsa) = Ok (rsk, rpk)"
    by (rule drawn_keypair_exists [OF laws(2,5)])
  obtain s_sk spk where sndr: "drawn_keypair X K D (sx, sseed, ssk) = Ok (s_sk, spk)"
    by (rule drawn_keypair_exists [OF laws(2,5)])
  have "aead_seals_upto (length (ascii ''hello end-to-end'')) A"
    using assms(6) by (simp add: aead_seals_upto_def)
  from encrypt_then_decrypt [OF laws this sndr [unfolded drawn_keypair_def prod.case]
      rcpt [unfolded drawn_keypair_def prod.case], of eph coins nonce] rcpt sndr
  show ?thesis by (auto simp: e2e_roundtrip_def drawn_blob_def Let_def)
qed

lemma blob_minimum_size_passes:
  assumes laws: "x25519_correct X" "ml_kem_correct K" "hkdf_correct H" "aead_correct A" "ml_dsa_correct D"
    and "aead_seals_upto 16 A"
  shows "blob_minimum_size_matches_constant X K H A D (rx, rseed, rdsa) (sx, sseed, ssk) draws = Ok ()"
proof -
  obtain rsk rpk where rcpt: "drawn_keypair X K D (rx, rseed, rdsa) = Ok (rsk, rpk)"
    by (rule drawn_keypair_exists [OF laws(2,5)])
  obtain s_sk spk where sndr: "drawn_keypair X K D (sx, sseed, ssk) = Ok (s_sk, spk)"
    by (rule drawn_keypair_exists [OF laws(2,5)])
  have "aead_seals_upto (length ([] :: bytes)) A"
    using assms(6) by (simp add: aead_seals_upto_def)
  then obtain body where body: "drawn_body X K H A [] (rx, rseed, rdsa) draws = Ok body"
    and len: "length body = AES_NONCE_END + length ([] :: bytes) + GCM_TAG_LEN"
    by (rule drawn_body_exists [OF laws(1-4)])
  show ?thesis
    using rcpt sndr drawn_blob_result [OF laws(2,5) rcpt sndr body] len ml_dsa_rules(4,5) [OF laws(5)]
    by (simp add: blob_minimum_size_matches_constant_def MIN_BLOB_LEN_def slice_from_def try_into_array_def
        ML_DSA_65_SIG_SIZE_def)
qed

text \<open>
  These unit tests of the end-to-end module pass with all lawful primitives and for all random draws: the
  recipient recovers the plaintext, and the empty message gives a blob of exactly the minimum length whose
  last bytes parse as a signature.
\<close>

lemma e2e_tests_pass:
  assumes laws: "x25519_correct X" "ml_kem_correct K" "hkdf_correct H" "aead_correct A" "ml_dsa_correct D"
    and seals: "aead_seals_upto 16 A"
  shows "list_all (\<lambda>t. t = Ok ())
    (e2e_tests X K H A D (rx, rseed, rdsa) (sx, sseed, ssk) (eph, coins, nonce))"
  using e2e_roundtrip_passes [OF laws seals] blob_minimum_size_passes [OF laws seals]
  by (simp add: e2e_tests_def)

section \<open>Safety numbers (crypto/safety_number.rs)\<close>

text \<open>The tests take the results of their calls to \<open>generate_e2e_keypair\<close> as arguments.\<close>

type_synonym keypair = "(E2eSecretKey \<times> E2ePublicKey) presult"

definition safety_number_is_symmetric :: "sha256 \<Rightarrow> keypair \<Rightarrow> keypair \<Rightarrow> test" where [tests]:
  "safety_number_is_symmetric sha alice bob =
     and_then (unwrap alice) (\<lambda>(_, alice_pk).
     and_then (unwrap bob) (\<lambda>(_, bob_pk).
     and_then (safety_number sha (str_lit ''alice'') alice_pk (str_lit ''bob'') bob_pk) (\<lambda>from_alice.
     and_then (safety_number sha (str_lit ''bob'') bob_pk (str_lit ''alice'') alice_pk) (\<lambda>from_bob.
     assert_eq from_alice from_bob))))"

text \<open>\<open>s.split(c)\<close> on a string of ASCII characters\<close>

fun split_on :: "char \<Rightarrow> string \<Rightarrow> string list" where
  "split_on c [] = [[]]"
| "split_on c (x # xs) = (if x = c then [] # split_on c xs
     else (case split_on c xs of [] \<Rightarrow> [[x]] | g # gs \<Rightarrow> (x # g) # gs))"

definition safety_number_has_expected_shape :: "sha256 \<Rightarrow> keypair \<Rightarrow> keypair \<Rightarrow> test" where [tests]:
  "safety_number_has_expected_shape sha alice bob =
     and_then (unwrap alice) (\<lambda>(_, alice_pk).
     and_then (unwrap bob) (\<lambda>(_, bob_pk).
     and_then (safety_number sha (str_lit ''alice'') alice_pk (str_lit ''bob'') bob_pk) (\<lambda>number.
     and_then (assert_eq (length number) 71) (\<lambda>_.
     and_then (assert_true (list_all (\<lambda>c. is_ascii_digit c \<or> c = CHR '' '') number)) (\<lambda>_.
     assert_eq (length (split_on (CHR '' '') number)) 12)))))"

definition verify_key_unchanged_accepts_the_same_key :: "keypair \<Rightarrow> test" where [tests]:
  "verify_key_unchanged_accepts_the_same_key alice =
     and_then (unwrap alice) (\<lambda>(_, alice_pk).
     assert_ok (verify_key_unchanged (str_lit ''alice'') alice_pk alice_pk))"

definition verify_key_unchanged_rejects_an_imposter_key :: "keypair \<Rightarrow> keypair \<Rightarrow> test" where [tests]:
  "verify_key_unchanged_rejects_an_imposter_key alice imposter =
     and_then (unwrap alice) (\<lambda>(_, alice_pk).
     and_then (unwrap imposter) (\<lambda>(_, imposter_pk).
     assert_err (verify_key_unchanged (str_lit ''alice'') alice_pk imposter_pk)))"

definition verify_key_unchanged_error_identifies_the_affected_identity :: "keypair \<Rightarrow> keypair \<Rightarrow> test" where [tests]:
  "verify_key_unchanged_error_identifies_the_affected_identity alice imposter =
     and_then (unwrap alice) (\<lambda>(_, alice_pk).
     and_then (unwrap imposter) (\<lambda>(_, imposter_pk).
     case verify_key_unchanged (str_lit ''alice'') alice_pk imposter_pk of
       Err (IdentityKeyChanged identifier) \<Rightarrow> assert_eq identifier (str_lit ''alice'')
     | _ \<Rightarrow> Panic))"

definition safety_tests :: "sha256 \<Rightarrow> keypair \<Rightarrow> keypair \<Rightarrow> keypair \<Rightarrow> test list" where
  "safety_tests sha alice bob imposter =
    [safety_number_is_symmetric sha alice bob,
     safety_number_has_expected_shape sha alice bob,
     verify_key_unchanged_accepts_the_same_key alice,
     verify_key_unchanged_rejects_an_imposter_key alice imposter,
     verify_key_unchanged_error_identifies_the_affected_identity alice imposter]"

lemma length_split_on: "length (split_on c xs) = Suc (length (filter ((=) c) xs))"
  by (induction xs) (auto split: list.splits)

lemma filter_join:
  "gs \<noteq> [] \<Longrightarrow> list_all (list_all is_ascii_digit) gs \<Longrightarrow>
     filter ((=) (CHR '' '')) (join '' '' gs) = replicate (length gs - 1) (CHR '' '')"
proof (induction gs)
  case (Cons g gs)
  have "filter ((=) (CHR '' '')) g = []"
    using Cons.prems by (auto simp: filter_empty_conv list_all_iff is_ascii_digit_def)
  with Cons show ?case by (cases gs) auto
qed simp

lemma digits_of_join:
  "list_all (list_all is_ascii_digit) gs \<Longrightarrow> list_all (\<lambda>c. is_ascii_digit c \<or> c = CHR '' '') (join '' '' gs)"
  by (induction gs) (auto simp: list_all_iff)

lemma shown_digits_digits: "list_all (list_all is_ascii_digit) (shown_digits f)"
  by (simp add: shown_digits_def list.pred_map comp_def group_digits_shape list_all_iff [of _ "[0..<6]"])

text \<open>A number shows twelve groups of five digits.\<close>

lemma shown_number:
  "length (join '' '' (shown_digits a @ shown_digits b)) = 71"
  "list_all (\<lambda>c. is_ascii_digit c \<or> c = CHR '' '') (join '' '' (shown_digits a @ shown_digits b))"
  "length (split_on (CHR '' '') (join '' '' (shown_digits a @ shown_digits b))) = 12"
proof -
  let ?gs = "shown_digits a @ shown_digits b"
  have "length ?gs = 12"
    by (simp add: shown_digits_shape)
  then have gs: "length ?gs = 12" "?gs \<noteq> []" "list_all (\<lambda>g. length g = 5) ?gs"
    "list_all (list_all is_ascii_digit) ?gs"
    by (auto simp: shown_digits_shape(2) shown_digits_digits)
  from length_join [OF gs(2,3)] gs(1) show "length (join '' '' ?gs) = 71" by simp
  show "list_all (\<lambda>c. is_ascii_digit c \<or> c = CHR '' '') (join '' '' ?gs)"
    by (rule digits_of_join [OF gs(4)])
  from filter_join [OF gs(2,4)] gs(1) show "length (split_on (CHR '' '') (join '' '' ?gs)) = 12"
    by (simp add: length_split_on)
qed

lemma alice_before_bob: "str_lit ''alice'' \<le> str_lit ''bob''" "\<not> str_lit ''bob'' \<le> str_lit ''alice''"
  by (simp_all add: less_eq_str_def as_bytes_str_lit)

text \<open>
  These unit tests of the safety number module pass for any generated key bundles, the imposter's being
  another than the pinned one: both users see the same number, it has the documented shape, and the
  pin check accepts the same key and names the identity whose key changed.
\<close>

lemma safety_tests_pass:
  assumes "alice = Ok (a_sk, a)" "bob = Ok (b_sk, b)" "imposter = Ok (i_sk, i)" "a \<noteq> i"
  shows "list_all (\<lambda>t. t = Ok ()) (safety_tests sha alice bob imposter)"
  using assms(4)
  by (simp add: safety_tests_def tests assms(1-3) safety_number_shown alice_before_bob join_shown_inject
      shown_number verify_key_unchanged_def)

end
