(* ===== verification/Spec2Isabelle.thy ===== *)
theory Spec2Isabelle
  imports Handshake Duplex E2e Safety_Number Payload_Tests Codec_Tests Crypto_Tests
begin

text \<open>
  \<^bold>\<open>Chatix protocol: a verification development.\<close>

  The crate under \<open>src/src\<close> is the wire protocol of a chat system: a framed, sequenced, encrypted
  transport between a client and a server, a handshake that sets it up, the payloads it carries, and
  an end-to-end layer the server cannot read.  It is a library: sockets, storage and the server's own
  logic are its callers.

  \<^bold>\<open>Parts and theories\<close>

  \<^item> \<open>Prelude\<close>, \<open>Rust_Str\<close>, \<open>Errors\<close>: the Rust the sources use.  Integers are words of their width,
    \<open>usize\<close> is \<open>nat\<close> with the bound of \<open>checked_add\<close> written out, \<open>[u8; N]\<close> is a type of byte lists of
    that length, \<open>String\<close> a type of valid UTF-8; a computation is \<open>Ok\<close>, \<open>Err\<close> or \<open>Panic\<close>, and slicing
    out of range is \<open>Panic\<close>.  \<open>Errors\<close> has \<open>error.rs\<close>.
  \<^item> \<open>Wire_Interfaces\<close>: the locales \<open>byte_enum\<close> (an enumeration carried in one byte) and \<open>wire_format\<close>
    (an encoder and a decoder that are inverse to each other and never panic).
  \<^item> \<open>Header\<close> (\<open>header.rs\<close>, \<open>raw_packet.rs\<close>), \<open>Packet_Type\<close> (\<open>packet_type.rs\<close>).
  \<^item> \<open>Connection_State\<close> (\<open>connection_state.rs\<close>): which packet may arrive in which state, the advance
    function, and runs of the two as an inductive relation.
  \<^item> \<open>Common\<close> and the payload theories \<open>Ping_Payloads\<close>, \<open>Hello_Payloads\<close>, \<open>Close_Payloads\<close>,
    \<open>Auth_Payloads\<close>, \<open>Message_Payloads\<close>, \<open>Friend_Payloads\<close>, \<open>E2e_Key_Payloads\<close> (\<open>payloads/*.rs\<close>): every
    payload's \<open>encode\<close> and \<open>decode\<close>, statement by statement; each is an interpretation of
    \<open>wire_format\<close>, each status byte one of \<open>byte_enum\<close>.
  \<^item> \<open>Crypto_Params\<close>, \<open>Crypto_Lib\<close>: sizes, and the cryptographic crates as records of functions.
  \<^item> \<open>Session\<close> (\<open>crypto/session.rs\<close>), \<open>Auth\<close> (\<open>crypto/auth.rs\<close>), \<open>E2e\<close> (\<open>crypto/e2e.rs\<close>),
    \<open>Safety_Number\<close> (\<open>crypto/safety_number.rs\<close>).
  \<^item> \<open>Codec\<close> (\<open>codec.rs\<close>): \<open>read_packet\<close> and \<open>write_packet\<close> as actions on the codec and the stream;
    \<open>Channel\<close>: two codecs at the ends of one direction; \<open>Framing\<close>: how packets lie in a stream, and
    streams that fail; \<open>Duplex\<close>: both directions at once, with the bytes in flight.
  \<^item> \<open>Packet_Payloads\<close>: the locale \<open>packet_payload\<close>, which adds to \<open>wire_format\<close> a packet type and the
    field limit that keeps the encoding within the ceiling of the type, interpreted for all 36
    payloads; \<open>Prefix_Free\<close>: the locales \<open>self_delimiting\<close> and \<open>fixed_size\<close>, likewise.
  \<^item> \<open>Handshake\<close>: the seven-packet handshake of two endpoints (codec, state machine, payloads, key
    exchange and signatures together) over a network that is a function on packets.  The crate leaves
    the order of the calls to its callers; the driver here makes them in the documented order.
  \<^item> \<open>Test_Kit\<close>, \<open>Payload_Tests\<close>, \<open>Codec_Tests\<close>, \<open>Crypto_Tests\<close>: the \<open>tests\<close> modules at the end of the
    source files, one definition per test function with its name, and the lemmas that they pass.
  \<^item> This theory: the properties that span components.

  \<^bold>\<open>What is shown\<close>

  \<^item> Transport: what the receiver accepts is a subsequence of what the sender sealed
    (\<open>Channel.channel_integrity\<close>), over a codec's whole life no nonce is handed to the cipher by two
    calls (\<open>Channel.nonces_never_repeat\<close>), sequence numbers strictly increase, streams
    round trip, accepted payloads respect the ceiling of their type, plaintext is refused once a
    session exists; and one forged header blocks a receiver (\<open>Channel.forged_header_blocks_receiver\<close>).
    \<open>Framing\<close> characterises the accepted byte strings exactly, and what a write leaves behind when the
    stream fails or the payload is too long.  As long as the callers keep payloads within the ceiling of
    their type and leave the encryption flag to the codec, a connection refines a pair of queues
    (\<open>Duplex.duplex_refines_queues\<close>), for every interleaving of the calls of its two ends.
  \<^item> Handshake: both sides derive the same keys, keys are separated by direction and bound to the
    exchanged material, the proofs of identity are bound to the session, and a client that accepts
    the server's signature shares its keys with that server (\<open>authenticated_key_agreement\<close>), as does
    a server that accepts a client's (\<open>Handshake.client_authenticated_key_agreement\<close>).  The whole
    handshake completes between honest ends (\<open>Handshake.handshake_completes\<close>), and when it completes
    over a hostile network, with any other connections of the server and sessions of the client around it,
    both ends hold the same keys, or the server holds those of another session of the same client
    (\<open>Handshake.tampered_handshake_agrees\<close>).
  \<^item> State machine: the established state is reached exactly by the full handshake, no application
    packet is accepted before, a closed connection stays closed, and the detailed machine refines an
    abstract one of phases.
  \<^item> End to end: encryption and decryption round trip, and accepted content is what the sender, who may
    write to anyone, encrypted to this recipient's key (\<open>E2e.e2e_authenticity\<close>); the whole path of a message, through both payload codecs, is \<open>message_end_to_end\<close>.
  \<^item> Safety numbers: shape, digits, when two of them agree, exactly when they are symmetric, and that
    fingerprints determine identifier and keys.
  \<^item> Payloads: every codec is canonical and self-delimiting, none panics, the ceilings are the
    documented limits, and where they are not (\<open>queued_delivery_ceiling_gap\<close>).
  \<^item> Tests: those that do not depend on the security of a primitive pass (\<open>Codec_Tests.codec_tests_pass\<close>
    and its siblings).

  \<^bold>\<open>Hypotheses\<close>

  The crates \<open>ring\<close>, \<open>x25519-dalek\<close>, \<open>ml-kem\<close>, \<open>ml-dsa\<close>, \<open>hkdf\<close>, \<open>sha2\<close> and \<open>tokio\<close> are parameters.
  Theorems about honest parties assume their documented correctness (\<open>x25519_correct\<close>,
  \<open>ml_kem_correct\<close>, \<open>ml_dsa_correct\<close>, \<open>hkdf_correct\<close>, \<open>aead_correct\<close>, \<open>read_exact_correct\<close>).  Theorems
  about an adversary assume the ideal form of the primitive's security with an explicit log:
  \<open>dsa_unforgeable\<close>, \<open>aead_authentic\<close>, \<open>sha_collision_free\<close> on the finitely many inputs of the runs at
  hand, and for end-to-end content that different inputs give different content keys.  Randomness is an
  argument, so every theorem holds for all random
  choices.  The witnesses instantiate the parameters with small executable functions.

  \<^bold>\<open>Bounds\<close>

  No fuel is used: the fingerprint loop is a recursion over its 5200 rounds, and runs of the state machine, of the codecs and of
  a connection are inductive relations of any length.

  \<^bold>\<open>What is not modelled\<close>

  Zeroization of secrets on drop (the work of the \<open>zeroize\<close> crate), cancellation of an asynchronous call
  at an \<open>await\<close>, the derived \<open>Debug\<close> output, the display strings of errors, the files that only
  declare modules, and the unit tests that tamper with something or expect two keys or numbers to differ
  (they hold only with overwhelming probability; the theorems about an adversary state what they are about).  Lengths computed with a plain
  \<open>+\<close> on \<open>usize\<close> are taken not to overflow (they are sums of 16- and 32-bit prefixes).
\<close>

section \<open>Header and packet types\<close>

text \<open>
  The 24-byte header layout is a bijection: encoding and decoding are inverse on every header
  and on every 24-byte string, whatever the field values.
\<close>

theorem header_round_trip: "to_bytes h = b \<longleftrightarrow> from_bytes b = h"
  using from_to_bytes to_from_bytes by metis

section \<open>Payload codecs\<close>

text \<open>
  C35: the encodings are canonical.  For each of the 36 payloads, a byte string decodes to a payload exactly
  when it is that payload's encoding: every encoding decodes back, no two byte strings decode to the same
  payload, and nothing but an encoding is accepted (no trailing bytes, no other boolean or status byte, no
  key material after a failed lookup).  Neither direction panics, whatever the input.
\<close>

theorem payloads_canonical:
  "canonical ClientHelloPayload_encode ClientHelloPayload_decode
   \<and> canonical ServerHelloPayload_encode ServerHelloPayload_decode
   \<and> canonical (\<lambda>p. Ok (ClientFinishPayload_encode p)) ClientFinishPayload_decode
   \<and> canonical (\<lambda>p. Ok (ServerAcceptPayload_encode p)) ServerAcceptPayload_decode
   \<and> canonical (\<lambda>p. Ok (AuthChallengePayload_encode p)) AuthChallengePayload_decode
   \<and> canonical AuthResponsePayload_encode AuthResponsePayload_decode
   \<and> canonical (\<lambda>p. Ok (AuthAcceptPayload_encode p)) AuthAcceptPayload_decode
   \<and> canonical (\<lambda>p. Ok (AuthRejectPayload_encode p)) AuthRejectPayload_decode
   \<and> canonical (\<lambda>p. Ok (PingPayload_encode p)) PingPayload_decode
   \<and> canonical (\<lambda>p. Ok (PongPayload_encode p)) PongPayload_decode
   \<and> canonical RegisterDevicePayload_encode RegisterDevicePayload_decode
   \<and> canonical RegisterResponsePayload_encode RegisterResponsePayload_decode
   \<and> canonical (\<lambda>p. Ok (QueryAccountStatusPayload_encode p)) QueryAccountStatusPayload_decode
   \<and> canonical AccountStatusResponsePayload_encode AccountStatusResponsePayload_decode
   \<and> canonical SendFriendRequestPayload_encode SendFriendRequestPayload_decode
   \<and> canonical (\<lambda>p. Ok (FriendRequestResultPayload_encode p)) FriendRequestResultPayload_decode
   \<and> canonical IncomingFriendRequestPayload_encode IncomingFriendRequestPayload_decode
   \<and> canonical FriendRequestDecisionPayload_encode FriendRequestDecisionPayload_decode
   \<and> canonical RemoveFriendPayload_encode RemoveFriendPayload_decode
   \<and> canonical (\<lambda>p. Ok (RemoveFriendResultPayload_encode p)) RemoveFriendResultPayload_decode
   \<and> canonical FriendRemovedNotificationPayload_encode FriendRemovedNotificationPayload_decode
   \<and> canonical FriendStatusUpdatePayload_encode FriendStatusUpdatePayload_decode
   \<and> canonical SendTypingIndicatorPayload_encode SendTypingIndicatorPayload_decode
   \<and> canonical (\<lambda>p. Ok (PublishE2eKeyPayload_encode p)) PublishE2eKeyPayload_decode
   \<and> canonical PublishE2eKeyResultPayload_encode PublishE2eKeyResultPayload_decode
   \<and> canonical FetchE2eKeyPayload_encode FetchE2eKeyPayload_decode
   \<and> canonical E2eKeyResponsePayload_encode E2eKeyResponsePayload_decode
   \<and> canonical SendMessagePayload_encode SendMessagePayload_decode
   \<and> canonical DeliverMessagePayload_encode DeliverMessagePayload_decode
   \<and> canonical (\<lambda>p. Ok (FetchQueuedMessagesPayload_encode p)) FetchQueuedMessagesPayload_decode
   \<and> canonical QueuedMessageDeliveryPayload_encode QueuedMessageDeliveryPayload_decode
   \<and> canonical (\<lambda>p. Ok (AckQueuedMessagePayload_encode p)) AckQueuedMessagePayload_decode
   \<and> canonical (\<lambda>p. Ok (MessageStatusUpdatePayload_encode p)) MessageStatusUpdatePayload_decode
   \<and> canonical (\<lambda>p. Ok (DeliveryReceiptPayload_encode p)) DeliveryReceiptPayload_decode
   \<and> canonical ErrorPayload_encode ErrorPayload_decode
   \<and> canonical ClosePayload_encode ClosePayload_decode"
  by (intro conjI client_hello.is_canonical server_hello.is_canonical client_finish.is_canonical
      server_accept.is_canonical auth_challenge.is_canonical auth_response.is_canonical
      auth_accept.is_canonical auth_reject.is_canonical ping.is_canonical pong.is_canonical
      register_device.is_canonical register_response.is_canonical query_account_status.is_canonical
      account_status_response.is_canonical send_friend_request.is_canonical
      friend_request_result.is_canonical incoming_friend_request.is_canonical
      friend_request_decision.is_canonical remove_friend.is_canonical
      remove_friend_result.is_canonical friend_removed_notification.is_canonical
      friend_status_update.is_canonical send_typing_indicator.is_canonical
      publish_e2e_key.is_canonical publish_e2e_key_result.is_canonical fetch_e2e_key.is_canonical
      e2e_key_response.is_canonical send_message.is_canonical deliver_message.is_canonical
      fetch_queued.is_canonical queued_delivery.is_canonical ack_queued.is_canonical
      message_status_update.is_canonical delivery_receipt.is_canonical error.is_canonical
      close.is_canonical)

text \<open>
  C36: the encodings are self-delimiting.  For each of the 36 payloads, whenever a byte string decodes, every
  extension of it by further bytes and every proper prefix of it is refused with an error.
\<close>

theorem payloads_self_delimiting:
  "delimits ClientHelloPayload_decode \<and> delimits ServerHelloPayload_decode
   \<and> delimits ClientFinishPayload_decode \<and> delimits ServerAcceptPayload_decode
   \<and> delimits AuthChallengePayload_decode \<and> delimits AuthResponsePayload_decode
   \<and> delimits AuthAcceptPayload_decode \<and> delimits AuthRejectPayload_decode
   \<and> delimits PingPayload_decode \<and> delimits PongPayload_decode
   \<and> delimits RegisterDevicePayload_decode \<and> delimits RegisterResponsePayload_decode
   \<and> delimits QueryAccountStatusPayload_decode
   \<and> delimits AccountStatusResponsePayload_decode
   \<and> delimits SendFriendRequestPayload_decode \<and> delimits FriendRequestResultPayload_decode
   \<and> delimits IncomingFriendRequestPayload_decode
   \<and> delimits FriendRequestDecisionPayload_decode \<and> delimits RemoveFriendPayload_decode
   \<and> delimits RemoveFriendResultPayload_decode
   \<and> delimits FriendRemovedNotificationPayload_decode
   \<and> delimits FriendStatusUpdatePayload_decode
   \<and> delimits SendTypingIndicatorPayload_decode \<and> delimits PublishE2eKeyPayload_decode
   \<and> delimits PublishE2eKeyResultPayload_decode \<and> delimits FetchE2eKeyPayload_decode
   \<and> delimits E2eKeyResponsePayload_decode \<and> delimits SendMessagePayload_decode
   \<and> delimits DeliverMessagePayload_decode \<and> delimits FetchQueuedMessagesPayload_decode
   \<and> delimits QueuedMessageDeliveryPayload_decode
   \<and> delimits AckQueuedMessagePayload_decode \<and> delimits MessageStatusUpdatePayload_decode
   \<and> delimits DeliveryReceiptPayload_decode \<and> delimits ErrorPayload_decode
   \<and> delimits ClosePayload_decode"
  by (intro conjI client_hello_delimited.decoder_delimits server_hello_delimited.decoder_delimits
      client_finish_fixed.decoder_delimits server_accept_fixed.decoder_delimits
      auth_challenge_fixed.decoder_delimits auth_response_delimited.decoder_delimits
      auth_accept_fixed.decoder_delimits auth_reject_fixed.decoder_delimits
      ping_fixed.decoder_delimits pong_fixed.decoder_delimits
      register_device_delimited.decoder_delimits register_response_delimited.decoder_delimits
      query_account_status_fixed.decoder_delimits account_status_response_delimited.decoder_delimits
      send_friend_request_delimited.decoder_delimits friend_request_result_fixed.decoder_delimits
      incoming_friend_request_delimited.decoder_delimits
      friend_request_decision_delimited.decoder_delimits remove_friend_delimited.decoder_delimits
      remove_friend_result_fixed.decoder_delimits
      friend_removed_notification_delimited.decoder_delimits
      friend_status_update_delimited.decoder_delimits
      send_typing_indicator_delimited.decoder_delimits publish_e2e_key_fixed.decoder_delimits
      publish_e2e_key_result_delimited.decoder_delimits fetch_e2e_key_delimited.decoder_delimits
      e2e_key_response_delimited.decoder_delimits send_message_delimited.decoder_delimits
      deliver_message_delimited.decoder_delimits fetch_queued_fixed.decoder_delimits
      queued_delivery_delimited.decoder_delimits ack_queued_fixed.decoder_delimits
      message_status_update_fixed.decoder_delimits delivery_receipt_fixed.decoder_delimits
      error_delimited.decoder_delimits close_delimited.decoder_delimits)

text \<open>
  No decoder panics.  Every slice, index and array copy in every payload decoder is in range
  for every input.
\<close>

theorem decoders_never_panic:
  "ClientHelloPayload_decode bs \<noteq> Panic \<and> ServerHelloPayload_decode bs \<noteq> Panic
   \<and> ClientFinishPayload_decode bs \<noteq> Panic \<and> ServerAcceptPayload_decode bs \<noteq> Panic
   \<and> AuthChallengePayload_decode bs \<noteq> Panic \<and> AuthResponsePayload_decode bs \<noteq> Panic
   \<and> AuthAcceptPayload_decode bs \<noteq> Panic \<and> AuthRejectPayload_decode bs \<noteq> Panic
   \<and> PingPayload_decode bs \<noteq> Panic \<and> PongPayload_decode bs \<noteq> Panic
   \<and> RegisterDevicePayload_decode bs \<noteq> Panic \<and> RegisterResponsePayload_decode bs \<noteq> Panic
   \<and> QueryAccountStatusPayload_decode bs \<noteq> Panic \<and> AccountStatusResponsePayload_decode bs \<noteq> Panic
   \<and> SendFriendRequestPayload_decode bs \<noteq> Panic \<and> FriendRequestResultPayload_decode bs \<noteq> Panic
   \<and> IncomingFriendRequestPayload_decode bs \<noteq> Panic \<and> FriendRequestDecisionPayload_decode bs \<noteq> Panic
   \<and> RemoveFriendPayload_decode bs \<noteq> Panic \<and> RemoveFriendResultPayload_decode bs \<noteq> Panic
   \<and> FriendRemovedNotificationPayload_decode bs \<noteq> Panic \<and> FriendStatusUpdatePayload_decode bs \<noteq> Panic
   \<and> SendTypingIndicatorPayload_decode bs \<noteq> Panic \<and> PublishE2eKeyPayload_decode bs \<noteq> Panic
   \<and> PublishE2eKeyResultPayload_decode bs \<noteq> Panic \<and> FetchE2eKeyPayload_decode bs \<noteq> Panic
   \<and> E2eKeyResponsePayload_decode bs \<noteq> Panic \<and> SendMessagePayload_decode bs \<noteq> Panic
   \<and> DeliverMessagePayload_decode bs \<noteq> Panic \<and> FetchQueuedMessagesPayload_decode bs \<noteq> Panic
   \<and> QueuedMessageDeliveryPayload_decode bs \<noteq> Panic \<and> AckQueuedMessagePayload_decode bs \<noteq> Panic
   \<and> MessageStatusUpdatePayload_decode bs \<noteq> Panic \<and> DeliveryReceiptPayload_decode bs \<noteq> Panic
   \<and> ErrorPayload_decode bs \<noteq> Panic \<and> ClosePayload_decode bs \<noteq> Panic"
  by (intro conjI client_hello.dec_not_Panic server_hello.dec_not_Panic client_finish.dec_not_Panic
      server_accept.dec_not_Panic auth_challenge.dec_not_Panic auth_response.dec_not_Panic
      auth_accept.dec_not_Panic auth_reject.dec_not_Panic ping.dec_not_Panic pong.dec_not_Panic
      register_device.dec_not_Panic register_response.dec_not_Panic
      query_account_status.dec_not_Panic account_status_response.dec_not_Panic
      send_friend_request.dec_not_Panic friend_request_result.dec_not_Panic
      incoming_friend_request.dec_not_Panic friend_request_decision.dec_not_Panic
      remove_friend.dec_not_Panic remove_friend_result.dec_not_Panic
      friend_removed_notification.dec_not_Panic friend_status_update.dec_not_Panic
      send_typing_indicator.dec_not_Panic publish_e2e_key.dec_not_Panic
      publish_e2e_key_result.dec_not_Panic fetch_e2e_key.dec_not_Panic
      e2e_key_response.dec_not_Panic send_message.dec_not_Panic deliver_message.dec_not_Panic
      fetch_queued.dec_not_Panic queued_delivery.dec_not_Panic ack_queued.dec_not_Panic
      message_status_update.dec_not_Panic delivery_receipt.dec_not_Panic error.dec_not_Panic
      close.dec_not_Panic)

section \<open>Payload ceilings\<close>

text \<open>
  C37: the ceilings are the documented field limits.  A payload encodes within the ceiling of its
  packet type exactly when its variable field is within the limit the comments of
  \<open>max_payload_size\<close> give: 128 bytes for user names, 256 for messages, 4096 for an attestation, 78
  for a server identifier; the fixed-size payloads always fit.
\<close>

theorem ceilings_match_field_limits:
  "(within RegisterDevice (RegisterDevicePayload_encode a) \<longleftrightarrow> str_len (reg_username a) \<le> 128)
   \<and> (within RegisterResponse (RegisterResponsePayload_encode b) \<longleftrightarrow> str_len (rr_message b) \<le> 256)
   \<and> (within AccountStatusResponse (AccountStatusResponsePayload_encode c)
        \<longleftrightarrow> str_len (as_ban_reason c) \<le> 256)
   \<and> (within SendFriendRequest (SendFriendRequestPayload_encode d)
        \<longleftrightarrow> str_len (fr_target_username d) \<le> 128)
   \<and> (within FriendRequestDecision (FriendRequestDecisionPayload_encode e)
        \<longleftrightarrow> str_len (frd_sender_username e) \<le> 128)
   \<and> (within FriendStatusUpdate (FriendStatusUpdatePayload_encode f)
        \<longleftrightarrow> str_len (fsu_friend_username f) \<le> 128)
   \<and> (within AuthResponse (AuthResponsePayload_encode g)
        \<longleftrightarrow> length (ar_attestation_token g) \<le> 4096)
   \<and> (within ServerHello (ServerHelloPayload_encode h) \<longleftrightarrow> str_len (sh_server_id h) \<le> 78)
   \<and> (within ClientHello (ClientHelloPayload_encode i) \<longleftrightarrow> str_len (ch_client_id i) \<le> 82)
   \<and> (within PublishE2eKeyResult (PublishE2eKeyResultPayload_encode j)
        \<longleftrightarrow> str_len (pkr_message j) \<le> 256)
   \<and> within PublishE2eKey (Ok (PublishE2eKeyPayload_encode k))
   \<and> within AuthChallenge (Ok (AuthChallengePayload_encode l))
   \<and> within MessageStatusUpdate (Ok (MessageStatusUpdatePayload_encode m))"
  by (intro conjI register_device_packet.within_iff register_response_packet.within_iff
      account_status_response_packet.within_iff send_friend_request_packet.within_iff
      friend_request_decision_packet.within_iff friend_status_update_packet.within_iff
      auth_response_packet.within_iff server_hello_packet.within_iff client_hello_packet.within_iff
      publish_e2e_key_result_packet.within_iff publish_e2e_key_packet.within_iff [THEN iffD2, OF TrueI]
      auth_challenge_packet.within_iff [THEN iffD2, OF TrueI]
      message_status_update_packet.within_iff [THEN iffD2, OF TrueI])

text \<open>
  C38: a message can be too large for the queue.  The comment puts a queued delivery in the same size
  class as a direct one, but its encoding carries two eight-byte identifiers instead of one: a
  message is within the direct ceiling and beyond the queued one exactly when sender and content
  take between 65515 and 65522 bytes.  A recipient's codec rejects such a queued delivery.
\<close>

theorem queued_delivery_ceiling_gap:
  "(within DeliverMessage (DeliverMessagePayload_encode
        \<lparr>dm_message_id = mid, dm_sender_id = sender, dm_content = content\<rparr>)
    \<and> \<not> within QueuedMessageDelivery (QueuedMessageDeliveryPayload_encode
        \<lparr>qd_queue_id = qid, qd_message_id = mid, qd_sender_id = sender, qd_content = content\<rparr>))
   \<longleftrightarrow> 65515 \<le> str_len sender + length content \<and> str_len sender + length content \<le> 65522"
  by (auto simp: deliver_message_packet.within_iff queued_delivery_packet.within_iff)

section \<open>From the handshake to messages\<close>

text \<open>
  C3: authenticated key agreement.  A client that accepts a server hello under the pinned key and
  derives session keys shares exactly these keys with a run of the server that answered this
  client's hello bytes: no one in the middle can have chosen them.  The hypotheses are the
  correctness of the primitives, unforgeability of the pinned key for the hellos the server signed,
  and a hash without collisions on the hellos at hand.
\<close>

theorem authenticated_key_agreement:
  assumes "x25519_correct X" "ml_kem_correct K"
    and "ClientHandshakeState_generate X K secret coins = Ok client"
    and "ClientHelloPayload_encode \<lparr>ch_client_id = cid, ch_x25519_public_key = hs_x25519_public client,
      ch_ml_kem_ek = hs_ml_kem_ek client\<rparr> = Ok ch_bytes"
    and "\<And>ch srv. (ch, srv) \<in> runs \<Longrightarrow> server_run X K H ch srv"
    and "dsa_unforgeable D pinned (server_signatures sha (hellos_of runs) \<union> client_signatures sha sessions)"
    and "sha_collision_free sha ({ch_bytes} \<union> fst ` hellos_of runs)"
    and "verify_server_hello sha D ch_bytes spk ct pinned signature = Ok ()"
  shows "\<exists>srv. (ch_bytes, srv) \<in> runs
    \<and> derive_session_keys X K H client spk ct = Ok (srv_session_keys srv)"
proof -
  have "(ch_bytes, spk, ct) \<in> hellos_of runs"
    by (rule server_hello_was_signed [OF assms(6-8)])
  then obtain srv where "(ch_bytes, srv) \<in> runs"
    and "spk = srv_x25519_public srv" "ct = srv_ml_kem_ciphertext srv"
    by (auto simp: hellos_of_def)
  with assms(5) accepted_hello_agrees [OF assms(1-4)] show ?thesis by blast
qed

theorem authenticated_key_agreement_witness:
  "\<exists>client ch_bytes srv.
     ClientHandshakeState_generate demo_x25519 demo_ml_kem (const_array 1) (const_array 2) = Ok client
   \<and> ClientHelloPayload_encode \<lparr>ch_client_id = str_lit ''al'',
       ch_x25519_public_key = hs_x25519_public client, ch_ml_kem_ek = hs_ml_kem_ek client\<rparr> = Ok ch_bytes
   \<and> server_run demo_x25519 demo_ml_kem demo_hkdf ch_bytes srv
   \<and> derive_session_keys demo_x25519 demo_ml_kem demo_hkdf client (srv_x25519_public srv)
       (srv_ml_kem_ciphertext srv) = Ok (srv_session_keys srv)"
proof -
  obtain client where gen: "ClientHandshakeState_generate demo_x25519 demo_ml_kem
      (const_array 1) (const_array 2) = Ok client"
    using generate_result [OF demo_ml_kem_correct, of demo_x25519] by blast
  obtain srv where resp: "ServerHandshakeState_respond demo_x25519 demo_ml_kem demo_hkdf
      (hs_x25519_public client) (hs_ml_kem_ek client) (const_array 3) (const_array 4) = Ok srv"
    using honest_response_exists [OF demo_ml_kem_correct demo_hkdf_correct gen] by blast
  let ?hello = "\<lparr>ch_client_id = str_lit ''al'', ch_x25519_public_key = hs_x25519_public client,
      ch_ml_kem_ek = hs_ml_kem_ek client\<rparr>"
  obtain ch where ch: "ClientHelloPayload_encode ?hello = Ok ch"
    by (simp add: ClientHelloPayload_encode_def demo_id_encodes)
  let ?m = "server_hello_message demo_sha ch (srv_x25519_public srv) (srv_ml_kem_ciphertext srv)"
  have run: "server_run demo_x25519 demo_ml_kem demo_hkdf ch srv"
    using client_hello.dec_enc [OF ch] resp by (auto simp: server_run_def)
  have runs: "\<And>c s. (c, s) \<in> {(ch, srv)} \<Longrightarrow> server_run demo_x25519 demo_ml_kem demo_hkdf c s"
    using run by simp
  have "server_signatures demo_sha (hellos_of {(ch, srv)}) \<union> client_signatures demo_sha {} = {?m}"
    by (simp add: server_signatures_def hellos_of_def client_signatures_def)
  then have unf: "dsa_unforgeable (once_ml_dsa ?m) (const_array 0)
      (server_signatures demo_sha (hellos_of {(ch, srv)}) \<union> client_signatures demo_sha {})"
    by (simp add: once_ml_dsa_unforgeable)
  have inj: "sha_collision_free demo_sha ({ch} \<union> fst ` hellos_of {(ch, srv)})"
    by (simp add: sha_collision_free_def hellos_of_def)
  have ver: "verify_server_hello demo_sha (once_ml_dsa ?m) ch (srv_x25519_public srv)
      (srv_ml_kem_ciphertext srv) (const_array 0) (const_array 0) = Ok ()"
    by (simp add: verify_server_hello_def Let_def verify_with_key_eq_Ok once_ml_dsa_def)
  from authenticated_key_agreement [OF demo_x25519_correct demo_ml_kem_correct gen ch runs unf inj ver]
  show ?thesis using gen ch run by auto
qed

text \<open>
  The handshake opens a channel in both directions.  After the exchange of hellos, with the keys
  assigned as the codec's documentation says for each role, the client's codec is linked to the
  server's and the server's to the client's, so the stream theorem applies both ways.
\<close>

theorem handshake_links_codecs:
  fixes X :: "'x x25519" and K :: "('dk, 'ek, 'r) ml_kem" and H :: "'prk hkdf"
  assumes "x25519_correct X" "ml_kem_correct K" "hkdf_correct H"
    and "fresh_seq server_codec (next_send_seq client_codec)"
    and "fresh_seq client_codec (next_send_seq server_codec)"
  shows "\<exists>client server keys.
     ClientHandshakeState_generate X K client_secret client_coins = Ok client
   \<and> ServerHandshakeState_respond X K H (hs_x25519_public client) (hs_ml_kem_ek client)
       server_secret server_coins = Ok server
   \<and> derive_session_keys X K H client (srv_x25519_public server) (srv_ml_kem_ciphertext server) = Ok keys
   \<and> linked (establish_session client_codec (client_to_server keys) (server_to_client keys))
       (establish_session server_codec (server_to_client (srv_session_keys server))
         (client_to_server (srv_session_keys server)))
   \<and> linked (establish_session server_codec (server_to_client (srv_session_keys server))
         (client_to_server (srv_session_keys server)))
       (establish_session client_codec (client_to_server keys) (server_to_client keys))"
proof -
  obtain client where gen: "ClientHandshakeState_generate X K client_secret client_coins = Ok client"
    using generate_result [OF assms(2), of X] by blast
  obtain server where resp: "ServerHandshakeState_respond X K H (hs_x25519_public client)
      (hs_ml_kem_ek client) server_secret server_coins = Ok server"
    using honest_response_exists [OF assms(2,3) gen] by blast
  note keys = responded_keys_agree [OF assms(1,2) gen resp]
  have "linked (establish_session client_codec (client_to_server (srv_session_keys server))
        (server_to_client (srv_session_keys server)))
      (establish_session server_codec (server_to_client (srv_session_keys server))
        (client_to_server (srv_session_keys server)))"
    "linked (establish_session server_codec (server_to_client (srv_session_keys server))
        (client_to_server (srv_session_keys server)))
      (establish_session client_codec (client_to_server (srv_session_keys server))
        (server_to_client (srv_session_keys server)))"
    using assms(4,5) by (auto simp: linked_def establish_session_def fresh_seq_def)
  with gen resp keys show ?thesis by blast
qed

theorem handshake_links_codecs_witness:
  "\<exists>client server keys.
     ClientHandshakeState_generate demo_x25519 demo_ml_kem (const_array 1) (const_array 2) = Ok client
   \<and> ServerHandshakeState_respond demo_x25519 demo_ml_kem demo_hkdf (hs_x25519_public client)
       (hs_ml_kem_ek client) (const_array 3) (const_array 4) = Ok server
   \<and> derive_session_keys demo_x25519 demo_ml_kem demo_hkdf client (srv_x25519_public server)
       (srv_ml_kem_ciphertext server) = Ok keys
   \<and> linked (establish_session codec_new (client_to_server keys) (server_to_client keys))
       (establish_session codec_new (server_to_client (srv_session_keys server))
         (client_to_server (srv_session_keys server)))
   \<and> linked (establish_session codec_new (server_to_client (srv_session_keys server))
         (client_to_server (srv_session_keys server)))
       (establish_session codec_new (client_to_server keys) (server_to_client keys))"
  by (rule handshake_links_codecs [OF demo_x25519_correct demo_ml_kem_correct demo_hkdf_correct])
    (simp_all add: codec_new_def fresh_seq_def)

text \<open>
  A message arrives.  Between linked codecs, any \<open>SendMessage\<close> payload whose recipient and content
  take at most 65522 bytes is encoded, sealed and written, and the other end reads a packet of type
  \<open>SendMessage\<close> that decodes to the very same payload; the codecs stay linked.
\<close>

theorem send_message_arrives:
  assumes "aead_correct A" "aead_seals_upto (1024 * 1024) A" "linked tx rx"
    and "unat (next_send_seq tx) < 2 ^ 64 - 1"
    and "str_len (sm_recipient_id m) + length (sm_content m) \<le> 65522"
  shows "\<exists>bs tx' rx' frame pkt. SendMessagePayload_encode m = Ok bs
    \<and> write_packet A vec SendMessage 0 bs (tx, out) = (Ok (), (tx', out @ frame))
    \<and> read_packet A cursor (rx, frame @ rest) = (Ok pkt, (rx', rest))
    \<and> from_u8 (packet_type (raw_header pkt)) = Ok SendMessage
    \<and> SendMessagePayload_decode (raw_payload pkt) = Ok m \<and> linked tx' rx'"
  using assms by (rule send_message_packet.payload_transfer)

definition demo_message :: SendMessagePayload where
  "demo_message = \<lparr>sm_message_id = 5, sm_recipient_id = str_lit ''bob'', sm_content = [104, 105]\<rparr>"

theorem send_message_arrives_witness:
  "\<exists>bs tx' rx' frame pkt. SendMessagePayload_encode demo_message = Ok bs
    \<and> write_packet demo_aead vec SendMessage 0 bs (demo_client, []) = (Ok (), (tx', [] @ frame))
    \<and> read_packet demo_aead cursor (demo_server, frame @ []) = (Ok pkt, (rx', []))
    \<and> from_u8 (packet_type (raw_header pkt)) = Ok SendMessage
    \<and> SendMessagePayload_decode (raw_payload pkt) = Ok demo_message \<and> linked tx' rx'"
  by (rule send_message_arrives [OF demo_aead_correct demo_aead_seals demo_linked])
    (simp_all add: demo_client_def establish_session_def codec_new_def demo_message_def str_len_def
      as_bytes_str_lit)

text \<open>
  C17: a message travels end to end.  Alice encrypts and signs a plaintext for Bob and sends it to the
  server over her session; the server, which only sees the blob, puts it in a \<open>DeliverMessage\<close> and sends
  it over Bob's session; Bob's codec returns a packet of that type, its payload names Alice and the
  message, and its content decrypts to the plaintext under Alice's verifying key.  The two
  identifiers and the plaintext may take 61065 bytes each way.
\<close>

theorem message_end_to_end:
  fixes X :: "'x x25519" and K :: "('dk, 'ek, 'r) ml_kem" and H :: "'prk hkdf" and A :: "'k aead"
    and D :: "('sk, 'vk, 'sg) ml_dsa"
  assumes laws: "x25519_correct X" "ml_kem_correct K" "hkdf_correct H" "aead_correct A" "ml_dsa_correct D"
    and seals: "aead_seals_upto (1024 * 1024) A"
    and alice: "generate_e2e_keypair X K D alice_x (Some alice_seed) alice_dsa = Ok (alice_sk, alice_pk)"
    and bob: "generate_e2e_keypair X K D bob_x (Some bob_seed) bob_dsa = Ok (bob_sk, bob_pk)"
    and links: "linked alice_tx server_rx" "linked server_tx bob_rx"
    and room: "unat (next_send_seq alice_tx) < 2 ^ 64 - 1" "unat (next_send_seq server_tx) < 2 ^ 64 - 1"
    and small: "str_len bob_id + length pt \<le> 61065" "str_len alice_id + length pt \<le> 61065"
  shows "\<exists>blob up up_frame up_pkt down down_frame down_pkt alice_tx' server_rx' server_tx' bob_rx'.
     encrypt_and_sign X K H A D pt (pk_x25519_public bob_pk) (pk_ml_kem_ek bob_pk)
       (sk_dsa_signing_seed alice_sk) eph coins (Some nonce) = Ok blob
   \<and> SendMessagePayload_encode \<lparr>sm_message_id = mid, sm_recipient_id = bob_id, sm_content = blob\<rparr> = Ok up
   \<and> write_packet A vec SendMessage 0 up (alice_tx, []) = (Ok (), (alice_tx', [] @ up_frame))
   \<and> read_packet A cursor (server_rx, up_frame @ []) = (Ok up_pkt, (server_rx', []))
   \<and> SendMessagePayload_decode (raw_payload up_pkt)
       = Ok \<lparr>sm_message_id = mid, sm_recipient_id = bob_id, sm_content = blob\<rparr>
   \<and> DeliverMessagePayload_encode \<lparr>dm_message_id = mid, dm_sender_id = alice_id, dm_content = blob\<rparr> = Ok down
   \<and> write_packet A vec DeliverMessage 0 down (server_tx, []) = (Ok (), (server_tx', [] @ down_frame))
   \<and> read_packet A cursor (bob_rx, down_frame @ []) = (Ok down_pkt, (bob_rx', []))
   \<and> from_u8 (packet_type (raw_header down_pkt)) = Ok DeliverMessage
   \<and> DeliverMessagePayload_decode (raw_payload down_pkt)
       = Ok \<lparr>dm_message_id = mid, dm_sender_id = alice_id, dm_content = blob\<rparr>
   \<and> verify_and_decrypt X K H A D blob (sk_x25519_secret bob_sk) (sk_ml_kem_seed bob_sk)
       (pk_dsa_verifying_key alice_pk) = Ok pt"
proof -
  have "aead_seals_upto (length pt) A"
    using seals small(1) by (simp add: aead_seals_upto_def)
  then obtain blob where blob: "encrypt_and_sign X K H A D pt (pk_x25519_public bob_pk)
      (pk_ml_kem_ek bob_pk) (sk_dsa_signing_seed alice_sk) eph coins (Some nonce) = Ok blob"
    and len: "length blob = MIN_BLOB_LEN + length pt"
    and opened: "verify_and_decrypt X K H A D blob (sk_x25519_secret bob_sk) (sk_ml_kem_seed bob_sk)
      (pk_dsa_verifying_key alice_pk) = Ok pt"
    using encrypt_then_decrypt [OF laws _ alice bob] by blast
  let ?up = "\<lparr>sm_message_id = mid, sm_recipient_id = bob_id, sm_content = blob\<rparr>"
  let ?down = "\<lparr>dm_message_id = mid, dm_sender_id = alice_id, dm_content = blob\<rparr>"
  have "str_len (sm_recipient_id ?up) + length (sm_content ?up) \<le> 65522"
    "str_len (dm_sender_id ?down) + length (dm_content ?down) \<le> 65522"
    using small len by (simp_all add: blob_defs)
  from send_message_packet.payload_transfer [OF laws(4) seals links(1) room(1) this(1), of "[]" "[]"]
    deliver_message_packet.payload_transfer [OF laws(4) seals links(2) room(2) this(2), of "[]" "[]"]
    blob opened
  show ?thesis by blast
qed

theorem message_end_to_end_witness:
  "\<exists>alice_sk alice_pk bob_sk bob_pk blob. demo_identity 1 = Ok (alice_sk, alice_pk)
   \<and> demo_identity 2 = Ok (bob_sk, bob_pk)
   \<and> encrypt_and_sign demo_x25519 demo_ml_kem demo_hkdf demo_aead demo_ml_dsa [104, 105]
       (pk_x25519_public bob_pk) (pk_ml_kem_ek bob_pk) (sk_dsa_signing_seed alice_sk) (const_array 3)
       (const_array 4) (Some (const_array 5)) = Ok blob
   \<and> (\<exists>down down_frame down_pkt server_tx' bob_rx'.
       write_packet demo_aead vec DeliverMessage 0 down (demo_client, []) = (Ok (), (server_tx', [] @ down_frame))
     \<and> read_packet demo_aead cursor (demo_server, down_frame @ []) = (Ok down_pkt, (bob_rx', []))
     \<and> DeliverMessagePayload_decode (raw_payload down_pkt)
         = Ok \<lparr>dm_message_id = 1, dm_sender_id = str_lit ''al'', dm_content = blob\<rparr>)
   \<and> verify_and_decrypt demo_x25519 demo_ml_kem demo_hkdf demo_aead demo_ml_dsa blob
       (sk_x25519_secret bob_sk) (sk_ml_kem_seed bob_sk) (pk_dsa_verifying_key alice_pk) = Ok [104, 105]"
proof -
  obtain ask apk bsk bpk where ids: "demo_identity 1 = Ok (ask, apk)" "demo_identity 2 = Ok (bsk, bpk)"
    using generate_e2e_keypair_result [OF demo_ml_kem_correct demo_ml_dsa_correct] by metis
  have room: "unat (next_send_seq demo_client) < 2 ^ 64 - 1"
    by (simp add: demo_client_def establish_session_def codec_new_def)
  have small: "str_len (str_lit ''bob'') + length [104, 105 :: u8] \<le> 61065"
    "str_len (str_lit ''al'') + length [104, 105 :: u8] \<le> 61065"
    by (simp_all add: str_len_def as_bytes_str_lit del: length_as_bytes)
  show ?thesis
    using message_end_to_end [OF demo_x25519_correct demo_ml_kem_correct demo_hkdf_correct
        demo_aead_correct demo_ml_dsa_correct demo_aead_seals ids demo_linked demo_linked room room small,
        where eph = "const_array 3" and coins = "const_array 4" and nonce = "const_array 5" and mid = 1]
      ids by blast
qed

end
